(* ===== verification/Prelude.thy ===== *)
theory Prelude
  imports Complex_Main "HOL-Library.List_Lexorder" "HOL-Library.Char_ord" "HOL-Library.AList"
begin

text \<open>
  What every component shares: the error-sum bind, tables as lists of rows (find, update,
  insert under unique constraints), UUIDs with the order PostgreSQL gives them, the text
  functions of Python the code uses, and the collections of rewrite rules that the component
  theories extend.

  A table is the list of its rows in insertion order. \<open>select ... fetchone\<close> is
  \<open>find_row\<close>, an \<open>update ... where\<close> is \<open>update_rows\<close>, an \<open>insert\<close> appends after checking
  the unique constraints of the table.
\<close>

named_theorems repo_simps \<open>what a repository call does to the tables\<close>
named_theorems frame_simps \<open>which tables an operation leaves alone\<close>

section \<open>Results that may be an error\<close>

definition bind_ok :: "'e + 'a \<Rightarrow> ('a \<Rightarrow> 'e + 'b) \<Rightarrow> 'e + 'b" where
  "bind_ok m f = (case m of Inl e \<Rightarrow> Inl e | Inr a \<Rightarrow> f a)"

lemma bind_ok_simps [simp]:
  "bind_ok (Inl e) f = Inl e"
  "bind_ok (Inr a) f = f a"
  by (simp_all add: bind_ok_def)

lemma bind_ok_Inr: "bind_ok m f = Inr b \<longleftrightarrow> (\<exists>a. m = Inr a \<and> f a = Inr b)"
  by (cases m) auto

lemma bind_ok_Inl:
  "bind_ok m f = Inl e \<longleftrightarrow> m = Inl e \<or> (\<exists>a. m = Inr a \<and> f a = Inl e)"
  by (cases m) auto

lemma bind_ok_InrE:
  assumes "bind_ok m f = Inr b"
  obtains a where "m = Inr a" and "f a = Inr b"
  using assms by (auto simp: bind_ok_Inr)

lemma bind_ok_split:
  "P (bind_ok m f) \<longleftrightarrow> (\<forall>e. m = Inl e \<longrightarrow> P (Inl e)) \<and> (\<forall>a. m = Inr a \<longrightarrow> P (f a))"
  by (cases m) auto

lemma bind_ok_cong [fundef_cong]:
  "m = m' \<Longrightarrow> (\<And>a. m' = Inr a \<Longrightarrow> f a = g a) \<Longrightarrow> bind_ok m f = bind_ok m' g"
  by (cases m') auto

text \<open>A run that did not fail, for the examples.\<close>

lemma run_ok:
  assumes "\<not> isl m"
  obtains q where "m = Inr q"
  using assms by (cases m) auto

text \<open>A condition on a nullable value that is false for a missing one.\<close>

definition some_and :: "'a option \<Rightarrow> ('a \<Rightarrow> bool) \<Rightarrow> bool" where
  "some_and v P = (case v of None \<Rightarrow> False | Some a \<Rightarrow> P a)"

lemma some_and_iff [simp]: "some_and v P \<longleftrightarrow> (\<exists>a. v = Some a \<and> P a)"
  by (cases v) (simp_all add: some_and_def)

section \<open>Tables\<close>

definition find_row :: "('r \<Rightarrow> bool) \<Rightarrow> 'r list \<Rightarrow> 'r option" where
  "find_row P rows = List.find P rows"

definition update_rows :: "('r \<Rightarrow> bool) \<Rightarrow> ('r \<Rightarrow> 'r) \<Rightarrow> 'r list \<Rightarrow> 'r list" where
  "update_rows P f rows = map (\<lambda>r. if P r then f r else r) rows"

definition insert_row :: "'e \<Rightarrow> ('r \<Rightarrow> bool) \<Rightarrow> 'r \<Rightarrow> 'r list \<Rightarrow> 'e + 'r list" where
  "insert_row e clash row rows = (if list_ex clash rows then Inl e else Inr (rows @ [row]))"

lemma find_row_simps [simp]:
  "find_row P [] = None"
  "find_row P (r # rs) = (if P r then Some r else find_row P rs)"
  by (simp_all add: find_row_def)

lemma update_rows_simps [simp]:
  "update_rows P f [] = []"
  "update_rows P f (r # rs) = (if P r then f r else r) # update_rows P f rs"
  by (simp_all add: update_rows_def)

lemma find_row_SomeD: "find_row P rows = Some r \<Longrightarrow> r \<in> set rows \<and> P r"
  by (induction rows) (auto split: if_splits)

lemma find_row_None: "find_row P rows = None \<longleftrightarrow> (\<forall>r \<in> set rows. \<not> P r)"
  by (induction rows) auto

lemma find_row_append:
  "find_row P (xs @ ys) = (case find_row P xs of None \<Rightarrow> find_row P ys | Some r \<Rightarrow> Some r)"
  by (induction xs) auto

lemma set_update_rows: "set (update_rows P f rows) = (\<lambda>r. if P r then f r else r) ` set rows"
  by (simp add: update_rows_def)

lemma update_rows_append [simp]:
  "update_rows P f (xs @ ys) = update_rows P f xs @ update_rows P f ys"
  by (simp add: update_rows_def)

lemma length_update_rows [simp]: "length (update_rows P f rows) = length rows"
  by (simp add: update_rows_def)

lemma update_rows_none: "(\<And>r. r \<in> set rows \<Longrightarrow> \<not> P r) \<Longrightarrow> update_rows P f rows = rows"
  by (induction rows) auto

lemma map_update_rows:
  "(\<And>r. P r \<Longrightarrow> g (f r) = g r) \<Longrightarrow> map g (update_rows P f rows) = map g rows"
  by (induction rows) auto

lemma filter_update_rows_same:
  "(\<And>r. P r \<Longrightarrow> Q (f r) = Q r) \<Longrightarrow>
    filter Q (update_rows P f rows) = update_rows P f (filter Q rows)"
  by (induction rows) auto

text \<open>A table whose key column is unique: the row found by its key is the only one with it.\<close>

lemma find_row_key:
  assumes "distinct (map key rows)" and "r \<in> set rows"
  shows "find_row (\<lambda>x. key x = key r) rows = Some r"
  using assms
proof (induction rows)
  case Nil
  then show ?case by simp
next
  case (Cons x rows)
  then show ?case by (auto simp: rev_image_eqI)
qed

lemma distinct_key_eq:
  "distinct (map key rows) \<Longrightarrow> r \<in> set rows \<Longrightarrow> s \<in> set rows \<Longrightarrow> key r = key s \<Longrightarrow> r = s"
  by (metis find_row_key option.inject)

lemma find_row_update_key:
  assumes "\<And>r. key r = k \<Longrightarrow> key (f r) = k"
  shows "find_row (\<lambda>r. key r = k) (update_rows (\<lambda>r. key r = k) f rows)
    = map_option f (find_row (\<lambda>r. key r = k) rows)"
  using assms by (induction rows) auto

lemma find_row_update_other:
  assumes "\<And>r. key r = k \<Longrightarrow> key (f r) = k" and "k' \<noteq> k"
  shows "find_row (\<lambda>r. key r = k') (update_rows (\<lambda>r. key r = k) f rows)
    = find_row (\<lambda>r. key r = k') rows"
  using assms by (induction rows) auto

lemma insert_row_Inr:
  "insert_row e clash row rows = Inr rows' \<longleftrightarrow>
    (\<forall>r \<in> set rows. \<not> clash r) \<and> rows' = rows @ [row]"
  by (auto simp: insert_row_def list_ex_iff)

lemma insert_row_Inl:
  "insert_row e clash row rows = Inl e' \<longleftrightarrow> e' = e \<and> (\<exists>r \<in> set rows. clash r)"
  by (auto simp: insert_row_def list_ex_iff)

section \<open>UUIDs\<close>

text \<open>
  A UUID is its canonical text; \<open>str(u)\<close> is \<open>uuid_str\<close>. PostgreSQL orders UUIDs bytewise,
  which on the canonical lower-case text is the lexicographic order of the characters.
\<close>

datatype uuid = Uuid (uuid_str: string)

instantiation uuid :: linorder
begin

definition less_eq_uuid :: "uuid \<Rightarrow> uuid \<Rightarrow> bool" where
  "less_eq_uuid a b \<longleftrightarrow> uuid_str a \<le> uuid_str b"

definition less_uuid :: "uuid \<Rightarrow> uuid \<Rightarrow> bool" where
  "less_uuid a b \<longleftrightarrow> uuid_str a < uuid_str b"

instance
  by standard (auto simp: less_eq_uuid_def less_uuid_def uuid.expand)

end

text \<open>\<open>str(x)\<close> of a nullable UUID column: Python prints a missing value as \<open>None\<close>.\<close>

definition str_uuid_opt :: "uuid option \<Rightarrow> string" where
  "str_uuid_opt u = (case u of None \<Rightarrow> ''None'' | Some v \<Rightarrow> uuid_str v)"

section \<open>Python text\<close>

definition is_space :: "char \<Rightarrow> bool" where
  "is_space c \<longleftrightarrow> c \<in> set [CHR '' '', CHR 0x09, CHR 0x0A, CHR 0x0B, CHR 0x0C, CHR 0x0D]"

definition py_strip :: "string \<Rightarrow> string" where
  "py_strip s = rev (dropWhile is_space (rev (dropWhile is_space s)))"

definition upper_char :: "char \<Rightarrow> char" where
  "upper_char c = (let n = of_char c :: nat in
     if 97 \<le> n \<and> n \<le> 122 then char_of (n - 32) else c)"

definition py_upper :: "string \<Rightarrow> string" where
  "py_upper s = map upper_char s"

text \<open>
  A text is the list of the bytes of its UTF-8 form; \<open>len\<close> counts its characters, that is the
  bytes that do not continue one.
\<close>

definition py_len :: "string \<Rightarrow> nat" where
  "py_len s = length (filter (\<lambda>c. let n = of_char c :: nat in n < 128 \<or> 192 \<le> n) s)"

text \<open>\<open>s[:n]\<close>: the first \<open>n\<close> characters.\<close>

definition char_start :: "char \<Rightarrow> bool" where
  "char_start c \<longleftrightarrow> (let n = of_char c :: nat in n < 128 \<or> 192 \<le> n)"

fun py_take :: "nat \<Rightarrow> string \<Rightarrow> string" where
  "py_take n [] = []"
| "py_take n (c # s) =
     (if char_start c then (case n of 0 \<Rightarrow> [] | Suc m \<Rightarrow> c # py_take m s) else c # py_take n s)"

lemma py_take_len: "py_len (py_take n s) \<le> n"
  by (induction n s rule: py_take.induct) (auto simp: py_len_def char_start_def Let_def split: nat.splits)

lemma py_take_all: "py_len s \<le> n \<Longrightarrow> py_take n s = s"
  by (induction n s rule: py_take.induct) (auto simp: py_len_def char_start_def Let_def split: nat.splits)

text \<open>
  \<open>uuid.UUID(s)\<close>: a URN prefix, braces and dashes do not count, 32 hexadecimal digits must remain,
  and the value prints in lower case with dashes. (\<open>int(s, 16)\<close> would also read a sign, blanks or
  underscores among the 32 characters; no text the system writes has them.)
\<close>

fun remove_all :: "string \<Rightarrow> string \<Rightarrow> string" where
  "remove_all p [] = []"
| "remove_all p (c # s) =
     (if take (length p) (c # s) = p then remove_all p (drop (length p - 1) s) else c # remove_all p s)"

definition is_hex :: "char \<Rightarrow> bool" where
  "is_hex c \<longleftrightarrow> c \<in> set ''0123456789abcdefABCDEF''"

definition hex_lower :: "char \<Rightarrow> char" where
  "hex_lower c = (let n = of_char c :: nat in if 65 \<le> n \<and> n \<le> 70 then char_of (n + 32) else c)"

definition strip_braces :: "string \<Rightarrow> string" where
  "strip_braces s = (let b = (\<lambda>c. c \<in> set ''{}'') in rev (dropWhile b (rev (dropWhile b s))))"

definition dashed :: "string \<Rightarrow> string" where
  "dashed h = take 8 h @ ''-'' @ take 4 (drop 8 h) @ ''-'' @ take 4 (drop 12 h) @ ''-''
     @ take 4 (drop 16 h) @ ''-'' @ drop 20 h"

definition py_uuid :: "string \<Rightarrow> uuid option" where
  "py_uuid s = (let h = filter (\<lambda>c. c \<noteq> CHR ''-'') (strip_braces (remove_all ''uuid:'' (remove_all ''urn:'' s)))
     in if length h = 32 \<and> list_all is_hex h then Some (Uuid (dashed (map hex_lower h))) else None)"

text \<open>The texts \<open>str(u)\<close> gives of a UUID; parsing gives the UUID back.\<close>

definition canonical_uuid :: "uuid \<Rightarrow> bool" where
  "canonical_uuid u \<longleftrightarrow> (\<exists>h. length h = 32 \<and> list_all is_hex h \<and> map hex_lower h = h \<and> uuid_str u = dashed h)"

lemma remove_all_none:
  assumes "p \<noteq> []" and "\<forall>c \<in> set s. c \<noteq> hd p"
  shows "remove_all p s = s"
  using assms(2)
proof (induction s)
  case (Cons c s)
  have "take (length p) (c # s) \<noteq> p" using Cons.prems assms(1) by (cases p) auto
  with Cons show ?case by simp
qed simp

lemma dashed_dashes: "\<forall>c \<in> set h. c \<noteq> CHR ''-'' \<Longrightarrow> filter (\<lambda>c. c \<noteq> CHR ''-'') (dashed h) = h"
proof -
  assume h: "\<forall>c \<in> set h. c \<noteq> CHR ''-''"
  have keep: "filter (\<lambda>c. c \<noteq> CHR ''-'') s = s" if "set s \<subseteq> set h" for s
    using that h by (intro filter_True) auto
  have parts: "set (take 8 h) \<subseteq> set h" "set (take 4 (drop n h)) \<subseteq> set h" "set (drop 20 h) \<subseteq> set h" for n
    by (meson set_take_subset set_drop_subset subset_trans)+
  have cat: "take 8 h @ take 4 (drop 8 h) @ take 4 (drop 12 h) @ take 4 (drop 16 h) @ drop 20 h = h"
  proof -
    have "take 4 (drop n h) @ drop (n + 4) h = drop n h" for n
      by (metis append_take_drop_id drop_drop add.commute)
    from this[of 8] this[of 12] this[of 16] show ?thesis by simp
  qed
  show ?thesis unfolding dashed_def using cat by (simp add: keep parts)
qed

lemma py_uuid_canonical:
  assumes "canonical_uuid u"
  shows "py_uuid (uuid_str u) = Some u"
proof -
  obtain h where h: "length h = 32" "list_all is_hex h" "map hex_lower h = h" "uuid_str u = dashed h"
    using assms unfolding canonical_uuid_def by blast
  have hexes: "c \<noteq> CHR ''-'' \<and> c \<noteq> CHR ''u'' \<and> c \<noteq> CHR ''{'' \<and> c \<noteq> CHR ''}''" if "is_hex c" for c
    using that by (auto simp: is_hex_def)
  have chars: "c \<noteq> CHR ''u'' \<and> c \<noteq> CHR ''{'' \<and> c \<noteq> CHR ''}''" if "c \<in> set (dashed h)" for c
  proof -
    have "c \<in> set h \<or> c = CHR ''-''"
      using that unfolding dashed_def by (auto dest: in_set_takeD in_set_dropD)
    then show ?thesis using h(2) hexes by (auto simp: list_all_iff)
  qed
  have stay: "remove_all ''uuid:'' (remove_all ''urn:'' (dashed h)) = dashed h"
    using chars by (simp add: remove_all_none)
  have same: "dropWhile (\<lambda>c. c \<in> set ''{}'') s = s" if "\<forall>c \<in> set s. c \<noteq> CHR ''{'' \<and> c \<noteq> CHR ''}''" for s
    using that by (cases s) auto
  have "\<forall>c \<in> set (dashed h). c \<noteq> CHR ''{'' \<and> c \<noteq> CHR ''}''" using chars by blast
  then have "strip_braces (dashed h) = dashed h"
    unfolding strip_braces_def Let_def by (simp add: same del: list.set)
  then show ?thesis unfolding py_uuid_def h(4) stay
    using h hexes by (simp add: dashed_dashes list_all_iff Let_def uuid.expand)
qed

definition starts_with :: "string \<Rightarrow> string \<Rightarrow> bool" where
  "starts_with pre s \<longleftrightarrow> take (length pre) s = pre"

text \<open>Decimal digits of a natural number and of an integer, as \<open>str(n)\<close> prints them.\<close>

definition digit_char :: "nat \<Rightarrow> char" where
  "digit_char d = char_of (48 + d)"

fun str_nat :: "nat \<Rightarrow> string" where
  "str_nat n = (if n < 10 then [digit_char n] else str_nat (n div 10) @ [digit_char (n mod 10)])"

declare str_nat.simps [simp del]

definition str_int :: "int \<Rightarrow> string" where
  "str_int i = (if i < 0 then CHR ''-'' # str_nat (nat (- i)) else str_nat (nat i))"

definition digit_value :: "char \<Rightarrow> nat option" where
  "digit_value c = (let n = of_char c :: nat in
     if 48 \<le> n \<and> n \<le> 57 then Some (n - 48) else None)"

definition is_digit :: "char \<Rightarrow> bool" where
  "is_digit c \<longleftrightarrow> digit_value c \<noteq> None"

definition digits_value :: "string \<Rightarrow> nat" where
  "digits_value s =
     foldl (\<lambda>acc c. 10 * acc + (case digit_value c of None \<Rightarrow> 0 | Some d \<Rightarrow> d)) 0 s"

lemma digit_value_digit_char: "d < 10 \<Longrightarrow> digit_value (digit_char d) = Some d"
  by (simp add: digit_value_def digit_char_def Let_def)

lemma is_digit_char: "d < 10 \<Longrightarrow> is_digit (digit_char d)"
  by (simp add: is_digit_def digit_value_digit_char)

lemma digits_value_snoc:
  "d < 10 \<Longrightarrow> digits_value (s @ [digit_char d]) = 10 * digits_value s + d"
  by (simp add: digits_value_def digit_value_digit_char)

lemma str_nat_ne [simp]: "str_nat n \<noteq> []"
  by (subst str_nat.simps) simp

lemma str_nat_digits: "list_all is_digit (str_nat n)"
proof (induction n rule: str_nat.induct)
  case (1 n)
  then show ?case
    by (subst str_nat.simps) (simp add: is_digit_char)
qed

lemma digits_value_str_nat [simp]: "digits_value (str_nat n) = n"
proof (induction n rule: str_nat.induct)
  case (1 n)
  show ?case
  proof (cases "n < 10")
    case True
    then show ?thesis
      by (subst str_nat.simps) (simp add: digits_value_def digit_value_digit_char)
  next
    case False
    with 1 show ?thesis
      by (subst str_nat.simps) (simp add: digits_value_snoc)
  qed
qed

lemma str_nat_inject [simp]: "str_nat a = str_nat b \<longleftrightarrow> a = b"
  by (metis digits_value_str_nat)

end
