(* ===== verification/Json.thy ===== *)
theory Json
  imports Prelude "HOL-Library.Multiset"
begin

text \<open>
  The dynamic values the code passes around: JSON documents (request bodies, jsonb columns,
  device payloads), Python dictionaries as association lists with unique keys, the errors the
  code raises, the external functions it calls (SHA-256, HMAC) as parameters, and
  \<open>canonical_digest\<close> of \<open>app/protocol.py\<close>.

  A Python float is the rational it denotes; NaN and the infinities, which \<open>json.loads\<close>
  accepts, are \<open>JNonfinite\<close>. Text is its UTF-8 bytes.
\<close>

section \<open>JSON values\<close>

datatype json =
    JNull
  | JBool bool
  | JInt int
  | JFloat rat
  | JNonfinite
  | JStr string
  | JArr "json list"
  | JObj "(string \<times> json) list"

type_synonym dict = "(string \<times> json) list"

text \<open>\<open>d.get(k)\<close>: a missing key and an explicit null both read as \<open>None\<close>.\<close>

definition dget :: "dict \<Rightarrow> string \<Rightarrow> json" where
  "dget d k = (case map_of d k of None \<Rightarrow> JNull | Some v \<Rightarrow> v)"

text \<open>\<open>d.get(k, v)\<close>: the default only for a missing key, not for an explicit null.\<close>

definition dget_default :: "dict \<Rightarrow> string \<Rightarrow> json \<Rightarrow> json" where
  "dget_default d k v = (case map_of d k of None \<Rightarrow> v | Some w \<Rightarrow> w)"

definition dset :: "string \<Rightarrow> json \<Rightarrow> dict \<Rightarrow> dict" where
  "dset k v d = AList.update k v d"

fun truthy :: "json \<Rightarrow> bool" where
  "truthy JNull = False"
| "truthy (JBool b) = b"
| "truthy (JInt i) = (i \<noteq> 0)"
| "truthy (JFloat r) = (r \<noteq> 0)"
| "truthy JNonfinite = True"
| "truthy (JStr s) = (s \<noteq> [])"
| "truthy (JArr xs) = (xs \<noteq> [])"
| "truthy (JObj d) = (d \<noteq> [])"

text \<open>\<open>a or b\<close>\<close>

definition py_or :: "json \<Rightarrow> json \<Rightarrow> json" where
  "py_or a b = (if truthy a then a else b)"

fun is_dict :: "json \<Rightarrow> bool" where
  "is_dict (JObj _) = True"
| "is_dict _ = False"

fun is_str :: "json \<Rightarrow> bool" where
  "is_str (JStr _) = True"
| "is_str _ = False"

fun dict_of :: "json \<Rightarrow> dict" where
  "dict_of (JObj d) = d"
| "dict_of _ = []"

text \<open>The value of a finite Python number; \<open>bool\<close> is not one here (\<open>type(v) in {int, float}\<close>).\<close>

fun num_of :: "json \<Rightarrow> rat option" where
  "num_of (JInt i) = Some (of_int i)"
| "num_of (JFloat r) = Some r"
| "num_of _ = None"

text \<open>A value as text, if it is text.\<close>

fun str_of :: "json \<Rightarrow> string option" where
  "str_of (JStr s) = Some s"
| "str_of _ = None"

definition opt_str :: "string option \<Rightarrow> json" where
  "opt_str s = (case s of None \<Rightarrow> JNull | Some t \<Rightarrow> JStr t)"

lemma opt_str_simps [simp]: "opt_str None = JNull" "opt_str (Some t) = JStr t"
  by (simp_all add: opt_str_def)

lemma dget_simps [simp]:
  "dget [] k = JNull"
  "dget ((k', v) # d) k = (if k = k' then v else dget d k)"
  by (simp_all add: dget_def)

lemma dget_default_simps [simp]:
  "dget_default [] k v = v"
  "dget_default ((k', w) # d) k v = (if k = k' then w else dget_default d k v)"
  by (simp_all add: dget_default_def)

lemma dget_dset [simp]: "dget (dset k v d) k' = (if k' = k then v else dget d k')"
  by (simp add: dget_def dset_def update_conv')

section \<open>Errors\<close>

text \<open>
  \<open>ServiceError\<close> and FastAPI's \<open>HTTPException\<close> carry a status code and a detail; the others
  are the Python exceptions and database errors the modelled code can raise.
\<close>

datatype err =
    Service_error int json
  | Http_error int json
  | Type_error
  | Key_error
  | Value_error
  | Assertion_error
  | Runtime_error
  | Unique_violation
  | Check_violation
  | Data_error
  | Pickup_conflict

abbreviation service_error :: "int \<Rightarrow> string \<Rightarrow> err" where
  "service_error code msg \<equiv> Service_error code (JStr msg)"

abbreviation http_error :: "int \<Rightarrow> string \<Rightarrow> err" where
  "http_error code msg \<equiv> Http_error code (JStr msg)"

section \<open>External functions\<close>

text \<open>
  What the code calls outside the repository: the SHA-256 of a printed JSON document
  (\<open>x_json_sha\<close>), the SHA-256 of a text (\<open>x_sha\<close>), HMAC-SHA256 (\<open>x_hmac\<close>) and the ISO text
  of an instant as the service prints it (\<open>x_iso\<close>, \<open>isoformat\<close> with \<open>Z\<close> for UTC).
\<close>

type_synonym timestamp = rat

record externals =
  x_json_sha :: "json \<Rightarrow> string"
  x_sha :: "string \<Rightarrow> string"
  x_hmac :: "string \<Rightarrow> string \<Rightarrow> string"
  x_iso :: "timestamp \<Rightarrow> string"

section \<open>Canonical digests\<close>

text \<open>
  \<open>json.dumps(..., sort_keys=True)\<close> prints a dictionary with its keys in order at every level;
  the digest is a function of the document so normalised.
\<close>

primrec canonical :: "json \<Rightarrow> json" where
  "canonical JNull = JNull"
| "canonical (JBool b) = JBool b"
| "canonical (JInt i) = JInt i"
| "canonical (JFloat r) = JFloat r"
| "canonical JNonfinite = JNonfinite"
| "canonical (JStr s) = JStr s"
| "canonical (JArr xs) = JArr (map canonical xs)"
| "canonical (JObj d) = JObj (sort_key fst (map (map_prod id canonical) d))"

definition canonical_digest :: "externals \<Rightarrow> json \<Rightarrow> string" where
  "canonical_digest x v = x_json_sha x (canonical v)"

text \<open>Dictionaries that differ only in the order of their keys have one digest.\<close>

lemma canonical_dict_perm:
  assumes "mset d = mset d'" and "distinct (map fst d)"
  shows "canonical (JObj d) = canonical (JObj d')"
proof -
  let ?f = "map_prod id canonical"
  have "mset (map ?f d) = mset (map ?f d')" using assms(1) by simp
  moreover have "distinct (map fst (map ?f d))"
    using assms(2) by (simp add: comp_def)
  then have "inj_on fst (set (map ?f d))" unfolding distinct_map ..
  ultimately have "sort_key fst (map ?f d) = sort_key fst (map ?f d')"
    by (rule sort_key_eq_sort_key)
  then show ?thesis by simp
qed

section \<open>Parameters of SQL statements\<close>

text \<open>
  A Python value bound to a text column: text as it is, an integer or a truth value by
  PostgreSQL's assignment cast; psycopg has no text form for a float, a list or a dictionary
  that the column would take.
\<close>

fun text_param :: "json \<Rightarrow> err + string option" where
  "text_param JNull = Inr None"
| "text_param (JStr s) = Inr (Some s)"
| "text_param (JInt i) = Inr (Some (str_int i))"
| "text_param (JBool b) = Inr (Some (if b then ''true'' else ''false''))"
| "text_param _ = Inl Data_error"

text \<open>\<open>Jsonb(v) if v else None\<close>\<close>

definition jsonb_if :: "json \<Rightarrow> json option" where
  "jsonb_if v = (if truthy v then Some v else None)"

definition coalesce :: "'a option \<Rightarrow> 'a option \<Rightarrow> 'a option" where
  "coalesce a b = (case a of None \<Rightarrow> b | Some x \<Rightarrow> Some x)"

definition coalesce_to :: "'a option \<Rightarrow> 'a \<Rightarrow> 'a" where
  "coalesce_to a b = (case a of None \<Rightarrow> b | Some x \<Rightarrow> x)"

lemma coalesce_simps [simp]:
  "coalesce None b = b" "coalesce (Some x) b = Some x"
  "coalesce_to None c = c" "coalesce_to (Some y) c = y"
  by (simp_all add: coalesce_def coalesce_to_def)

section \<open>UTF-8 text\<close>

text \<open>The customer-facing texts are Chinese; a literal is given by its bytes.\<close>

definition utf8 :: "nat list \<Rightarrow> string" where
  "utf8 bs = map char_of bs"

end
