(* ===== verification/Decimals.thy ===== *)
theory Decimals
  imports Json
begin

text \<open>
  The part of Python's \<open>decimal.Decimal\<close> the payment code uses: construction from text
  (exact), multiplication by an integer in the default context (28 significant digits, rounded
  half to even), and the test for a whole number. A finite decimal is its signed coefficient
  and exponent; infinities and NaNs are \<open>Dec_special\<close>.
\<close>

datatype decimal = Dec int int | Dec_special

definition dec_prec :: nat where
  "dec_prec = 28"

section \<open>Construction from text\<close>

text \<open>The sign of a numeric text and what follows it.\<close>

fun split_sign :: "string \<Rightarrow> int \<times> string" where
  "split_sign [] = (1, [])"
| "split_sign (c # s) =
     (if c = CHR ''-'' then (-1, s) else if c = CHR ''+'' then (1, s) else (1, c # s))"

text \<open>An exponent part: nothing, or \<open>e\<close>, a sign and at least one digit up to the end.\<close>

definition parse_exponent :: "string \<Rightarrow> int option" where
  "parse_exponent s = (case s of
       [] \<Rightarrow> Some 0
     | c # t \<Rightarrow>
         if c = CHR ''e'' \<or> c = CHR ''E'' then
           (let (sg, ds) = split_sign t
            in if ds \<noteq> [] \<and> list_all is_digit ds then Some (sg * int (digits_value ds)) else None)
         else None)"

definition special_text :: "string \<Rightarrow> bool" where
  "special_text s \<longleftrightarrow> (let u = py_upper s in
     u = ''INF'' \<or> u = ''INFINITY''
     \<or> (starts_with ''NAN'' u \<and> list_all is_digit (drop 3 u))
     \<or> (starts_with ''SNAN'' u \<and> list_all is_digit (drop 4 u)))"

text \<open>\<open>Decimal(s)\<close>; \<open>None\<close> is \<open>InvalidOperation\<close>.\<close>

definition parse_decimal :: "string \<Rightarrow> decimal option" where
  "parse_decimal s =
     (let (sg, body) = split_sign (filter (\<lambda>c. c \<noteq> CHR ''_'') (py_strip s)) in
      if special_text body then Some Dec_special
      else
        let whole = takeWhile is_digit body; rest = dropWhile is_digit body;
            (frac, rest') = (case rest of
                [] \<Rightarrow> ([], [])
              | c # t \<Rightarrow> if c = CHR ''.'' then (takeWhile is_digit t, dropWhile is_digit t)
                  else ([], rest))
        in if whole = [] \<and> frac = [] then None
           else (case parse_exponent rest' of
               None \<Rightarrow> None
             | Some e \<Rightarrow> Some (Dec (sg * int (digits_value (whole @ frac))) (e - int (length frac)))))"

section \<open>Arithmetic\<close>

text \<open>A coefficient with more digits than the context's precision is rounded half to even.\<close>

definition round_half_even :: "int \<Rightarrow> nat \<Rightarrow> int" where
  "round_half_even c k =
     (let m = \<bar>c\<bar>; q = m div 10 ^ k; r = m mod 10 ^ k;
          q' = (if 2 * r > 10 ^ k \<or> (2 * r = 10 ^ k \<and> odd q) then q + 1 else q)
      in sgn c * q')"

fun dec_round :: "decimal \<Rightarrow> decimal" where
  "dec_round (Dec c e) =
     (let n = length (str_nat (nat \<bar>c\<bar>)) in
      if n \<le> dec_prec then Dec c e
      else Dec (round_half_even c (n - dec_prec)) (e + int (n - dec_prec)))"
| "dec_round Dec_special = Dec_special"

fun dec_times :: "decimal \<Rightarrow> int \<Rightarrow> decimal" where
  "dec_times (Dec c e) n = dec_round (Dec (c * n) e)"
| "dec_times Dec_special n = Dec_special"

text \<open>\<open>d == d.to_integral_value()\<close> and \<open>int(d)\<close> of a whole number.\<close>

fun dec_whole :: "decimal \<Rightarrow> bool" where
  "dec_whole (Dec c e) \<longleftrightarrow> 0 \<le> e \<or> 10 ^ nat (- e) dvd c"
| "dec_whole Dec_special \<longleftrightarrow> False"

fun dec_int :: "decimal \<Rightarrow> int" where
  "dec_int (Dec c e) = (if 0 \<le> e then c * 10 ^ nat e else c div 10 ^ nat (- e))"
| "dec_int Dec_special = 0"

fun dec_finite :: "decimal \<Rightarrow> bool" where
  "dec_finite (Dec c e) = True"
| "dec_finite Dec_special = False"

fun dec_positive :: "decimal \<Rightarrow> bool" where
  "dec_positive (Dec c e) \<longleftrightarrow> 0 < c"
| "dec_positive Dec_special \<longleftrightarrow> False"

fun dec_value :: "decimal \<Rightarrow> rat" where
  "dec_value (Dec c e) =
     (if 0 \<le> e then of_int c * 10 ^ nat e else of_int c / 10 ^ nat (- e))"
| "dec_value Dec_special = 0"

section \<open>Printing an integer and reading it back\<close>

lemma is_digit_code: "is_digit c \<longleftrightarrow> 48 \<le> (of_char c :: nat) \<and> (of_char c :: nat) \<le> 57"
  by (simp add: is_digit_def digit_value_def Let_def)

lemma digit_not:
  assumes "is_digit c"
  shows "c \<noteq> CHR ''-''" "c \<noteq> CHR ''+''" "c \<noteq> CHR ''_''" "c \<noteq> CHR ''.''" "\<not> is_space c"
    "upper_char c = c"
proof -
  show "c \<noteq> CHR ''-''" "c \<noteq> CHR ''+''" "c \<noteq> CHR ''_''" "c \<noteq> CHR ''.''" "\<not> is_space c"
    using assms by (auto simp: is_digit_code is_space_def)
  show "upper_char c = c" using assms by (simp add: is_digit_code upper_char_def Let_def)
qed

lemma py_strip_digits: "list_all is_digit s \<Longrightarrow> py_strip s = s"
proof -
  assume d: "list_all is_digit s"
  have drop: "dropWhile is_space t = t" if "list_all is_digit t" for t
    using that by (cases t) (auto simp: digit_not)
  have "list_all is_digit (rev s)" using d by (simp add: list_all_iff)
  with d show ?thesis by (simp add: py_strip_def drop)
qed

lemma split_sign_digits: "list_all is_digit s \<Longrightarrow> split_sign s = (1, s)"
  by (cases s) (auto simp: digit_not)

lemma special_text_digits:
  assumes "list_all is_digit s"
  shows "\<not> special_text s"
proof -
  have upper: "py_upper s = s"
    using assms by (induction s) (auto simp: py_upper_def digit_not)
  have "\<not> is_digit (CHR ''I'')" "\<not> is_digit (CHR ''N'')" "\<not> is_digit (CHR ''S'')"
    by (simp_all add: is_digit_code)
  then have "take 1 s \<noteq> ''I''" "take 1 s \<noteq> ''N''" "take 1 s \<noteq> ''S''"
    using assms by (cases s; auto)+
  then show ?thesis
    unfolding special_text_def Let_def upper by (cases s) (auto simp: starts_with_def)
qed

lemma filter_digits: "list_all is_digit s \<Longrightarrow> filter (\<lambda>c. c \<noteq> CHR ''_'') s = s"
  by (induction s) (auto simp: digit_not)

lemma parse_decimal_str_nat: "parse_decimal (str_nat n) = Some (Dec (int n) 0)"
proof -
  have d: "list_all is_digit (str_nat n)" by (rule str_nat_digits)
  have tw: "takeWhile is_digit (str_nat n) = str_nat n" "dropWhile is_digit (str_nat n) = []"
    using d by (simp_all add: list_all_iff)
  show ?thesis
    by (simp add: parse_decimal_def py_strip_digits[OF d] split_sign_digits[OF d]
        filter_digits[OF d] special_text_digits[OF d] tw parse_exponent_def)
qed

lemma parse_decimal_str_int: "0 \<le> n \<Longrightarrow> parse_decimal (str_int n) = Some (Dec n 0)"
  by (simp add: str_int_def parse_decimal_str_nat)

end
