(* ===== verification/States.thy ===== *)
theory States
  imports Decimals
begin

text \<open>
  The state machines of the system, all pure: \<open>app/production_state.py\<close> (orders, production
  jobs, device events), \<open>app/payment_state.py\<close> (payments, refunds), \<open>app/command_state.py\<close>
  (device commands) and the constants and functions of \<open>app/order_logic.py\<close> they are used
  with. The status columns are text in the database; the statuses the code writes are the
  constructors of one datatype per column.

  The locale \<open>decision_contract\<close> is what the services rely on: a decision on a pair of states
  confirms a repetition, refuses every move out of a terminal state and gives a reason for each
  refusal. Payments, refunds and commands are instances.
\<close>

section \<open>Statuses\<close>

datatype order_status =
    O_CREATED | O_AWAITING_PAYMENT | O_PAID | O_QUEUED | O_DISPATCHED | O_ACCEPTED | O_MAKING
  | O_READY | O_HOLD | O_FAILED | O_CANCELLED | O_EXPIRED | O_REFUNDED

datatype job_status =
    J_QUEUED | J_DISPATCHED | J_ACCEPTED | J_EXECUTING | J_PAUSED | J_RETRY_WAIT | J_HOLD
  | J_UNKNOWN | J_SUCCEEDED | J_FAILED | J_REJECTED | J_CANCELLED | J_EXPIRED

datatype command_status =
    C_CREATED | C_DELIVERING | C_PUBLISHED | C_ACKED | C_EXECUTING | C_SUCCEEDED | C_REJECTED
  | C_FAILED | C_EXPIRED | C_CANCELLED | C_UNKNOWN

datatype payment_status =
    P_CREATED | P_PENDING | P_PAID | P_REFUNDING | P_PARTIALLY_REFUNDED | P_REFUNDED | P_CLOSED
  | P_FAILED

datatype refund_status = R_REQUESTED | R_PROCESSING | R_SUCCEEDED | R_FAILED | R_UNKNOWN

text \<open>The payment projection of an order (\<open>sales_order.payment_status\<close>).\<close>

datatype order_payment =
    OP_NOT_REQUIRED | OP_NOT_STARTED | OP_PENDING | OP_PAID | OP_REFUNDING
  | OP_PARTIALLY_REFUNDED | OP_REFUNDED | OP_CLOSED | OP_FAILED

fun order_payment_of :: "payment_status \<Rightarrow> order_payment" where
  "order_payment_of P_CREATED = OP_PENDING"
| "order_payment_of P_PENDING = OP_PENDING"
| "order_payment_of P_PAID = OP_PAID"
| "order_payment_of P_REFUNDING = OP_REFUNDING"
| "order_payment_of P_PARTIALLY_REFUNDED = OP_PARTIALLY_REFUNDED"
| "order_payment_of P_REFUNDED = OP_REFUNDED"
| "order_payment_of P_CLOSED = OP_CLOSED"
| "order_payment_of P_FAILED = OP_FAILED"

fun payment_name :: "payment_status \<Rightarrow> string" where
  "payment_name P_CREATED = ''CREATED''"
| "payment_name P_PENDING = ''PENDING''"
| "payment_name P_PAID = ''PAID''"
| "payment_name P_REFUNDING = ''REFUNDING''"
| "payment_name P_PARTIALLY_REFUNDED = ''PARTIALLY_REFUNDED''"
| "payment_name P_REFUNDED = ''REFUNDED''"
| "payment_name P_CLOSED = ''CLOSED''"
| "payment_name P_FAILED = ''FAILED''"

fun refund_name :: "refund_status \<Rightarrow> string" where
  "refund_name R_REQUESTED = ''REQUESTED''"
| "refund_name R_PROCESSING = ''PROCESSING''"
| "refund_name R_SUCCEEDED = ''SUCCEEDED''"
| "refund_name R_FAILED = ''FAILED''"
| "refund_name R_UNKNOWN = ''UNKNOWN''"

fun command_name :: "command_status \<Rightarrow> string" where
  "command_name C_CREATED = ''CREATED''"
| "command_name C_DELIVERING = ''DELIVERING''"
| "command_name C_PUBLISHED = ''PUBLISHED''"
| "command_name C_ACKED = ''ACKED''"
| "command_name C_EXECUTING = ''EXECUTING''"
| "command_name C_SUCCEEDED = ''SUCCEEDED''"
| "command_name C_REJECTED = ''REJECTED''"
| "command_name C_FAILED = ''FAILED''"
| "command_name C_EXPIRED = ''EXPIRED''"
| "command_name C_CANCELLED = ''CANCELLED''"
| "command_name C_UNKNOWN = ''UNKNOWN''"

fun order_name :: "order_status \<Rightarrow> string" where
  "order_name O_CREATED = ''CREATED''"
| "order_name O_AWAITING_PAYMENT = ''AWAITING_PAYMENT''"
| "order_name O_PAID = ''PAID''"
| "order_name O_QUEUED = ''QUEUED''"
| "order_name O_DISPATCHED = ''DISPATCHED''"
| "order_name O_ACCEPTED = ''ACCEPTED''"
| "order_name O_MAKING = ''MAKING''"
| "order_name O_READY = ''READY''"
| "order_name O_HOLD = ''HOLD''"
| "order_name O_FAILED = ''FAILED''"
| "order_name O_CANCELLED = ''CANCELLED''"
| "order_name O_EXPIRED = ''EXPIRED''"
| "order_name O_REFUNDED = ''REFUNDED''"

fun job_name :: "job_status \<Rightarrow> string" where
  "job_name J_QUEUED = ''QUEUED''"
| "job_name J_DISPATCHED = ''DISPATCHED''"
| "job_name J_ACCEPTED = ''ACCEPTED''"
| "job_name J_EXECUTING = ''EXECUTING''"
| "job_name J_PAUSED = ''PAUSED''"
| "job_name J_RETRY_WAIT = ''RETRY_WAIT''"
| "job_name J_HOLD = ''HOLD''"
| "job_name J_UNKNOWN = ''UNKNOWN''"
| "job_name J_SUCCEEDED = ''SUCCEEDED''"
| "job_name J_FAILED = ''FAILED''"
| "job_name J_REJECTED = ''REJECTED''"
| "job_name J_CANCELLED = ''CANCELLED''"
| "job_name J_EXPIRED = ''EXPIRED''"

section \<open>Decisions\<close>

text \<open>\<open>EventDecision\<close>, \<open>StateDecision\<close> and \<open>TransitionDecision\<close> have the same three fields.\<close>

record decision =
  allowed :: bool
  duplicate :: bool
  reason :: "string option"

definition decision :: "bool \<Rightarrow> bool \<Rightarrow> string option \<Rightarrow> decision" where
  "decision a d r = \<lparr>allowed = a, duplicate = d, reason = r\<rparr>"

lemma decision_sel [simp]:
  "allowed (decision a d r) = a" "duplicate (decision a d r) = d" "reason (decision a d r) = r"
  by (simp_all add: decision_def)

lemma decision_eq [simp]:
  "decision a d r = decision a' d' r' \<longleftrightarrow> a = a' \<and> d = d' \<and> r = r'"
  by (simp add: decision_def)

locale decision_contract =
  fixes decide :: "'s \<Rightarrow> 's \<Rightarrow> decision"
    and terminal :: "'s \<Rightarrow> bool"
  assumes decide_same: "decide s s = decision True True None"
    and duplicate_same: "duplicate (decide s t) \<Longrightarrow> s = t"
    and refusal_reason: "\<not> allowed (decide s t) \<Longrightarrow> reason (decide s t) \<noteq> None"
    and terminal_refuses: "terminal s \<Longrightarrow> s \<noteq> t \<Longrightarrow> \<not> allowed (decide s t)"
begin

text \<open>A move the services perform: allowed and not a repetition.\<close>

definition moves :: "'s \<Rightarrow> 's \<Rightarrow> bool" where
  "moves s t \<longleftrightarrow> allowed (decide s t) \<and> \<not> duplicate (decide s t)"

lemma moves_irrefl: "\<not> moves s s"
  by (simp add: moves_def decide_same)

lemma duplicate_iff: "duplicate (decide s t) \<longleftrightarrow> s = t"
  using duplicate_same decide_same by auto

lemma terminal_no_move: "terminal s \<Longrightarrow> \<not> moves s t"
  using terminal_refuses moves_irrefl by (cases "s = t") (auto simp: moves_def)

lemma terminal_stays: "moves\<^sup>*\<^sup>* s t \<Longrightarrow> terminal s \<Longrightarrow> t = s"
  by (induction rule: rtranclp_induct) (auto dest: terminal_no_move)

end

section \<open>Orders\<close>

definition ACTIVE_ORDER_STATUSES :: "order_status list" where
  "ACTIVE_ORDER_STATUSES = [O_QUEUED, O_DISPATCHED, O_ACCEPTED, O_MAKING, O_HOLD]"

definition TERMINAL_ORDER_STATUSES :: "order_status list" where
  "TERMINAL_ORDER_STATUSES = [O_READY, O_FAILED, O_CANCELLED, O_EXPIRED, O_REFUNDED]"

definition FINAL_ORDERS :: "order_status list" where
  "FINAL_ORDERS = [O_READY, O_FAILED, O_CANCELLED, O_EXPIRED, O_REFUNDED]"

fun order_transitions :: "order_status \<Rightarrow> order_status list" where
  "order_transitions O_CREATED = [O_AWAITING_PAYMENT, O_PAID, O_QUEUED, O_CANCELLED, O_EXPIRED]"
| "order_transitions O_AWAITING_PAYMENT = [O_PAID, O_CANCELLED, O_EXPIRED]"
| "order_transitions O_PAID = [O_QUEUED, O_CANCELLED, O_HOLD]"
| "order_transitions O_QUEUED = [O_DISPATCHED, O_CANCELLED, O_EXPIRED, O_HOLD]"
| "order_transitions O_DISPATCHED =
     [O_ACCEPTED, O_MAKING, O_READY, O_FAILED, O_CANCELLED, O_EXPIRED, O_HOLD]"
| "order_transitions O_ACCEPTED = [O_MAKING, O_READY, O_FAILED, O_CANCELLED, O_HOLD]"
| "order_transitions O_MAKING = [O_READY, O_FAILED, O_CANCELLED, O_HOLD]"
| "order_transitions O_HOLD = [O_READY, O_FAILED, O_CANCELLED]"
| "order_transitions O_FAILED = [O_REFUNDED]"
| "order_transitions _ = []"

definition order_transition_allowed :: "order_status \<Rightarrow> order_status \<Rightarrow> bool" where
  "order_transition_allowed current tgt \<longleftrightarrow>
     current = tgt \<or> tgt \<in> set (order_transitions current)"

section \<open>Production jobs and device events\<close>

definition FINAL_JOBS :: "job_status list" where
  "FINAL_JOBS = [J_SUCCEEDED, J_FAILED, J_REJECTED, J_CANCELLED, J_EXPIRED]"

definition ACTIVE_JOBS :: "job_status list" where
  "ACTIVE_JOBS =
     [J_DISPATCHED, J_ACCEPTED, J_EXECUTING, J_PAUSED, J_RETRY_WAIT, J_HOLD, J_UNKNOWN]"

definition EVENT_TARGETS :: "(string \<times> order_status \<times> job_status \<times> command_status) list" where
  "EVENT_TARGETS =
     [(''task.acknowledged'', O_ACCEPTED, J_ACCEPTED, C_ACKED),
      (''task.started'', O_MAKING, J_EXECUTING, C_EXECUTING),
      (''task.paused'', O_MAKING, J_PAUSED, C_EXECUTING),
      (''task.resumed'', O_MAKING, J_EXECUTING, C_EXECUTING),
      (''task.retry_wait'', O_MAKING, J_RETRY_WAIT, C_EXECUTING),
      (''task.retry'', O_MAKING, J_EXECUTING, C_EXECUTING),
      (''task.recovered'', O_HOLD, J_HOLD, C_UNKNOWN),
      (''task.succeeded'', O_READY, J_SUCCEEDED, C_SUCCEEDED),
      (''task.failed'', O_FAILED, J_FAILED, C_FAILED),
      (''task.rejected'', O_FAILED, J_REJECTED, C_REJECTED),
      (''task.cancelled'', O_CANCELLED, J_CANCELLED, C_CANCELLED)]"

definition event_target :: "string \<Rightarrow> (order_status \<times> job_status \<times> command_status) option" where
  "event_target event = map_of EVENT_TARGETS event"

text \<open>\<open>decide_job_event\<close>; \<open>EVENT_TARGETS[event]\<close> raises for an unknown event.\<close>

definition decide_job_event ::
  "job_status \<Rightarrow> string \<Rightarrow> int option \<Rightarrow> int \<Rightarrow> err + decision" where
  "decide_job_event current event revision last_revision =
     (case event_target event of
        None \<Rightarrow> Inl Key_error
      | Some (_, tgt, _) \<Rightarrow> Inr (
          if some_and revision (\<lambda>r. r < last_revision) then
            decision False True (Some ''STALE_REVISION'')
          else if revision = Some last_revision then
            decision False (current = tgt)
              (Some (if current = tgt then ''DUPLICATE_REVISION'' else ''REVISION_CONFLICT''))
          else if current \<in> set FINAL_JOBS then
            decision False (current = tgt) (Some ''FINAL_JOB'')
          else if current \<in> set [J_HOLD, J_UNKNOWN] then
            decision (tgt \<in> set FINAL_JOBS) False (Some ''MANUAL_REVIEW_REQUIRED'')
          else if current = J_QUEUED then
            decision False False (Some ''NOT_DISPATCHED'')
          else
            let ok =
              (if event \<in> set [''task.acknowledged'', ''task.rejected''] then
                 current \<in> set [J_DISPATCHED, J_ACCEPTED]
               else if event = ''task.started'' then
                 current \<in> set [J_DISPATCHED, J_ACCEPTED, J_EXECUTING]
               else if event = ''task.resumed'' then current \<in> set [J_PAUSED, J_EXECUTING]
               else if event = ''task.retry'' then current \<in> set [J_RETRY_WAIT, J_EXECUTING]
               else if event \<in> set [''task.paused'', ''task.retry_wait''] then
                 current \<in> set [J_DISPATCHED, J_ACCEPTED, J_EXECUTING, tgt]
               else current \<in> set ACTIVE_JOBS)
            in decision ok (current = tgt \<and> revision = None)
                 (if ok then None else Some ''ILLEGAL_JOB_TRANSITION'')))"

text \<open>\<open>device_is_busy\<close>: a malformed projection never authorizes hardware work.\<close>

definition device_is_busy :: "json \<Rightarrow> bool" where
  "device_is_busy reported =
     (let value = py_or reported (JObj []) in
      if \<not> is_dict value then True
      else let d = dict_of value; task = py_or (dget d ''currentTask'') (JObj []) in
      if \<not> is_dict task then True
      else let task_state = py_or (dget d ''currentTaskState'') (dget (dict_of task) ''state'');
               device = dget d ''deviceStatus'' in
      if task_state \<noteq> JNull \<and> \<not> is_str task_state then True
      else if device \<noteq> JNull \<and> \<not> is_str device then True
      else task_state \<in> set (map JStr
             [''RECEIVED'', ''VALIDATING'', ''ACKNOWLEDGED'', ''RUNNING'', ''PAUSED'', ''RETRY_WAIT''])
        \<or> device \<in> set (map JStr
             [''BUSY'', ''RESERVED'', ''RECOVERING'', ''RUNNING'', ''PAUSED'', ''RETRY_WAIT'']))"

section \<open>Payments and refunds\<close>

definition PAYMENT_TERMINAL :: "payment_status list" where
  "PAYMENT_TERMINAL = [P_REFUNDED, P_CLOSED, P_FAILED]"

fun payment_transitions :: "payment_status \<Rightarrow> payment_status list" where
  "payment_transitions P_CREATED = [P_PENDING, P_PAID, P_CLOSED, P_FAILED]"
| "payment_transitions P_PENDING = [P_PAID, P_CLOSED, P_FAILED]"
| "payment_transitions P_PAID = [P_REFUNDING, P_PARTIALLY_REFUNDED, P_REFUNDED]"
| "payment_transitions P_REFUNDING = [P_PAID, P_PARTIALLY_REFUNDED, P_REFUNDED, P_FAILED]"
| "payment_transitions P_PARTIALLY_REFUNDED = [P_REFUNDING, P_REFUNDED]"
| "payment_transitions _ = []"

definition REFUND_TERMINAL :: "refund_status list" where
  "REFUND_TERMINAL = [R_SUCCEEDED, R_FAILED]"

fun refund_transitions :: "refund_status \<Rightarrow> refund_status list" where
  "refund_transitions R_REQUESTED = [R_PROCESSING, R_SUCCEEDED, R_FAILED, R_UNKNOWN]"
| "refund_transitions R_PROCESSING = [R_SUCCEEDED, R_FAILED, R_UNKNOWN]"
| "refund_transitions R_UNKNOWN = [R_PROCESSING, R_SUCCEEDED, R_FAILED]"
| "refund_transitions _ = []"

definition decide_payment_transition :: "payment_status \<Rightarrow> payment_status \<Rightarrow> decision" where
  "decide_payment_transition current tgt =
     (if current = tgt then decision True True None
      else if tgt \<notin> set (payment_transitions current) then
        decision False False
          (Some (''illegal payment transition '' @ payment_name current @ '' -> '' @ payment_name tgt))
      else decision True False None)"

definition decide_refund_transition :: "refund_status \<Rightarrow> refund_status \<Rightarrow> decision" where
  "decide_refund_transition current tgt =
     (if current = tgt then decision True True None
      else if tgt \<notin> set (refund_transitions current) then
        decision False False
          (Some (''illegal refund transition '' @ refund_name current @ '' -> '' @ refund_name tgt))
      else decision True False None)"

section \<open>Device commands\<close>

definition TERMINAL_STATES :: "command_status list" where
  "TERMINAL_STATES = [C_SUCCEEDED, C_REJECTED, C_FAILED, C_EXPIRED, C_CANCELLED]"

fun legal_transitions :: "command_status \<Rightarrow> command_status list" where
  "legal_transitions C_CREATED =
     [C_DELIVERING, C_PUBLISHED, C_ACKED, C_EXECUTING, C_SUCCEEDED, C_REJECTED, C_FAILED,
      C_CANCELLED, C_EXPIRED, C_UNKNOWN]"
| "legal_transitions C_DELIVERING =
     [C_PUBLISHED, C_ACKED, C_EXECUTING, C_SUCCEEDED, C_REJECTED, C_FAILED, C_CANCELLED,
      C_EXPIRED, C_UNKNOWN]"
| "legal_transitions C_PUBLISHED =
     [C_ACKED, C_EXECUTING, C_SUCCEEDED, C_REJECTED, C_FAILED, C_CANCELLED, C_EXPIRED, C_UNKNOWN]"
| "legal_transitions C_ACKED =
     [C_EXECUTING, C_SUCCEEDED, C_REJECTED, C_FAILED, C_CANCELLED, C_UNKNOWN]"
| "legal_transitions C_EXECUTING = [C_SUCCEEDED, C_FAILED, C_CANCELLED, C_UNKNOWN]"
| "legal_transitions C_UNKNOWN =
     [C_ACKED, C_EXECUTING, C_SUCCEEDED, C_REJECTED, C_FAILED, C_CANCELLED, C_EXPIRED]"
| "legal_transitions _ = []"

definition decide_transition :: "command_status \<Rightarrow> command_status \<Rightarrow> decision" where
  "decide_transition current tgt =
     (if current = tgt then decision True True None
      else if current \<in> set TERMINAL_STATES then
        decision False False
          (Some (''terminal state '' @ command_name current @ '' cannot transition to ''
             @ command_name tgt))
      else if tgt \<notin> set (legal_transitions current) then
        decision False False
          (Some (''illegal command transition '' @ command_name current @ '' -> ''
             @ command_name tgt))
      else decision True False None)"

definition result_state :: "string option \<Rightarrow> command_status" where
  "result_state value =
     (let normalized = py_upper (case value of None \<Rightarrow> [] | Some s \<Rightarrow> s) in
      if normalized \<in> set [''SUCCEEDED'', ''SUCCESS'', ''COMPLETED'', ''APPLIED'', ''OK''] then C_SUCCEEDED
      else if normalized \<in> set [''REJECTED'', ''DECLINED''] then C_REJECTED
      else if normalized \<in> set [''CANCELLED'', ''CANCELED''] then C_CANCELLED
      else if normalized = ''EXPIRED'' then C_EXPIRED
      else C_FAILED)"

definition event_state :: "string \<Rightarrow> command_status option" where
  "event_state event_type = map_of
     [(''task.started'', C_EXECUTING), (''task.succeeded'', C_SUCCEEDED),
      (''task.failed'', C_FAILED), (''task.cancelled'', C_CANCELLED)] event_type"


section \<open>The contracts hold for the tables\<close>

interpretation payment_decision:
  decision_contract decide_payment_transition "\<lambda>s. s \<in> set PAYMENT_TERMINAL"
  by unfold_locales
    (auto simp: decide_payment_transition_def PAYMENT_TERMINAL_def split: if_splits)

interpretation refund_decision:
  decision_contract decide_refund_transition "\<lambda>s. s \<in> set REFUND_TERMINAL"
  by unfold_locales
    (auto simp: decide_refund_transition_def REFUND_TERMINAL_def split: if_splits)

interpretation command_decision:
  decision_contract decide_transition "\<lambda>s. s \<in> set TERMINAL_STATES"
  by unfold_locales (auto simp: decide_transition_def split: if_splits)

lemma payment_moves_iff:
  "payment_decision.moves s t \<longleftrightarrow> s \<noteq> t \<and> t \<in> set (payment_transitions s)"
  by (simp add: payment_decision.moves_def decide_payment_transition_def)

lemma refund_moves_iff:
  "refund_decision.moves s t \<longleftrightarrow> s \<noteq> t \<and> t \<in> set (refund_transitions s)"
  by (simp add: refund_decision.moves_def decide_refund_transition_def)

lemma command_moves_iff:
  "command_decision.moves s t \<longleftrightarrow> s \<noteq> t \<and> t \<in> set (legal_transitions s)"
  by (cases s)
    (simp_all add: command_decision.moves_def decide_transition_def TERMINAL_STATES_def)

lemma final_order_stuck:
  "s \<in> set FINAL_ORDERS \<Longrightarrow> order_transition_allowed s t \<Longrightarrow>
    t = s \<or> s = O_FAILED \<and> t = O_REFUNDED"
  by (auto simp: FINAL_ORDERS_def order_transition_allowed_def)

section \<open>How the three state machines of one drink agree\<close>

text \<open>
  The statuses of an order, its production job and its device command that belong together.
  The job decides: every job status fixes the status of the order and of the command, except
  that a dispatched command may be on its way, that a failed order may have been refunded, and
  that a job cancelled while queued never had a command.
\<close>

fun coherent :: "order_status \<Rightarrow> job_status \<Rightarrow> command_status option \<Rightarrow> bool" where
  "coherent oo J_QUEUED c \<longleftrightarrow> oo = O_QUEUED \<and> c = None"
| "coherent oo J_DISPATCHED c \<longleftrightarrow>
     oo = O_DISPATCHED \<and> c \<in> set [Some C_CREATED, Some C_DELIVERING, Some C_PUBLISHED]"
| "coherent oo J_ACCEPTED c \<longleftrightarrow> oo = O_ACCEPTED \<and> c = Some C_ACKED"
| "coherent oo J_EXECUTING c \<longleftrightarrow> oo = O_MAKING \<and> c = Some C_EXECUTING"
| "coherent oo J_PAUSED c \<longleftrightarrow> oo = O_MAKING \<and> c = Some C_EXECUTING"
| "coherent oo J_RETRY_WAIT c \<longleftrightarrow> oo = O_MAKING \<and> c = Some C_EXECUTING"
| "coherent oo J_HOLD c \<longleftrightarrow> oo = O_HOLD \<and> c = Some C_UNKNOWN"
| "coherent oo J_UNKNOWN c \<longleftrightarrow> False"
| "coherent oo J_SUCCEEDED c \<longleftrightarrow> oo = O_READY \<and> c = Some C_SUCCEEDED"
| "coherent oo J_FAILED c \<longleftrightarrow> oo \<in> set [O_FAILED, O_REFUNDED] \<and> c = Some C_FAILED"
| "coherent oo J_REJECTED c \<longleftrightarrow> oo \<in> set [O_FAILED, O_REFUNDED] \<and> c = Some C_REJECTED"
| "coherent oo J_CANCELLED c \<longleftrightarrow> oo = O_CANCELLED \<and> c \<in> set [None, Some C_CANCELLED]"
| "coherent oo J_EXPIRED c \<longleftrightarrow> oo = O_EXPIRED \<and> c = Some C_EXPIRED"

text \<open>The event table, one case per event.\<close>

lemma event_target_cases:
  assumes "event_target event = Some t"
  shows "event = ''task.acknowledged'' \<and> t = (O_ACCEPTED, J_ACCEPTED, C_ACKED)
    \<or> event = ''task.started'' \<and> t = (O_MAKING, J_EXECUTING, C_EXECUTING)
    \<or> event = ''task.paused'' \<and> t = (O_MAKING, J_PAUSED, C_EXECUTING)
    \<or> event = ''task.resumed'' \<and> t = (O_MAKING, J_EXECUTING, C_EXECUTING)
    \<or> event = ''task.retry_wait'' \<and> t = (O_MAKING, J_RETRY_WAIT, C_EXECUTING)
    \<or> event = ''task.retry'' \<and> t = (O_MAKING, J_EXECUTING, C_EXECUTING)
    \<or> event = ''task.recovered'' \<and> t = (O_HOLD, J_HOLD, C_UNKNOWN)
    \<or> event = ''task.succeeded'' \<and> t = (O_READY, J_SUCCEEDED, C_SUCCEEDED)
    \<or> event = ''task.failed'' \<and> t = (O_FAILED, J_FAILED, C_FAILED)
    \<or> event = ''task.rejected'' \<and> t = (O_FAILED, J_REJECTED, C_REJECTED)
    \<or> event = ''task.cancelled'' \<and> t = (O_CANCELLED, J_CANCELLED, C_CANCELLED)"
  using assms unfolding event_target_def EVENT_TARGETS_def
  by (simp split: if_splits)

lemma event_target_coherent:
  "event_target event = Some (oo, j, c) \<Longrightarrow> coherent oo j (Some c)"
  by (drule event_target_cases) auto

lemma decide_job_event_Inr:
  "event_target event = Some (oo, j, c) \<Longrightarrow> \<exists>dec. decide_job_event cur event drev lastr = Inr dec"
  by (simp add: decide_job_event_def Let_def)

text \<open>The statuses from which a device event may move a job at all.\<close>

lemma decide_job_event_allowed:
  assumes "decide_job_event cur event drev lastr = Inr dec" and "allowed dec"
  shows "cur \<in> set [J_DISPATCHED, J_ACCEPTED, J_EXECUTING, J_PAUSED, J_RETRY_WAIT, J_HOLD, J_UNKNOWN]"
    and "\<And>r. drev = Some r \<Longrightarrow> lastr < r"
proof -
  obtain oo j c where t: "event_target event = Some (oo, j, c)"
    using assms(1) by (cases "event_target event") (auto simp: decide_job_event_def)
  have "cur \<notin> set FINAL_JOBS"
  proof
    assume "cur \<in> set FINAL_JOBS"
    with assms t show False by (auto simp add: decide_job_event_def split: if_splits)
  qed
  moreover have "cur \<noteq> J_QUEUED"
  proof
    assume "cur = J_QUEUED"
    with assms t show False
      by (auto simp add: decide_job_event_def FINAL_JOBS_def split: if_splits)
  qed
  ultimately show "cur \<in> set [J_DISPATCHED, J_ACCEPTED, J_EXECUTING, J_PAUSED, J_RETRY_WAIT, J_HOLD, J_UNKNOWN]"
    by (cases cur) (simp_all add: FINAL_JOBS_def)
  show "lastr < r" if "drev = Some r" for r
  proof (rule ccontr)
    assume "\<not> lastr < r"
    then have "r < lastr \<or> r = lastr" by auto
    with that assms t show False by (elim disjE) (auto simp add: decide_job_event_def)
  qed
qed

lemma decide_job_event_hold:
  assumes "decide_job_event cur event drev lastr = Inr dec" and "allowed dec"
    and "event_target event = Some (oo, j, c)" and "cur \<in> set [J_HOLD, J_UNKNOWN]"
  shows "j \<in> set FINAL_JOBS"
proof -
  have "cur \<notin> set FINAL_JOBS" using assms(4) by (auto simp: FINAL_JOBS_def)
  with assms show ?thesis by (auto simp: decide_job_event_def split: if_splits)
qed

lemma decide_job_event_ack:
  assumes "decide_job_event cur event drev lastr = Inr dec" and "allowed dec"
    and "event \<in> set [''task.acknowledged'', ''task.rejected'']"
    and "cur \<notin> set [J_HOLD, J_UNKNOWN]"
  shows "cur \<in> set [J_DISPATCHED, J_ACCEPTED]"
proof (rule ccontr)
  assume no: "cur \<notin> set [J_DISPATCHED, J_ACCEPTED]"
  obtain t where "event_target event = Some t"
    using assms(1) by (cases "event_target event") (auto simp: decide_job_event_def)
  with assms no show False
    by (cases t) (simp add: decide_job_event_def Let_def split: if_splits; auto)
qed

text \<open>What an allowed event says about the job it meets: out of HOLD it ends the job, and only a
  job the device has not started can still be accepted or rejected.\<close>

lemma allowed_event_from:
  assumes dec: "decide_job_event j event drev lastr = Inr dec" "allowed dec"
    and t: "event_target event = Some (oo', j', c')"
  shows "(j \<in> set [J_HOLD, J_UNKNOWN] \<and> j' \<in> set FINAL_JOBS)
    \<or> (j \<in> set [J_DISPATCHED, J_ACCEPTED, J_EXECUTING, J_PAUSED, J_RETRY_WAIT]
        \<and> (c' \<in> set [C_ACKED, C_REJECTED] \<longrightarrow> j \<in> set [J_DISPATCHED, J_ACCEPTED]))"
proof -
  have ack: "c' \<in> set [C_ACKED, C_REJECTED] \<Longrightarrow>
      event \<in> set [''task.acknowledged'', ''task.rejected'']"
    using event_target_cases[OF t] by (elim disjE) simp_all
  have cur: "j \<in> set [J_DISPATCHED, J_ACCEPTED, J_EXECUTING, J_PAUSED, J_RETRY_WAIT, J_HOLD, J_UNKNOWN]"
    using decide_job_event_allowed(1)[OF dec] .
  show ?thesis
  proof (cases "j \<in> set [J_HOLD, J_UNKNOWN]")
    case True
    with dec t have "j' \<in> set FINAL_JOBS" by (intro decide_job_event_hold)
    with True show ?thesis by blast
  next
    case False
    have "j \<in> set [J_DISPATCHED, J_ACCEPTED]" if "c' \<in> set [C_ACKED, C_REJECTED]"
      using decide_job_event_ack[OF dec ack[OF that] False] .
    with False cur show ?thesis by auto
  qed
qed

text \<open>The orders and commands a device event leads to.\<close>

lemma event_target_shape:
  assumes "event_target event = Some (oo', j', c')"
  shows "(oo', c') \<in> set [(O_ACCEPTED, C_ACKED), (O_MAKING, C_EXECUTING), (O_HOLD, C_UNKNOWN)]
      \<and> j' \<notin> set FINAL_JOBS
    \<or> (oo', c') \<in> set [(O_READY, C_SUCCEEDED), (O_FAILED, C_FAILED), (O_FAILED, C_REJECTED),
        (O_CANCELLED, C_CANCELLED)] \<and> j' \<in> set FINAL_JOBS"
  using event_target_cases[OF assms] by (elim disjE) (simp_all add: FINAL_JOBS_def)

text \<open>
  When the three statuses agree and the event is allowed for the job, the order and the command
  can follow it: the guard \<open>ILLEGAL_COORDINATED_TRANSITION\<close> of the service never fires then.
\<close>

lemma allowed_event_coordinated:
  assumes dec: "decide_job_event j event drev lastr = Inr dec" "allowed dec"
    and t: "event_target event = Some (oo', j', c')"
    and coh: "coherent oo j (Some c)"
  shows "order_transition_allowed oo oo' \<and> allowed (decide_transition c c')"
  using allowed_event_from[OF dec t] event_target_shape[OF t] coh
  by (cases j)
    (auto simp: order_transition_allowed_def decide_transition_def TERMINAL_STATES_def)

end
