(* ===== verification/Store.thy ===== *)
theory Store
  imports States
begin

text \<open>
  The persistent state: one record per table of \<open>app/database.py\<close> with the columns the
  modelled code reads or writes, the database as the record of its tables, and the settings of
  \<open>app/settings.py\<close> the services consult. A nullable column is an option; a jsonb column is a
  JSON value. Column prefixes: \<open>t_\<close> terminal, \<open>o_\<close> sales_order, \<open>ot_\<close> order_transition,
  \<open>j_\<close> production_job, \<open>c_\<close> terminal_command, \<open>ct_\<close> terminal_command_transition, \<open>ob_\<close>
  command_outbox, \<open>p_\<close> payment, \<open>pe_\<close> payment_event, \<open>r_\<close> refund, \<open>ci_\<close>
  payment_callback_inbox, \<open>bo_\<close> business_outbox, \<open>dr_\<close> terminal_dispatch_request, \<open>ps_\<close>
  terminal_pickup_slot, \<open>ad_\<close> order_adjudication, \<open>ev_\<close> terminal_event, \<open>hb_\<close>
  heartbeat_inbox, \<open>sn_\<close> terminal_snapshot, \<open>wm_\<close> terminal_material_watermark, \<open>au_\<close>
  audit_log, \<open>ma_\<close> merchant_payment_account.

  A transaction is a function from the database to an error or a new database: an error leaves
  the old one, as the rollback does. Every step happens at one instant \<open>now\<close>, which stands for
  both the database's \<open>now()\<close> and Python's \<open>utc_now()\<close>. Row locks have no effect on one
  transaction; interleavings are sequences of transactions.
\<close>

section \<open>Rows\<close>

record terminal =
  t_id :: int
  t_device_id :: string
  t_serial_number :: string
  t_store_id :: "string option"
  t_lifecycle_status :: string
  t_connection_status :: string
  t_last_seen_at :: "timestamp option"
  t_last_heartbeat_at :: "timestamp option"
  t_last_connected_at :: "timestamp option"
  t_active_boot_id :: "string option"
  t_last_sequence :: "int option"
  t_instance_id :: "string option"
  t_software_version :: "string option"
  t_capability_version :: json
  t_inventory_version :: json
  t_heartbeat_count :: int
  t_reported_status :: json
  t_device_identity_kind :: "string option"
  t_ui_locale :: string
  t_updated_at :: timestamp

record sales_order =
  o_id :: uuid
  o_order_no :: string
  o_terminal_id :: int
  o_access_token_hash :: string
  o_idempotency_key :: string
  o_request_digest :: string
  o_status :: order_status
  o_payment_mode :: string
  o_payment_status :: order_payment
  o_currency :: string
  o_total_amount_minor :: int
  o_recipe_id :: string
  o_recipe_version :: string
  o_sku_code :: "string option"
  o_product_name :: string
  o_product_snapshot :: dict
  o_failure_code :: "string option"
  o_failure_message :: "string option"
  o_created_at :: timestamp
  o_updated_at :: timestamp
  o_started_at :: "timestamp option"
  o_completed_at :: "timestamp option"
  o_cancelled_at :: "timestamp option"
  o_paid_payment_id :: "uuid option"
  o_pickup_required :: bool
  o_collected_at :: "timestamp option"
  o_tenant_id :: "uuid option"
  o_payment_account_id :: "uuid option"

record order_transition =
  ot_order_id :: uuid
  ot_revision :: int
  ot_from_status :: "order_status option"
  ot_to_status :: order_status
  ot_actor :: string
  ot_reason :: "string option"
  ot_payload_json :: "json option"
  ot_created_at :: timestamp

record production_job =
  j_id :: uuid
  j_task_id :: string
  j_order_id :: uuid
  j_terminal_id :: int
  j_command_id :: "int option"
  j_status :: job_status
  j_revision :: int
  j_progress :: rat
  j_step_progress :: rat
  j_current_step_id :: "string option"
  j_current_step_name :: "string option"
  j_planned_duration_seconds :: "rat option"
  j_elapsed_seconds :: rat
  j_remaining_seconds :: "rat option"
  j_step_durations :: json
  j_failure_json :: "json option"
  j_last_device_revision :: int
  j_execution_attempt :: int
  j_hold_reason :: "string option"
  j_manual_review_required :: bool
  j_created_at :: timestamp
  j_updated_at :: timestamp
  j_accepted_at :: "timestamp option"
  j_started_at :: "timestamp option"
  j_completed_at :: "timestamp option"

record terminal_command =
  c_id :: int
  c_terminal_id :: int
  c_message_id :: string
  c_command_type :: string
  c_payload_json :: dict
  c_idempotency_key :: "string option"
  c_payload_digest :: "string option"
  c_status :: command_status
  c_revision :: int
  c_result_json :: "json option"
  c_created_at :: timestamp
  c_expires_at :: "timestamp option"
  c_last_transition_at :: timestamp
  c_published_at :: "timestamp option"
  c_delivered_at :: "timestamp option"
  c_acked_at :: "timestamp option"
  c_executing_at :: "timestamp option"
  c_completed_at :: "timestamp option"

record command_transition =
  ct_command_id :: int
  ct_revision :: int
  ct_from_status :: "command_status option"
  ct_to_status :: command_status
  ct_actor :: string
  ct_reason :: "string option"
  ct_payload_json :: "json option"
  ct_created_at :: timestamp

datatype outbox_status = OB_PENDING | OB_RETRY | OB_PUBLISHING | OB_PUBLISHED | OB_EXPIRED

record command_outbox =
  ob_id :: uuid
  ob_command_id :: int
  ob_terminal_id :: int
  ob_topic :: string
  ob_envelope_json :: json
  ob_status :: outbox_status
  ob_attempt_count :: int
  ob_next_attempt_at :: timestamp
  ob_locked_by :: "string option"
  ob_locked_until :: "timestamp option"
  ob_published_at :: "timestamp option"
  ob_last_error :: "string option"
  ob_created_at :: timestamp

record payment =
  p_id :: uuid
  p_order_id :: uuid
  p_provider :: string
  p_merchant_payment_no :: string
  p_provider_trade_no :: "string option"
  p_idempotency_key :: string
  p_request_digest :: string
  p_status :: payment_status
  p_revision :: int
  p_amount_minor :: int
  p_currency :: string
  p_subject :: string
  p_qr_code :: "string option"
  p_provider_response :: "json option"
  p_next_reconcile_at :: "timestamp option"
  p_created_at :: timestamp
  p_updated_at :: timestamp
  p_paid_at :: "timestamp option"
  p_closed_at :: "timestamp option"
  p_payment_account_id :: "uuid option"

record payment_event =
  pe_payment_id :: uuid
  pe_event_id :: string
  pe_event_type :: string
  pe_actor :: string
  pe_payload_json :: json

record refund =
  r_id :: uuid
  r_payment_id :: uuid
  r_provider :: string
  r_merchant_refund_no :: string
  r_idempotency_key :: string
  r_request_digest :: string
  r_status :: refund_status
  r_revision :: int
  r_amount_minor :: int
  r_reason :: string
  r_provider_response :: "json option"
  r_attempt_count :: int
  r_next_attempt_at :: "timestamp option"
  r_created_at :: timestamp
  r_updated_at :: timestamp
  r_completed_at :: "timestamp option"

record callback_inbox =
  ci_provider :: string
  ci_provider_event_id :: string
  ci_payment_id :: uuid
  ci_payload_digest :: string
  ci_payload_json :: json
  ci_processed_at :: timestamp

datatype business_status = BO_PENDING | BO_RETRY | BO_PROCESSING | BO_PROCESSED

record business_event =
  bo_id :: uuid
  bo_event_type :: string
  bo_aggregate_type :: string
  bo_aggregate_id :: string
  bo_payload_json :: dict
  bo_idempotency_key :: string
  bo_status :: business_status
  bo_attempt_count :: int
  bo_next_attempt_at :: timestamp
  bo_locked_by :: "string option"
  bo_locked_until :: "timestamp option"
  bo_last_error :: "string option"
  bo_created_at :: timestamp
  bo_processed_at :: "timestamp option"

datatype dispatch_status = DR_PENDING | DR_PROCESSING | DR_RETRY

record dispatch_request =
  dr_terminal_id :: int
  dr_reason :: string
  dr_status :: dispatch_status
  dr_requested_at :: timestamp
  dr_revision :: int
  dr_attempt_count :: int
  dr_next_attempt_at :: timestamp
  dr_locked_by :: "string option"
  dr_locked_until :: "timestamp option"
  dr_last_error :: "string option"

record pickup_slot =
  ps_terminal_id :: int
  ps_revision :: int
  ps_state :: string
  ps_task_id :: string
  ps_updated_at :: timestamp

record adjudication =
  ad_order_id :: uuid
  ad_task_id :: string
  ad_idempotency_key :: string
  ad_request_digest :: string
  ad_response_json :: json

record terminal_event =
  ev_terminal_id :: int
  ev_event_id :: string
  ev_boot_id :: "string option"
  ev_sequence :: "int option"
  ev_event_type :: string
  ev_occurred_at :: "timestamp option"
  ev_received_at :: timestamp
  ev_payload_digest :: string
  ev_payload_json :: dict

record heartbeat_row =
  hb_terminal_id :: int
  hb_message_id :: string
  hb_payload_digest :: string
  hb_boot_id :: "string option"
  hb_sequence :: "int option"
  hb_occurred_at :: "timestamp option"
  hb_received_at :: timestamp
  hb_disposition :: string
  hb_payload_json :: dict

record snapshot_row =
  sn_terminal_id :: int
  sn_snapshot_type :: string
  sn_version :: "string option"
  sn_payload_json :: dict
  sn_received_at :: timestamp

record watermark =
  wm_terminal_id :: int
  wm_inventory_version :: int

record audit_row =
  au_actor_type :: string
  au_actor_id :: string
  au_actor_name :: string
  au_action :: string
  au_resource_type :: string
  au_resource_id :: "string option"
  au_request_id :: "string option"
  au_detail_json :: json
  au_created_at :: timestamp

record merchant_account =
  ma_id :: uuid
  ma_tenant_id :: uuid
  ma_provider :: string
  ma_app_id :: string
  ma_merchant_id :: string
  ma_status :: string

section \<open>The database\<close>

record db =
  terminals :: "terminal list"
  orders :: "sales_order list"
  order_log :: "order_transition list"
  jobs :: "production_job list"
  commands :: "terminal_command list"
  command_seq :: int
  command_log :: "command_transition list"
  outbox :: "command_outbox list"
  payments :: "payment list"
  payment_log :: "payment_event list"
  refunds :: "refund list"
  inbox :: "callback_inbox list"
  business :: "business_event list"
  dispatches :: "dispatch_request list"
  slots :: "pickup_slot list"
  adjudications :: "adjudication list"
  events :: "terminal_event list"
  heartbeats :: "heartbeat_row list"
  snapshots :: "snapshot_row list"
  watermarks :: "watermark list"
  audits :: "audit_row list"
  accounts :: "merchant_account list"

definition empty_db :: db where
  "empty_db = \<lparr>terminals = [], orders = [], order_log = [], jobs = [], commands = [],
     command_seq = 0, command_log = [], outbox = [], payments = [], payment_log = [],
     refunds = [], inbox = [], business = [], dispatches = [], slots = [], adjudications = [],
     events = [], heartbeats = [], snapshots = [], watermarks = [], audits = [], accounts = []\<rparr>"

section \<open>Settings\<close>

record settings =
  s_offline_threshold_seconds :: rat
  s_public_order_queue_limit :: int
  s_default_product_price_minor :: int
  s_payment_default_provider :: string
  s_public_payment_mode :: string
  s_simulator_bootstrap_enabled :: bool
  s_simulator_payment_mode :: string
  s_allow_mock_payment :: bool
  s_payment_currency :: string
  s_payment_reconcile_seconds :: rat
  s_payment_pending_ttl_seconds :: rat
  s_command_publish_lease_seconds :: rat
  s_command_ack_timeout_seconds :: rat
  s_production_wait_timeout_seconds :: rat
  s_command_start_timeout_seconds :: rat
  s_production_timeout_grace_seconds :: rat
  s_order_access_secret :: "string option"
  s_admin_token :: string
  s_merchant_enabled :: bool
  s_public_base_url :: string
  s_alipay_app_id :: "string option"
  s_alipay_mock_app_id :: "string option"
  s_bootstrap_device_enabled :: bool
  s_device_token :: "string option"
  s_device_id :: string
  s_device_serial_number :: string
  s_device_instance_id :: string
  s_device_store_id :: string
  s_activation_ttl_seconds :: rat
  s_activation_max_attempts :: int
  s_credential_grace_seconds :: rat
  s_simulator_pairing_ttl_seconds :: rat
  s_heartbeat_retention_days :: rat
  s_mqtt_inbox_retention_days :: rat
  s_device_event_retention_days :: rat
  s_processed_outbox_retention_days :: rat
  s_audit_retention_days :: rat
  s_history_cleanup_batch_size :: nat

text \<open>The defaults of \<open>Settings\<close>.\<close>

definition default_settings :: "string \<Rightarrow> settings" where
  "default_settings admin_token = \<lparr>s_offline_threshold_seconds = 90,
     s_public_order_queue_limit = 20, s_default_product_price_minor = 100,
     s_payment_default_provider = ''mock'', s_public_payment_mode = ''TEST_FREE'',
     s_simulator_bootstrap_enabled = False, s_simulator_payment_mode = ''TEST_FREE'',
     s_allow_mock_payment = False, s_payment_currency = ''CNY'',
     s_payment_reconcile_seconds = 30, s_payment_pending_ttl_seconds = 900,
     s_command_publish_lease_seconds = 30, s_command_ack_timeout_seconds = 30,
     s_production_wait_timeout_seconds = 900, s_command_start_timeout_seconds = 60,
     s_production_timeout_grace_seconds = 120, s_order_access_secret = None,
     s_admin_token = admin_token, s_merchant_enabled = False,
     s_public_base_url = ''https://coffee-api.woodbridge.top'',
     s_alipay_app_id = None, s_alipay_mock_app_id = None,
     s_bootstrap_device_enabled = False, s_device_token = None, s_device_id = ''coffee-bot-002'',
     s_device_serial_number = ''002'', s_device_instance_id = ''instance-coffee-bot-002'',
     s_device_store_id = ''store-demo-taipei-02'', s_activation_ttl_seconds = 600,
     s_activation_max_attempts = 5, s_credential_grace_seconds = 300,
     s_simulator_pairing_ttl_seconds = 900, s_heartbeat_retention_days = 7,
     s_mqtt_inbox_retention_days = 30, s_device_event_retention_days = 90,
     s_processed_outbox_retention_days = 14, s_audit_retention_days = 365,
     s_history_cleanup_batch_size = 500\<rparr>"

section \<open>Tables of the database\<close>

text \<open>
  What a client of a table relies on: writing the table and reading it back, and that the key
  of a row is what its \<open>select ... where id\<close> compares. The laws give the behaviour of reads
  after keyed updates, once for every table.
\<close>

locale db_table =
  fixes rows :: "db \<Rightarrow> 'r list"
    and put :: "'r list \<Rightarrow> db \<Rightarrow> db"
    and key :: "'r \<Rightarrow> 'k"
  assumes rows_put: "rows (put rs d) = rs"
    and put_rows: "put (rows d) d = d"
    and put_put: "put rs (put rs' d) = put rs d"
begin

definition get :: "'k \<Rightarrow> db \<Rightarrow> 'r option" where
  "get k d = find_row (\<lambda>r. key r = k) (rows d)"

definition modify :: "'k \<Rightarrow> ('r \<Rightarrow> 'r) \<Rightarrow> db \<Rightarrow> db" where
  "modify k f d = put (update_rows (\<lambda>r. key r = k) f (rows d)) d"

lemma get_modify:
  assumes "\<And>r. key (f r) = key r"
  shows "get k' (modify k f d) = (if k' = k then map_option f (get k d) else get k' d)"
  using assms find_row_update_key[of key k f "rows d"]
    find_row_update_other[of key k f k' "rows d"]
  by (simp add: get_def modify_def rows_put)

lemma modify_modify:
  assumes "\<And>r. key (f r) = key r"
  shows "modify k g (modify k f d) = modify k (\<lambda>r. g (f r)) d"
proof -
  have "update_rows (\<lambda>r. key r = k) g (update_rows (\<lambda>r. key r = k) f rs)
      = update_rows (\<lambda>r. key r = k) (\<lambda>r. g (f r)) rs" for rs
    using assms by (induction rs) auto
  then show ?thesis by (simp add: modify_def rows_put put_put)
qed

lemma modify_keys: "(\<And>r. key (f r) = key r) \<Longrightarrow> map key (rows (modify k f d)) = map key (rows d)"
  by (simp add: modify_def rows_put map_update_rows)

lemma get_in_rows: "get k d = Some r \<Longrightarrow> r \<in> set (rows d) \<and> key r = k"
  by (auto simp: get_def dest: find_row_SomeD)

lemma get_of_row: "distinct (map key (rows d)) \<Longrightarrow> r \<in> set (rows d) \<Longrightarrow> get (key r) d = Some r"
  by (simp add: get_def find_row_key)

end

end
