(* ===== verification/OrderRepo.thy ===== *)
theory OrderRepo
  imports Store
begin

text \<open>
  \<open>app/repositories/orders.py\<close>: every statement of \<open>OrderRepository\<close> as a function on the
  database, in the order of the file. Reads return what the statement selects; writes return the
  database after it; inserts may fail on a unique constraint of the table. \<open>now\<close> is the
  database's \<open>now()\<close>.
\<close>

section \<open>Reading orders\<close>

definition terminal_by_id :: "int \<Rightarrow> db \<Rightarrow> terminal option" where
  "terminal_by_id k d = find_row (\<lambda>t. t_id t = k) (terminals d)"

definition find_order :: "uuid \<Rightarrow> db \<Rightarrow> sales_order option" where
  "find_order k d = find_row (\<lambda>r. o_id r = k) (orders d)"

text \<open>The join with the terminal: no row when the terminal is missing.\<close>

definition join_terminal :: "db \<Rightarrow> sales_order \<Rightarrow> (sales_order \<times> terminal) option" where
  "join_terminal d r = map_option (\<lambda>t. (r, t)) (terminal_by_id (o_terminal_id r) d)"

definition find_with_terminal :: "uuid \<Rightarrow> db \<Rightarrow> (sales_order \<times> terminal) option" where
  "find_with_terminal k d = Option.bind (find_order k d) (join_terminal d)"

definition set_paid_payment_id :: "timestamp \<Rightarrow> uuid \<Rightarrow> uuid \<Rightarrow> db \<Rightarrow> db" where
  "set_paid_payment_id now k payment_id d =
     orders_update (update_rows (\<lambda>r. o_id r = k \<and> o_paid_payment_id r = None)
       (\<lambda>r. r\<lparr>o_paid_payment_id := Some payment_id, o_updated_at := now\<rparr>)) d"

definition find_order_idempotent :: "int \<Rightarrow> string \<Rightarrow> db \<Rightarrow> (sales_order \<times> terminal) option" where
  "find_order_idempotent terminal_id key d =
     Option.bind
       (find_row (\<lambda>r. o_terminal_id r = terminal_id \<and> o_idempotency_key r = key) (orders d))
       (join_terminal d)"

definition open_order_statuses :: "order_status list" where
  "open_order_statuses =
     [O_CREATED, O_AWAITING_PAYMENT, O_PAID, O_QUEUED, O_DISPATCHED, O_ACCEPTED, O_MAKING, O_HOLD]"

definition active_count :: "int \<Rightarrow> db \<Rightarrow> nat" where
  "active_count terminal_id d =
     length (filter (\<lambda>r. o_terminal_id r = terminal_id \<and> o_status r \<in> set open_order_statuses)
       (orders d))"

definition material_commitments :: "int \<Rightarrow> db \<Rightarrow> dict list" where
  "material_commitments terminal_id d =
     map o_product_snapshot
       (filter (\<lambda>r. o_terminal_id r = terminal_id \<and> o_status r \<in> set open_order_statuses)
         (orders d))"

definition required_inventory_version :: "int \<Rightarrow> db \<Rightarrow> int" where
  "required_inventory_version terminal_id d =
     (case find_row (\<lambda>w. wm_terminal_id w = terminal_id) (watermarks d) of
        None \<Rightarrow> 0 | Some w \<Rightarrow> wm_inventory_version w)"

definition expired_unpaid :: "timestamp \<Rightarrow> rat \<Rightarrow> db \<Rightarrow> sales_order list" where
  "expired_unpaid now ttl_seconds d =
     take 100 (sort_key o_created_at
       (filter (\<lambda>r. o_status r = O_CREATED \<and> o_payment_status r = OP_NOT_STARTED
           \<and> o_created_at r < now - ttl_seconds) (orders d)))"

section \<open>Creating orders and jobs\<close>

text \<open>The unique constraints of \<open>sales_order\<close>.\<close>

definition order_clash :: "sales_order \<Rightarrow> sales_order \<Rightarrow> bool" where
  "order_clash new r \<longleftrightarrow> o_id r = o_id new \<or> o_order_no r = o_order_no new
     \<or> o_access_token_hash r = o_access_token_hash new
     \<or> (o_terminal_id r = o_terminal_id new \<and> o_idempotency_key r = o_idempotency_key new)"

text \<open>
  A new row takes its descriptive columns from the product. \<open>tenant_id\<close> and
  \<open>payment_account_id\<close> are set by a trigger of the merchant schema from the terminal's owner:
  they are arguments here.
\<close>

definition new_order ::
  "timestamp \<Rightarrow> uuid \<Rightarrow> string \<Rightarrow> int \<Rightarrow> string \<Rightarrow> string \<Rightarrow> string \<Rightarrow> order_status \<Rightarrow> string
    \<Rightarrow> order_payment \<Rightarrow> string \<Rightarrow> int \<Rightarrow> string \<Rightarrow> string \<Rightarrow> string option \<Rightarrow> string \<Rightarrow> dict
    \<Rightarrow> uuid option \<Rightarrow> uuid option \<Rightarrow> sales_order" where
  "new_order now k no terminal_id token_hash key digest st mode pstatus currency amount
     recipe version sku name product tenant account =
     \<lparr>o_id = k, o_order_no = no, o_terminal_id = terminal_id, o_access_token_hash = token_hash,
      o_idempotency_key = key, o_request_digest = digest, o_status = st,
      o_payment_mode = mode, o_payment_status = pstatus, o_currency = currency,
      o_total_amount_minor = amount, o_recipe_id = recipe, o_recipe_version = version,
      o_sku_code = sku, o_product_name = name, o_product_snapshot = product,
      o_failure_code = None, o_failure_message = None, o_created_at = now, o_updated_at = now,
      o_started_at = None, o_completed_at = None, o_cancelled_at = None,
      o_paid_payment_id = None, o_pickup_required = False, o_collected_at = None,
      o_tenant_id = tenant, o_payment_account_id = account\<rparr>"

definition insert_order :: "sales_order \<Rightarrow> db \<Rightarrow> err + db" where
  "insert_order new d =
     bind_ok (insert_row Unique_violation (order_clash new) new (orders d))
       (\<lambda>rs. Inr (d\<lparr>orders := rs\<rparr>))"

definition log_clash :: "order_transition \<Rightarrow> order_transition \<Rightarrow> bool" where
  "log_clash new r \<longleftrightarrow> ot_order_id r = ot_order_id new \<and> ot_revision r = ot_revision new"

definition append_order_log :: "order_transition \<Rightarrow> db \<Rightarrow> err + db" where
  "append_order_log new d =
     bind_ok (insert_row Unique_violation (log_clash new) new (order_log d))
       (\<lambda>rs. Inr (d\<lparr>order_log := rs\<rparr>))"

definition insert_initial_transition ::
  "timestamp \<Rightarrow> uuid \<Rightarrow> order_status \<Rightarrow> string \<Rightarrow> json \<Rightarrow> db \<Rightarrow> err + db" where
  "insert_initial_transition now k st why payload =
     append_order_log \<lparr>ot_order_id = k, ot_revision = 0, ot_from_status = None,
       ot_to_status = st, ot_actor = ''public-api'', ot_reason = Some why,
       ot_payload_json = Some payload, ot_created_at = now\<rparr>"

definition job_clash :: "production_job \<Rightarrow> production_job \<Rightarrow> bool" where
  "job_clash new r \<longleftrightarrow> j_id r = j_id new \<or> j_task_id r = j_task_id new
     \<or> j_order_id r = j_order_id new"

definition new_job ::
  "timestamp \<Rightarrow> uuid \<Rightarrow> string \<Rightarrow> uuid \<Rightarrow> int \<Rightarrow> rat option \<Rightarrow> production_job" where
  "new_job now k task_id order_id terminal_id planned =
     \<lparr>j_id = k, j_task_id = task_id, j_order_id = order_id, j_terminal_id = terminal_id,
      j_command_id = None, j_status = J_QUEUED, j_revision = 0, j_progress = 0,
      j_step_progress = 0, j_current_step_id = None, j_current_step_name = None,
      j_planned_duration_seconds = planned, j_elapsed_seconds = 0, j_remaining_seconds = None,
      j_step_durations = JArr [], j_failure_json = None, j_last_device_revision = 0,
      j_execution_attempt = 1, j_hold_reason = None, j_manual_review_required = False,
      j_created_at = now, j_updated_at = now, j_accepted_at = None, j_started_at = None,
      j_completed_at = None\<rparr>"

definition insert_test_free_job ::
  "timestamp \<Rightarrow> uuid \<Rightarrow> string \<Rightarrow> uuid \<Rightarrow> int \<Rightarrow> rat option \<Rightarrow> db \<Rightarrow> err + db" where
  "insert_test_free_job now k task_id order_id terminal_id planned d =
     (let new = new_job now k task_id order_id terminal_id planned
      in bind_ok (insert_row Unique_violation (job_clash new) new (jobs d))
           (\<lambda>rs. Inr (d\<lparr>jobs := rs\<rparr>)))"

definition insert_production_job ::
  "timestamp \<Rightarrow> uuid \<Rightarrow> string \<Rightarrow> uuid \<Rightarrow> int \<Rightarrow> rat option \<Rightarrow> db \<Rightarrow> err + db" where
  "insert_production_job now k task_id order_id terminal_id planned d =
     insert_test_free_job now k task_id order_id terminal_id planned d"

section \<open>Reading jobs\<close>

definition job_of_order :: "uuid \<Rightarrow> db \<Rightarrow> production_job option" where
  "job_of_order order_id d = find_row (\<lambda>j. j_order_id j = order_id) (jobs d)"

definition job_for_command :: "int \<Rightarrow> db \<Rightarrow> production_job option" where
  "job_for_command command_id d = find_row (\<lambda>j. j_command_id j = Some command_id) (jobs d)"

definition job_for_task :: "int \<Rightarrow> string \<Rightarrow> db \<Rightarrow> (production_job \<times> sales_order) option" where
  "job_for_task terminal_id task_id d =
     Option.bind (find_row (\<lambda>j. j_terminal_id j = terminal_id \<and> j_task_id j = task_id) (jobs d))
       (\<lambda>j. map_option (\<lambda>r. (j, r)) (find_order (j_order_id j) d))"

section \<open>Writing jobs\<close>

definition update_job :: "uuid \<Rightarrow> (production_job \<Rightarrow> production_job) \<Rightarrow> db \<Rightarrow> db" where
  "update_job k f d = jobs_update (update_rows (\<lambda>j. j_id j = k) f) d"

definition update_job_expired :: "timestamp \<Rightarrow> uuid \<Rightarrow> json \<Rightarrow> db \<Rightarrow> db" where
  "update_job_expired now k failure =
     update_job k (\<lambda>j. j\<lparr>j_status := J_EXPIRED, j_revision := j_revision j + 1,
       j_failure_json := Some failure, j_completed_at := Some now, j_updated_at := now\<rparr>)"

definition update_job_hold :: "timestamp \<Rightarrow> uuid \<Rightarrow> string \<Rightarrow> json option \<Rightarrow> db \<Rightarrow> db" where
  "update_job_hold now k why failure =
     update_job k (\<lambda>j. j\<lparr>j_status := J_HOLD, j_hold_reason := Some why,
       j_manual_review_required := True,
       j_failure_json := coalesce (Option.bind failure jsonb_if) (j_failure_json j),
       j_revision := j_revision j + 1, j_updated_at := now\<rparr>)"

definition update_job_acknowledged :: "timestamp \<Rightarrow> uuid \<Rightarrow> bool \<Rightarrow> json \<Rightarrow> db \<Rightarrow> db" where
  "update_job_acknowledged now k accepted payload =
     (if accepted then
        update_job k (\<lambda>j. j\<lparr>j_status := J_ACCEPTED, j_revision := j_revision j + 1,
          j_accepted_at := coalesce (j_accepted_at j) (Some now), j_updated_at := now\<rparr>)
      else
        update_job k (\<lambda>j. j\<lparr>j_status := J_REJECTED, j_revision := j_revision j + 1,
          j_failure_json := Some payload, j_completed_at := Some now, j_updated_at := now\<rparr>))"

definition update_job_progress ::
  "timestamp \<Rightarrow> uuid \<Rightarrow> rat \<Rightarrow> rat \<Rightarrow> string option \<Rightarrow> string option \<Rightarrow> rat option \<Rightarrow> rat option
    \<Rightarrow> int option \<Rightarrow> int option \<Rightarrow> db \<Rightarrow> db" where
  "update_job_progress now k progress step_progress step_id step_name elapsed remaining
     device_revision attempt =
     update_job k (\<lambda>j. j\<lparr>j_progress := progress, j_step_progress := step_progress,
       j_current_step_id := coalesce step_id (j_current_step_id j),
       j_current_step_name := coalesce step_name (j_current_step_name j),
       j_elapsed_seconds := coalesce_to elapsed (j_elapsed_seconds j),
       j_remaining_seconds := coalesce remaining (j_remaining_seconds j),
       j_last_device_revision :=
         max (j_last_device_revision j) (coalesce_to device_revision (j_last_device_revision j)),
       j_execution_attempt :=
         max (j_execution_attempt j) (coalesce_to attempt (j_execution_attempt j)),
       j_revision := j_revision j + 1, j_updated_at := now\<rparr>)"

text \<open>An empty \<open>failure\<close> dictionary is no failure to Python's truth test.\<close>

definition update_job_terminal ::
  "timestamp \<Rightarrow> uuid \<Rightarrow> job_status \<Rightarrow> rat \<Rightarrow> rat \<Rightarrow> rat option \<Rightarrow> json option \<Rightarrow> dict \<Rightarrow> rat option
    \<Rightarrow> rat option \<Rightarrow> int option \<Rightarrow> timestamp option \<Rightarrow> timestamp option \<Rightarrow> timestamp option
    \<Rightarrow> int option \<Rightarrow> db \<Rightarrow> db" where
  "update_job_terminal now k st progress step_progress planned steps failure elapsed remaining
     device_revision accepted_at started_at completed_at attempt =
     update_job k (\<lambda>j. j\<lparr>j_status := st, j_progress := progress, j_step_progress := step_progress,
       j_planned_duration_seconds := coalesce planned (j_planned_duration_seconds j),
       j_step_durations := coalesce_to steps (j_step_durations j),
       j_failure_json :=
         (if st \<in> set [J_EXECUTING, J_SUCCEEDED] then None
          else coalesce (jsonb_if (JObj failure)) (j_failure_json j)),
       j_elapsed_seconds := coalesce_to elapsed (j_elapsed_seconds j),
       j_remaining_seconds := coalesce remaining (j_remaining_seconds j),
       j_last_device_revision :=
         max (j_last_device_revision j) (coalesce_to device_revision (j_last_device_revision j)),
       j_execution_attempt :=
         max (j_execution_attempt j) (coalesce_to attempt (j_execution_attempt j)),
       j_revision := j_revision j + 1, j_accepted_at := accepted_at, j_started_at := started_at,
       j_completed_at := completed_at, j_updated_at := now\<rparr>)"

definition clear_job_hold :: "uuid \<Rightarrow> db \<Rightarrow> db" where
  "clear_job_hold k =
     update_job k (\<lambda>j. j\<lparr>j_hold_reason := None, j_manual_review_required := False\<rparr>)"

definition lock_job :: "uuid \<Rightarrow> db \<Rightarrow> production_job option" where
  "lock_job k d = find_row (\<lambda>j. j_id j = k) (jobs d)"

definition active_job_exists :: "int \<Rightarrow> db \<Rightarrow> bool" where
  "active_job_exists terminal_id d \<longleftrightarrow>
     list_ex (\<lambda>j. j_terminal_id j = terminal_id \<and> j_status j \<in> set
       [J_DISPATCHED, J_ACCEPTED, J_EXECUTING, J_PAUSED, J_RETRY_WAIT, J_HOLD, J_UNKNOWN]) (jobs d)"

text \<open>\<open>order by created_at, id\<close>: sorting is stable, so the second key is sorted first.\<close>

definition by_age :: "production_job list \<Rightarrow> production_job list" where
  "by_age js = sort_key j_created_at (sort_key j_id js)"

definition order_queued :: "db \<Rightarrow> production_job \<Rightarrow> bool" where
  "order_queued d j \<longleftrightarrow>
     (case find_order (j_order_id j) d of None \<Rightarrow> False | Some r \<Rightarrow> o_status r = O_QUEUED)"

definition next_queued_job :: "int \<Rightarrow> db \<Rightarrow> production_job option" where
  "next_queued_job terminal_id d =
     (case by_age (filter (\<lambda>j. j_terminal_id j = terminal_id \<and> j_status j = J_QUEUED
         \<and> order_queued d j) (jobs d)) of
        [] \<Rightarrow> None | j # _ \<Rightarrow> Some j)"

definition link_command :: "timestamp \<Rightarrow> uuid \<Rightarrow> int \<Rightarrow> db \<Rightarrow> db" where
  "link_command now k command_id =
     update_job k (\<lambda>j. j\<lparr>j_command_id := Some command_id, j_status := J_DISPATCHED,
       j_revision := j_revision j + 1, j_updated_at := now\<rparr>)"

section \<open>Stored events, history and queue\<close>

definition stored_command_events :: "db \<Rightarrow> terminal_event list" where
  "stored_command_events d = sort_key ev_received_at
     (filter (\<lambda>e. ev_event_type e \<in> set
        [''task.started'', ''task.succeeded'', ''task.failed'', ''task.cancelled'']) (events d))"

definition stored_order_events :: "db \<Rightarrow> terminal_event list" where
  "stored_order_events d = sort_key ev_received_at
     (filter (\<lambda>e. starts_with ''task.'' (ev_event_type e)
        \<or> starts_with ''step.'' (ev_event_type e)) (events d))"

definition order_history :: "uuid \<Rightarrow> db \<Rightarrow> order_transition list" where
  "order_history order_id d =
     sort_key ot_revision (filter (\<lambda>r. ot_order_id r = order_id) (order_log d))"

definition queue_position :: "sales_order \<Rightarrow> db \<Rightarrow> nat" where
  "queue_position r d =
     (if o_status r \<noteq> O_QUEUED then 0
      else length (filter (\<lambda>q. o_terminal_id q = o_terminal_id r \<and> o_status q = O_QUEUED
         \<and> o_created_at q \<le> o_created_at r) (orders d)))"

text \<open>The jobs in front of an order's job: the active ones and the queued ones older than it.\<close>

definition older_than :: "production_job \<Rightarrow> production_job option \<Rightarrow> bool" where
  "older_than j own \<longleftrightarrow>
     (case own of None \<Rightarrow> False
      | Some k \<Rightarrow> j_created_at j < j_created_at k
          \<or> (j_created_at j = j_created_at k \<and> j_id j < j_id k))"

definition queue_context :: "sales_order \<Rightarrow> db \<Rightarrow> production_job list" where
  "queue_context r d =
     by_age (filter (\<lambda>j. j_terminal_id j = o_terminal_id r \<and> j_order_id j \<noteq> o_id r
         \<and> find_order (j_order_id j) d \<noteq> None
         \<and> (j_status j \<in> set [J_DISPATCHED, J_ACCEPTED, J_EXECUTING, J_PAUSED, J_RETRY_WAIT,
                J_HOLD, J_UNKNOWN]
            \<or> (j_status j = J_QUEUED \<and> order_queued d j
               \<and> older_than j (job_of_order (o_id r) d)))) (jobs d))"

definition cancel_job :: "timestamp \<Rightarrow> uuid \<Rightarrow> db \<Rightarrow> db" where
  "cancel_job now order_id d =
     jobs_update (update_rows (\<lambda>j. j_order_id j = order_id)
       (\<lambda>j. j\<lparr>j_status := J_CANCELLED, j_revision := j_revision j + 1, j_updated_at := now,
          j_completed_at := Some now\<rparr>)) d"

section \<open>Writing orders\<close>

definition update_order :: "uuid \<Rightarrow> (sales_order \<Rightarrow> sales_order) \<Rightarrow> db \<Rightarrow> db" where
  "update_order k f d = orders_update (update_rows (\<lambda>r. o_id r = k) f) d"

definition update_payment_status :: "timestamp \<Rightarrow> uuid \<Rightarrow> order_payment \<Rightarrow> db \<Rightarrow> db" where
  "update_payment_status now k st =
     update_order k (\<lambda>r. r\<lparr>o_payment_status := st, o_updated_at := now\<rparr>)"

definition update_payment_outcome :: "timestamp \<Rightarrow> uuid \<Rightarrow> order_payment \<Rightarrow> db \<Rightarrow> db" where
  "update_payment_outcome now k st =
     update_order k (\<lambda>r. r\<lparr>o_payment_status := st,
       o_status := (if o_status r \<in> set [O_CREATED, O_AWAITING_PAYMENT] then O_CANCELLED
         else o_status r), o_updated_at := now\<rparr>)"

definition update_failure ::
  "timestamp \<Rightarrow> uuid \<Rightarrow> string option \<Rightarrow> string option \<Rightarrow> db \<Rightarrow> db" where
  "update_failure now k code message =
     update_order k (\<lambda>r. r\<lparr>o_failure_code := code, o_failure_message := message,
       o_updated_at := now\<rparr>)"

text \<open>\<open>order by created_at desc\<close>: the newest first.\<close>

definition list_admin ::
  "string option \<Rightarrow> order_status option \<Rightarrow> nat \<Rightarrow> db
    \<Rightarrow> (sales_order \<times> terminal \<times> production_job option) list" where
  "list_admin device_id st limit d =
     take limit (sort_key (\<lambda>(r, _, _). - o_created_at r)
       (map (\<lambda>(r, t). (r, t, job_of_order (o_id r) d))
         (filter (\<lambda>(r, t). (device_id = None \<or> device_id = Some [] \<or> device_id = Some (t_device_id t))
             \<and> (st = None \<or> st = Some (o_status r)))
           (List.map_filter (join_terminal d) (orders d)))))"

definition next_transition_revision :: "uuid \<Rightarrow> db \<Rightarrow> int" where
  "next_transition_revision order_id d =
     foldr max (map ot_revision (filter (\<lambda>r. ot_order_id r = order_id) (order_log d))) (-1) + 1"

definition update_transition_state ::
  "uuid \<Rightarrow> order_status \<Rightarrow> timestamp \<Rightarrow> timestamp option \<Rightarrow> timestamp option
    \<Rightarrow> timestamp option \<Rightarrow> db \<Rightarrow> db" where
  "update_transition_state k tgt now_at started_at completed_at cancelled_at =
     update_order k (\<lambda>r. r\<lparr>o_status := tgt, o_updated_at := now_at, o_started_at := started_at,
       o_completed_at := completed_at, o_cancelled_at := cancelled_at\<rparr>)"

definition insert_transition ::
  "timestamp \<Rightarrow> uuid \<Rightarrow> int \<Rightarrow> order_status \<Rightarrow> order_status \<Rightarrow> string \<Rightarrow> string option
    \<Rightarrow> json \<Rightarrow> db \<Rightarrow> err + db" where
  "insert_transition now k n from_status tgt actor why payload =
     append_order_log \<lparr>ot_order_id = k, ot_revision = n, ot_from_status = Some from_status,
       ot_to_status = tgt, ot_actor = actor, ot_reason = why,
       ot_payload_json = jsonb_if payload, ot_created_at = now\<rparr>"

section \<open>The complete public projection\<close>

definition display_order :: "payment list \<Rightarrow> payment list" where
  "display_order ps = sort_key (\<lambda>p. - p_created_at p) ps"

text \<open>The payment shown to the customer: the primary one, else the newest.\<close>

definition shown_payment :: "sales_order \<Rightarrow> db \<Rightarrow> payment option" where
  "shown_payment r d =
     (let mine = display_order (filter (\<lambda>p. p_order_id p = o_id r) (payments d)) in
      case filter (\<lambda>p. o_paid_payment_id r = Some (p_id p)) mine
           @ filter (\<lambda>p. o_paid_payment_id r \<noteq> Some (p_id p)) mine of
        [] \<Rightarrow> None | p # _ \<Rightarrow> Some p)"

record public_row =
  pv_order :: sales_order
  pv_terminal :: terminal
  pv_job :: "production_job option"
  pv_payment :: "payment option"
  pv_transitions :: "order_transition list"
  pv_queue_position :: nat

definition public_view :: "uuid \<Rightarrow> db \<Rightarrow> public_row option" where
  "public_view k d =
     map_option (\<lambda>(r, t). \<lparr>pv_order = r, pv_terminal = t, pv_job = job_of_order k d,
       pv_payment = shown_payment r d, pv_transitions = order_history k d,
       pv_queue_position = queue_position r d\<rparr>) (find_with_terminal k d)"

section \<open>The order and job tables\<close>

interpretation order_table: db_table orders "\<lambda>rs d. d\<lparr>orders := rs\<rparr>" o_id
  by unfold_locales simp_all

interpretation job_table: db_table jobs "\<lambda>rs d. d\<lparr>jobs := rs\<rparr>" j_id
  by unfold_locales simp_all

lemma find_order_get: "find_order k d = order_table.get k d"
  by (simp add: find_order_def order_table.get_def)

lemma lock_job_get: "lock_job k d = job_table.get k d"
  by (simp add: lock_job_def job_table.get_def)

lemma update_order_modify: "update_order k f d = order_table.modify k f d"
  by (simp add: update_order_def order_table.modify_def)

lemma update_job_modify: "update_job k f d = job_table.modify k f d"
  by (simp add: update_job_def job_table.modify_def)

lemma find_order_update_order:
  "(\<And>r. o_id (f r) = o_id r) \<Longrightarrow>
    find_order k' (update_order k f d) = (if k' = k then map_option f (find_order k d) else find_order k' d)"
  by (simp add: find_order_get update_order_modify order_table.get_modify)

lemma lock_job_update_job:
  "(\<And>j. j_id (f j) = j_id j) \<Longrightarrow>
    lock_job k' (update_job k f d) = (if k' = k then map_option f (lock_job k d) else lock_job k' d)"
  by (simp add: lock_job_get update_job_modify job_table.get_modify)

lemma find_order_SomeD: "find_order k d = Some r \<Longrightarrow> r \<in> set (orders d) \<and> o_id r = k"
  by (auto simp: find_order_def dest: find_row_SomeD)

lemma lock_job_SomeD: "lock_job k d = Some j \<Longrightarrow> j \<in> set (jobs d) \<and> j_id j = k"
  by (auto simp: lock_job_def dest: find_row_SomeD)

lemma find_with_terminal_SomeD:
  "find_with_terminal k d = Some (r, t) \<Longrightarrow>
    find_order k d = Some r \<and> t \<in> set (terminals d) \<and> t_id t = o_terminal_id r"
  by (auto simp: find_with_terminal_def join_terminal_def terminal_by_id_def
      dest: find_row_SomeD split: bind_splits)

end
