(* ===== verification/CommandRepo.thy ===== *)
theory CommandRepo
  imports Store
begin

text \<open>
  \<open>app/repositories/commands.py\<close>: device commands, their transition log and the transactional
  outbox they are published from. \<open>claim\<close> hands out outbox rows under a publish lease; only
  commands in \<open>DELIVERABLE_COMMAND_STATES\<close> whose deadline has not passed may be published.
\<close>

definition DELIVERABLE_COMMAND_STATES :: "command_status list" where
  "DELIVERABLE_COMMAND_STATES = [C_CREATED, C_DELIVERING]"

section \<open>Reading\<close>

definition find_command :: "int \<Rightarrow> db \<Rightarrow> terminal_command option" where
  "find_command k d = find_row (\<lambda>c. c_id c = k) (commands d)"

text \<open>\<open>by_db_id\<close> and the two reads of an outbox row differ only in their row locks.\<close>

definition command_by_db_id :: "int \<Rightarrow> db \<Rightarrow> terminal_command option" where
  "command_by_db_id k d = find_command k d"

definition find_outbox :: "uuid \<Rightarrow> db \<Rightarrow> command_outbox option" where
  "find_outbox k d = find_row (\<lambda>b. ob_id b = k) (outbox d)"

definition outbox_for_command :: "int \<Rightarrow> db \<Rightarrow> command_outbox option" where
  "outbox_for_command command_id d = find_row (\<lambda>b. ob_command_id b = command_id) (outbox d)"

text \<open>\<open>order by id desc limit 1\<close>: the newest command of the task.\<close>

definition command_by_task :: "int \<Rightarrow> string \<Rightarrow> db \<Rightarrow> terminal_command option" where
  "command_by_task terminal_id task_id d =
     (case sort_key (\<lambda>c. - c_id c) (filter (\<lambda>c. c_terminal_id c = terminal_id
         \<and> dget (c_payload_json c) ''taskId'' = JStr task_id
         \<and> c_command_type c = ''MAKE_DRINK'') (commands d)) of
        [] \<Rightarrow> None | c # _ \<Rightarrow> Some c)"

definition command_by_idempotency :: "int \<Rightarrow> string \<Rightarrow> db \<Rightarrow> terminal_command option" where
  "command_by_idempotency terminal_id key d =
     find_row (\<lambda>c. c_terminal_id c = terminal_id \<and> c_idempotency_key c = Some key) (commands d)"

definition command_by_message :: "int \<Rightarrow> string \<Rightarrow> db \<Rightarrow> terminal_command option" where
  "command_by_message terminal_id message_id d =
     find_row (\<lambda>c. c_terminal_id c = terminal_id \<and> c_message_id c = message_id) (commands d)"

definition command_history :: "int \<Rightarrow> db \<Rightarrow> command_transition list" where
  "command_history command_id d =
     sort_key ct_revision (filter (\<lambda>r. ct_command_id r = command_id) (command_log d))"

section \<open>Claiming outbox rows\<close>

definition outbox_ready :: "timestamp \<Rightarrow> command_outbox \<Rightarrow> bool" where
  "outbox_ready now b \<longleftrightarrow>
     (ob_status b \<in> set [OB_PENDING, OB_RETRY] \<and> ob_next_attempt_at b \<le> now)
     \<or> (ob_status b = OB_PUBLISHING \<and> some_and (ob_locked_until b) (\<lambda>u. u < now))"

definition command_deliverable :: "timestamp \<Rightarrow> terminal_command \<Rightarrow> bool" where
  "command_deliverable now c \<longleftrightarrow>
     c_status c \<in> set DELIVERABLE_COMMAND_STATES
     \<and> (case c_expires_at c of None \<Rightarrow> True | Some e \<Rightarrow> now < e)"

definition claim_candidates :: "timestamp \<Rightarrow> nat \<Rightarrow> db \<Rightarrow> command_outbox list" where
  "claim_candidates now limit d =
     take limit (sort_key ob_created_at (sort_key ob_id
       (filter (\<lambda>b. outbox_ready now b
           \<and> (case find_command (ob_command_id b) d of
                None \<Rightarrow> False | Some c \<Rightarrow> command_deliverable now c)) (outbox d))))"

definition update_outbox :: "uuid \<Rightarrow> (command_outbox \<Rightarrow> command_outbox) \<Rightarrow> db \<Rightarrow> db" where
  "update_outbox k f d = outbox_update (update_rows (\<lambda>b. ob_id b = k) f) d"

definition lease_outbox ::
  "timestamp \<Rightarrow> string \<Rightarrow> rat \<Rightarrow> command_outbox \<Rightarrow> command_outbox" where
  "lease_outbox now gateway_id lease_seconds b =
     b\<lparr>ob_status := OB_PUBLISHING, ob_attempt_count := ob_attempt_count b + 1,
       ob_locked_by := Some gateway_id, ob_locked_until := Some (now + lease_seconds)\<rparr>"

text \<open>Each candidate is locked and checked again before it is leased.\<close>

fun claim_loop ::
  "timestamp \<Rightarrow> string \<Rightarrow> rat \<Rightarrow> command_outbox list \<Rightarrow> db \<Rightarrow> command_outbox list \<times> db" where
  "claim_loop now gateway_id lease_seconds [] d = ([], d)"
| "claim_loop now gateway_id lease_seconds (cand # cands) d =
     (case find_row (\<lambda>c. c_id c = ob_command_id cand \<and> command_deliverable now c) (commands d) of
        None \<Rightarrow> claim_loop now gateway_id lease_seconds cands d
      | Some _ \<Rightarrow>
          (case find_row (\<lambda>b. ob_id b = ob_id cand \<and> outbox_ready now b) (outbox d) of
             None \<Rightarrow> claim_loop now gateway_id lease_seconds cands d
           | Some b \<Rightarrow>
               let d1 = update_outbox (ob_id cand) (lease_outbox now gateway_id lease_seconds) d;
                   (rest, d2) = claim_loop now gateway_id lease_seconds cands d1
               in (lease_outbox now gateway_id lease_seconds b # rest, d2)))"

definition claim_outbox ::
  "timestamp \<Rightarrow> string \<Rightarrow> nat \<Rightarrow> rat \<Rightarrow> db \<Rightarrow> command_outbox list \<times> db" where
  "claim_outbox now gateway_id limit lease_seconds d =
     claim_loop now gateway_id lease_seconds (claim_candidates now limit d) d"

section \<open>Writing the outbox\<close>

definition terminalize_outbox :: "timestamp \<Rightarrow> uuid \<Rightarrow> outbox_status \<Rightarrow> db \<Rightarrow> db" where
  "terminalize_outbox now k st =
     update_outbox k (\<lambda>b. b\<lparr>ob_status := st, ob_locked_by := None, ob_locked_until := None,
       ob_next_attempt_at := now + 3600\<rparr>)"

definition mark_published :: "timestamp \<Rightarrow> uuid \<Rightarrow> db \<Rightarrow> db" where
  "mark_published now k =
     update_outbox k (\<lambda>b. b\<lparr>ob_status := OB_PUBLISHED, ob_published_at := Some now,
       ob_locked_by := None, ob_locked_until := None, ob_last_error := None\<rparr>)"

text \<open>The exponential delay \<open>least(cap, power(2, least(n, m)))\<close> of the retry statements.\<close>

definition backoff :: "nat \<Rightarrow> int \<Rightarrow> int \<Rightarrow> rat" where
  "backoff cap m n = min (of_nat cap) (2 powi (min n m))"

definition mark_retry :: "timestamp \<Rightarrow> uuid \<Rightarrow> string \<Rightarrow> db \<Rightarrow> db" where
  "mark_retry now k error =
     update_outbox k (\<lambda>b. b\<lparr>ob_status := OB_RETRY,
       ob_next_attempt_at := now + backoff 60 6 (ob_attempt_count b),
       ob_last_error := Some error, ob_locked_by := None, ob_locked_until := None\<rparr>)"

section \<open>Writing commands\<close>

definition update_command :: "int \<Rightarrow> (terminal_command \<Rightarrow> terminal_command) \<Rightarrow> db \<Rightarrow> db" where
  "update_command k f d = commands_update (update_rows (\<lambda>c. c_id c = k) f) d"

definition command_log_clash :: "command_transition \<Rightarrow> command_transition \<Rightarrow> bool" where
  "command_log_clash new r \<longleftrightarrow>
     ct_command_id r = ct_command_id new \<and> ct_revision r = ct_revision new"

definition append_command_log :: "command_transition \<Rightarrow> db \<Rightarrow> err + db" where
  "append_command_log new d =
     bind_ok (insert_row Unique_violation (command_log_clash new) new (command_log d))
       (\<lambda>rs. Inr (d\<lparr>command_log := rs\<rparr>))"

text \<open>The columns a transition writes, computed from the row the caller read.\<close>

definition transitioned ::
  "timestamp \<Rightarrow> terminal_command \<Rightarrow> command_status \<Rightarrow> json option
    \<Rightarrow> terminal_command \<Rightarrow> terminal_command" where
  "transitioned now c tgt payload r =
     r\<lparr>c_status := tgt, c_revision := c_revision c + 1, c_last_transition_at := now,
       c_delivered_at :=
         (if tgt \<in> set [C_DELIVERING, C_PUBLISHED] \<and> c_delivered_at c = None then Some now
          else c_delivered_at c),
       c_acked_at :=
         (if tgt = C_ACKED \<and> c_acked_at c = None then Some now else c_acked_at c),
       c_executing_at :=
         (if tgt = C_EXECUTING \<and> c_executing_at c = None then Some now else c_executing_at c),
       c_completed_at :=
         (if tgt \<in> set [C_SUCCEEDED, C_REJECTED, C_FAILED, C_EXPIRED, C_CANCELLED] then Some now
          else c_completed_at c),
       c_result_json := (case payload of None \<Rightarrow> c_result_json r | Some v \<Rightarrow> Some v)\<rparr>"

definition repo_transition_command ::
  "timestamp \<Rightarrow> terminal_command \<Rightarrow> command_status \<Rightarrow> string \<Rightarrow> string option \<Rightarrow> json option
    \<Rightarrow> db \<Rightarrow> err + terminal_command \<times> db" where
  "repo_transition_command now c tgt actor why payload d =
     bind_ok (append_command_log
        \<lparr>ct_command_id = c_id c, ct_revision = c_revision c + 1, ct_from_status = Some (c_status c),
         ct_to_status = tgt, ct_actor = actor, ct_reason = why, ct_payload_json = payload,
         ct_created_at = now\<rparr>
        (update_command (c_id c) (transitioned now c tgt payload) d))
       (\<lambda>d1. case find_command (c_id c) d1 of
          None \<Rightarrow> Inl Data_error
        | Some u \<Rightarrow> Inr (u, d1))"

definition set_published_at :: "timestamp \<Rightarrow> int \<Rightarrow> db \<Rightarrow> db" where
  "set_published_at now k =
     update_command k (\<lambda>c. c\<lparr>c_published_at := coalesce (c_published_at c) (Some now)\<rparr>)"

text \<open>\<open>terminal_command\<close> is unique in (terminal, message) and in (terminal, idempotency key).\<close>

definition command_clash :: "terminal_command \<Rightarrow> terminal_command \<Rightarrow> bool" where
  "command_clash new r \<longleftrightarrow> c_id r = c_id new
     \<or> (c_terminal_id r = c_terminal_id new
        \<and> (c_message_id r = c_message_id new
           \<or> (c_idempotency_key new \<noteq> None \<and> c_idempotency_key r = c_idempotency_key new)))"

definition new_command ::
  "timestamp \<Rightarrow> int \<Rightarrow> int \<Rightarrow> string \<Rightarrow> string \<Rightarrow> dict \<Rightarrow> string \<Rightarrow> timestamp option
    \<Rightarrow> string option \<Rightarrow> terminal_command" where
  "new_command now k terminal_id message_id command_type payload digest expires_at key =
     \<lparr>c_id = k, c_terminal_id = terminal_id, c_message_id = message_id,
      c_command_type = command_type, c_payload_json = payload, c_idempotency_key = key,
      c_payload_digest = Some digest, c_status = C_CREATED, c_revision = 0,
      c_result_json = None, c_created_at = now, c_expires_at = expires_at,
      c_last_transition_at = now, c_published_at = None, c_delivered_at = None,
      c_acked_at = None, c_executing_at = None, c_completed_at = None\<rparr>"

definition insert_command ::
  "timestamp \<Rightarrow> int \<Rightarrow> string \<Rightarrow> string \<Rightarrow> dict \<Rightarrow> string \<Rightarrow> timestamp option \<Rightarrow> string option
    \<Rightarrow> db \<Rightarrow> err + terminal_command \<times> db" where
  "insert_command now terminal_id message_id command_type payload digest expires_at key d =
     (let k = command_seq d + 1;
          new = new_command now k terminal_id message_id command_type payload digest expires_at key
      in bind_ok (insert_row Unique_violation (command_clash new) new (commands d))
           (\<lambda>rs. Inr (new, d\<lparr>commands := rs, command_seq := k\<rparr>)))"

definition insert_initial_command_transition ::
  "timestamp \<Rightarrow> int \<Rightarrow> string \<Rightarrow> string \<Rightarrow> json \<Rightarrow> db \<Rightarrow> err + db" where
  "insert_initial_command_transition now command_id actor why payload =
     append_command_log
       \<lparr>ct_command_id = command_id, ct_revision = 0, ct_from_status = None,
        ct_to_status = C_CREATED, ct_actor = actor, ct_reason = Some why,
        ct_payload_json = Some payload, ct_created_at = now\<rparr>"

text \<open>\<open>on conflict(command_id) do nothing\<close>; \<open>k\<close> is the fresh UUID.\<close>

definition insert_outbox ::
  "timestamp \<Rightarrow> uuid \<Rightarrow> int \<Rightarrow> int \<Rightarrow> string \<Rightarrow> json \<Rightarrow> db \<Rightarrow> err + db" where
  "insert_outbox now k command_id terminal_id topic envelope d =
     (if outbox_for_command command_id d \<noteq> None then Inr d
      else bind_ok (insert_row Unique_violation (\<lambda>b. ob_id b = k)
          \<lparr>ob_id = k, ob_command_id = command_id, ob_terminal_id = terminal_id, ob_topic = topic,
           ob_envelope_json = envelope, ob_status = OB_PENDING, ob_attempt_count = 0,
           ob_next_attempt_at = now, ob_locked_by = None, ob_locked_until = None,
           ob_published_at = None, ob_last_error = None, ob_created_at = now\<rparr> (outbox d))
        (\<lambda>rs. Inr (d\<lparr>outbox := rs\<rparr>)))"

section \<open>The command and outbox tables\<close>

interpretation command_table: db_table commands "\<lambda>rs d. d\<lparr>commands := rs\<rparr>" c_id
  by unfold_locales simp_all

interpretation outbox_table: db_table outbox "\<lambda>rs d. d\<lparr>outbox := rs\<rparr>" ob_id
  by unfold_locales simp_all

lemma find_command_get: "find_command k d = command_table.get k d"
  by (simp add: find_command_def command_table.get_def)

lemma update_command_modify: "update_command k f d = command_table.modify k f d"
  by (simp add: update_command_def command_table.modify_def)

lemma find_outbox_get: "find_outbox k d = outbox_table.get k d"
  by (simp add: find_outbox_def outbox_table.get_def)

lemma update_outbox_modify: "update_outbox k f d = outbox_table.modify k f d"
  by (simp add: update_outbox_def outbox_table.modify_def)

lemma find_command_update_command:
  "(\<And>c. c_id (f c) = c_id c) \<Longrightarrow> find_command k' (update_command k f d)
    = (if k' = k then map_option f (find_command k d) else find_command k' d)"
  by (simp add: find_command_get update_command_modify command_table.get_modify)

lemma find_outbox_update_outbox:
  "(\<And>b. ob_id (f b) = ob_id b) \<Longrightarrow> find_outbox k' (update_outbox k f d)
    = (if k' = k then map_option f (find_outbox k d) else find_outbox k' d)"
  by (simp add: find_outbox_get update_outbox_modify outbox_table.get_modify)

lemma find_command_SomeD: "find_command k d = Some c \<Longrightarrow> c \<in> set (commands d) \<and> c_id c = k"
  by (auto simp: find_command_def dest: find_row_SomeD)

end
