(* ===== verification/DispatchRepo.thy ===== *)
theory DispatchRepo
  imports OrderRepo CommandRepo
begin

text \<open>
  The smaller repositories of the production side: the coalescing dispatch requests
  (\<open>repositories/dispatch.py\<close>), the pickup slots (\<open>repositories/pickup.py\<close>), the recorded
  adjudications (\<open>repositories/adjudications.py\<close>) and the device messages
  (\<open>repositories/device_messages.py\<close>).
\<close>

section \<open>Dispatch requests\<close>

definition find_dispatch :: "int \<Rightarrow> db \<Rightarrow> dispatch_request option" where
  "find_dispatch terminal_id d = find_row (\<lambda>q. dr_terminal_id q = terminal_id) (dispatches d)"

definition update_dispatch ::
  "int \<Rightarrow> (dispatch_request \<Rightarrow> bool) \<Rightarrow> (dispatch_request \<Rightarrow> dispatch_request) \<Rightarrow> db \<Rightarrow> db" where
  "update_dispatch terminal_id P f d =
     dispatches_update (update_rows (\<lambda>q. dr_terminal_id q = terminal_id \<and> P q) f) d"

definition new_dispatch :: "timestamp \<Rightarrow> int \<Rightarrow> string \<Rightarrow> dispatch_request" where
  "new_dispatch now terminal_id why =
     \<lparr>dr_terminal_id = terminal_id, dr_reason = why, dr_status = DR_PENDING,
      dr_requested_at = now, dr_revision = 1, dr_attempt_count = 0, dr_next_attempt_at = now,
      dr_locked_by = None, dr_locked_until = None, dr_last_error = None\<rparr>"

definition enqueue_dispatch :: "timestamp \<Rightarrow> int \<Rightarrow> string \<Rightarrow> db \<Rightarrow> db" where
  "enqueue_dispatch now terminal_id why d =
     (case find_dispatch terminal_id d of
        None \<Rightarrow> d\<lparr>dispatches := dispatches d @ [new_dispatch now terminal_id (py_take 120 why)]\<rparr>
      | Some _ \<Rightarrow> update_dispatch terminal_id (\<lambda>_. True)
          (\<lambda>q. q\<lparr>dr_reason := py_take 120 why, dr_requested_at := now,
             dr_revision := dr_revision q + 1,
             dr_status := (if dr_status q = DR_PROCESSING then DR_PROCESSING else DR_PENDING),
             dr_next_attempt_at := now, dr_last_error := None\<rparr>) d)"

text \<open>Terminals with a queued order and no request, in order, at most \<open>limit\<close>.\<close>

definition missing_dispatches :: "nat \<Rightarrow> db \<Rightarrow> int list" where
  "missing_dispatches limit d =
     take limit (sort (remdups (map j_terminal_id
       (filter (\<lambda>j. j_status j = J_QUEUED \<and> order_queued d j
          \<and> find_dispatch (j_terminal_id j) d = None) (jobs d)))))"

definition repair_missing :: "timestamp \<Rightarrow> nat \<Rightarrow> db \<Rightarrow> nat \<times> db" where
  "repair_missing now limit d =
     (let ts = missing_dispatches limit d
      in (length ts, d\<lparr>dispatches := dispatches d
            @ map (\<lambda>t. new_dispatch now t ''queued-order-recovery'') ts\<rparr>))"

definition dispatch_ready :: "timestamp \<Rightarrow> dispatch_request \<Rightarrow> bool" where
  "dispatch_ready now q \<longleftrightarrow>
     (dr_status q \<in> set [DR_PENDING, DR_RETRY] \<and> dr_next_attempt_at q \<le> now)
     \<or> (dr_status q = DR_PROCESSING \<and> some_and (dr_locked_until q) (\<lambda>u. u < now))"

definition claim_dispatch :: "timestamp \<Rightarrow> string \<Rightarrow> db \<Rightarrow> dispatch_request option \<times> db" where
  "claim_dispatch now worker_id d =
     (case sort_key dr_requested_at (filter (dispatch_ready now) (dispatches d)) of
        [] \<Rightarrow> (None, d)
      | q # _ \<Rightarrow>
          let d1 = update_dispatch (dr_terminal_id q) (\<lambda>_. True)
                (\<lambda>r. r\<lparr>dr_status := DR_PROCESSING, dr_locked_by := Some worker_id,
                   dr_locked_until := Some (now + 30)\<rparr>) d
          in (find_dispatch (dr_terminal_id q) d1, d1))"

text \<open>
  \<open>complete\<close> deletes the request only at the revision that was claimed; a request raised in the
  meantime has a newer revision and goes back to pending.
\<close>

definition complete_dispatch :: "timestamp \<Rightarrow> int \<Rightarrow> int \<Rightarrow> db \<Rightarrow> db" where
  "complete_dispatch now terminal_id n d =
     (if list_ex (\<lambda>q. dr_terminal_id q = terminal_id \<and> dr_revision q = n) (dispatches d)
      then d\<lparr>dispatches := filter (\<lambda>q. \<not> (dr_terminal_id q = terminal_id \<and> dr_revision q = n))
             (dispatches d)\<rparr>
      else update_dispatch terminal_id (\<lambda>q. dr_status q = DR_PROCESSING)
             (\<lambda>q. q\<lparr>dr_status := DR_PENDING, dr_next_attempt_at := now, dr_locked_by := None,
                dr_locked_until := None\<rparr>) d)"

definition retry_dispatch :: "timestamp \<Rightarrow> int \<Rightarrow> int \<Rightarrow> string \<Rightarrow> db \<Rightarrow> db" where
  "retry_dispatch now terminal_id n error d =
     (if list_ex (\<lambda>q. dr_terminal_id q = terminal_id \<and> dr_revision q = n) (dispatches d)
      then update_dispatch terminal_id (\<lambda>q. dr_revision q = n)
             (\<lambda>q. q\<lparr>dr_status := DR_RETRY, dr_attempt_count := dr_attempt_count q + 1,
                dr_next_attempt_at := now + backoff 30 5 (dr_attempt_count q + 1),
                dr_last_error := Some (py_take 1000 error), dr_locked_by := None,
                dr_locked_until := None\<rparr>) d
      else update_dispatch terminal_id (\<lambda>q. dr_status q = DR_PROCESSING)
             (\<lambda>q. q\<lparr>dr_status := DR_PENDING, dr_next_attempt_at := now,
                dr_last_error := Some (py_take 1000 error), dr_locked_by := None,
                dr_locked_until := None\<rparr>) d)"

section \<open>Pickup slots\<close>

definition find_slot :: "int \<Rightarrow> db \<Rightarrow> pickup_slot option" where
  "find_slot terminal_id d = find_row (\<lambda>p. ps_terminal_id p = terminal_id) (slots d)"

definition pickup_blocked :: "int \<Rightarrow> db \<Rightarrow> bool" where
  "pickup_blocked terminal_id d \<longleftrightarrow>
     (case find_slot terminal_id d of None \<Rightarrow> False | Some p \<Rightarrow> ps_state p \<noteq> ''EMPTY'')"

text \<open>
  \<open>apply\<close>: the order of the slot's task is marked first; the slot is written only by a higher
  revision, and the same revision with other contents is a conflict.
\<close>

definition apply_pickup ::
  "timestamp \<Rightarrow> int \<Rightarrow> int \<Rightarrow> string \<Rightarrow> string \<Rightarrow> bool \<Rightarrow> db \<Rightarrow> err + db" where
  "apply_pickup now terminal_id n st task_id collected d =
     (let d1 = (case job_for_task terminal_id task_id d of
            None \<Rightarrow> d
          | Some (_, r) \<Rightarrow> update_order (o_id r)
              (\<lambda>r. r\<lparr>o_pickup_required := True,
                 o_collected_at := (if collected then coalesce (o_collected_at r) (Some now)
                   else o_collected_at r)\<rparr>) d)
      in case find_slot terminal_id d1 of
           None \<Rightarrow> Inr (d1\<lparr>slots := slots d1 @ [\<lparr>ps_terminal_id = terminal_id, ps_revision = n,
               ps_state = st, ps_task_id = task_id, ps_updated_at = now\<rparr>]\<rparr>)
         | Some p \<Rightarrow>
             if ps_revision p < n then
               Inr (slots_update (update_rows (\<lambda>p. ps_terminal_id p = terminal_id)
                 (\<lambda>p. p\<lparr>ps_revision := n, ps_state := st, ps_task_id := task_id,
                    ps_updated_at := now\<rparr>)) d1)
             else if ps_revision p = n \<and> (ps_state p \<noteq> st \<or> ps_task_id p \<noteq> task_id) then
               Inl Pickup_conflict
             else Inr d1)"

section \<open>Adjudications\<close>

definition find_adjudication :: "uuid \<Rightarrow> string \<Rightarrow> db \<Rightarrow> adjudication option" where
  "find_adjudication order_id key d =
     find_row (\<lambda>a. ad_order_id a = order_id \<and> ad_idempotency_key a = key) (adjudications d)"

definition insert_adjudication ::
  "uuid \<Rightarrow> string \<Rightarrow> string \<Rightarrow> string \<Rightarrow> json \<Rightarrow> db \<Rightarrow> err + db" where
  "insert_adjudication order_id task_id key digest response d =
     bind_ok (insert_row Unique_violation
        (\<lambda>a. ad_order_id a = order_id \<and> ad_idempotency_key a = key)
        \<lparr>ad_order_id = order_id, ad_task_id = task_id, ad_idempotency_key = key,
         ad_request_digest = digest, ad_response_json = response\<rparr> (adjudications d))
      (\<lambda>rs. Inr (d\<lparr>adjudications := rs\<rparr>))"

section \<open>Device messages\<close>

definition find_heartbeat :: "int \<Rightarrow> string \<Rightarrow> db \<Rightarrow> heartbeat_row option" where
  "find_heartbeat terminal_id message_id d =
     find_row (\<lambda>h. hb_terminal_id h = terminal_id \<and> hb_message_id h = message_id) (heartbeats d)"

text \<open>Unique in (terminal, message) and, where both are given, in (terminal, boot, sequence).\<close>

definition heartbeat_clash :: "heartbeat_row \<Rightarrow> heartbeat_row \<Rightarrow> bool" where
  "heartbeat_clash new h \<longleftrightarrow> hb_terminal_id h = hb_terminal_id new
     \<and> (hb_message_id h = hb_message_id new
        \<or> (hb_boot_id new \<noteq> None \<and> hb_sequence new \<noteq> None
           \<and> hb_boot_id h = hb_boot_id new \<and> hb_sequence h = hb_sequence new))"

definition insert_heartbeat :: "heartbeat_row \<Rightarrow> db \<Rightarrow> err + db" where
  "insert_heartbeat new d =
     bind_ok (insert_row Unique_violation (heartbeat_clash new) new (heartbeats d))
       (\<lambda>rs. Inr (d\<lparr>heartbeats := rs\<rparr>))"

definition update_terminal :: "int \<Rightarrow> (terminal \<Rightarrow> terminal) \<Rightarrow> db \<Rightarrow> db" where
  "update_terminal k f d = terminals_update (update_rows (\<lambda>t. t_id t = k) f) d"

definition touch_online :: "int \<Rightarrow> timestamp \<Rightarrow> timestamp option \<Rightarrow> db \<Rightarrow> db" where
  "touch_online terminal_id received_at connected_at =
     update_terminal terminal_id (\<lambda>t. t\<lparr>t_connection_status := ''online'',
       t_last_seen_at := Some received_at, t_last_heartbeat_at := Some received_at,
       t_last_connected_at := coalesce connected_at (t_last_connected_at t),
       t_heartbeat_count := t_heartbeat_count t + 1, t_updated_at := received_at\<rparr>)"

text \<open>The text columns are filled from text fields of the body (the model types them).\<close>

definition update_from_heartbeat ::
  "int \<Rightarrow> timestamp \<Rightarrow> timestamp \<Rightarrow> dict \<Rightarrow> json \<Rightarrow> string option \<Rightarrow> int option \<Rightarrow> db \<Rightarrow> db" where
  "update_from_heartbeat terminal_id received_at connected_at body reported_status boot_id sequence =
     update_terminal terminal_id (\<lambda>t. t\<lparr>t_connection_status := ''online'',
       t_last_seen_at := Some received_at, t_last_heartbeat_at := Some received_at,
       t_last_connected_at := Some connected_at, t_active_boot_id := boot_id,
       t_last_sequence := sequence, t_heartbeat_count := t_heartbeat_count t + 1,
       t_instance_id := coalesce (str_of (dget body ''instanceId'')) (t_instance_id t),
       t_store_id := coalesce (str_of (dget body ''storeId'')) (t_store_id t),
       t_software_version := str_of (dget body ''appVersion''),
       t_capability_version := dget body ''capabilityVersion'',
       t_inventory_version := dget body ''inventoryVersion'',
       t_reported_status := reported_status, t_updated_at := received_at\<rparr>)"

definition commands_after :: "int \<Rightarrow> int \<Rightarrow> nat \<Rightarrow> db \<Rightarrow> terminal_command list" where
  "commands_after terminal_id cursor limit d =
     take limit (sort_key c_id
       (filter (\<lambda>c. c_terminal_id c = terminal_id \<and> cursor < c_id c) (commands d)))"

definition upsert_snapshot ::
  "timestamp \<Rightarrow> int \<Rightarrow> string \<Rightarrow> string option \<Rightarrow> dict \<Rightarrow> db \<Rightarrow> db" where
  "upsert_snapshot now terminal_id kind version payload d =
     (if list_ex (\<lambda>s. sn_terminal_id s = terminal_id \<and> sn_snapshot_type s = kind) (snapshots d)
      then snapshots_update (update_rows
             (\<lambda>s. sn_terminal_id s = terminal_id \<and> sn_snapshot_type s = kind)
             (\<lambda>s. s\<lparr>sn_version := version, sn_payload_json := payload, sn_received_at := now\<rparr>)) d
      else d\<lparr>snapshots := snapshots d @ [\<lparr>sn_terminal_id = terminal_id, sn_snapshot_type = kind,
             sn_version = version, sn_payload_json = payload, sn_received_at = now\<rparr>]\<rparr>)"

definition find_event :: "int \<Rightarrow> string \<Rightarrow> db \<Rightarrow> terminal_event option" where
  "find_event terminal_id event_id d =
     find_row (\<lambda>e. ev_terminal_id e = terminal_id \<and> ev_event_id e = event_id) (events d)"

definition require_inventory_version :: "int \<Rightarrow> int \<Rightarrow> db \<Rightarrow> db" where
  "require_inventory_version terminal_id version d =
     (if list_ex (\<lambda>w. wm_terminal_id w = terminal_id) (watermarks d)
      then watermarks_update (update_rows (\<lambda>w. wm_terminal_id w = terminal_id)
             (\<lambda>w. w\<lparr>wm_inventory_version := max (wm_inventory_version w) version\<rparr>)) d
      else d\<lparr>watermarks := watermarks d
             @ [\<lparr>wm_terminal_id = terminal_id, wm_inventory_version = version\<rparr>]\<rparr>)"

text \<open>\<open>on conflict(terminal_id, event_id) do nothing\<close>: whether the row was inserted.\<close>

definition insert_event :: "terminal_event \<Rightarrow> db \<Rightarrow> bool \<times> db" where
  "insert_event new d =
     (if find_event (ev_terminal_id new) (ev_event_id new) d \<noteq> None then (False, d)
      else (True, d\<lparr>events := events d @ [new]\<rparr>))"

interpretation dispatch_table: db_table dispatches "\<lambda>rs d. d\<lparr>dispatches := rs\<rparr>" dr_terminal_id
  by unfold_locales simp_all

lemma find_dispatch_get: "find_dispatch k d = dispatch_table.get k d"
  by (simp add: find_dispatch_def dispatch_table.get_def)

end
