(* ===== verification/PaymentRepo.thy ===== *)
theory PaymentRepo
  imports OrderRepo
begin

text \<open>
  \<open>app/repositories/payments.py\<close>: payments, their audit events and refunds, and the persistent
  transition helpers of \<open>app/payment_transitions.py\<close> that join the pure decisions of \<open>States\<close>
  with these writes.
\<close>

section \<open>Reading payments\<close>

definition find_payment :: "uuid \<Rightarrow> db \<Rightarrow> payment option" where
  "find_payment k d = find_row (\<lambda>p. p_id p = k) (payments d)"

definition merchant_account :: "uuid \<Rightarrow> uuid option \<Rightarrow> db \<Rightarrow> merchant_account option" where
  "merchant_account account_id tenant_id d =
     (case find_row (\<lambda>a. ma_id a = account_id) (accounts d) of
        None \<Rightarrow> None
      | Some a \<Rightarrow> if tenant_id = None \<or> tenant_id = Some (ma_tenant_id a) then Some a else None)"

text \<open>\<open>callback_account\<close> selects the account column only; \<open>None\<close> is no payment.\<close>

definition callback_account :: "string \<Rightarrow> string option \<Rightarrow> db \<Rightarrow> uuid option option" where
  "callback_account provider merchant_no d =
     map_option p_payment_account_id
       (find_row (\<lambda>p. p_provider p = provider \<and> Some (p_merchant_payment_no p) = merchant_no)
         (payments d))"

definition find_payment_idempotent :: "uuid \<Rightarrow> string \<Rightarrow> db \<Rightarrow> payment option" where
  "find_payment_idempotent order_id key d =
     find_row (\<lambda>p. p_order_id p = order_id \<and> p_idempotency_key p = key) (payments d)"

definition newest_payment :: "payment list \<Rightarrow> payment option" where
  "newest_payment ps = (case sort_key (\<lambda>p. - p_created_at p) ps of [] \<Rightarrow> None | p # _ \<Rightarrow> Some p)"

definition latest_for_order :: "uuid \<Rightarrow> db \<Rightarrow> payment option" where
  "latest_for_order order_id d =
     newest_payment (filter (\<lambda>p. p_order_id p = order_id) (payments d))"

definition payment_open :: "payment \<Rightarrow> bool" where
  "payment_open p \<longleftrightarrow> p_status p \<in> set [P_CREATED, P_PENDING]"

definition latest_open_for_order :: "uuid \<Rightarrow> db \<Rightarrow> payment option" where
  "latest_open_for_order order_id d =
     newest_payment (filter (\<lambda>p. p_order_id p = order_id \<and> payment_open p) (payments d))"

definition open_intents_for_order :: "uuid \<Rightarrow> db \<Rightarrow> payment list" where
  "open_intents_for_order order_id d =
     sort_key p_created_at (sort_key p_id
       (filter (\<lambda>p. p_order_id p = order_id \<and> payment_open p) (payments d)))"

definition display_for_order :: "uuid \<Rightarrow> db \<Rightarrow> payment option" where
  "display_for_order order_id d = Option.bind (find_order order_id d) (\<lambda>r. shown_payment r d)"

text \<open>\<open>order by paid_at desc\<close>: PostgreSQL puts a missing \<open>paid_at\<close> first.\<close>

definition paid_for_order :: "uuid \<Rightarrow> db \<Rightarrow> payment option" where
  "paid_for_order order_id d =
     (let ps = filter (\<lambda>p. p_order_id p = order_id
            \<and> p_status p \<in> set [P_PAID, P_PARTIALLY_REFUNDED]) (payments d)
      in case filter (\<lambda>p. p_paid_at p = None) ps
           @ sort_key (\<lambda>p. - (case p_paid_at p of None \<Rightarrow> 0 | Some t \<Rightarrow> t))
               (filter (\<lambda>p. p_paid_at p \<noteq> None) ps) of
           [] \<Rightarrow> None | p # _ \<Rightarrow> Some p)"

definition find_mock_by_merchant_no :: "string \<Rightarrow> db \<Rightarrow> payment option" where
  "find_mock_by_merchant_no merchant_no d =
     find_row (\<lambda>p. p_provider p = ''mock'' \<and> p_merchant_payment_no p = merchant_no) (payments d)"

section \<open>Writing payments\<close>

definition payment_clash :: "payment \<Rightarrow> payment \<Rightarrow> bool" where
  "payment_clash new r \<longleftrightarrow> p_id r = p_id new
     \<or> (p_order_id r = p_order_id new \<and> p_idempotency_key r = p_idempotency_key new)
     \<or> (p_provider r = p_provider new \<and> p_merchant_payment_no r = p_merchant_payment_no new)"

text \<open>
  The insert: the \<open>amount_minor > 0\<close> check, the trigger that copies the order's frozen account
  and refuses another provider than the account's, and the unique constraints.
\<close>

definition insert_payment ::
  "timestamp \<Rightarrow> uuid \<Rightarrow> sales_order \<Rightarrow> string \<Rightarrow> string \<Rightarrow> string \<Rightarrow> string \<Rightarrow> db
    \<Rightarrow> err + payment \<times> db" where
  "insert_payment now k r provider merchant_no key digest d =
     (let new = \<lparr>p_id = k, p_order_id = o_id r, p_provider = provider,
            p_merchant_payment_no = merchant_no, p_provider_trade_no = None,
            p_idempotency_key = key, p_request_digest = digest, p_status = P_CREATED,
            p_revision = 0, p_amount_minor = o_total_amount_minor r, p_currency = o_currency r,
            p_subject = o_product_name r, p_qr_code = None, p_provider_response = None,
            p_next_reconcile_at = None, p_created_at = now, p_updated_at = now,
            p_paid_at = None, p_closed_at = None,
            p_payment_account_id = o_payment_account_id r\<rparr>
      in if \<not> 0 < o_total_amount_minor r then Inl Check_violation
         else if (\<exists>a \<in> set (accounts d). Some (ma_id a) = o_payment_account_id r
                 \<and> ma_provider a \<noteq> provider) then Inl Check_violation
         else bind_ok (insert_row Unique_violation (payment_clash new) new (payments d))
           (\<lambda>rs. Inr (new, d\<lparr>payments := rs\<rparr>)))"

definition payment_log_clash :: "payment_event \<Rightarrow> payment_event \<Rightarrow> bool" where
  "payment_log_clash new r \<longleftrightarrow>
     pe_payment_id r = pe_payment_id new \<and> pe_event_id r = pe_event_id new"

definition append_payment_log :: "payment_event \<Rightarrow> db \<Rightarrow> err + db" where
  "append_payment_log new d =
     bind_ok (insert_row Unique_violation (payment_log_clash new) new (payment_log d))
       (\<lambda>rs. Inr (d\<lparr>payment_log := rs\<rparr>))"

definition insert_created_event :: "uuid \<Rightarrow> json \<Rightarrow> db \<Rightarrow> err + db" where
  "insert_created_event payment_id payload =
     append_payment_log \<lparr>pe_payment_id = payment_id, pe_event_id = ''created'',
       pe_event_type = ''payment.created'', pe_actor = ''customer'', pe_payload_json = payload\<rparr>"

definition update_payment :: "uuid \<Rightarrow> (payment \<Rightarrow> payment) \<Rightarrow> db \<Rightarrow> db" where
  "update_payment k f d = payments_update (update_rows (\<lambda>p. p_id p = k) f) d"

definition lower_char :: "char \<Rightarrow> char" where
  "lower_char c = (let n = of_char c :: nat in
     if 65 \<le> n \<and> n \<le> 90 then char_of (n + 32) else c)"

definition py_lower :: "string \<Rightarrow> string" where
  "py_lower s = map lower_char s"

text \<open>The columns a payment transition writes; \<open>n\<close> is the revision the caller computed.\<close>

definition payment_moved :: "timestamp \<Rightarrow> payment_status \<Rightarrow> int \<Rightarrow> payment \<Rightarrow> payment" where
  "payment_moved now tgt n p =
     p\<lparr>p_status := tgt, p_revision := n, p_updated_at := now,
       p_paid_at := (if tgt = P_PAID then coalesce (p_paid_at p) (Some now) else p_paid_at p),
       p_closed_at := (if tgt \<in> set [P_CLOSED, P_FAILED] then coalesce (p_closed_at p) (Some now)
         else p_closed_at p)\<rparr>"

definition repo_transition_payment ::
  "timestamp \<Rightarrow> payment \<Rightarrow> payment_status \<Rightarrow> string \<Rightarrow> json \<Rightarrow> db \<Rightarrow> err + payment \<times> db" where
  "repo_transition_payment now p tgt actor payload d =
     (let n = p_revision p + 1 in
      bind_ok (append_payment_log
          \<lparr>pe_payment_id = p_id p, pe_event_id = ''transition:'' @ str_int n,
           pe_event_type = ''payment.'' @ py_lower (payment_name tgt), pe_actor = actor,
           pe_payload_json = py_or payload (JObj [])\<rparr>
          (update_payment (p_id p) (payment_moved now tgt n) d))
        (\<lambda>d1. case find_payment (p_id p) d1 of
           None \<Rightarrow> Inl Data_error
         | Some u \<Rightarrow> Inr (u, d1)))"

definition update_refund :: "uuid \<Rightarrow> (refund \<Rightarrow> refund) \<Rightarrow> db \<Rightarrow> db" where
  "update_refund k f d = refunds_update (update_rows (\<lambda>r. r_id r = k) f) d"

definition find_refund :: "uuid \<Rightarrow> db \<Rightarrow> refund option" where
  "find_refund k d = find_row (\<lambda>r. r_id r = k) (refunds d)"

definition refund_moved :: "timestamp \<Rightarrow> refund_status \<Rightarrow> json \<Rightarrow> refund \<Rightarrow> refund" where
  "refund_moved now tgt payload r =
     r\<lparr>r_status := tgt, r_revision := r_revision r + 1,
       r_provider_response := coalesce (jsonb_if payload) (r_provider_response r),
       r_updated_at := now,
       r_completed_at := (if tgt \<in> set [R_SUCCEEDED, R_FAILED] then Some now
         else r_completed_at r)\<rparr>"

text \<open>\<open>update ... returning *\<close>: the row after the update, if there is one.\<close>

definition repo_transition_refund ::
  "timestamp \<Rightarrow> refund \<Rightarrow> refund_status \<Rightarrow> json \<Rightarrow> db \<Rightarrow> refund option \<times> db" where
  "repo_transition_refund now r tgt payload d =
     (let d1 = update_refund (r_id r) (refund_moved now tgt payload) d
      in (find_refund (r_id r) d1, d1))"

section \<open>Provider results and reconciliation\<close>

text \<open>What a payment provider answers (\<open>PaymentResult\<close> and \<open>RefundResult\<close>).\<close>

record provider_result =
  pr_status :: string
  pr_qr_code :: "string option"
  pr_provider_trade_no :: "string option"
  pr_raw :: json

definition save_provider_result ::
  "timestamp \<Rightarrow> uuid \<Rightarrow> provider_result \<Rightarrow> db \<Rightarrow> payment option \<times> db" where
  "save_provider_result now k result d =
     (let d1 = update_payment k (\<lambda>p. p\<lparr>p_qr_code := coalesce (pr_qr_code result) (p_qr_code p),
            p_provider_trade_no := coalesce (pr_provider_trade_no result) (p_provider_trade_no p),
            p_provider_response := Some (pr_raw result), p_updated_at := now\<rparr>) d
      in (find_payment k d1, d1))"

definition schedule_reconciliation :: "timestamp \<Rightarrow> uuid \<Rightarrow> rat \<Rightarrow> db \<Rightarrow> db" where
  "schedule_reconciliation now k seconds =
     update_payment k (\<lambda>p. p\<lparr>p_next_reconcile_at := Some (now + seconds)\<rparr>)"

section \<open>Refunds\<close>

definition find_refund_idempotent :: "uuid \<Rightarrow> string \<Rightarrow> db \<Rightarrow> refund option" where
  "find_refund_idempotent payment_id key d =
     find_row (\<lambda>r. r_payment_id r = payment_id \<and> r_idempotency_key r = key) (refunds d)"

definition refunds_of :: "uuid \<Rightarrow> refund_status list \<Rightarrow> db \<Rightarrow> refund list" where
  "refunds_of payment_id sts d =
     filter (\<lambda>r. r_payment_id r = payment_id \<and> r_status r \<in> set sts) (refunds d)"

definition refunded_total :: "uuid \<Rightarrow> refund_status list \<Rightarrow> db \<Rightarrow> int" where
  "refunded_total payment_id sts d = sum_list (map r_amount_minor (refunds_of payment_id sts d))"

definition inflight_refund_exists :: "uuid \<Rightarrow> db \<Rightarrow> bool" where
  "inflight_refund_exists payment_id d \<longleftrightarrow>
     list_ex (\<lambda>r. r_payment_id r = payment_id
       \<and> r_status r \<in> set [R_REQUESTED, R_PROCESSING, R_UNKNOWN]) (refunds d)"

definition refund_clash :: "refund \<Rightarrow> refund \<Rightarrow> bool" where
  "refund_clash new r \<longleftrightarrow> r_id r = r_id new
     \<or> (r_payment_id r = r_payment_id new \<and> r_idempotency_key r = r_idempotency_key new)
     \<or> (r_provider r = r_provider new \<and> r_merchant_refund_no r = r_merchant_refund_no new)"

definition insert_refund ::
  "timestamp \<Rightarrow> uuid \<Rightarrow> payment \<Rightarrow> string \<Rightarrow> string \<Rightarrow> string \<Rightarrow> int \<Rightarrow> string \<Rightarrow> db
    \<Rightarrow> err + refund \<times> db" where
  "insert_refund now k p merchant_refund_no key digest amount why d =
     (let new = \<lparr>r_id = k, r_payment_id = p_id p, r_provider = p_provider p,
            r_merchant_refund_no = merchant_refund_no, r_idempotency_key = key,
            r_request_digest = digest, r_status = R_REQUESTED, r_revision = 0,
            r_amount_minor = amount, r_reason = why, r_provider_response = None,
            r_attempt_count = 0, r_next_attempt_at = Some now, r_created_at = now,
            r_updated_at = now, r_completed_at = None\<rparr>
      in if \<not> 0 < amount then Inl Check_violation
         else bind_ok (insert_row Unique_violation (refund_clash new) new (refunds d))
           (\<lambda>rs. Inr (new, d\<lparr>refunds := rs\<rparr>)))"

definition schedule_refund :: "timestamp \<Rightarrow> uuid \<Rightarrow> bool \<Rightarrow> db \<Rightarrow> db" where
  "schedule_refund now k increment_attempt =
     update_refund k (\<lambda>r. r\<lparr>r_attempt_count :=
         (if increment_attempt then r_attempt_count r + 1 else r_attempt_count r),
       r_next_attempt_at := Some (now + 30)\<rparr>)"

definition schedule_processing_refund :: "timestamp \<Rightarrow> uuid \<Rightarrow> db \<Rightarrow> db" where
  "schedule_processing_refund now k =
     update_refund k (\<lambda>r. r\<lparr>r_attempt_count := max (r_attempt_count r) 1,
       r_next_attempt_at := Some (now + 30)\<rparr>)"

section \<open>Transitions (app/payment\_transitions.py)\<close>

text \<open>The updated row and whether the status was already the target.\<close>

definition transition_payment ::
  "timestamp \<Rightarrow> payment \<Rightarrow> payment_status \<Rightarrow> string \<Rightarrow> json \<Rightarrow> db
    \<Rightarrow> err + (payment \<times> bool) \<times> db" where
  "transition_payment now p tgt actor payload d =
     (let dec = decide_payment_transition (p_status p) tgt in
      if duplicate dec then Inr ((p, True), d)
      else if \<not> allowed dec then Inl (Http_error 409 (opt_str (reason dec)))
      else bind_ok (repo_transition_payment now p tgt actor payload d)
        (\<lambda>(u, d1). Inr ((u, False), d1)))"

definition transition_refund ::
  "timestamp \<Rightarrow> refund \<Rightarrow> refund_status \<Rightarrow> json \<Rightarrow> db \<Rightarrow> err + (refund \<times> bool) \<times> db" where
  "transition_refund now r tgt payload d =
     (let dec = decide_refund_transition (r_status r) tgt in
      if duplicate dec then Inr ((r, True), d)
      else if \<not> allowed dec then Inl (Http_error 409 (opt_str (reason dec)))
      else (case repo_transition_refund now r tgt payload d of
          (None, d1) \<Rightarrow> Inl Type_error
        | (Some u, d1) \<Rightarrow> Inr ((u, False), d1)))"

section \<open>The payment and refund tables\<close>

interpretation payment_table: db_table payments "\<lambda>rs d. d\<lparr>payments := rs\<rparr>" p_id
  by unfold_locales simp_all

interpretation refund_table: db_table refunds "\<lambda>rs d. d\<lparr>refunds := rs\<rparr>" r_id
  by unfold_locales simp_all

lemma find_payment_get: "find_payment k d = payment_table.get k d"
  by (simp add: find_payment_def payment_table.get_def)

lemma update_payment_modify: "update_payment k f d = payment_table.modify k f d"
  by (simp add: update_payment_def payment_table.modify_def)

lemma find_refund_get: "find_refund k d = refund_table.get k d"
  by (simp add: find_refund_def refund_table.get_def)

lemma update_refund_modify: "update_refund k f d = refund_table.modify k f d"
  by (simp add: update_refund_def refund_table.modify_def)

lemma find_payment_update_payment:
  "(\<And>p. p_id (f p) = p_id p) \<Longrightarrow> find_payment k' (update_payment k f d)
    = (if k' = k then map_option f (find_payment k d) else find_payment k' d)"
  by (simp add: find_payment_get update_payment_modify payment_table.get_modify)

lemma find_refund_update_refund:
  "(\<And>r. r_id (f r) = r_id r) \<Longrightarrow> find_refund k' (update_refund k f d)
    = (if k' = k then map_option f (find_refund k d) else find_refund k' d)"
  by (simp add: find_refund_get update_refund_modify refund_table.get_modify)

lemma find_payment_SomeD: "find_payment k d = Some p \<Longrightarrow> p \<in> set (payments d) \<and> p_id p = k"
  by (auto simp: find_payment_def dest: find_row_SomeD)

lemma find_refund_SomeD: "find_refund k d = Some r \<Longrightarrow> r \<in> set (refunds d) \<and> r_id r = k"
  by (auto simp: find_refund_def dest: find_row_SomeD)

lemma payment_moved_sel [simp]:
  "p_id (payment_moved now tgt n p) = p_id p"
  "p_order_id (payment_moved now tgt n p) = p_order_id p"
  "p_amount_minor (payment_moved now tgt n p) = p_amount_minor p"
  "p_status (payment_moved now tgt n p) = tgt"
  by (simp_all add: payment_moved_def)

lemma refund_moved_sel [simp]:
  "r_id (refund_moved now tgt v r) = r_id r"
  "r_payment_id (refund_moved now tgt v r) = r_payment_id r"
  "r_amount_minor (refund_moved now tgt v r) = r_amount_minor r"
  "r_idempotency_key (refund_moved now tgt v r) = r_idempotency_key r"
  "r_status (refund_moved now tgt v r) = tgt"
  by (simp_all add: refund_moved_def)

end
