(* ===== verification/Transitions.thy ===== *)
theory Transitions
  imports DispatchRepo PaymentRepo
begin

text \<open>
  The transition services: \<open>app/services/order_state.py\<close> and
  \<open>app/services/command_state.py\<close>, which put the pure decisions of \<open>States\<close> in front of the
  repositories' writes, each with an append-only log entry. An order transition that is not
  allowed is silently skipped; a command transition that is not allowed raises unless the
  caller is not strict. The lemmas say what each leaves in the tables and that neither touches
  another table.
\<close>

section \<open>Orders\<close>

definition transition_order ::
  "timestamp \<Rightarrow> sales_order \<Rightarrow> order_status \<Rightarrow> string \<Rightarrow> string option \<Rightarrow> json \<Rightarrow> db
    \<Rightarrow> err + sales_order \<times> db" where
  "transition_order now r tgt actor why payload d =
     (if o_status r = tgt then Inr (r, d)
      else if \<not> order_transition_allowed (o_status r) tgt then Inr (r, d)
      else
        let n = next_transition_revision (o_id r) d;
            started_at = (if tgt = O_MAKING \<and> o_started_at r = None then Some now
              else o_started_at r);
            completed_at = (if tgt \<in> set [O_READY, O_FAILED, O_EXPIRED] then Some now
              else o_completed_at r);
            cancelled_at = (if tgt = O_CANCELLED then Some now else o_cancelled_at r);
            d1 = update_transition_state (o_id r) tgt now started_at completed_at cancelled_at d
        in bind_ok (insert_transition now (o_id r) n (o_status r) tgt actor why payload d1)
             (\<lambda>d2. case find_order (o_id r) d2 of
                None \<Rightarrow> Inl Data_error
              | Some u \<Rightarrow> Inr (u, d2)))"

section \<open>Commands\<close>

definition transition_command ::
  "timestamp \<Rightarrow> terminal_command \<Rightarrow> command_status \<Rightarrow> string \<Rightarrow> string option \<Rightarrow> json option
    \<Rightarrow> bool \<Rightarrow> db \<Rightarrow> err + (terminal_command \<times> bool) \<times> db" where
  "transition_command now c tgt actor why payload strict d =
     (let dec = decide_transition (c_status c) tgt in
      if duplicate dec then Inr ((c, True), d)
      else if \<not> allowed dec then
        (if strict then Inl (Service_error 409 (opt_str (reason dec))) else Inr ((c, False), d))
      else bind_ok (repo_transition_command now c tgt actor why payload d)
        (\<lambda>(u, d1). Inr ((u, False), d1)))"

section \<open>The logs never collide\<close>

text \<open>The next revision of an order's log is above every revision in it.\<close>

lemma foldr_max_ge: "(x::int) \<in> set xs \<Longrightarrow> x \<le> foldr max xs b"
  by (induction xs) auto

lemma next_transition_revision_fresh:
  "r \<in> set (order_log d) \<Longrightarrow> ot_order_id r = k \<Longrightarrow> ot_revision r < next_transition_revision k d"
  unfolding next_transition_revision_def
  by (rule le_less_trans[OF foldr_max_ge[where b = "-1"]]) auto

lemma order_log_update_transition_state [simp]:
  "order_log (update_transition_state k tgt now s c x d) = order_log d"
  by (simp add: update_transition_state_def update_order_def)

lemma next_transition_revision_cong:
  "order_log d' = order_log d \<Longrightarrow> next_transition_revision k d' = next_transition_revision k d"
  by (simp add: next_transition_revision_def)

lemma insert_transition_Inr:
  assumes "order_log d1 = order_log d" and "n = next_transition_revision k d"
  shows "insert_transition now k n from_st tgt actor why payload d1
    = Inr (d1\<lparr>order_log := order_log d @ [\<lparr>ot_order_id = k, ot_revision = n,
        ot_from_status = Some from_st, ot_to_status = tgt, ot_actor = actor, ot_reason = why,
        ot_payload_json = jsonb_if payload, ot_created_at = now\<rparr>]\<rparr>)"
proof -
  have "\<not> (ot_order_id r = k \<and> ot_revision r = n)" if "r \<in> set (order_log d)" for r
    using next_transition_revision_fresh[OF that] assms(2) by fastforce
  then show ?thesis
    using assms(1)
    by (auto simp: insert_transition_def append_order_log_def insert_row_def log_clash_def
        list_ex_iff)
qed

section \<open>What a transition leaves\<close>

text \<open>The row of an order that moved to \<open>tgt\<close>.\<close>

definition order_moved :: "timestamp \<Rightarrow> sales_order \<Rightarrow> order_status \<Rightarrow> sales_order \<Rightarrow> sales_order" where
  "order_moved now r tgt u =
     u\<lparr>o_status := tgt, o_updated_at := now,
       o_started_at := (if tgt = O_MAKING \<and> o_started_at r = None then Some now
         else o_started_at r),
       o_completed_at := (if tgt \<in> set [O_READY, O_FAILED, O_EXPIRED] then Some now
         else o_completed_at r),
       o_cancelled_at := (if tgt = O_CANCELLED then Some now else o_cancelled_at r)\<rparr>"

lemma order_moved_sel [simp]:
  "o_id (order_moved now r tgt u) = o_id u"
  "o_status (order_moved now r tgt u) = tgt"
  "o_terminal_id (order_moved now r tgt u) = o_terminal_id u"
  "o_payment_status (order_moved now r tgt u) = o_payment_status u"
  "o_paid_payment_id (order_moved now r tgt u) = o_paid_payment_id u"
  "o_payment_mode (order_moved now r tgt u) = o_payment_mode u"
  "o_total_amount_minor (order_moved now r tgt u) = o_total_amount_minor u"
  by (simp_all add: order_moved_def)

lemma find_order_order_log_update [simp]:
  "find_order k (d\<lparr>order_log := l\<rparr>) = find_order k d"
  by (simp add: find_order_def)

text \<open>
  An order that is in the table always moves when the transition is allowed: the transition
  itself never fails.
\<close>

lemma transition_order_moves:
  assumes found: "find_order (o_id r) d = Some u"
    and ne: "o_status r \<noteq> tgt" and ok: "order_transition_allowed (o_status r) tgt"
  shows "transition_order now r tgt actor why payload d =
    Inr (order_moved now r tgt u,
      (update_order (o_id r) (order_moved now r tgt) d)
        \<lparr>order_log := order_log d @ [\<lparr>ot_order_id = o_id r,
            ot_revision = next_transition_revision (o_id r) d,
            ot_from_status = Some (o_status r), ot_to_status = tgt, ot_actor = actor,
            ot_reason = why, ot_payload_json = jsonb_if payload, ot_created_at = now\<rparr>]\<rparr>)"
proof -
  have upd: "update_transition_state (o_id r) tgt now
        (if tgt = O_MAKING \<and> o_started_at r = None then Some now else o_started_at r)
        (if tgt \<in> set [O_READY, O_FAILED, O_EXPIRED] then Some now else o_completed_at r)
        (if tgt = O_CANCELLED then Some now else o_cancelled_at r) d
      = update_order (o_id r) (order_moved now r tgt) d"
    unfolding update_transition_state_def by (intro arg_cong[where f = "\<lambda>g. update_order (o_id r) g d"] ext)
      (simp add: order_moved_def)
  have ol: "order_log (update_order (o_id r) (order_moved now r tgt) d) = order_log d"
    by (simp add: update_order_def)
  show ?thesis
    using ne ok found
    unfolding transition_order_def Let_def upd
    by (simp add: insert_transition_Inr[OF ol refl] find_order_update_order)
qed

lemma transition_order_skips:
  "o_status r = tgt \<or> \<not> order_transition_allowed (o_status r) tgt \<Longrightarrow>
    transition_order now r tgt actor why payload d = Inr (r, d)"
  by (auto simp: transition_order_def)

lemma transition_order_cases:
  assumes "transition_order now r tgt actor why payload d = Inr (r', d')"
  obtains "r' = r" and "d' = d" and "o_status r = tgt \<or> \<not> order_transition_allowed (o_status r) tgt"
  | u l where "o_status r \<noteq> tgt" and "order_transition_allowed (o_status r) tgt"
      and "find_order (o_id r) d = Some u" and "r' = order_moved now r tgt u"
      and "d' = (update_order (o_id r) (order_moved now r tgt) d)\<lparr>order_log := l\<rparr>"
proof (cases "o_status r = tgt \<or> \<not> order_transition_allowed (o_status r) tgt")
  case True
  with assms that(1) show ?thesis by (auto simp: transition_order_skips)
next
  case False
  show ?thesis
  proof (cases "find_order (o_id r) d")
    case (Some u)
    with False assms that(2) show ?thesis by (auto simp: transition_order_moves)
  next
    case None
    have "find_order (o_id r) (update_order (o_id r) f d) = None" for f
      using None by (simp add: find_order_def update_order_def find_row_None update_rows_none)
    with None False assms show ?thesis
      by (auto simp: transition_order_def Let_def insert_transition_def append_order_log_def
          update_transition_state_def bind_ok_Inr split: option.splits if_splits)
  qed
qed

lemma transition_order_shape:
  assumes "transition_order now r tgt actor why payload d = Inr (r', d')"
  shows "\<exists>os l. d' = d\<lparr>orders := os, order_log := l\<rparr>"
  using assms
proof (cases rule: transition_order_cases)
  case 1
  then have "d' = d\<lparr>orders := orders d, order_log := order_log d\<rparr>" by simp
  then show ?thesis by blast
next
  case (2 u l)
  then have "d' = d\<lparr>orders := orders d', order_log := l\<rparr>" by (simp add: update_order_def)
  then show ?thesis by blast
qed

lemma transition_order_frame:
  assumes "transition_order now r tgt actor why payload d = Inr (r', d')"
  shows "jobs d' = jobs d" "commands d' = commands d" "payments d' = payments d"
    "refunds d' = refunds d" "terminals d' = terminals d" "outbox d' = outbox d"
    "slots d' = slots d" "dispatches d' = dispatches d" "command_log d' = command_log d"
    "payment_log d' = payment_log d" "inbox d' = inbox d" "business d' = business d"
    "command_seq d' = command_seq d" "adjudications d' = adjudications d"
proof -
  obtain os l where "d' = d\<lparr>orders := os, order_log := l\<rparr>"
    using assms transition_order_shape by blast
  then show "jobs d' = jobs d" "commands d' = commands d" "payments d' = payments d"
    "refunds d' = refunds d" "terminals d' = terminals d" "outbox d' = outbox d"
    "slots d' = slots d" "dispatches d' = dispatches d" "command_log d' = command_log d"
    "payment_log d' = payment_log d" "inbox d' = inbox d" "business d' = business d"
    "command_seq d' = command_seq d" "adjudications d' = adjudications d"
    by simp_all
qed

text \<open>A command transition writes the command and its log.\<close>

lemma transitioned_sel [simp]:
  "c_id (transitioned now c tgt payload r) = c_id r"
  "c_status (transitioned now c tgt payload r) = tgt"
  "c_terminal_id (transitioned now c tgt payload r) = c_terminal_id r"
  "c_command_type (transitioned now c tgt payload r) = c_command_type r"
  "c_payload_json (transitioned now c tgt payload r) = c_payload_json r"
  "c_message_id (transitioned now c tgt payload r) = c_message_id r"
  "c_idempotency_key (transitioned now c tgt payload r) = c_idempotency_key r"
  "c_published_at (transitioned now c tgt payload r) = c_published_at r"
  "c_expires_at (transitioned now c tgt payload r) = c_expires_at r"
  by (simp_all add: transitioned_def)

lemma repo_transition_command_Inr:
  assumes "repo_transition_command now c tgt actor why payload d = Inr (u, d')"
  obtains l c0 where "find_command (c_id c) d = Some c0"
    and "u = transitioned now c tgt payload c0"
    and "d' = (update_command (c_id c) (transitioned now c tgt payload) d)\<lparr>command_log := l\<rparr>"
proof -
  have fc: "find_command (c_id c) (x\<lparr>command_log := l\<rparr>) = find_command (c_id c) x" for x l
    by (simp add: find_command_def)
  obtain d1 where ins: "append_command_log \<lparr>ct_command_id = c_id c, ct_revision = c_revision c + 1,
        ct_from_status = Some (c_status c), ct_to_status = tgt, ct_actor = actor, ct_reason = why,
        ct_payload_json = payload, ct_created_at = now\<rparr>
        (update_command (c_id c) (transitioned now c tgt payload) d) = Inr d1"
    and u: "find_command (c_id c) d1 = Some u" and d': "d' = d1"
    using assms by (auto simp: repo_transition_command_def Let_def bind_ok_Inr split: option.splits)
  obtain l where d1: "d1 = (update_command (c_id c) (transitioned now c tgt payload) d)\<lparr>command_log := l\<rparr>"
    using ins by (auto simp: append_command_log_def bind_ok_Inr)
  from u d1 fc obtain c0 where "find_command (c_id c) d = Some c0"
    and "u = transitioned now c tgt payload c0"
    by (auto simp: find_command_update_command)
  with d1 d' show ?thesis by (auto intro: that)
qed

lemma transition_command_cases:
  assumes "transition_command now c tgt actor why payload strict d = Inr ((u, dup), d')"
  obtains "c_status c = tgt" and "u = c" and "dup" and "d' = d"
  | "\<not> strict" and "\<not> allowed (decide_transition (c_status c) tgt)" and "u = c" and "\<not> dup"
      and "d' = d"
  | l c0 where "c_status c \<noteq> tgt" and "allowed (decide_transition (c_status c) tgt)"
      and "find_command (c_id c) d = Some c0" and "u = transitioned now c tgt payload c0"
      and "\<not> dup"
      and "d' = (update_command (c_id c) (transitioned now c tgt payload) d)\<lparr>command_log := l\<rparr>"
proof (cases "c_status c = tgt")
  case True
  then have "transition_command now c tgt actor why payload strict d = Inr ((c, True), d)"
    by (simp add: transition_command_def Let_def command_decision.duplicate_iff)
  with assms have "u = c" and "dup" and "d' = d" by simp_all
  then show ?thesis using that(1)[OF True] by simp
next
  case ne: False
  then have ndup: "\<not> duplicate (decide_transition (c_status c) tgt)"
    by (simp only: command_decision.duplicate_iff not_False_eq_True)
  show ?thesis
  proof (cases "allowed (decide_transition (c_status c) tgt)")
    case False
    with assms ndup have "\<not> strict" and "u = c" and "\<not> dup" and "d' = d"
      by (simp_all add: transition_command_def Let_def split: if_splits)
    then show ?thesis using that(2) False by simp
  next
    case True
    with assms ndup have step: "repo_transition_command now c tgt actor why payload d = Inr (u, d')"
      and nd: "\<not> dup"
      by (auto simp: transition_command_def Let_def bind_ok_Inr)
    obtain l c0 where "find_command (c_id c) d = Some c0" and "u = transitioned now c tgt payload c0"
      and "d' = (update_command (c_id c) (transitioned now c tgt payload) d)\<lparr>command_log := l\<rparr>"
      using step by (rule repo_transition_command_Inr)
    then show ?thesis using that(3)[OF ne True _ _ nd] by simp
  qed
qed

lemma transition_command_shape:
  assumes "transition_command now c tgt actor why payload strict d = Inr ((u, dup), d')"
  shows "\<exists>cs l. d' = d\<lparr>commands := cs, command_log := l\<rparr>"
  using assms
proof (cases rule: transition_command_cases)
  case 1
  then have "d' = d\<lparr>commands := commands d, command_log := command_log d\<rparr>" by simp
  then show ?thesis by blast
next
  case 2
  then have "d' = d\<lparr>commands := commands d, command_log := command_log d\<rparr>" by simp
  then show ?thesis by blast
next
  case (3 l c0)
  then have "d' = d\<lparr>commands := commands d', command_log := l\<rparr>" by (simp add: update_command_def)
  then show ?thesis by blast
qed

lemma transition_command_frame:
  assumes "transition_command now c tgt actor why payload strict d = Inr ((u, dup), d')"
  shows "jobs d' = jobs d" "orders d' = orders d" "payments d' = payments d"
    "refunds d' = refunds d" "terminals d' = terminals d" "outbox d' = outbox d"
    "slots d' = slots d" "dispatches d' = dispatches d" "order_log d' = order_log d"
    "payment_log d' = payment_log d" "inbox d' = inbox d" "business d' = business d"
    "command_seq d' = command_seq d" "adjudications d' = adjudications d"
proof -
  obtain cs l where "d' = d\<lparr>commands := cs, command_log := l\<rparr>"
    using assms transition_command_shape by blast
  then show "jobs d' = jobs d" "orders d' = orders d" "payments d' = payments d"
    "refunds d' = refunds d" "terminals d' = terminals d" "outbox d' = outbox d"
    "slots d' = slots d" "dispatches d' = dispatches d" "order_log d' = order_log d"
    "payment_log d' = payment_log d" "inbox d' = inbox d" "business d' = business d"
    "command_seq d' = command_seq d" "adjudications d' = adjudications d"
    by simp_all
qed

section \<open>Payments and refunds\<close>

lemma repo_transition_payment_Inr:
  assumes "repo_transition_payment now p tgt actor payload d = Inr (u, d')"
  obtains l p0 where "find_payment (p_id p) d = Some p0"
    and "u = payment_moved now tgt (p_revision p + 1) p0"
    and "d' = (update_payment (p_id p) (payment_moved now tgt (p_revision p + 1)) d)\<lparr>payment_log := l\<rparr>"
proof -
  have fp: "find_payment (p_id p) (x\<lparr>payment_log := l\<rparr>) = find_payment (p_id p) x" for x l
    by (simp add: find_payment_def)
  from assms obtain d1 e where ins: "append_payment_log e
        (update_payment (p_id p) (payment_moved now tgt (p_revision p + 1)) d) = Inr d1"
    and u: "find_payment (p_id p) d1 = Some u" and d': "d' = d1"
    by (auto simp: repo_transition_payment_def Let_def bind_ok_Inr split: option.splits)
  obtain l where d1: "d1 = (update_payment (p_id p) (payment_moved now tgt (p_revision p + 1)) d)\<lparr>payment_log := l\<rparr>"
    using ins by (auto simp: append_payment_log_def bind_ok_Inr)
  from u d1 fp obtain p0 where "find_payment (p_id p) d = Some p0"
    and "u = payment_moved now tgt (p_revision p + 1) p0"
    by (auto simp: find_payment_update_payment)
  with d1 d' show ?thesis by (auto intro: that)
qed

lemma transition_payment_cases:
  assumes "transition_payment now p tgt actor payload d = Inr ((u, dup), d')"
  obtains "p_status p = tgt" and "u = p" and "dup" and "d' = d"
  | l p0 where "payment_decision.moves (p_status p) tgt"
      and "find_payment (p_id p) d = Some p0"
      and "u = payment_moved now tgt (p_revision p + 1) p0" and "\<not> dup"
      and "d' = (update_payment (p_id p) (payment_moved now tgt (p_revision p + 1)) d)\<lparr>payment_log := l\<rparr>"
proof (cases "p_status p = tgt")
  case True
  then have "transition_payment now p tgt actor payload d = Inr ((p, True), d)"
    by (simp add: transition_payment_def Let_def payment_decision.duplicate_iff)
  with assms have "u = p" and "dup" and "d' = d" by simp_all
  then show ?thesis using that(1)[OF True] by simp
next
  case False
  then have ndup: "\<not> duplicate (decide_payment_transition (p_status p) tgt)"
    by (simp only: payment_decision.duplicate_iff not_False_eq_True)
  with assms have al: "allowed (decide_payment_transition (p_status p) tgt)"
    by (auto simp: transition_payment_def Let_def split: if_splits)
  with ndup have mv: "payment_decision.moves (p_status p) tgt"
    by (simp only: payment_decision.moves_def not_False_eq_True simp_thms)
  from assms ndup al have step: "repo_transition_payment now p tgt actor payload d = Inr (u, d')"
    and nd: "\<not> dup"
    by (auto simp: transition_payment_def Let_def bind_ok_Inr)
  obtain l p0 where "find_payment (p_id p) d = Some p0"
    and "u = payment_moved now tgt (p_revision p + 1) p0"
    and "d' = (update_payment (p_id p) (payment_moved now tgt (p_revision p + 1)) d)\<lparr>payment_log := l\<rparr>"
    using step by (rule repo_transition_payment_Inr)
  then show ?thesis using that(2)[OF mv _ _ nd] by simp
qed

lemma transition_payment_shape:
  assumes "transition_payment now p tgt actor payload d = Inr ((u, dup), d')"
  shows "\<exists>ps l. d' = d\<lparr>payments := ps, payment_log := l\<rparr>"
  using assms
proof (cases rule: transition_payment_cases)
  case 1
  then have "d' = d\<lparr>payments := payments d, payment_log := payment_log d\<rparr>" by simp
  then show ?thesis by blast
next
  case (2 l p0)
  then have "d' = d\<lparr>payments := payments d', payment_log := l\<rparr>" by (simp add: update_payment_def)
  then show ?thesis by blast
qed

lemma transition_payment_frame:
  assumes "transition_payment now p tgt actor payload d = Inr ((u, dup), d')"
  shows "jobs d' = jobs d" "orders d' = orders d" "commands d' = commands d"
    "refunds d' = refunds d" "terminals d' = terminals d" "outbox d' = outbox d"
    "slots d' = slots d" "dispatches d' = dispatches d" "order_log d' = order_log d"
    "command_log d' = command_log d" "inbox d' = inbox d" "business d' = business d"
    "command_seq d' = command_seq d" "adjudications d' = adjudications d"
proof -
  obtain ps l where "d' = d\<lparr>payments := ps, payment_log := l\<rparr>"
    using assms transition_payment_shape by blast
  then show "jobs d' = jobs d" "orders d' = orders d" "commands d' = commands d"
    "refunds d' = refunds d" "terminals d' = terminals d" "outbox d' = outbox d"
    "slots d' = slots d" "dispatches d' = dispatches d" "order_log d' = order_log d"
    "command_log d' = command_log d" "inbox d' = inbox d" "business d' = business d"
    "command_seq d' = command_seq d" "adjudications d' = adjudications d"
    by simp_all
qed

lemma transition_refund_cases:
  assumes "transition_refund now r tgt payload d = Inr ((u, dup), d')"
  obtains "r_status r = tgt" and "u = r" and "dup" and "d' = d"
  | r0 where "refund_decision.moves (r_status r) tgt"
      and "find_refund (r_id r) d = Some r0" and "u = refund_moved now tgt payload r0" and "\<not> dup"
      and "d' = update_refund (r_id r) (refund_moved now tgt payload) d"
proof (cases "r_status r = tgt")
  case True
  then have "transition_refund now r tgt payload d = Inr ((r, True), d)"
    by (simp add: transition_refund_def Let_def refund_decision.duplicate_iff)
  with assms have "u = r" and "dup" and "d' = d" by simp_all
  then show ?thesis using that(1)[OF True] by simp
next
  case False
  then have ndup: "\<not> duplicate (decide_refund_transition (r_status r) tgt)"
    by (simp only: refund_decision.duplicate_iff not_False_eq_True)
  with assms have al: "allowed (decide_refund_transition (r_status r) tgt)"
    by (auto simp: transition_refund_def Let_def split: if_splits)
  with ndup have mv: "refund_decision.moves (r_status r) tgt"
    by (simp only: refund_decision.moves_def not_False_eq_True simp_thms)
  from assms ndup al have step: "repo_transition_refund now r tgt payload d = (Some u, d')"
    and nd: "\<not> dup"
    by (auto simp: transition_refund_def Let_def split: option.splits prod.splits)
  from step obtain r0 where "find_refund (r_id r) d = Some r0" and "u = refund_moved now tgt payload r0"
    and "d' = update_refund (r_id r) (refund_moved now tgt payload) d"
    by (auto simp: repo_transition_refund_def Let_def find_refund_update_refund)
  then show ?thesis using that(2)[OF mv _ _ nd] by simp
qed

section \<open>The part of the database that money operations leave alone\<close>

text \<open>
  An order without the columns that record money, and the database without the money tables:
  an operation that only moves money keeps \<open>production_part\<close>.
\<close>

definition order_core :: "sales_order \<Rightarrow> sales_order" where
  "order_core r = r\<lparr>o_payment_status := OP_NOT_REQUIRED, o_paid_payment_id := None, o_updated_at := 0\<rparr>"

definition production_part :: "db \<Rightarrow> db" where
  "production_part d = d\<lparr>orders := map order_core (orders d), payments := [], payment_log := [],
     refunds := [], inbox := [], business := []\<rparr>"

lemma order_core_sel [simp]:
  "o_id (order_core r) = o_id r" "o_status (order_core r) = o_status r"
  "o_terminal_id (order_core r) = o_terminal_id r"
  by (simp_all add: order_core_def)

lemma production_part_sel:
  assumes "production_part d' = production_part d"
  shows "map order_core (orders d') = map order_core (orders d)" "jobs d' = jobs d"
    "commands d' = commands d" "order_log d' = order_log d" "command_log d' = command_log d"
    "outbox d' = outbox d" "dispatches d' = dispatches d" "slots d' = slots d"
    "terminals d' = terminals d" "command_seq d' = command_seq d" "adjudications d' = adjudications d"
  using arg_cong[OF assms, of orders] arg_cong[OF assms, of jobs] arg_cong[OF assms, of commands]
    arg_cong[OF assms, of order_log] arg_cong[OF assms, of command_log] arg_cong[OF assms, of outbox]
    arg_cong[OF assms, of dispatches] arg_cong[OF assms, of slots] arg_cong[OF assms, of terminals]
    arg_cong[OF assms, of command_seq] arg_cong[OF assms, of adjudications]
  by (simp_all add: production_part_def)

lemma find_order_core:
  assumes "map order_core (orders d') = map order_core (orders d)"
  shows "map_option order_core (find_order k d') = map_option order_core (find_order k d)"
proof -
  have "map_option order_core (find_row (\<lambda>r. o_id r = k) rs)
      = find_row (\<lambda>r. o_id r = k) (map order_core rs)" for rs
    by (induction rs) auto
  then show ?thesis by (simp add: find_order_def assms)
qed

lemma find_order_status_core:
  assumes "production_part d' = production_part d"
  shows "map_option o_status (find_order k d') = map_option o_status (find_order k d)"
proof -
  have "map_option o_status (find_order k x) = map_option o_status (map_option order_core (find_order k x))"
    for x by (cases "find_order k x") simp_all
  then show ?thesis
    using find_order_core[OF production_part_sel(1)[OF assms]] by metis
qed

text \<open>Updates of the money columns of orders and of the money tables.\<close>

lemma map_core_update:
  "(\<And>r. P r \<Longrightarrow> order_core (f r) = order_core r) \<Longrightarrow>
    map order_core (update_rows P f rs) = map order_core rs"
  by (rule map_update_rows)

lemma production_part_orders:
  "(\<And>r. P r \<Longrightarrow> order_core (f r) = order_core r) \<Longrightarrow>
    production_part (orders_update (update_rows P f) d) = production_part d"
  by (simp add: production_part_def map_core_update)

lemma production_part_update_payment_status [simp]:
  "production_part (update_payment_status now k st d) = production_part d"
  unfolding update_payment_status_def update_order_def
  by (rule production_part_orders) (simp add: order_core_def)

lemma production_part_set_paid [simp]:
  "production_part (set_paid_payment_id now k pid d) = production_part d"
  unfolding set_paid_payment_id_def
  by (rule production_part_orders) (simp add: order_core_def)

lemma production_part_money [simp]:
  "production_part (update_payment k f d) = production_part d"
  "production_part (d\<lparr>payment_log := l\<rparr>) = production_part d"
  "production_part (d\<lparr>refunds := rs\<rparr>) = production_part d"
  "production_part (d\<lparr>inbox := cs\<rparr>) = production_part d"
  "production_part (d\<lparr>business := bs\<rparr>) = production_part d"
  "production_part (update_refund k g d) = production_part d"
  by (simp_all add: production_part_def update_payment_def update_refund_def)

lemma transition_payment_production:
  assumes "transition_payment now p tgt actor payload d = Inr ((u, dup), d')"
  shows "production_part d' = production_part d"
  using transition_payment_cases[OF assms] by (metis production_part_money(1,2))

end
