(* ===== verification/Samples.thy ===== *)
theory Samples
  imports Store
begin

text \<open>
  Concrete rows and a concrete database for the examples that accompany the properties: one
  terminal, one paid order with its job and its payment, and external functions that are easy
  to compute with.
\<close>

definition sample_x :: externals where
  "sample_x = \<lparr>x_json_sha = (\<lambda>v. case v of JObj d \<Rightarrow> concat (map fst d) | _ \<Rightarrow> ''digest''),
     x_sha = (\<lambda>s. s), x_hmac = (\<lambda>k s. k @ s), x_iso = (\<lambda>t. ''2026-01-01'')\<rparr>"

definition sample_terminal :: terminal where
  "sample_terminal = \<lparr>t_id = 7, t_device_id = ''device-7'', t_serial_number = ''SN7'',
     t_store_id = Some ''store'', t_lifecycle_status = ''ACTIVE'', t_connection_status = ''ONLINE'',
     t_last_seen_at = Some 1000, t_last_heartbeat_at = Some 1000, t_last_connected_at = Some 900,
     t_active_boot_id = Some ''boot'', t_last_sequence = Some 5, t_instance_id = Some ''inst'',
     t_software_version = Some ''1.0'', t_capability_version = JInt 1, t_inventory_version = JInt 1,
     t_heartbeat_count = 3, t_reported_status = JObj [(''deviceStatus'', JStr ''IDLE'')],
     t_device_identity_kind = Some ''PRODUCTION'', t_ui_locale = ''zh-CN'', t_updated_at = 1000\<rparr>"

definition sample_order :: sales_order where
  "sample_order = \<lparr>o_id = Uuid ''order-1'', o_order_no = ''NO1'', o_terminal_id = 7,
     o_access_token_hash = ''hash-1'', o_idempotency_key = ''key-1'', o_request_digest = ''digest-1'',
     o_status = O_PAID, o_payment_mode = ''ONLINE'', o_payment_status = OP_PAID,
     o_currency = ''CNY'', o_total_amount_minor = 500, o_recipe_id = ''latte'',
     o_recipe_version = ''v1'', o_sku_code = Some ''SKU'', o_product_name = ''Latte'',
     o_product_snapshot = [], o_failure_code = None, o_failure_message = None,
     o_created_at = 100, o_updated_at = 100, o_started_at = None, o_completed_at = None,
     o_cancelled_at = None, o_paid_payment_id = Some (Uuid ''pay-1''), o_pickup_required = True,
     o_collected_at = None, o_tenant_id = None, o_payment_account_id = None\<rparr>"

definition sample_payment :: payment where
  "sample_payment = \<lparr>p_id = Uuid ''pay-1'', p_order_id = Uuid ''order-1'', p_provider = ''mock'',
     p_merchant_payment_no = ''M1'', p_provider_trade_no = Some ''T1'', p_idempotency_key = ''key-1'',
     p_request_digest = ''digest-1'', p_status = P_PAID, p_revision = 1, p_amount_minor = 500,
     p_currency = ''CNY'', p_subject = ''Latte'', p_qr_code = None, p_provider_response = None,
     p_next_reconcile_at = None, p_created_at = 100, p_updated_at = 110, p_paid_at = Some 110,
     p_closed_at = None, p_payment_account_id = None\<rparr>"

text \<open>A paid order, nothing refunded yet; and the same with a refund of 200 in flight.\<close>

definition sample_paid_db :: db where
  "sample_paid_db = empty_db\<lparr>terminals := [sample_terminal], orders := [sample_order],
     payments := [sample_payment]\<rparr>"

definition sample_refund :: refund where
  "sample_refund = \<lparr>r_id = Uuid ''refund-1'', r_payment_id = Uuid ''pay-1'', r_provider = ''mock'',
     r_merchant_refund_no = ''R1'', r_idempotency_key = ''rkey-1'', r_request_digest = ''digest'',
     r_status = R_PROCESSING, r_revision = 1, r_amount_minor = 200, r_reason = ''spilled'',
     r_provider_response = None, r_attempt_count = 1, r_next_attempt_at = Some 130,
     r_created_at = 120, r_updated_at = 120, r_completed_at = None\<rparr>"

definition sample_refunding_db :: db where
  "sample_refunding_db = sample_paid_db\<lparr>
     orders := [sample_order\<lparr>o_payment_status := OP_REFUNDING\<rparr>],
     payments := [sample_payment\<lparr>p_status := P_REFUNDING, p_revision := 2\<rparr>],
     refunds := [sample_refund]\<rparr>"

text \<open>An order waiting for its payment, and the notification that it was paid.\<close>

definition sample_pending_db :: db where
  "sample_pending_db = sample_paid_db\<lparr>
     orders := [sample_order\<lparr>o_status := O_AWAITING_PAYMENT, o_payment_status := OP_PENDING,
       o_paid_payment_id := None\<rparr>],
     payments := [sample_payment\<lparr>p_status := P_PENDING, p_paid_at := None,
       p_provider_trade_no := None\<rparr>]\<rparr>"

definition sample_notification :: "(string \<times> string) list" where
  "sample_notification = [(''notify_id'', ''N1''), (''out_trade_no'', ''M1''),
     (''amount_minor'', ''500''), (''trade_no'', ''T9'')]"

lemmas sample_defs = sample_paid_db_def sample_refunding_db_def sample_terminal_def
  sample_order_def sample_payment_def sample_refund_def empty_db_def

end
