(* ===== verification/Refunds.thy ===== *)
theory Refunds
  imports Transitions Samples
begin

text \<open>
  \<open>app/services/refund_intents.py\<close>: the one place refund money is decided. A refund intent
  reserves part of what was paid; the channel's outcome settles it and recomputes the payment.
  Identifiers the code draws (\<open>uuid4\<close>) are arguments.

  The specification is \<open>settlement\<close>, the payment status as a function of the refunds of a
  payment, and \<open>refund_ledger\<close>, the invariant of the two tables: reserved and refunded money
  never exceeds the payment, and every paid payment shows the settlement of its refunds.
\<close>

section \<open>Intents\<close>

definition IN_FLIGHT_REFUND_STATUSES :: "refund_status list" where
  "IN_FLIGHT_REFUND_STATUSES = [R_REQUESTED, R_PROCESSING, R_UNKNOWN]"

definition BUDGET_REFUND_STATUSES :: "refund_status list" where
  "BUDGET_REFUND_STATUSES = IN_FLIGHT_REFUND_STATUSES @ [R_SUCCEEDED]"

definition REFUNDABLE_PAYMENT_STATUSES :: "payment_status list" where
  "REFUNDABLE_PAYMENT_STATUSES = [P_PAID, P_REFUNDING, P_PARTIALLY_REFUNDED]"

record refund_intent =
  ri_refund :: refund
  ri_created :: bool
  ri_payment :: "payment option"

text \<open>\<open>uuid.hex\<close>: the 32 digits without the dashes.\<close>

definition uuid_hex :: "uuid \<Rightarrow> string" where
  "uuid_hex u = filter (\<lambda>c. c \<noteq> CHR ''-'') (uuid_str u)"

definition merchant_refund_number :: "uuid \<Rightarrow> string" where
  "merchant_refund_number u = CHR ''R'' # py_upper (take 24 (uuid_hex u))"

definition remaining_budget :: "payment \<Rightarrow> db \<Rightarrow> int" where
  "remaining_budget p d = p_amount_minor p - refunded_total (p_id p) BUDGET_REFUND_STATUSES d"

text \<open>Only the order's primary payment shows its refunds on the order.\<close>

definition project_refunding :: "timestamp \<Rightarrow> payment \<Rightarrow> db \<Rightarrow> db" where
  "project_refunding now p d =
     (case find_order (p_order_id p) d of
        None \<Rightarrow> d
      | Some ord \<Rightarrow>
          if str_uuid_opt (o_paid_payment_id ord) = uuid_str (p_id p)
          then update_payment_status now (o_id ord) OP_REFUNDING d
          else d)"

text \<open>
  \<open>create_refund_intent\<close>; \<open>rid\<close> and \<open>nid\<close> are the two identifiers it draws. An amount of
  \<open>None\<close> means the remaining budget.
\<close>

definition create_refund_intent ::
  "externals \<Rightarrow> timestamp \<Rightarrow> uuid \<Rightarrow> uuid \<Rightarrow> uuid \<Rightarrow> string \<Rightarrow> string \<Rightarrow> int option \<Rightarrow> string option
    \<Rightarrow> string \<Rightarrow> db \<Rightarrow> err + refund_intent \<times> db" where
  "create_refund_intent x now rid nid payment_id key why amount_minor request_digest actor d =
     (case find_payment payment_id d of
        None \<Rightarrow> Inl (service_error 404 ''payment not found'')
      | Some p \<Rightarrow>
          (case find_refund_idempotent payment_id key d of
             Some old \<Rightarrow>
               if request_digest \<noteq> None \<and> Some (py_strip (r_request_digest old)) \<noteq> request_digest
               then Inl (service_error 409 ''Idempotency-Key payload conflict'')
               else Inr (\<lparr>ri_refund = old, ri_created = False, ri_payment = Some p\<rparr>, d)
           | None \<Rightarrow>
               if p_status p \<notin> set REFUNDABLE_PAYMENT_STATUSES
               then Inl (service_error 409 ''payment is not refundable'')
               else
                 let remaining = p_amount_minor p
                       - refunded_total payment_id BUDGET_REFUND_STATUSES d;
                     amount = (case amount_minor of None \<Rightarrow> remaining | Some a \<Rightarrow> a)
                 in if amount \<le> 0 \<or> amount > remaining
                    then Inl (service_error 409 ''refund amount exceeds unrefunded payment amount'')
                    else
                      let digest = (case request_digest of
                            Some g \<Rightarrow> if g \<noteq> [] then g else
                              canonical_digest x (JObj [(''amountMinor'', JInt amount), (''reason'', JStr why)])
                          | None \<Rightarrow>
                              canonical_digest x (JObj [(''amountMinor'', JInt amount), (''reason'', JStr why)]))
                      in bind_ok (insert_refund now rid p (merchant_refund_number nid) key digest
                             amount why d)
                         (\<lambda>(r, d1).
                           bind_ok (transition_payment now p P_REFUNDING actor
                               (JObj [(''refundId'', JStr (uuid_str (r_id r)))]) d1)
                             (\<lambda>((p', _), d2).
                               Inr (\<lparr>ri_refund = r, ri_created = True, ri_payment = Some p'\<rparr>,
                                 project_refunding now p' d2)))))"

definition ensure_automatic_refund_intent ::
  "externals \<Rightarrow> timestamp \<Rightarrow> uuid \<Rightarrow> uuid \<Rightarrow> uuid \<Rightarrow> string \<Rightarrow> string \<Rightarrow> string \<Rightarrow> db
    \<Rightarrow> err + refund_intent option \<times> db" where
  "ensure_automatic_refund_intent x now rid nid payment_id key why actor d =
     (case find_payment payment_id d of
        None \<Rightarrow> Inr (None, d)
      | Some p \<Rightarrow>
          if p_status p \<notin> set REFUNDABLE_PAYMENT_STATUSES then Inr (None, d)
          else (case find_refund_idempotent payment_id key d of
             Some old \<Rightarrow>
               Inr (Some \<lparr>ri_refund = old, ri_created = False, ri_payment = Some p\<rparr>, d)
           | None \<Rightarrow>
               let remaining = p_amount_minor p
                     - refunded_total payment_id BUDGET_REFUND_STATUSES d
               in if remaining \<le> 0 then Inr (None, d)
                  else bind_ok (create_refund_intent x now rid nid payment_id key why
                        (Some remaining) None actor d)
                    (\<lambda>(i, d1). Inr (Some i, d1))))"

section \<open>Outcomes\<close>

text \<open>The payment status the refunds of a payment call for, computed as the code does.\<close>

definition payment_target :: "payment \<Rightarrow> db \<Rightarrow> payment_status" where
  "payment_target p d =
     (let succeeded = refunded_total (p_id p) [R_SUCCEEDED] d
      in if p_amount_minor p \<le> succeeded then P_REFUNDED
         else if inflight_refund_exists (p_id p) d then P_REFUNDING
         else if 0 < succeeded then P_PARTIALLY_REFUNDED
         else P_PAID)"

definition settle_payment_after_refund ::
  "timestamp \<Rightarrow> payment \<Rightarrow> sales_order option \<Rightarrow> json \<Rightarrow> string \<Rightarrow> db \<Rightarrow> err + db" where
  "settle_payment_after_refund now p ord payload actor d =
     (let tgt = payment_target p d
      in bind_ok (transition_payment now p tgt actor (py_or payload (JObj [])) d)
        (\<lambda>(_, d1).
          case ord of
            None \<Rightarrow> Inr d1
          | Some r \<Rightarrow>
              if str_uuid_opt (o_paid_payment_id r) \<noteq> uuid_str (p_id p) then Inr d1
              else
                let d2 = update_payment_status now (o_id r) (order_payment_of tgt) d1
                in if tgt = P_REFUNDED \<and> o_status r = O_FAILED
                   then bind_ok (transition_order now r O_REFUNDED actor
                          (Some ''full refund completed'') JNull d2)
                     (\<lambda>(_, d3). Inr d3)
                   else Inr d2))"

definition apply_refund_outcome ::
  "timestamp \<Rightarrow> uuid \<Rightarrow> refund_status \<Rightarrow> json \<Rightarrow> string \<Rightarrow> db \<Rightarrow> err + refund option \<times> db" where
  "apply_refund_outcome now refund_id tgt payload actor d =
     (case find_refund refund_id d of
        None \<Rightarrow> Inr (None, d)
      | Some r0 \<Rightarrow>
          (case find_payment (r_payment_id r0) d of
             None \<Rightarrow> Inr (None, d)
           | Some p0 \<Rightarrow>
               let ord = find_order (p_order_id p0) d in
               (case find_payment (p_id p0) d of
                  None \<Rightarrow> Inl Assertion_error
                | Some p \<Rightarrow>
                    (case find_refund refund_id d of
                       None \<Rightarrow> Inl Assertion_error
                     | Some r \<Rightarrow>
                         if r_status r \<in> set [R_SUCCEEDED, R_FAILED] then Inr (Some r, d)
                         else bind_ok (transition_refund now r tgt payload d)
                           (\<lambda>((r', _), d1).
                             if tgt \<in> set [R_SUCCEEDED, R_FAILED]
                             then bind_ok (settle_payment_after_refund now p ord payload actor d1)
                               (\<lambda>d2. Inr (Some r', d2))
                             else Inr (Some r', d1))))))"

section \<open>Sums over the refunds of a payment\<close>

lemma refunded_total_cong:
  "refunds d' = refunds d \<Longrightarrow> refunded_total k S d' = refunded_total k S d"
  by (simp add: refunded_total_def refunds_of_def)

lemma inflight_cong:
  "refunds d' = refunds d \<Longrightarrow> inflight_refund_exists k d' = inflight_refund_exists k d"
  by (simp add: inflight_refund_exists_def)

lemma payment_target_cong:
  assumes "refunds d' = refunds d" and "p_id q = p_id p" and "p_amount_minor q = p_amount_minor p"
  shows "payment_target q d' = payment_target p d"
  using assms(2,3) inflight_cong[OF assms(1), of "p_id p"]
    refunded_total_cong[OF assms(1), of "p_id p"]
  by (simp add: payment_target_def cong: if_cong)

definition counted :: "uuid \<Rightarrow> refund_status list \<Rightarrow> refund \<Rightarrow> int" where
  "counted k S r = (if r_payment_id r = k \<and> r_status r \<in> set S then r_amount_minor r else 0)"

lemma total_counted: "refunded_total k S d = sum_list (map (counted k S) (refunds d))"
proof -
  have "sum_list (map r_amount_minor (filter (\<lambda>r. r_payment_id r = k \<and> r_status r \<in> set S) rs))
      = sum_list (map (counted k S) rs)" for rs
    by (induction rs) (auto simp: counted_def)
  then show ?thesis by (simp add: refunded_total_def refunds_of_def)
qed

lemma sum_update_row:
  fixes g :: "'r \<Rightarrow> int"
  assumes "distinct (map key rs)" and "find_row (\<lambda>r. key r = k) rs = Some r"
  shows "sum_list (map g (update_rows (\<lambda>r. key r = k) f rs)) = sum_list (map g rs) - g r + g (f r)"
  using assms
proof (induction rs)
  case Nil
  then show ?case by simp
next
  case (Cons x rs)
  show ?case
  proof (cases "key x = k")
    case True
    with Cons.prems(1) have "update_rows (\<lambda>r. key r = k) f rs = rs"
      by (intro update_rows_none) (auto simp: image_iff)
    with True Cons.prems(2) show ?thesis by simp
  next
    case False
    with Cons show ?thesis by simp
  qed
qed

lemma total_update_refund:
  assumes "distinct (map r_id (refunds d))" and "find_refund k d = Some r"
  shows "refunded_total pid S (update_refund k f d)
    = refunded_total pid S d - counted pid S r + counted pid S (f r)"
  using sum_update_row[of r_id "refunds d" k r] assms
  by (simp add: total_counted update_refund_def find_refund_def)

lemma total_insert_refund:
  "refunds d' = refunds d @ [r] \<Longrightarrow> refunded_total pid S d' = refunded_total pid S d + counted pid S r"
  by (simp add: total_counted)

lemma total_nonneg:
  "(\<And>r. r \<in> set (refunds d) \<Longrightarrow> 0 < r_amount_minor r) \<Longrightarrow> 0 \<le> refunded_total k S d"
  by (auto simp: total_counted counted_def less_imp_le intro!: sum_list_nonneg)

lemma total_budget:
  "refunded_total k BUDGET_REFUND_STATUSES d
    = refunded_total k IN_FLIGHT_REFUND_STATUSES d + refunded_total k [R_SUCCEEDED] d"
proof -
  have "counted k BUDGET_REFUND_STATUSES r = counted k IN_FLIGHT_REFUND_STATUSES r + counted k [R_SUCCEEDED] r"
    for r
    by (auto simp: counted_def BUDGET_REFUND_STATUSES_def IN_FLIGHT_REFUND_STATUSES_def)
  then have "sum_list (map (counted k BUDGET_REFUND_STATUSES) rs)
      = sum_list (map (counted k IN_FLIGHT_REFUND_STATUSES) rs) + sum_list (map (counted k [R_SUCCEEDED]) rs)"
    for rs by (induction rs) simp_all
  then show ?thesis by (simp add: total_counted)
qed

text \<open>With positive amounts there is a refund in flight exactly when it holds money.\<close>

lemma inflight_iff:
  assumes "\<And>r. r \<in> set (refunds d) \<Longrightarrow> 0 < r_amount_minor r"
  shows "inflight_refund_exists k d \<longleftrightarrow> 0 < refunded_total k IN_FLIGHT_REFUND_STATUSES d"
proof -
  have "(\<exists>r \<in> set rs. r_payment_id r = k \<and> r_status r \<in> set IN_FLIGHT_REFUND_STATUSES)
      \<longleftrightarrow> 0 < sum_list (map (counted k IN_FLIGHT_REFUND_STATUSES) rs)"
    if "\<And>r. r \<in> set rs \<Longrightarrow> 0 < r_amount_minor r" for rs
    using that
  proof (induction rs)
    case Nil
    then show ?case by simp
  next
    case (Cons x rs)
    have "0 \<le> sum_list (map (counted k IN_FLIGHT_REFUND_STATUSES) rs)"
      using Cons.prems by (auto simp: counted_def less_imp_le intro!: sum_list_nonneg)
    moreover have "0 < r_amount_minor x" using Cons.prems by simp
    moreover have "(\<exists>r \<in> set rs. r_payment_id r = k \<and> r_status r \<in> set IN_FLIGHT_REFUND_STATUSES)
      \<longleftrightarrow> 0 < sum_list (map (counted k IN_FLIGHT_REFUND_STATUSES) rs)"
      using Cons by simp
    ultimately show ?case
      by (cases "r_payment_id x = k \<and> r_status x \<in> set IN_FLIGHT_REFUND_STATUSES")
        (auto simp: counted_def[of k IN_FLIGHT_REFUND_STATUSES x])
  qed
  with assms show ?thesis
    by (simp add: inflight_refund_exists_def total_counted list_ex_iff IN_FLIGHT_REFUND_STATUSES_def)
qed

section \<open>The ledger\<close>

text \<open>The statuses of a payment whose money has arrived.\<close>

definition received_statuses :: "payment_status list" where
  "received_statuses = [P_PAID, P_REFUNDING, P_PARTIALLY_REFUNDED, P_REFUNDED]"

definition settled :: "db \<Rightarrow> payment \<Rightarrow> bool" where
  "settled d p \<longleftrightarrow>
     (if p_status p \<in> set received_statuses then p_status p = payment_target p d
      else (\<forall>r \<in> set (refunds d). r_payment_id r \<noteq> p_id p))"

text \<open>No audit event of a payment carries a transition number above its revision.\<close>

definition payment_log_fresh :: "db \<Rightarrow> payment \<Rightarrow> bool" where
  "payment_log_fresh d p \<longleftrightarrow> 0 \<le> p_revision p \<and>
     (\<forall>e \<in> set (payment_log d). pe_payment_id e = p_id p \<and> starts_with ''transition:'' (pe_event_id e)
        \<longrightarrow> int (digits_value (drop 11 (pe_event_id e))) \<le> p_revision p)"

definition ledger_base :: "db \<Rightarrow> bool" where
  "ledger_base d \<longleftrightarrow> distinct (map p_id (payments d)) \<and> distinct (map r_id (refunds d))
     \<and> (\<forall>r \<in> set (refunds d). 0 < r_amount_minor r)
     \<and> (\<forall>p \<in> set (payments d). 0 < p_amount_minor p
          \<and> refunded_total (p_id p) BUDGET_REFUND_STATUSES d \<le> p_amount_minor p
          \<and> payment_log_fresh d p)"

definition refund_ledger :: "db \<Rightarrow> bool" where
  "refund_ledger d \<longleftrightarrow> ledger_base d \<and> (\<forall>p \<in> set (payments d). settled d p)"

lemma settled_cong: "refunds d' = refunds d \<Longrightarrow> settled d' p = settled d p"
  using payment_target_cong[of d' d p p] by (simp add: settled_def)

lemma ledger_base_cong:
  assumes "payments d' = payments d" "refunds d' = refunds d" "payment_log d' = payment_log d"
  shows "ledger_base d' = ledger_base d"
  using assms by (simp add: ledger_base_def payment_log_fresh_def refunded_total_cong[OF assms(2)])

lemma refund_ledger_cong:
  assumes "payments d' = payments d" "refunds d' = refunds d" "payment_log d' = payment_log d"
  shows "refund_ledger d' = refund_ledger d"
  using assms by (simp add: refund_ledger_def ledger_base_cong[OF assms] settled_cong[OF assms(2)])

lemma ledger_baseD:
  assumes "ledger_base d"
  shows "distinct (map p_id (payments d))" "distinct (map r_id (refunds d))"
    "\<And>r. r \<in> set (refunds d) \<Longrightarrow> 0 < r_amount_minor r"
    "\<And>p. p \<in> set (payments d) \<Longrightarrow> 0 < p_amount_minor p"
    "\<And>p. p \<in> set (payments d) \<Longrightarrow> refunded_total (p_id p) BUDGET_REFUND_STATUSES d \<le> p_amount_minor p"
    "\<And>p. p \<in> set (payments d) \<Longrightarrow> payment_log_fresh d p"
  using assms by (auto simp: ledger_base_def)

text \<open>
  Rewriting one payment row, with events appended to its log: the ledger holds again when the
  new row is settled.
\<close>

lemma ledger_payment_update:
  assumes base: "ledger_base d"
    and others: "\<And>q. q \<in> set (payments d) \<Longrightarrow> p_id q \<noteq> k \<Longrightarrow> settled d q"
    and p: "find_payment k d = Some p"
    and d': "payments d' = update_rows (\<lambda>q. p_id q = k) f (payments d)" "refunds d' = refunds d"
      "payment_log d' = payment_log d @ es"
    and es: "\<And>e. e \<in> set es \<Longrightarrow> pe_payment_id e = k \<and> (starts_with ''transition:'' (pe_event_id e)
      \<longrightarrow> int (digits_value (drop 11 (pe_event_id e))) \<le> p_revision (f p))"
    and f: "p_id (f p) = k" "p_amount_minor (f p) = p_amount_minor p" "p_revision p \<le> p_revision (f p)"
    and st: "settled d (f p)"
  shows "refund_ledger d'"
proof -
  note b = ledger_baseD[OF base]
  have pk: "p \<in> set (payments d)" "p_id p = k" using find_payment_SomeD[OF p] by auto
  have only: "q = p" if "q \<in> set (payments d)" "p_id q = k" for q
    using distinct_key_eq[OF b(1) that(1) pk(1)] that(2) pk(2) by simp
  have split: "set (payments d) = insert p {q \<in> set (payments d). p_id q \<noteq> k}"
    using only pk(1) by blast
  have "set (payments d') = (\<lambda>q. if p_id q = k then f q else q) ` set (payments d)"
    by (simp add: d'(1) set_update_rows)
  also have "\<dots> = insert (f p) {q \<in> set (payments d). p_id q \<noteq> k}"
    by (subst split) (auto simp: pk(2))
  finally have rows: "q \<in> set (payments d') \<longleftrightarrow> q = f p \<or> (q \<in> set (payments d) \<and> p_id q \<noteq> k)" for q
    by simp
  have fresh: "payment_log_fresh d' q" if q: "q \<in> set (payments d')" for q
  proof (cases "q = f p")
    case True
    have old: "int (digits_value (drop 11 (pe_event_id e))) \<le> p_revision (f p)"
      if "e \<in> set (payment_log d)" "pe_payment_id e = k" "starts_with ''transition:'' (pe_event_id e)" for e
    proof -
      have "int (digits_value (drop 11 (pe_event_id e))) \<le> p_revision p"
        using b(6)[OF pk(1)] that pk(2) by (auto simp: payment_log_fresh_def)
      then show ?thesis using f(3) by simp
    qed
    have "0 \<le> p_revision (f p)"
      using b(6)[OF pk(1)] f(3) by (simp add: payment_log_fresh_def)
    then show ?thesis
      using True old es f(1) by (auto simp: payment_log_fresh_def d'(3))
  next
    case False
    with q rows have "q \<in> set (payments d)" "p_id q \<noteq> k" by auto
    with b(6)[of q] es show ?thesis by (auto simp: payment_log_fresh_def d'(3))
  qed
  have dist: "distinct (map p_id (payments d'))"
  proof -
    have "update_rows (\<lambda>q. p_id q = k) f (payments d) = update_rows (\<lambda>q. p_id q = k) (\<lambda>_. f p) (payments d)"
      unfolding update_rows_def using only by auto
    moreover have "map p_id (update_rows (\<lambda>q. p_id q = k) (\<lambda>_. f p) (payments d)) = map p_id (payments d)"
      by (rule map_update_rows) (simp add: f(1))
    ultimately show ?thesis using b(1) by (simp add: d'(1))
  qed
  have "ledger_base d'"
    unfolding ledger_base_def d'(2) refunded_total_cong[OF d'(2)]
  proof (intro conjI ballI)
    fix q assume "q \<in> set (payments d')"
    then consider "q = f p" | "q \<in> set (payments d)" using rows by blast
    then have "0 < p_amount_minor q
      \<and> refunded_total (p_id q) BUDGET_REFUND_STATUSES d \<le> p_amount_minor q"
    proof cases
      case 1
      then show ?thesis using b(4,5)[OF pk(1)] pk(2) f by simp
    next
      case 2
      then show ?thesis using b(4,5) by simp
    qed
    then show "0 < p_amount_minor q"
      and "refunded_total (p_id q) BUDGET_REFUND_STATUSES d \<le> p_amount_minor q" by auto
  qed (use b(2,3) dist fresh in auto)
  moreover have "settled d' q" if "q \<in> set (payments d')" for q
    using that[unfolded rows] others st unfolding settled_cong[OF d'(2)] by fastforce
  ultimately show ?thesis by (simp add: refund_ledger_def)
qed

text \<open>A payment transition into the settlement of the payment's refunds restores the ledger.\<close>

lemma starts_with_append [simp]: "starts_with p (p @ s)"
  by (simp add: starts_with_def)

lemma str_int_nonneg: "0 \<le> n \<Longrightarrow> int (digits_value (str_int n)) = n"
  by (simp add: str_int_def)

lemma transition_event_id:
  "0 \<le> n \<Longrightarrow> int (digits_value (drop 11 (''transition:'' @ str_int n))) = n"
  by (simp add: str_int_nonneg)

lemma transition_payment_ok:
  assumes base: "ledger_base d" and p: "find_payment (p_id p) d = Some p"
    and mv: "payment_decision.moves (p_status p) tgt"
  shows "\<exists>e. transition_payment now p tgt actor payload d
      = Inr ((payment_moved now tgt (p_revision p + 1) p, False),
          (update_payment (p_id p) (payment_moved now tgt (p_revision p + 1)) d)
            \<lparr>payment_log := payment_log d @ [e]\<rparr>)
    \<and> pe_payment_id e = p_id p \<and> pe_event_id e = ''transition:'' @ str_int (p_revision p + 1)"
proof -
  let ?n = "p_revision p + 1"
  let ?e = "\<lparr>pe_payment_id = p_id p, pe_event_id = ''transition:'' @ str_int ?n,
      pe_event_type = ''payment.'' @ py_lower (payment_name tgt), pe_actor = actor,
      pe_payload_json = py_or payload (JObj [])\<rparr>"
  have fresh: "payment_log_fresh d p"
    using ledger_baseD(6)[OF base] find_payment_SomeD[OF p] by simp
  then have rev: "0 \<le> p_revision p" by (simp add: payment_log_fresh_def)
  have "\<not> payment_log_clash ?e e" if "e \<in> set (payment_log d)" for e
  proof
    assume "payment_log_clash ?e e"
    then have e: "pe_payment_id e = p_id p" "pe_event_id e = ''transition:'' @ str_int ?n"
      by (simp_all only: payment_log_clash_def payment_event.simps)
    have "starts_with ''transition:'' (pe_event_id e)" unfolding e(2) by (rule starts_with_append)
    with fresh that e(1) have "int (digits_value (drop 11 (pe_event_id e))) \<le> p_revision p"
      by (auto simp: payment_log_fresh_def)
    with rev show False unfolding e(2) by (simp only: transition_event_id)
  qed
  moreover have "payment_log (update_payment (p_id p) (payment_moved now tgt ?n) d) = payment_log d"
    by (simp add: update_payment_def)
  ultimately have app: "append_payment_log ?e (update_payment (p_id p) (payment_moved now tgt ?n) d)
      = Inr ((update_payment (p_id p) (payment_moved now tgt ?n) d)\<lparr>payment_log := payment_log d @ [?e]\<rparr>)"
    by (auto simp: append_payment_log_def insert_row_def list_ex_iff)
  have fp: "find_payment k (x\<lparr>payment_log := l\<rparr>) = find_payment k x" for k x l
    by (simp add: find_payment_def)
  have "repo_transition_payment now p tgt actor payload d
      = Inr (payment_moved now tgt ?n p, (update_payment (p_id p) (payment_moved now tgt ?n) d)
            \<lparr>payment_log := payment_log d @ [?e]\<rparr>)"
    unfolding repo_transition_payment_def Let_def app bind_ok_simps fp
    using p by (simp add: find_payment_update_payment)
  moreover have "allowed (decide_payment_transition (p_status p) tgt)"
    "\<not> duplicate (decide_payment_transition (p_status p) tgt)"
    using mv by (simp_all add: payment_decision.moves_def)
  ultimately have "transition_payment now p tgt actor payload d
      = Inr ((payment_moved now tgt ?n p, False), (update_payment (p_id p) (payment_moved now tgt ?n) d)
            \<lparr>payment_log := payment_log d @ [?e]\<rparr>)"
    unfolding transition_payment_def Let_def by simp
  then show ?thesis by (intro exI[of _ ?e]) simp
qed

lemma transition_payment_ledger:
  assumes base: "ledger_base d" and p: "find_payment (p_id p) d = Some p"
    and others: "\<And>q. q \<in> set (payments d) \<Longrightarrow> p_id q \<noteq> p_id p \<Longrightarrow> settled d q"
    and mv: "p_status p = tgt \<or> payment_decision.moves (p_status p) tgt"
    and tgt: "tgt = payment_target p d" "tgt \<in> set received_statuses"
  shows "\<exists>p' dup d'. transition_payment now p tgt actor payload d = Inr ((p', dup), d')
    \<and> refund_ledger d' \<and> refunds d' = refunds d \<and> orders d' = orders d
    \<and> p_id p' = p_id p \<and> p_order_id p' = p_order_id p"
proof (cases "p_status p = tgt")
  case True
  then have "transition_payment now p tgt actor payload d = Inr ((p, True), d)"
    by (simp add: transition_payment_def Let_def payment_decision.duplicate_iff)
  moreover have "settled d q" if "q \<in> set (payments d)" for q
  proof (cases "p_id q = p_id p")
    case same: True
    then have "q = p"
      using distinct_key_eq[OF ledger_baseD(1)[OF base] that] find_payment_SomeD[OF p] by blast
    with True tgt show ?thesis by (simp add: settled_def)
  qed (use others that in blast)
  ultimately show ?thesis using base by (auto simp: refund_ledger_def)
next
  case False
  with mv have "payment_decision.moves (p_status p) tgt" by simp
  from transition_payment_ok[OF base p this, of now actor payload] obtain e where
    eq: "transition_payment now p tgt actor payload d
      = Inr ((payment_moved now tgt (p_revision p + 1) p, False),
          (update_payment (p_id p) (payment_moved now tgt (p_revision p + 1)) d)
            \<lparr>payment_log := payment_log d @ [e]\<rparr>)" (is "_ = Inr ((?p, _), ?d)")
    and e: "pe_payment_id e = p_id p" "pe_event_id e = ''transition:'' @ str_int (p_revision p + 1)"
    by blast
  have rev: "0 \<le> p_revision p"
    using ledger_baseD(6)[OF base] find_payment_SomeD[OF p] by (simp add: payment_log_fresh_def)
  have moved_rev: "p_revision ?p = p_revision p + 1" by (simp add: payment_moved_def)
  have st: "settled d ?p"
    using tgt payment_target_cong[of d d ?p p] by (simp add: settled_def)
  have "refund_ledger ?d"
  proof (rule ledger_payment_update[where es = "[e]" and f = "payment_moved now tgt (p_revision p + 1)",
        OF base others p])
    show "settled d ?p" by (rule st)
    fix e' assume "e' \<in> set [e]"
    then have "e' = e" by simp
    then show "pe_payment_id e' = p_id p \<and> (starts_with ''transition:'' (pe_event_id e')
      \<longrightarrow> int (digits_value (drop 11 (pe_event_id e'))) \<le> p_revision ?p)"
      using rev unfolding e(2) moved_rev by (simp only: e transition_event_id) simp
  qed (auto simp: update_payment_def moved_rev)
  then show ?thesis using eq by (auto simp: update_payment_def)
qed

section \<open>Reserving money\<close>

lemma counted_other [simp]: "r_payment_id r \<noteq> k \<Longrightarrow> counted k S r = 0"
  by (simp add: counted_def)

text \<open>Inserting a refund touches the totals of its own payment only.\<close>

lemma settled_insert_other:
  assumes "refunds d' = refunds d @ [r]" and "r_payment_id r \<noteq> p_id q"
  shows "settled d' q = settled d q"
proof -
  have "refunded_total (p_id q) S d' = refunded_total (p_id q) S d" for S
    using total_insert_refund[OF assms(1)] assms(2) by simp
  moreover have "inflight_refund_exists (p_id q) d' = inflight_refund_exists (p_id q) d"
    using assms by (simp add: inflight_refund_exists_def)
  ultimately have "payment_target q d' = payment_target q d"
    by (simp add: payment_target_def cong: if_cong)
  then show ?thesis using assms by (auto simp: settled_def)
qed

lemma insert_refund_base:
  assumes base: "ledger_base d" and p: "p \<in> set (payments d)"
    and d': "refunds d' = refunds d @ [r]" "payments d' = payments d" "payment_log d' = payment_log d"
    and r: "r_payment_id r = p_id p" "r_status r = R_REQUESTED" "0 < r_amount_minor r"
      "r_amount_minor r \<le> remaining_budget p d" "r_id r \<notin> r_id ` set (refunds d)"
  shows "ledger_base d'" and "payment_target p d' = P_REFUNDING"
proof -
  note b = ledger_baseD[OF base]
  have cnt: "counted (p_id q) BUDGET_REFUND_STATUSES r = (if p_id q = p_id p then r_amount_minor r else 0)"
    for q
    using r by (simp add: counted_def BUDGET_REFUND_STATUSES_def IN_FLIGHT_REFUND_STATUSES_def)
  have same: "q = p" if "q \<in> set (payments d)" "p_id q = p_id p" for q
    using distinct_key_eq[OF b(1) that(1) p that(2)] .
  have bud: "refunded_total (p_id q) BUDGET_REFUND_STATUSES d' \<le> p_amount_minor q"
    if "q \<in> set (payments d)" for q
    using total_insert_refund[OF d'(1), of "p_id q" BUDGET_REFUND_STATUSES] cnt[of q] b(5)[OF that]
      same[OF that] r(4)
    by (auto simp: remaining_budget_def split: if_splits)
  show "ledger_base d'"
    unfolding ledger_base_def d'(2)
    using b(1-4) bud r(3,5) b(6) by (auto simp: d' payment_log_fresh_def)
  have pos: "0 \<le> refunded_total (p_id p) IN_FLIGHT_REFUND_STATUSES d"
    using b(3) by (rule total_nonneg)
  have "refunded_total (p_id p) [R_SUCCEEDED] d' = refunded_total (p_id p) [R_SUCCEEDED] d"
    using total_insert_refund[OF d'(1)] r(2) by (simp add: counted_def)
  moreover have "refunded_total (p_id p) [R_SUCCEEDED] d < p_amount_minor p"
    using r(3,4) pos total_budget[of "p_id p" d] by (simp add: remaining_budget_def)
  moreover have "inflight_refund_exists (p_id p) d'"
    using r by (simp add: inflight_refund_exists_def d'(1))
  ultimately show "payment_target p d' = P_REFUNDING" by (simp add: payment_target_def)
qed

text \<open>
  A new intent within the budget: it is stored, the payment is refunding, and the ledger holds.
  The transition of the payment is never the step that fails.
\<close>

lemma find_payment_refunds_update [simp]:
  "find_payment k (d\<lparr>refunds := rs\<rparr>) = find_payment k d"
  by (simp add: find_payment_def)

lemma update_payment_status_frame [simp]:
  "payments (update_payment_status now k st d) = payments d"
  "refunds (update_payment_status now k st d) = refunds d"
  "payment_log (update_payment_status now k st d) = payment_log d"
  by (simp_all add: update_payment_status_def update_order_def)

lemma project_refunding_frame [simp]:
  "payments (project_refunding now p d) = payments d"
  "refunds (project_refunding now p d) = refunds d"
  "payment_log (project_refunding now p d) = payment_log d"
  "inbox (project_refunding now p d) = inbox d"
  "business (project_refunding now p d) = business d"
  "production_part (project_refunding now p d) = production_part d"
  by (simp_all add: project_refunding_def split: option.split)
    (simp_all add: update_payment_status_def update_order_def split: option.split)

lemma create_refund_intent_cases:
  assumes led: "refund_ledger d" and p: "find_payment pid d = Some p"
    and none: "find_refund_idempotent pid key d = None"
    and st: "p_status p \<in> set REFUNDABLE_PAYMENT_STATUSES"
    and amt: "amt = (case amount_minor of None \<Rightarrow> remaining_budget p d | Some a \<Rightarrow> a)"
      "0 < amt" "amt \<le> remaining_budget p d"
  shows "create_refund_intent x now rid nid pid key why amount_minor dg actor d = Inl Unique_violation
    \<or> (\<exists>i d'. create_refund_intent x now rid nid pid key why amount_minor dg actor d = Inr (i, d')
        \<and> ri_created i \<and> refund_ledger d' \<and> refunds d' = refunds d @ [ri_refund i]
        \<and> r_payment_id (ri_refund i) = pid \<and> r_amount_minor (ri_refund i) = amt
        \<and> r_status (ri_refund i) = R_REQUESTED \<and> r_idempotency_key (ri_refund i) = key)"
proof -
  have pk: "p \<in> set (payments d)" "p_id p = pid" using find_payment_SomeD[OF p] by auto
  have base: "ledger_base d" using led by (simp add: refund_ledger_def)
  define digest where "digest = (case dg of
       Some g \<Rightarrow> if g \<noteq> [] then g else canonical_digest x (JObj [(''amountMinor'', JInt amt), (''reason'', JStr why)])
     | None \<Rightarrow> canonical_digest x (JObj [(''amountMinor'', JInt amt), (''reason'', JStr why)]))"
  have red: "create_refund_intent x now rid nid pid key why amount_minor dg actor d
      = bind_ok (insert_refund now rid p (merchant_refund_number nid) key digest amt why d)
         (\<lambda>(r, d1). bind_ok (transition_payment now p P_REFUNDING actor
               (JObj [(''refundId'', JStr (uuid_str (r_id r)))]) d1)
             (\<lambda>((p', _), d2).
               Inr (\<lparr>ri_refund = r, ri_created = True, ri_payment = Some p'\<rparr>, project_refunding now p' d2)))"
    using p none st amt(2,3) unfolding amt(1)
    by (simp add: create_refund_intent_def Let_def remaining_budget_def pk(2) digest_def amt(1)
        split: option.splits)
  show ?thesis
  proof (cases "insert_refund now rid p (merchant_refund_number nid) key digest amt why d")
    case (Inl e)
    with amt(2) have "e = Unique_violation"
      by (auto simp: insert_refund_def Let_def bind_ok_Inl insert_row_Inl)
    with Inl red show ?thesis by simp
  next
    case (Inr rd)
    obtain r d1 where rd: "rd = (r, d1)" by force
    from Inr rd amt(2) have r: "r_payment_id r = p_id p" "r_status r = R_REQUESTED"
        "r_amount_minor r = amt" "r_idempotency_key r = key" "r_id r \<notin> r_id ` set (refunds d)"
      and d1: "d1 = d\<lparr>refunds := refunds d @ [r]\<rparr>"
      by (auto simp: insert_refund_def Let_def bind_ok_Inr insert_row_Inr refund_clash_def)
    have rf1: "refunds d1 = refunds d @ [r]" and oth1: "payments d1 = payments d"
        "payment_log d1 = payment_log d" by (simp_all add: d1)
    note ins = insert_refund_base[OF base pk(1) rf1 oth1 r(1,2) _ _ r(5)]
    have b1: "ledger_base d1" and tg: "payment_target p d1 = P_REFUNDING"
      using ins amt(2,3) r(3) by simp_all
    have p1: "find_payment (p_id p) d1 = Some p" using p pk(2) by (simp add: d1)
    have oth: "settled d1 q" if "q \<in> set (payments d1)" "p_id q \<noteq> p_id p" for q
      using led that settled_insert_other[OF rf1, of q] r(1) by (auto simp: refund_ledger_def oth1)
    have "p_status p = P_REFUNDING \<or> payment_decision.moves (p_status p) P_REFUNDING"
      using st by (auto simp: REFUNDABLE_PAYMENT_STATUSES_def payment_moves_iff)
    from transition_payment_ledger[OF b1 p1 oth this tg[symmetric], of now actor
        "JObj [(''refundId'', JStr (uuid_str (r_id r)))]"]
    obtain p' dup d2 where tp: "transition_payment now p P_REFUNDING actor
          (JObj [(''refundId'', JStr (uuid_str (r_id r)))]) d1 = Inr ((p', dup), d2)"
      and l2: "refund_ledger d2" "refunds d2 = refunds d1"
      by (auto simp: received_statuses_def)
    have "refund_ledger (project_refunding now p' d2)"
      using l2(1) refund_ledger_cong[OF project_refunding_frame(1-3)] by simp
    then show ?thesis
      using l2 rf1 r pk(2) by (auto simp: red Inr rd tp)
  qed
qed

section \<open>Settling outcomes\<close>

lemma payment_target_totals:
  assumes "\<And>r. r \<in> set (refunds d) \<Longrightarrow> 0 < r_amount_minor r"
  shows "payment_target p d =
    (let s = refunded_total (p_id p) [R_SUCCEEDED] d
     in if p_amount_minor p \<le> s then P_REFUNDED
        else if 0 < refunded_total (p_id p) IN_FLIGHT_REFUND_STATUSES d then P_REFUNDING
        else if 0 < s then P_PARTIALLY_REFUNDED else P_PAID)"
  using inflight_iff[OF assms, where k = "p_id p"] by (simp add: payment_target_def Let_def)

lemma payment_target_received: "payment_target p d \<in> set received_statuses"
  by (simp add: payment_target_def received_statuses_def Let_def)

text \<open>What moving one refund does to the ledger: amounts stay, only its payment may change.\<close>

lemma refund_moved_ledger:
  assumes base: "ledger_base d" and r: "find_refund k d = Some r"
    and fl: "r_status r \<in> set IN_FLIGHT_REFUND_STATUSES"
    and d': "d' = update_refund k (refund_moved now tgt payload) d"
  shows "ledger_base d'"
    and "p_id q \<noteq> r_payment_id r \<Longrightarrow> settled d' q = settled d q"
    and "tgt \<in> set IN_FLIGHT_REFUND_STATUSES \<Longrightarrow> settled d' q = settled d q"
proof -
  note b = ledger_baseD[OF base]
  let ?f = "refund_moved now tgt payload"
  have rk: "r \<in> set (refunds d)" "r_id r = k" using find_refund_SomeD[OF r] by auto
  have tot: "refunded_total i S d' = refunded_total i S d - counted i S r + counted i S (?f r)" for i S
    unfolding d' by (rule total_update_refund[OF b(2) r])
  have rows: "refunds d' = update_rows (\<lambda>r. r_id r = k) ?f (refunds d)"
    by (simp add: d' update_refund_def)
  have pays: "map r_payment_id (refunds d') = map r_payment_id (refunds d)"
    unfolding rows by (rule map_update_rows) simp
  have pays': "(\<forall>u \<in> set (refunds d'). r_payment_id u \<noteq> i) \<longleftrightarrow> (\<forall>u \<in> set (refunds d). r_payment_id u \<noteq> i)"
    for i
  proof -
    have "r_payment_id ` set (refunds d') = r_payment_id ` set (refunds d)"
      using arg_cong[OF pays, of set] by simp
    then have "i \<notin> r_payment_id ` set (refunds d') \<longleftrightarrow> i \<notin> r_payment_id ` set (refunds d)" by simp
    then show ?thesis by (auto simp: image_iff)
  qed
  have pos: "0 < r_amount_minor u" if "u \<in> set (refunds d')" for u
    using that b(3) by (auto simp: rows set_update_rows)
  have "counted i BUDGET_REFUND_STATUSES (?f r) \<le> counted i BUDGET_REFUND_STATUSES r" for i
    using fl b(3)[OF rk(1)]
    by (auto simp: counted_def BUDGET_REFUND_STATUSES_def IN_FLIGHT_REFUND_STATUSES_def)
  then have bud: "refunded_total i BUDGET_REFUND_STATUSES d' \<le> refunded_total i BUDGET_REFUND_STATUSES d" for i
    using tot[of i BUDGET_REFUND_STATUSES] by (smt (verit))
  have ids: "map r_id (refunds d') = map r_id (refunds d)"
    unfolding rows by (rule map_update_rows) simp
  have "payments d' = payments d" "payment_log d' = payment_log d"
    by (simp_all add: d' update_refund_def)
  then show "ledger_base d'"
    using b(1,2,4,5,6) pos bud ids unfolding ledger_base_def payment_log_fresh_def
    by (fastforce intro: order_trans)
  have st: "settled d' q = settled d q" if "\<And>S. S \<in> {[R_SUCCEEDED], IN_FLIGHT_REFUND_STATUSES} \<Longrightarrow>
      counted (p_id q) S (?f r) = counted (p_id q) S r" for q
  proof -
    have "payment_target q d' = payment_target q d"
      using tot that by (simp add: payment_target_totals[OF pos] payment_target_totals[OF b(3)] cong: if_cong)
    then show ?thesis using pays' by (simp add: settled_def)
  qed
  show "settled d' q = settled d q" if "p_id q \<noteq> r_payment_id r"
    using that by (intro st) (auto simp: counted_def)
  show "settled d' q = settled d q" if "tgt \<in> set IN_FLIGHT_REFUND_STATUSES"
    using that fl by (intro st) (auto simp: counted_def IN_FLIGHT_REFUND_STATUSES_def)
qed

text \<open>A payment with a refund in flight is refunding.\<close>

lemma inflight_refunding:
  assumes led: "refund_ledger d" and r: "find_refund k d = Some r"
    and fl: "r_status r \<in> set IN_FLIGHT_REFUND_STATUSES"
    and p: "find_payment (r_payment_id r) d = Some p"
  shows "p_status p = P_REFUNDING"
proof -
  have base: "ledger_base d" using led by (simp add: refund_ledger_def)
  note b = ledger_baseD[OF base]
  have rk: "r \<in> set (refunds d)" using find_refund_SomeD[OF r] by auto
  have pk: "p \<in> set (payments d)" "p_id p = r_payment_id r" using find_payment_SomeD[OF p] by auto
  have inf: "inflight_refund_exists (p_id p) d"
    using rk fl pk(2) by (auto simp: inflight_refund_exists_def list_ex_iff IN_FLIGHT_REFUND_STATUSES_def)
  have "0 < refunded_total (p_id p) IN_FLIGHT_REFUND_STATUSES d"
    using inf inflight_iff[OF b(3)] by blast
  then have "refunded_total (p_id p) [R_SUCCEEDED] d < p_amount_minor p"
    using b(5)[OF pk(1)] total_budget[of "p_id p" d] by linarith
  with inf have "payment_target p d = P_REFUNDING" by (simp add: payment_target_def)
  moreover have "settled d p" using led pk(1) by (simp add: refund_ledger_def)
  ultimately show ?thesis using rk pk(2) by (auto simp: settled_def split: if_splits)
qed

lemma settle_ok:
  assumes base: "ledger_base d" and p: "find_payment (p_id p) d = Some p"
    and others: "\<And>q. q \<in> set (payments d) \<Longrightarrow> p_id q \<noteq> p_id p \<Longrightarrow> settled d q"
    and st: "p_status p = P_REFUNDING"
    and ord: "\<And>o'. ord = Some o' \<Longrightarrow> find_order (o_id o') d = Some o'"
  shows "\<exists>d'. settle_payment_after_refund now p ord payload actor d = Inr d'
    \<and> refund_ledger d' \<and> refunds d' = refunds d"
proof -
  have "payment_target p d = P_REFUNDING \<or> payment_decision.moves P_REFUNDING (payment_target p d)"
    using payment_target_received[of p d] by (auto simp: received_statuses_def payment_moves_iff)
  then have "p_status p = payment_target p d \<or> payment_decision.moves (p_status p) (payment_target p d)"
    using st by auto
  from transition_payment_ledger[OF base p others this refl payment_target_received, of now actor
      "py_or payload (JObj [])"]
  obtain p' dup d1 where tp: "transition_payment now p (payment_target p d) actor (py_or payload (JObj [])) d
      = Inr ((p', dup), d1)"
    and l1: "refund_ledger d1" "refunds d1 = refunds d" "orders d1 = orders d" by blast
  have upd: "refund_ledger (update_payment_status now k s d1)" for k s
    using l1(1) by (simp add: refund_ledger_cong[of "update_payment_status now k s d1" d1])
  have tr: "\<exists>r' d3. transition_order now o' O_REFUNDED actor why v (update_payment_status now (o_id o') s d1)
      = Inr (r', d3) \<and> refund_ledger d3 \<and> refunds d3 = refunds d"
    if "ord = Some o'" "o_status o' = O_FAILED" for o' why v s
  proof -
    let ?d2 = "update_payment_status now (o_id o') s d1"
    have "find_order (o_id o') d1 = Some o'" using ord that l1(3) by (simp add: find_order_def)
    then obtain u where "find_order (o_id o') ?d2 = Some u"
      by (simp add: update_payment_status_def find_order_update_order)
    then have "\<exists>r' d3. transition_order now o' O_REFUNDED actor why v ?d2 = Inr (r', d3)"
      using that(2) by (simp add: transition_order_moves order_transition_allowed_def)
    then obtain r' d3 where eq: "transition_order now o' O_REFUNDED actor why v ?d2 = Inr (r', d3)" by blast
    note fr = transition_order_frame[OF eq]
    have "refund_ledger d3" using upd[of "o_id o'" s] refund_ledger_cong[OF fr(3,4,10)] by simp
    moreover have "refunds d3 = refunds d" using fr(4) l1(2) by simp
    ultimately show ?thesis using eq by blast
  qed
  show ?thesis
  proof (cases ord)
    case None
    then show ?thesis using tp l1 by (simp add: settle_payment_after_refund_def Let_def)
  next
    case (Some o')
    show ?thesis
    proof (cases "payment_target p d = P_REFUNDED \<and> o_status o' = O_FAILED
        \<and> str_uuid_opt (o_paid_payment_id o') = uuid_str (p_id p)")
      case True
      with tr[OF Some, of "Some ''full refund completed''" JNull "order_payment_of (payment_target p d)"]
      show ?thesis
        using tp Some by (auto simp: settle_payment_after_refund_def Let_def)
    next
      case False
      with Some show ?thesis
        using tp l1 upd by (auto simp: settle_payment_after_refund_def Let_def)
    qed
  qed
qed

section \<open>The operations on the ledger\<close>

lemma create_refund_intent_keeps:
  assumes "refund_ledger d"
  shows "case create_refund_intent x now rid nid pid key why amount_minor dg actor d of
      Inl e \<Rightarrow> e \<in> set [service_error 404 ''payment not found'',
          service_error 409 ''Idempotency-Key payload conflict'',
          service_error 409 ''payment is not refundable'',
          service_error 409 ''refund amount exceeds unrefunded payment amount'', Unique_violation]
    | Inr (i, d') \<Rightarrow> refund_ledger d' \<and>
        (if ri_created i then refunds d' = refunds d @ [ri_refund i]
             \<and> r_status (ri_refund i) = R_REQUESTED \<and> r_payment_id (ri_refund i) = pid
             \<and> 0 < r_amount_minor (ri_refund i)
             \<and> (\<forall>p. find_payment pid d = Some p \<longrightarrow> r_amount_minor (ri_refund i) \<le> remaining_budget p d)
         else d' = d \<and> find_refund_idempotent pid key d = Some (ri_refund i))"
proof (cases "find_payment pid d")
  case None
  then show ?thesis by (simp add: create_refund_intent_def)
next
  case (Some p)
  then have pk: "p_id p = pid" using find_payment_SomeD by blast
  show ?thesis
  proof (cases "find_refund_idempotent pid key d")
    case (Some old)
    with \<open>find_payment pid d = Some p\<close> assms show ?thesis
      by (simp add: create_refund_intent_def)
  next
    case none: None
    define amt where "amt = (case amount_minor of None \<Rightarrow> remaining_budget p d | Some a \<Rightarrow> a)"
    show ?thesis
    proof (cases "p_status p \<in> set REFUNDABLE_PAYMENT_STATUSES \<and> 0 < amt \<and> amt \<le> remaining_budget p d")
      case True
      from create_refund_intent_cases[OF assms Some none _ amt_def, of x now rid nid why dg actor] True
      consider "create_refund_intent x now rid nid pid key why amount_minor dg actor d = Inl Unique_violation"
        | i d' where "create_refund_intent x now rid nid pid key why amount_minor dg actor d = Inr (i, d')"
          "ri_created i" "refund_ledger d'" "refunds d' = refunds d @ [ri_refund i]"
          "r_payment_id (ri_refund i) = pid" "r_amount_minor (ri_refund i) = amt"
          "r_status (ri_refund i) = R_REQUESTED" by blast
      then show ?thesis by cases (use True Some in simp_all)
    next
      case False
      with Some none show ?thesis
        by (cases amount_minor)
          (auto simp: create_refund_intent_def Let_def amt_def remaining_budget_def pk)
    qed
  qed
qed

lemma ensure_covers:
  assumes led: "refund_ledger d" and p: "find_payment pid d = Some p"
    and st: "p_status p \<in> set REFUNDABLE_PAYMENT_STATUSES"
  shows "case ensure_automatic_refund_intent x now rid nid pid key why actor d of
      Inl e \<Rightarrow> e = Unique_violation
    | Inr (res, d') \<Rightarrow> refund_ledger d'
        \<and> (find_refund_idempotent pid key d = None \<longrightarrow> remaining_budget p d' = 0)"
proof -
  have base: "ledger_base d" using led by (simp add: refund_ledger_def)
  have pk: "p \<in> set (payments d)" "p_id p = pid" using find_payment_SomeD[OF p] by auto
  have ge: "0 \<le> remaining_budget p d"
    using ledger_baseD(5)[OF base pk(1)] by (simp add: remaining_budget_def)
  show ?thesis
  proof (cases "find_refund_idempotent pid key d")
    case (Some old)
    with p st led show ?thesis by (simp add: ensure_automatic_refund_intent_def)
  next
    case none: None
    show ?thesis
    proof (cases "remaining_budget p d \<le> 0")
      case True
      with p st none led ge show ?thesis
        by (simp add: ensure_automatic_refund_intent_def Let_def remaining_budget_def pk(2))
    next
      case False
      let ?c = "create_refund_intent x now rid nid pid key why (Some (remaining_budget p d)) None actor d"
      have red: "ensure_automatic_refund_intent x now rid nid pid key why actor d
          = bind_ok ?c (\<lambda>(i, d1). Inr (Some i, d1))"
        using p st none False
        by (simp add: ensure_automatic_refund_intent_def Let_def remaining_budget_def pk(2))
      from create_refund_intent_cases[OF led p none st, of "remaining_budget p d"
          "Some (remaining_budget p d)" x now rid nid why None actor] False
      consider "?c = Inl Unique_violation"
        | i d' where "?c = Inr (i, d')" "refund_ledger d'" "refunds d' = refunds d @ [ri_refund i]"
          "r_payment_id (ri_refund i) = pid" "r_amount_minor (ri_refund i) = remaining_budget p d"
          "r_status (ri_refund i) = R_REQUESTED" by auto
      then show ?thesis
      proof cases
        case 1
        then show ?thesis by (simp add: red)
      next
        case (2 i d')
        have "remaining_budget p d' = 0"
          using total_insert_refund[OF 2(3), of pid BUDGET_REFUND_STATUSES] 2(4-6)
          by (simp add: remaining_budget_def pk(2) counted_def BUDGET_REFUND_STATUSES_def
              IN_FLIGHT_REFUND_STATUSES_def)
        with 2 show ?thesis by (simp add: red)
      qed
    qed
  qed
qed

lemma refund_outcome_keeps:
  assumes led: "refund_ledger d"
  shows "case apply_refund_outcome now k tgt payload actor d of
      Inl e \<Rightarrow> tgt = R_REQUESTED \<and> (\<exists>msg. e = http_error 409 msg)
    | Inr (res, d') \<Rightarrow> refund_ledger d'"
proof -
  have base: "ledger_base d" using led by (simp add: refund_ledger_def)
  show ?thesis
  proof (cases "\<exists>r p. find_refund k d = Some r \<and> find_payment (r_payment_id r) d = Some p
      \<and> r_status r \<notin> set [R_SUCCEEDED, R_FAILED]")
    case False
    have same: "find_payment (p_id p) d = Some p" if "find_payment i d = Some p" for i p
      using that find_payment_SomeD[OF that] by simp
    from False led show ?thesis
      by (auto simp: apply_refund_outcome_def Let_def same split: option.splits)
  next
    case True
    then obtain r p where r: "find_refund k d = Some r" and p: "find_payment (r_payment_id r) d = Some p"
      and nf: "r_status r \<notin> set [R_SUCCEEDED, R_FAILED]" by blast
    have pk: "p_id p = r_payment_id r" using find_payment_SomeD[OF p] by simp
    have rk: "r_id r = k" using find_refund_SomeD[OF r] by simp
    have fl: "r_status r \<in> set IN_FLIGHT_REFUND_STATUSES"
      using nf by (cases "r_status r") (auto simp: IN_FLIGHT_REFUND_STATUSES_def)
    let ?ord = "find_order (p_order_id p) d"
    have red: "apply_refund_outcome now k tgt payload actor d
        = bind_ok (transition_refund now r tgt payload d)
            (\<lambda>((r', _), d1). if tgt \<in> set [R_SUCCEEDED, R_FAILED]
               then bind_ok (settle_payment_after_refund now p ?ord payload actor d1) (\<lambda>d2. Inr (Some r', d2))
               else Inr (Some r', d1))"
      using r p nf pk by (simp add: apply_refund_outcome_def Let_def)
    show ?thesis
    proof (cases "transition_refund now r tgt payload d")
      case (Inl e)
      then have na: "\<not> allowed (decide_refund_transition (r_status r) tgt)"
        and e: "e = Http_error 409 (opt_str (reason (decide_refund_transition (r_status r) tgt)))"
        using r rk by (auto simp: transition_refund_def Let_def repo_transition_refund_def
            find_refund_update_refund split: if_splits option.splits)
      have "tgt = R_REQUESTED" using na nf
        by (cases "r_status r"; cases tgt) (simp_all add: decide_refund_transition_def)
      moreover have "\<exists>msg. e = http_error 409 msg"
        using na e by (auto simp: decide_refund_transition_def split: if_splits)
      ultimately show ?thesis using Inl red by simp
    next
      case (Inr y)
      obtain r' dup d1 where y: "y = ((r', dup), d1)" by (cases y) auto
      from Inr y show ?thesis
      proof (cases rule: transition_refund_cases[OF Inr[unfolded y]])
        case 1
        then show ?thesis using Inr y red led nf by auto
      next
        case (2 r0)
        have d1: "d1 = update_refund k (refund_moved now tgt payload) d" using 2 rk by simp
        note mv = refund_moved_ledger[OF base r fl d1]
        have same: "payments d1 = payments d" "orders d1 = orders d" by (simp_all add: d1 update_refund_def)
        show ?thesis
        proof (cases "tgt \<in> set [R_SUCCEEDED, R_FAILED]")
          case False
          then have "tgt \<in> set IN_FLIGHT_REFUND_STATUSES"
            by (cases tgt) (auto simp: IN_FLIGHT_REFUND_STATUSES_def)
          then have "refund_ledger d1"
            using led mv by (simp add: refund_ledger_def same)
          with False show ?thesis using Inr y red by simp
        next
          case True
          have "find_payment (p_id p) d1 = Some p" using p pk by (simp add: find_payment_def same)
          moreover have "settled d1 q" if "q \<in> set (payments d1)" "p_id q \<noteq> p_id p" for q
            using led mv(2)[of q] that pk by (simp add: refund_ledger_def same)
          moreover have "find_order (o_id o') d1 = Some o'" if "?ord = Some o'" for o'
            using that find_order_SomeD[OF that] by (simp add: find_order_def same)
          moreover have "p_status p = P_REFUNDING" by (rule inflight_refunding[OF led r fl p])
          ultimately obtain d2 where "settle_payment_after_refund now p ?ord payload actor d1 = Inr d2"
            and "refund_ledger d2"
            using settle_ok[OF mv(1), of p ?ord now payload actor] by blast
          with True show ?thesis using Inr y red by simp
        qed
      qed
    qed
  qed
qed

text \<open>Reserving money leaves production alone, and money stays received.\<close>

lemma insert_refund_Inr:
  "insert_refund now rid p no key dg amt why d = Inr (r, d') \<Longrightarrow> d' = d\<lparr>refunds := refunds d @ [r]\<rparr>"
  by (auto simp: insert_refund_def Let_def bind_ok_Inr insert_row_Inr split: if_splits)

lemma create_refund_intent_InrE:
  assumes "create_refund_intent x now rid nid pid key why amount dg actor d = Inr (i, d')"
  obtains (replay) "d' = d" and "\<not> ri_created i"
  | (made) p r u dup d2 where "find_payment pid d = Some p"
      and "p_status p \<in> set REFUNDABLE_PAYMENT_STATUSES"
      and "transition_payment now p P_REFUNDING actor (JObj [(''refundId'', JStr (uuid_str (r_id r)))])
        (d\<lparr>refunds := refunds d @ [r]\<rparr>) = Inr ((u, dup), d2)"
      and "d' = project_refunding now u d2" and "ri_refund i = r" and "ri_payment i = Some u"
proof (cases "find_payment pid d")
  case None
  with assms show ?thesis by (simp add: create_refund_intent_def)
next
  case (Some p)
  show ?thesis
  proof (cases "find_refund_idempotent pid key d")
    case (Some old)
    with assms \<open>find_payment pid d = Some p\<close> show ?thesis
      by (intro replay) (auto simp: create_refund_intent_def split: if_splits)
  next
    case None
    from assms Some None have "\<exists>r u dup d2. p_status p \<in> set REFUNDABLE_PAYMENT_STATUSES
      \<and> transition_payment now p P_REFUNDING actor (JObj [(''refundId'', JStr (uuid_str (r_id r)))])
        (d\<lparr>refunds := refunds d @ [r]\<rparr>) = Inr ((u, dup), d2)
      \<and> d' = project_refunding now u d2
      \<and> i = \<lparr>ri_refund = r, ri_created = True, ri_payment = Some u\<rparr>"
      unfolding create_refund_intent_def Let_def
      by (auto simp only: option.case bind_ok_Inr prod.inject sum.inject prod.case sum.distinct
          split: if_splits dest!: insert_refund_Inr) blast
    then show ?thesis using Some by (auto intro: made)
  qed
qed

lemma create_refund_intent_production:
  assumes "create_refund_intent x now rid nid pid key why amount dg actor d = Inr (i, d')"
  shows "production_part d' = production_part d"
  using assms
proof (cases rule: create_refund_intent_InrE)
  case (made p r u dup d2)
  then show ?thesis using transition_payment_production[OF made(3)] by simp
qed simp

lemma ensure_production:
  assumes "ensure_automatic_refund_intent x now rid nid pid key why actor d = Inr (i, d')"
  shows "production_part d' = production_part d"
  using assms
  by (auto simp: ensure_automatic_refund_intent_def Let_def bind_ok_Inr
      dest!: create_refund_intent_production split: option.splits if_splits)

text \<open>Whether the money of a payment has arrived.\<close>

definition received :: "db \<Rightarrow> uuid \<Rightarrow> bool" where
  "received d k \<longleftrightarrow> (case find_payment k d of None \<Rightarrow> False | Some p \<Rightarrow> p_status p \<in> set received_statuses)"

lemma received_cong: "payments d' = payments d \<Longrightarrow> received d' k = received d k"
  by (simp add: received_def find_payment_def)

lemma received_payment_log_update [simp]: "received (d\<lparr>payment_log := l\<rparr>) k = received d k"
  by (rule received_cong) simp

lemma received_update_payment_status [simp]: "received (update_payment_status now o' st d) k = received d k"
  by (rule received_cong) simp

lemma received_update_payment:
  assumes "\<And>p. p_id (f p) = p_id p"
    and "\<And>p. find_payment k d = Some p \<Longrightarrow>
      p_status (f p) \<in> set received_statuses \<longleftrightarrow> p_status p \<in> set received_statuses"
  shows "received (update_payment k f d) k' = received d k'"
  using assms by (cases "find_payment k d") (auto simp: received_def find_payment_update_payment)

lemma transition_payment_received:
  assumes tr: "transition_payment now p tgt actor payload d = Inr ((u, dup), d')"
    and p: "find_payment (p_id p) d = Some p" and st: "p_status p \<in> set received_statuses"
    and tgt: "tgt \<in> set received_statuses"
  shows "received d' k = received d k"
  using tr
proof (cases rule: transition_payment_cases)
  case (2 l p0)
  have "received d' k = received (update_payment (p_id p) (payment_moved now tgt (p_revision p + 1)) d) k"
    unfolding 2(5) by simp
  also have "\<dots> = received d k"
    by (rule received_update_payment) (use p st tgt in simp_all)
  finally show ?thesis .
qed simp

lemma create_refund_intent_received:
  assumes "create_refund_intent x now rid nid pid key why amount dg actor d = Inr (i, d')"
  shows "received d' k = received d k"
  using assms
proof (cases rule: create_refund_intent_InrE)
  case (made p r u dup d2)
  have pk: "p_id p = pid" using find_payment_SomeD[OF made(1)] by simp
  have "received d2 k = received (d\<lparr>refunds := refunds d @ [r]\<rparr>) k"
    by (rule transition_payment_received[OF made(3)])
      (use made(1,2) pk in \<open>auto simp: REFUNDABLE_PAYMENT_STATUSES_def received_statuses_def\<close>)
  also have "\<dots> = received d k" by (rule received_cong) simp
  finally show ?thesis using received_cong[of d' d2 k] by (simp add: made(4))
qed simp

lemma ensure_received:
  assumes "ensure_automatic_refund_intent x now rid nid pid key why actor d = Inr (i, d')"
  shows "received d' k = received d k"
  using assms
  by (auto simp: ensure_automatic_refund_intent_def Let_def bind_ok_Inr
      dest!: create_refund_intent_received[where k = k] split: option.splits if_splits)

lemma create_refund_intent_frame:
  assumes "create_refund_intent x now rid nid pid key why amount dg actor d = Inr (i, d')"
  shows "inbox d' = inbox d" "business d' = business d"
proof -
  have "inbox d' = inbox d \<and> business d' = business d"
    using assms
  proof (cases rule: create_refund_intent_InrE)
    case (made p r u dup d2)
    then show ?thesis using transition_payment_frame(11,12)[OF made(3)] by simp
  qed simp
  then show "inbox d' = inbox d" "business d' = business d" by auto
qed

text \<open>The automatic refund either does nothing or creates an intent.\<close>

lemma ensure_InrE:
  assumes "ensure_automatic_refund_intent x now rid nid pid key why actor d = Inr (i, d')"
  obtains (nothing) "d' = d"
  | (created) amount j where
      "create_refund_intent x now rid nid pid key why amount None actor d = Inr (j, d')"
      and "i = Some j"
  using assms
  by (auto simp: ensure_automatic_refund_intent_def Let_def bind_ok_Inr split: option.splits if_splits)

lemma ensure_frame:
  assumes "ensure_automatic_refund_intent x now rid nid pid key why actor d = Inr (i, d')"
  shows "inbox d' = inbox d" "business d' = business d"
  using assms by (cases rule: ensure_InrE; simp add: create_refund_intent_frame)+

lemma ensure_ledger:
  assumes "refund_ledger d" and "ensure_automatic_refund_intent x now rid nid pid key why actor d = Inr (i, d')"
  shows "refund_ledger d'"
  using assms(2)
proof (cases rule: ensure_InrE)
  case (created amount j)
  with create_refund_intent_keeps[OF assms(1), where x = x and now = now and rid = rid and nid = nid
      and pid = pid and key = key and why = why and amount_minor = amount and dg = None and actor = actor]
  show ?thesis by simp
qed (use assms(1) in simp)

section \<open>What the money rules promise\<close>

text \<open>C1 Creating a refund intent keeps the ledger: reserved and refunded money never exceeds the
  payment, and the payment's status stays the settlement of its refunds. A created intent is one
  new REQUESTED refund within the remaining budget; a replayed key changes nothing. The only
  errors are the missing payment, the three conflicts of the contract and a duplicate
  identifier: the payment transition inside is never refused.\<close>

theorem create_refund_intent_ledger:
  assumes "refund_ledger d"
  shows "case create_refund_intent x now rid nid pid key why amount_minor dg actor d of
      Inl e \<Rightarrow> e \<in> set [service_error 404 ''payment not found'',
          service_error 409 ''Idempotency-Key payload conflict'',
          service_error 409 ''payment is not refundable'',
          service_error 409 ''refund amount exceeds unrefunded payment amount'', Unique_violation]
    | Inr (i, d') \<Rightarrow> refund_ledger d' \<and>
        (if ri_created i then refunds d' = refunds d @ [ri_refund i]
             \<and> r_status (ri_refund i) = R_REQUESTED \<and> r_payment_id (ri_refund i) = pid
             \<and> 0 < r_amount_minor (ri_refund i)
             \<and> (\<forall>p. find_payment pid d = Some p \<longrightarrow> r_amount_minor (ri_refund i) \<le> remaining_budget p d)
         else d' = d \<and> find_refund_idempotent pid key d = Some (ri_refund i))"
  using assms by (rule create_refund_intent_keeps)

text \<open>The automatic refund of whatever remains never fails on a covered budget: for a refundable
  payment its only error is a duplicate identifier. It keeps the ledger, and unless its key was
  used before, the whole payment is refunded or reserved afterwards.\<close>

theorem ensure_automatic_refund_covers:
  assumes led: "refund_ledger d" and p: "find_payment pid d = Some p"
    and st: "p_status p \<in> set REFUNDABLE_PAYMENT_STATUSES"
  shows "case ensure_automatic_refund_intent x now rid nid pid key why actor d of
      Inl e \<Rightarrow> e = Unique_violation
    | Inr (res, d') \<Rightarrow> refund_ledger d'
        \<and> (find_refund_idempotent pid key d = None \<longrightarrow> remaining_budget p d' = 0)"
  using assms by (rule ensure_covers)

text \<open>C2 Recording a channel outcome keeps the ledger, and the settlement it triggers is never
  refused: the only error is a transition the refund state machine forbids. In particular a
  final outcome of an in-flight refund always succeeds.\<close>

theorem apply_refund_outcome_ledger:
  assumes led: "refund_ledger d"
  shows "case apply_refund_outcome now k tgt payload actor d of
      Inl e \<Rightarrow> tgt = R_REQUESTED \<and> (\<exists>msg. e = http_error 409 msg)
    | Inr (res, d') \<Rightarrow> refund_ledger d'"
  using assms by (rule refund_outcome_keeps)

lemma sample_ledgers: "refund_ledger sample_paid_db" "refund_ledger sample_refunding_db"
  by code_simp+

theorem create_refund_intent_ledger_witness:
  "case create_refund_intent sample_x 200 (Uuid ''r-1'') (Uuid ''ab-cd'') (Uuid ''pay-1'')
      ''rkey-2'' ''why'' (Some 200) None ''desk'' sample_paid_db of
    Inl e \<Rightarrow> False
  | Inr (i, d') \<Rightarrow> refund_ledger d' \<and> r_amount_minor (ri_refund i) = 200" (is "case ?r of Inl e \<Rightarrow> _ e | Inr p \<Rightarrow> _ p")
proof -
  have "case ?r of Inl e \<Rightarrow> False | Inr (i, d') \<Rightarrow> r_amount_minor (ri_refund i) = 200"
    by code_simp
  then show ?thesis
    using create_refund_intent_ledger[OF sample_ledgers(1), where x = sample_x and now = 200
        and rid = "Uuid ''r-1''" and nid = "Uuid ''ab-cd''" and pid = "Uuid ''pay-1''"
        and key = "''rkey-2''" and why = "''why''" and amount_minor = "Some 200" and dg = None
        and actor = "''desk''"]
    by (auto split: sum.splits)
qed

theorem ensure_automatic_refund_covers_witness:
  "case ensure_automatic_refund_intent sample_x 200 (Uuid ''r-2'') (Uuid ''ab-cd'') (Uuid ''pay-1'')
      ''rkey-2'' ''why'' ''desk'' sample_refunding_db of
    Inl e \<Rightarrow> False
  | Inr (res, d') \<Rightarrow> refund_ledger d' \<and> remaining_budget (hd (payments sample_refunding_db)) d' = 0"
  (is "case ?r of Inl e \<Rightarrow> _ e | Inr p \<Rightarrow> _ p")
proof -
  have run: "case ?r of Inl e \<Rightarrow> False | Inr (i, d') \<Rightarrow> True" by code_simp
  have p: "find_payment (Uuid ''pay-1'') sample_refunding_db = Some (hd (payments sample_refunding_db))"
    and st: "p_status (hd (payments sample_refunding_db)) \<in> set REFUNDABLE_PAYMENT_STATUSES"
    and none: "find_refund_idempotent (Uuid ''pay-1'') ''rkey-2'' sample_refunding_db = None"
    by (simp_all add: sample_defs find_payment_def REFUNDABLE_PAYMENT_STATUSES_def
        find_refund_idempotent_def)
  from ensure_automatic_refund_covers[OF sample_ledgers(2) p st, where x = sample_x and now = 200
        and rid = "Uuid ''r-2''" and nid = "Uuid ''ab-cd''" and key = "''rkey-2''" and why = "''why''"
        and actor = "''desk''"] run none
  show ?thesis by (auto split: sum.splits)
qed

theorem apply_refund_outcome_ledger_witness:
  "case apply_refund_outcome 200 (Uuid ''refund-1'') R_SUCCEEDED (JObj []) ''worker'' sample_refunding_db of
    Inl e \<Rightarrow> False
  | Inr (res, d') \<Rightarrow> refund_ledger d' \<and> map p_status (payments d') = [P_PARTIALLY_REFUNDED]"
  (is "case ?r of Inl e \<Rightarrow> _ e | Inr p \<Rightarrow> _ p")
proof -
  have "case ?r of Inl e \<Rightarrow> False | Inr (i, d') \<Rightarrow> map p_status (payments d') = [P_PARTIALLY_REFUNDED]"
    by code_simp
  then show ?thesis
    using apply_refund_outcome_ledger[OF sample_ledgers(2), where now = 200 and k = "Uuid ''refund-1''"
        and tgt = R_SUCCEEDED and payload = "JObj []" and actor = "''worker''"]
    by (auto split: sum.splits)
qed

section \<open>Final outcomes\<close>

lemma settle_frame:
  assumes "settle_payment_after_refund now p ord payload actor d = Inr d'"
  shows "refunds d' = refunds d"
proof -
  from assms obtain p' dup d1 where tp: "transition_payment now p (payment_target p d) actor
      (py_or payload (JObj [])) d = Inr ((p', dup), d1)"
    by (auto simp: settle_payment_after_refund_def Let_def bind_ok_Inr)
  note fr = transition_payment_frame[OF tp]
  from assms tp fr(4) show ?thesis
    by (auto simp: settle_payment_after_refund_def Let_def bind_ok_Inr
        dest: transition_order_frame(4) split: option.splits if_splits)
qed

text \<open>C3 A refund that has SUCCEEDED or FAILED never changes again, whatever outcome arrives for it
  or for another refund, and a stale outcome for it changes nothing at all.\<close>

theorem final_refund_stays:
  assumes r: "find_refund k d = Some r" and fin: "r_status r \<in> set [R_SUCCEEDED, R_FAILED]"
    and step: "apply_refund_outcome now k' tgt payload actor d = Inr (res, d')"
  shows "find_refund k d' = Some r \<and> (k' = k \<longrightarrow> d' = d)"
proof (cases "\<exists>r0 p. find_refund k' d = Some r0 \<and> find_payment (r_payment_id r0) d = Some p
      \<and> r_status r0 \<notin> set [R_SUCCEEDED, R_FAILED]")
  case False
  have same: "find_payment (p_id p) d = Some p" if "find_payment i d = Some p" for i p
    using that find_payment_SomeD[OF that] by simp
  from False step have "d' = d"
    by (auto simp: apply_refund_outcome_def Let_def same split: option.splits)
  with r show ?thesis by simp
next
  case True
  then obtain r0 p where r0: "find_refund k' d = Some r0" and p: "find_payment (r_payment_id r0) d = Some p"
    and nf: "r_status r0 \<notin> set [R_SUCCEEDED, R_FAILED]" by blast
  have k: "k' \<noteq> k" using r r0 fin nf by auto
  have ids: "r_id r0 = k'" "p_id p = r_payment_id r0"
    using find_refund_SomeD[OF r0] find_payment_SomeD[OF p] by auto
  from step r0 p nf ids obtain r' dup d1 where tr: "transition_refund now r0 tgt payload d = Inr ((r', dup), d1)"
    and rest: "refunds d' = refunds d1"
    by (auto simp: apply_refund_outcome_def Let_def bind_ok_Inr dest: settle_frame split: if_splits)
  have "find_refund k d1 = find_refund k d"
    by (rule transition_refund_cases[OF tr]) (use k ids in \<open>simp_all add: find_refund_update_refund\<close>)
  with rest r k show ?thesis by (simp add: find_refund_def)
qed

theorem final_refund_stays_witness:
  "let d = sample_refunding_db\<lparr>refunds := [sample_refund\<lparr>r_status := R_FAILED\<rparr>]\<rparr>
   in case apply_refund_outcome 200 (Uuid ''refund-1'') R_SUCCEEDED (JObj []) ''worker'' d of
        Inl e \<Rightarrow> False | Inr (res, d') \<Rightarrow> find_refund (Uuid ''refund-1'') d'
          = Some (sample_refund\<lparr>r_status := R_FAILED\<rparr>)"
proof -
  let ?d = "sample_refunding_db\<lparr>refunds := [sample_refund\<lparr>r_status := R_FAILED\<rparr>]\<rparr>"
  have r: "find_refund (Uuid ''refund-1'') ?d = Some (sample_refund\<lparr>r_status := R_FAILED\<rparr>)"
    by (simp add: find_refund_def sample_refund_def)
  have "case apply_refund_outcome 200 (Uuid ''refund-1'') R_SUCCEEDED (JObj []) ''worker'' ?d of
      Inl e \<Rightarrow> False | Inr (res, d') \<Rightarrow> True" by code_simp
  then show ?thesis
    using final_refund_stays[OF r] by (auto split: sum.splits)
qed

end
