(* ===== verification/Failure.thy ===== *)
theory Failure
  imports OrderRepo Samples
begin

text \<open>
  \<open>app/failure_info.py\<close>: the failure shown for an order, built from what the device reported,
  what the order stores and a table of friendly texts. The texts are Chinese; a literal is given
  by its UTF-8 bytes.
\<close>

section \<open>Texts\<close>

definition REASONS :: "(string \<times> string \<times> string) list" where
  "REASONS = [(''COMPILED_RECIPE_MISMATCH'',
      utf8 [228, 186, 145, 231, 171, 175, 230, 140, 135, 228, 187, 164, 231, 188, 186, 229, 176, 145, 233,
      133, 141, 230, 150, 185, 230, 140, 135, 231, 186, 185, 239, 188, 140, 230, 136, 150, 233,
      133, 141, 230, 150, 185, 228, 184, 142, 232, 174, 190, 229, 164, 135, 228, 184, 141, 228,
      184, 128, 232, 135, 180, 239, 188, 140, 232, 174, 190, 229, 164, 135, 229, 183, 178, 230,
      139, 146, 231, 187, 157, 229, 136, 182, 228, 189, 156, 227, 128, 130],
      utf8 [230, 160, 184, 229, 175, 185, 228, 186, 145, 231, 171, 175, 228, 184, 142, 231, 187, 136, 231,
      171, 175, 231, 137, 136, 230, 156, 172, 239, 188, 140, 229, 144, 140, 230, 173, 165, 232,
      174, 190, 229, 164, 135, 232, 143, 156, 229, 141, 149, 239, 188, 155, 231, 161, 174, 232,
      174, 164, 233, 133, 141, 230, 150, 185, 231, 137, 136, 230, 156, 172, 229, 146, 140, 230,
      140, 135, 231, 186, 185, 229, 144, 142, 233, 135, 141, 230, 150, 176, 228, 184, 139, 229,
      141, 149, 227, 128, 130]),

     (''RECIPE_VERSION_MISMATCH'',
      utf8 [232, 174, 162, 229, 141, 149, 233, 133, 141, 230, 150, 185, 231, 137, 136, 230, 156, 172, 228,
      184, 142, 232, 174, 190, 229, 164, 135, 229, 183, 178, 229, 174, 137, 232, 163, 133, 231,
      137, 136, 230, 156, 172, 228, 184, 141, 228, 184, 128, 232, 135, 180, 227, 128, 130],
      utf8 [229, 144, 140, 230, 173, 165, 233, 133, 141, 230, 150, 185, 229, 146, 140, 232, 143, 156, 229,
      141, 149, 239, 188, 140, 229, 136, 183, 230, 150, 176, 231, 130, 185, 229, 141, 149, 233,
      161, 181, 229, 144, 142, 233, 135, 141, 230, 150, 176, 228, 184, 139, 229, 141, 149, 227,
      128, 130]),

     (''RECIPE_NOT_FOUND'',
      utf8 [232, 174, 190, 229, 164, 135, 230, 156, 170, 229, 174, 137, 232, 163, 133, 232, 175, 165, 233,
      165, 174, 229, 147, 129, 233, 133, 141, 230, 150, 185, 227, 128, 130],
      utf8 [230, 163, 128, 230, 159, 165, 232, 174, 190, 229, 164, 135, 233, 133, 141, 230, 150, 185, 231,
      155, 174, 229, 189, 149, 229, 146, 140, 230, 151, 160, 230, 149, 136, 233, 133, 141, 230,
      150, 185, 229, 136, 151, 232, 161, 168, 239, 188, 140, 229, 144, 140, 230, 173, 165, 232,
      143, 156, 229, 141, 149, 227, 128, 130]),

     (''RECIPE_DISABLED'',
      utf8 [232, 175, 165, 233, 165, 174, 229, 147, 129, 233, 133, 141, 230, 150, 185, 229, 183, 178, 229,
      129, 156, 231, 148, 168, 227, 128, 130],
      utf8 [230, 160, 184, 229, 175, 185, 233, 133, 141, 230, 150, 185, 229, 144, 175, 231, 148, 168, 231,
      138, 182, 230, 128, 129, 229, 146, 140, 232, 143, 156, 229, 141, 149, 231, 188, 147, 229,
      173, 152, 227, 128, 130]),

     (''INVALID_CUSTOMIZATION'',
      utf8 [233, 165, 174, 229, 147, 129, 229, 174, 154, 229, 136, 182, 233, 128, 137, 233, 161, 185, 230,
      151, 160, 230, 179, 149, 230, 137, 167, 232, 161, 140, 227, 128, 130],
      utf8 [230, 163, 128, 230, 159, 165, 233, 128, 137, 233, 161, 185, 227, 128, 129, 229, 165, 182, 233,
      135, 143, 227, 128, 129, 231, 179, 150, 233, 135, 143, 229, 143, 138, 229, 174, 154, 229,
      136, 182, 232, 167, 132, 229, 136, 153, 231, 137, 136, 230, 156, 172, 227, 128, 130]),

     (''MATERIAL_INSUFFICIENT'',
      utf8 [232, 174, 190, 229, 164, 135, 231, 137, 169, 230, 150, 153, 228, 184, 141, 232, 182, 179, 239,
      188, 140, 230, 151, 160, 230, 179, 149, 229, 136, 182, 228, 189, 156, 227, 128, 130],
      utf8 [230, 160, 184, 229, 175, 185, 229, 186, 147, 229, 173, 152, 227, 128, 129, 233, 162, 132, 229,
      141, 160, 233, 135, 143, 229, 146, 140, 230, 156, 172, 229, 141, 149, 231, 137, 169, 230,
      150, 153, 233, 156, 128, 230, 177, 130, 239, 188, 140, 232, 161, 165, 230, 150, 153, 229,
      144, 142, 233, 135, 141, 230, 150, 176, 228, 184, 139, 229, 141, 149, 227, 128, 130]),

     (''PICKUP_OCCUPIED'',
      utf8 [229, 143, 150, 230, 157, 175, 228, 189, 141, 228, 187, 141, 232, 162, 171, 229, 141, 160, 231,
      148, 168, 239, 188, 140, 232, 174, 190, 229, 164, 135, 230, 151, 160, 230, 179, 149, 229,
      188, 128, 229, 167, 139, 229, 136, 182, 228, 189, 156, 227, 128, 130],
      utf8 [231, 161, 174, 232, 174, 164, 230, 157, 175, 229, 173, 144, 229, 143, 150, 232, 181, 176, 229,
      144, 142, 239, 188, 140, 233, 128, 154, 232, 191, 135, 229, 143, 150, 230, 157, 175, 231,
      161, 174, 232, 174, 164, 230, 147, 141, 228, 189, 156, 233, 135, 138, 230, 148, 190, 229,
      143, 150, 230, 157, 175, 228, 189, 141, 227, 128, 130]),

     (''DEVICE_BUSY'',
      utf8 [232, 174, 190, 229, 164, 135, 230, 173, 163, 229, 156, 168, 229, 164, 132, 231, 144, 134, 229,
      133, 182, 228, 187, 150, 228, 187, 187, 229, 138, 161, 239, 188, 140, 230, 154, 130, 230,
      151, 182, 230, 151, 160, 230, 179, 149, 230, 142, 165, 229, 141, 149, 227, 128, 130],
      utf8 [230, 160, 184, 229, 175, 185, 232, 174, 190, 229, 164, 135, 229, 189, 147, 229, 137, 141, 228,
      187, 187, 229, 138, 161, 228, 184, 142, 228, 186, 145, 231, 171, 175, 230, 142, 146, 233,
      152, 159, 231, 138, 182, 230, 128, 129, 227, 128, 130]),

     (''COMMAND_EXPIRED'',
      utf8 [229, 136, 182, 228, 189, 156, 230, 140, 135, 228, 187, 164, 229, 183, 178, 232, 182, 133, 230,
      151, 182, 227, 128, 130],
      utf8 [230, 163, 128, 230, 159, 165, 232, 174, 190, 229, 164, 135, 232, 191, 158, 230, 142, 165, 227,
      128, 129, 230, 182, 136, 230, 129, 175, 233, 128, 129, 232, 190, 190, 228, 184, 142, 231,
      161, 174, 232, 174, 164, 230, 151, 182, 233, 151, 180, 239, 188, 155, 229, 133, 136, 230,
      160, 184, 229, 174, 158, 230, 152, 175, 229, 144, 166, 229, 183, 178, 229, 136, 182, 228,
      189, 156, 227, 128, 130]),

     (''PRODUCTION_FAILED'',
      utf8 [232, 174, 190, 229, 164, 135, 229, 136, 182, 228, 189, 156, 229, 164, 177, 232, 180, 165, 239,
      188, 140, 230, 156, 170, 230, 143, 144, 228, 190, 155, 229, 133, 183, 228, 189, 147, 230,
      149, 133, 233, 154, 156, 229, 142, 159, 229, 155, 160, 227, 128, 130],
      utf8 [233, 128, 154, 232, 191, 135, 232, 174, 162, 229, 141, 149, 229, 143, 183, 229, 146, 140, 228,
      187, 187, 229, 138, 161, 231, 188, 150, 229, 143, 183, 230, 163, 128, 230, 159, 165, 232,
      174, 190, 229, 164, 135, 228, 186, 139, 228, 187, 182, 230, 151, 165, 229, 191, 151, 227,
      128, 130]),

     (''COMMAND_REJECTED'',
      utf8 [232, 174, 190, 229, 164, 135, 230, 139, 146, 231, 187, 157, 228, 186, 134, 229, 136, 182, 228,
      189, 156, 230, 140, 135, 228, 187, 164, 239, 188, 140, 230, 156, 170, 230, 143, 144, 228,
      190, 155, 229, 133, 183, 228, 189, 147, 229, 142, 159, 229, 155, 160, 227, 128, 130],
      utf8 [233, 128, 154, 232, 191, 135, 228, 187, 187, 229, 138, 161, 231, 188, 150, 229, 143, 183, 230,
      163, 128, 230, 159, 165, 232, 174, 190, 229, 164, 135, 230, 139, 146, 231, 187, 157, 228,
      186, 139, 228, 187, 182, 229, 143, 138, 230, 140, 135, 228, 187, 164, 229, 155, 158, 230,
      137, 167, 227, 128, 130])]"

definition DETAIL_FIELDS :: "string list" where
  "DETAIL_FIELDS = [''recipeId'', ''requested'', ''installed'', ''installedVersion'', ''requestedDigest'', ''installedDigest'', ''message'', ''materialId'', ''required'', ''available'', ''expiresAt'', ''field'', ''missingFields'']"

text \<open>The text in front of an unknown code, and the advice that goes with it.\<close>

definition unknown_code_prefix :: string where
  "unknown_code_prefix =
      utf8 [232, 174, 190, 229, 164, 135, 230, 138, 165, 229, 145, 138, 233, 148, 153, 232, 175, 175, 239,
      188, 154]"

definition unknown_code_action :: string where
  "unknown_code_action =
      utf8 [230, 160, 184, 229, 175, 185, 230, 149, 133, 233, 154, 156, 230, 173, 165, 233, 170, 164, 227,
      128, 129, 232, 174, 190, 229, 164, 135, 230, 151, 165, 229, 191, 151, 229, 146, 140, 231,
      137, 169, 230, 150, 153, 231, 138, 182, 230, 128, 129, 227, 128, 130]"

text \<open>Messages that carry no reason: production failed, task failed, task rejected.\<close>

definition production_failed_text :: string where
  "production_failed_text = utf8 [229, 136, 182, 228, 189, 156, 229, 164, 177, 232, 180, 165]"

definition task_failed_text :: string where
  "task_failed_text = utf8 [228, 187, 187, 229, 138, 161, 229, 164, 177, 232, 180, 165]"

definition task_rejected_prefix :: string where
  "task_rejected_prefix =
      utf8 [228, 187, 187, 229, 138, 161, 232, 162, 171, 230, 139, 146, 231, 187, 157, 239, 188, 154]"

section \<open>The projection\<close>

text \<open>What the function reads of an order and a job; either may be a partial dictionary.\<close>

record failure_source =
  fs_failure_code :: json
  fs_order_status :: "order_status option"
  fs_failure_message :: json
  fs_failure_json :: json
  fs_job_status :: "job_status option"
  fs_step_id :: "string option"
  fs_step_name :: "string option"
  fs_task_id :: "string option"
  fs_completed_at :: "timestamp option"
  fs_updated_at :: "timestamp option"

definition failure_raw :: "failure_source \<Rightarrow> dict" where
  "failure_raw s = dict_of (fs_failure_json s)"

definition reported_code :: "failure_source \<Rightarrow> string option" where
  "reported_code s =
     (let raw = failure_raw s
      in str_of (py_or (fs_failure_code s) (py_or (dget raw ''code'')
           (py_or (dget raw ''errorCode'') (dget raw ''reasonCode'')))))"

definition failure_code :: "failure_source \<Rightarrow> string option" where
  "failure_code s =
     (let code = reported_code s
      in if code \<noteq> None \<and> code \<noteq> Some [] then code
         else if fs_order_status s = Some O_FAILED
             \<or> fs_job_status s \<in> set [Some J_FAILED, Some J_REJECTED]
         then Some (if fs_job_status s = Some J_REJECTED then ''COMMAND_REJECTED''
           else ''PRODUCTION_FAILED'')
         else None)"

definition failure_original :: "failure_source \<Rightarrow> string option" where
  "failure_original s = str_of (py_or (dget (failure_raw s) ''message'') (fs_failure_message s))"

definition generic_message :: "string option \<Rightarrow> bool" where
  "generic_message original \<longleftrightarrow>
     (case original of None \<Rightarrow> True
      | Some t \<Rightarrow> t = [] \<or> t = production_failed_text \<or> t = task_failed_text
          \<or> starts_with task_rejected_prefix t)"

definition friendly :: "string \<Rightarrow> string \<times> string" where
  "friendly code = (case map_of REASONS code of
     Some q \<Rightarrow> q | None \<Rightarrow> (unknown_code_prefix @ code, unknown_code_action))"

text \<open>The public form has the code and a message; \<open>None\<close> when there is no failure.\<close>

definition failure_info :: "failure_source \<Rightarrow> (string \<times> string) option" where
  "failure_info s = map_option (\<lambda>code. (code,
       case failure_original s of
         Some t \<Rightarrow> if generic_message (Some t) then fst (friendly code) else t
       | None \<Rightarrow> fst (friendly code))) (failure_code s)"

definition failure_payload :: "(string \<times> string) option \<Rightarrow> json" where
  "failure_payload f = (case f of None \<Rightarrow> JNull
     | Some (code, message) \<Rightarrow> JObj [(''code'', JStr code), (''message'', JStr message)])"

text \<open>The internal form adds where and when it happened, advice and the reported details.\<close>

definition failure_info_internal :: "externals \<Rightarrow> failure_source \<Rightarrow> json" where
  "failure_info_internal x s =
     (case failure_info s of
        None \<Rightarrow> JNull
      | Some (code, message) \<Rightarrow>
          let raw = failure_raw s; details = py_or (dget raw ''details'') (JObj []) in
          JObj [(''code'', JStr code), (''message'', JStr message),
            (''stepId'', py_or (dget raw ''stepId'') (opt_str (fs_step_id s))),
            (''stepName'', py_or (dget raw ''stepName'') (opt_str (fs_step_name s))),
            (''taskId'', opt_str (fs_task_id s)),
            (''occurredAt'', opt_str (map_option (x_iso x)
               (coalesce (fs_completed_at s) (fs_updated_at s)))),
            (''retryable'', dget raw ''retryable''),
            (''suggestion'', JStr (snd (friendly code))),
            (''deviceMessage'', opt_str (failure_original s)),
            (''details'', if is_dict details
               then JObj (filter (\<lambda>(k, _). k \<in> set DETAIL_FIELDS) (dict_of details)) else JObj [])])"

text \<open>The source a stored order and its job give.\<close>

definition order_failure_source :: "sales_order \<Rightarrow> production_job option \<Rightarrow> failure_source" where
  "order_failure_source r job =
     \<lparr>fs_failure_code = opt_str (o_failure_code r), fs_order_status = Some (o_status r),
      fs_failure_message = opt_str (o_failure_message r),
      fs_failure_json = (case Option.bind job j_failure_json of None \<Rightarrow> JNull | Some v \<Rightarrow> v),
      fs_job_status = map_option j_status job,
      fs_step_id = Option.bind job j_current_step_id,
      fs_step_name = Option.bind job j_current_step_name,
      fs_task_id = map_option j_task_id job,
      fs_completed_at = Option.bind job j_completed_at,
      fs_updated_at = map_option j_updated_at job\<rparr>"

section \<open>What is shown\<close>

lemma failure_info_None: "failure_info s = None \<longleftrightarrow> failure_code s = None"
  by (simp add: failure_info_def)

text \<open>C21 A failed order always shows a failure: a code and a message that is never empty, neither
  for an unknown code nor for a device that reports nothing.\<close>

theorem failed_order_explained:
  assumes "o_status r = O_FAILED"
  shows "\<exists>code message. failure_info (order_failure_source r job) = Some (code, message)
    \<and> code \<noteq> [] \<and> message \<noteq> []"
proof -
  let ?s = "order_failure_source r job"
  have "fs_order_status ?s = Some O_FAILED" using assms by (simp add: order_failure_source_def)
  then obtain code where code: "failure_code ?s = Some code" "code \<noteq> []"
    by (cases "reported_code ?s = None \<or> reported_code ?s = Some []")
      (auto simp: failure_code_def Let_def)
  have "fst (friendly c) \<noteq> []" for c
  proof (cases "map_of REASONS c")
    case None
    then show ?thesis by (simp add: friendly_def unknown_code_prefix_def utf8_def)
  next
    case (Some q)
    then have "(c, q) \<in> set REASONS" by (rule map_of_SomeD)
    then have "fst q \<noteq> []" by (auto simp: REASONS_def utf8_def)
    with Some show ?thesis by (simp add: friendly_def)
  qed
  with code show ?thesis
    by (cases "failure_original ?s") (auto simp: failure_info_def generic_message_def)
qed

theorem failed_order_explained_witness:
  "\<exists>code message. failure_info (order_failure_source (sample_order\<lparr>o_status := O_FAILED\<rparr>) None)
      = Some (code, message) \<and> message \<noteq> []"
  using failed_order_explained[of "sample_order\<lparr>o_status := O_FAILED\<rparr>" None] by auto

end
