(* ===== verification/OrderLogic.thy ===== *)
theory OrderLogic
  imports Failure
begin

text \<open>
  The pure helpers of \<open>app/order_logic.py\<close> that production uses: the progress a device event
  reports and whether a terminal is online. The metrics of an event are validated before they
  are read, so a value here is a number or missing; an explicit null is \<open>JNull\<close>.
\<close>

text \<open>\<open>float(v)\<close> of a JSON value: Python refuses null, lists and dictionaries with a TypeError.\<close>

fun py_float :: "json \<Rightarrow> err + rat" where
  "py_float (JInt i) = Inr (of_int i)"
| "py_float (JFloat r) = Inr r"
| "py_float (JBool b) = Inr (if b then 1 else 0)"
| "py_float (JStr s) = Inl Value_error"
| "py_float JNonfinite = Inl Value_error"
| "py_float _ = Inl Type_error"

definition unit_interval :: "rat \<Rightarrow> rat" where
  "unit_interval v = max 0 (min 1 v)"

text \<open>
  \<open>payload.get("stepProgress", d)\<close> takes the default only for a missing key: an explicit null
  is passed to \<open>float\<close>.
\<close>

definition device_progress :: "dict \<Rightarrow> rat \<Rightarrow> rat \<Rightarrow> err + rat \<times> rat" where
  "device_progress payload current_overall current_step =
     (let legacy = dget payload ''progress'' in
      bind_ok (if dget payload ''overallProgress'' \<noteq> JNull then py_float (dget payload ''overallProgress'')
          else if legacy \<noteq> JNull then bind_ok (py_float legacy) (\<lambda>l. Inr (max current_overall l))
          else Inr current_overall)
        (\<lambda>overall.
      bind_ok (py_float (dget_default payload ''stepProgress''
            (if legacy \<noteq> JNull then legacy else JFloat current_step)))
        (\<lambda>step. Inr (unit_interval overall, unit_interval step))))"

definition terminal_is_online :: "timestamp \<Rightarrow> terminal \<Rightarrow> rat \<Rightarrow> bool" where
  "terminal_is_online now t threshold_seconds \<longleftrightarrow>
     t_connection_status t \<noteq> ''offline''
     \<and> (case t_last_heartbeat_at t of None \<Rightarrow> False | Some h \<Rightarrow> now - threshold_seconds \<le> h)"

definition order_state_for_event :: "string \<Rightarrow> (order_status \<times> job_status) option" where
  "order_state_for_event e = map_of
     [(''task.acknowledged'', (O_ACCEPTED, J_ACCEPTED)), (''task.started'', (O_MAKING, J_EXECUTING)),
      (''task.succeeded'', (O_READY, J_SUCCEEDED)), (''task.failed'', (O_FAILED, J_FAILED)),
      (''task.cancelled'', (O_CANCELLED, J_CANCELLED)), (''task.rejected'', (O_FAILED, J_REJECTED))] e"

section \<open>Progress stays between 0 and 1\<close>

lemma unit_interval_bounds: "0 \<le> unit_interval v \<and> unit_interval v \<le> 1"
  by (auto simp: unit_interval_def)

text \<open>The progress recorded for a job lies between 0 and 1 whatever the device sends, and an event
  that carries only the legacy step progress never lowers the overall progress.\<close>

theorem device_progress_bounds:
  assumes "device_progress payload overall step = Inr (p, s)"
  shows "0 \<le> p \<and> p \<le> 1 \<and> 0 \<le> s \<and> s \<le> 1
    \<and> (dget payload ''overallProgress'' = JNull \<longrightarrow> 0 \<le> overall \<longrightarrow> overall \<le> 1 \<longrightarrow> overall \<le> p)"
proof -
  from assms obtain o' s' where "p = unit_interval o'" "s = unit_interval s'"
    and o': "(dget payload ''overallProgress'' = JNull \<longrightarrow> overall \<le> o')"
    by (auto simp: device_progress_def Let_def bind_ok_Inr split: if_splits)
  then show ?thesis using unit_interval_bounds[of o'] unit_interval_bounds[of s']
    by (auto simp: unit_interval_def)
qed

theorem device_progress_bounds_witness:
  "device_progress [(''progress'', JFloat (1/4))] (1/2) 0 = Inr (1/2, 1/4) \<and> (1::rat)/2 \<le> 1"
proof -
  have "device_progress [(''progress'', JFloat (1/4))] (1/2) 0 = Inr (1/2, 1/4)"
    by (simp add: device_progress_def unit_interval_def)
  moreover from device_progress_bounds[OF this] have "(1::rat)/2 \<le> 1" by simp
  ultimately show ?thesis by simp
qed

text \<open>An explicit null step progress passes the metric checks and then fails as a TypeError, where a
  missing one keeps the current step progress.\<close>

theorem null_step_progress_fails:
  "device_progress [(''stepProgress'', JNull)] overall step = Inl Type_error
    \<and> device_progress [] overall step = Inr (unit_interval overall, unit_interval step)"
  by (simp add: device_progress_def)

text \<open>The two event tables agree on the events both know.\<close>

lemma event_tables_agree:
  "order_state_for_event e = Some (r, j) \<Longrightarrow> \<exists>c. event_target e = Some (r, j, c)"
  by (auto simp: order_state_for_event_def event_target_def EVENT_TARGETS_def split: if_splits)

end
