(* ===== verification/Production.thy ===== *)
theory Production
  imports Refunds OrderLogic
begin

text \<open>
  \<open>app/services/production.py\<close>: the production service, which moves an order, its job and its
  device command together. Device events and acknowledgements, the expiry of undelivered
  commands, the dispatch of the next order and the watchdog are the operations, each one
  transaction. Identifiers the code draws are arguments.

  The lemmas establish the coordination invariant: whatever happens, the order, the job and the
  command stay in statuses that belong together.
\<close>

section \<open>Reading a device event\<close>

definition event_payload :: "dict \<Rightarrow> dict" where
  "event_payload body = dict_of (dget body ''payload'')"

definition event_task_id :: "dict \<Rightarrow> string option" where
  "event_task_id body =
     (let nested = dget body ''payload'' in
      case py_or (dget body ''taskId'')
          (if is_dict nested then dget (dict_of nested) ''taskId'' else JNull) of
        JStr s \<Rightarrow> if s \<noteq> [] then Some s else None
      | _ \<Rightarrow> None)"

definition revision_of :: "dict \<Rightarrow> err + int option" where
  "revision_of payload =
     (case dget payload ''taskRevision'' of
        JNull \<Rightarrow> Inr None
      | JInt n \<Rightarrow> if n < 0 then Inl (service_error 422 ''taskRevision must be a non-negative integer'')
          else Inr (Some n)
      | _ \<Rightarrow> Inl (service_error 422 ''taskRevision must be a non-negative integer''))"

fun attempt_ok :: "json \<Rightarrow> bool" where
  "attempt_ok JNull = True"
| "attempt_ok (JInt n) = (1 \<le> n \<and> n \<le> 2147483647)"
| "attempt_ok _ = False"

fun metric_ok :: "json \<Rightarrow> bool" where
  "metric_ok JNull = True"
| "metric_ok (JInt n) = (0 \<le> n)"
| "metric_ok (JFloat r) = (0 \<le> r)"
| "metric_ok _ = False"

definition text_keys :: "string list" where
  "text_keys = [''taskId'', ''messageId'', ''orderId'', ''stepId'', ''stepName'', ''state'']"

definition metric_keys :: "string list" where
  "metric_keys = [''overallProgress'', ''stepProgress'', ''progress'', ''plannedDurationSeconds'',
     ''elapsedSeconds'', ''remainingSeconds'']"

definition validate_metrics :: "dict \<Rightarrow> err + unit" where
  "validate_metrics payload =
     (if \<not> attempt_ok (dget payload ''attempt'')
      then Inl (service_error 422 ''attempt must be a positive integer'')
      else case List.find (\<lambda>k. dget payload k \<noteq> JNull \<and> \<not> is_str (dget payload k)) text_keys of
        Some k \<Rightarrow> Inl (service_error 422 (k @ '' must be a string''))
      | None \<Rightarrow>
          (case List.find (\<lambda>k. \<not> metric_ok (dget payload k)) metric_keys of
             Some k \<Rightarrow> Inl (service_error 422 (k @ '' must be a finite non-negative number''))
           | None \<Rightarrow>
               if dget payload ''failure'' \<noteq> JNull \<and> \<not> is_dict (dget payload ''failure'')
               then Inl (service_error 422 ''failure must be an object'')
               else Inr ()))"

text \<open>A nullable text parameter inside \<open>coalesce(\%s, column)\<close>: only text or null has its type.\<close>

fun text_or_null :: "json \<Rightarrow> err + string option" where
  "text_or_null JNull = Inr None"
| "text_or_null (JStr s) = Inr (Some s)"
| "text_or_null _ = Inl Data_error"

fun int_of :: "json \<Rightarrow> int option" where
  "int_of (JInt n) = Some n"
| "int_of _ = None"

fun json_opt :: "json \<Rightarrow> json option" where
  "json_opt JNull = None"
| "json_opt v = Some v"

section \<open>Automatic refunds and dispatch requests\<close>

definition create_automatic_refund_record ::
  "externals \<Rightarrow> timestamp \<Rightarrow> uuid \<Rightarrow> uuid \<Rightarrow> sales_order \<Rightarrow> production_job \<Rightarrow> string \<Rightarrow> db
    \<Rightarrow> err + refund option \<times> db" where
  "create_automatic_refund_record x now rid nid r job why d =
     (let payment_id = (case o_paid_payment_id r of
            Some k \<Rightarrow> Some k | None \<Rightarrow> map_option p_id (paid_for_order (o_id r) d))
      in case payment_id of
           None \<Rightarrow> Inr (None, d)
         | Some k \<Rightarrow>
             (case find_payment k d of
                None \<Rightarrow> Inr (None, d)
              | Some p \<Rightarrow>
                  if p_status p \<notin> set REFUNDABLE_PAYMENT_STATUSES then Inr (None, d)
                  else bind_ok (ensure_automatic_refund_intent x now rid nid k
                      (''production:'' @ uuid_str (j_id job) @ '':automatic-refund'')
                      (''production failure: '' @ why) ''production-service'' d)
                    (\<lambda>(i, d1). Inr (map_option ri_refund i, d1))))"

definition request_dispatch :: "timestamp \<Rightarrow> int \<Rightarrow> string \<Rightarrow> db \<Rightarrow> db" where
  "request_dispatch now terminal_id why d = enqueue_dispatch now terminal_id why d"

section \<open>Device events\<close>

definition command_json :: "terminal_command \<Rightarrow> bool \<Rightarrow> json" where
  "command_json c dup = JObj [(''messageId'', JStr (c_message_id c)),
     (''status'', JStr (command_name (c_status c))), (''revision'', JInt (c_revision c)),
     (''duplicate'', JBool dup)]"

definition ignored :: "sales_order \<Rightarrow> terminal_command \<Rightarrow> string \<Rightarrow> json" where
  "ignored r c why = JObj [(''orderId'', JStr (uuid_str (o_id r))),
     (''status'', JStr (order_name (o_status r))), (''stale'', JBool True),
     (''duplicate'', JBool True), (''reason'', JStr why), (''commandTransition'', command_json c True)]"

text \<open>
  An event for a task no job has: a command of the terminal with that task moves alone, and an
  illegal move is skipped.
\<close>

definition reconcile_standalone ::
  "timestamp \<Rightarrow> int \<Rightarrow> string \<Rightarrow> dict \<Rightarrow> dict \<Rightarrow> string \<Rightarrow> db \<Rightarrow> err + json \<times> db" where
  "reconcile_standalone now terminal_id task_id body payload event_type d =
     (case command_by_task terminal_id task_id d of
        None \<Rightarrow> Inr (JNull, d)
      | Some c \<Rightarrow>
          (case event_target event_type of
             None \<Rightarrow> Inr (JNull, d)
           | Some (_, _, tgt) \<Rightarrow>
               if dget payload ''messageId'' \<notin> {JNull, JStr (c_message_id c)}
               then Inl (service_error 409 ''task command association mismatch'')
               else if c_status c = C_UNKNOWN \<and> tgt \<notin> set TERMINAL_STATES
               then Inr (JObj [(''status'', JStr ''HOLD''), (''stale'', JBool True),
                      (''duplicate'', JBool True)], d)
               else bind_ok (transition_command now c tgt ''device-event'' (Some event_type)
                      (Some (JObj body)) False d)
                    (\<lambda>((u, dup), d1). Inr (JObj [(''status'', JStr (command_name (c_status u))),
                       (''duplicate'', JBool dup), (''commandTransition'', command_json u dup)], d1))))"

text \<open>A step event records progress on a job that is executing.\<close>

definition reconcile_step ::
  "timestamp \<Rightarrow> dict \<Rightarrow> dict \<Rightarrow> int option \<Rightarrow> sales_order \<Rightarrow> production_job \<Rightarrow> terminal_command \<Rightarrow> db
    \<Rightarrow> err + json \<times> db" where
  "reconcile_step now body payload revision r job c d =
     (if j_status job \<noteq> J_EXECUTING \<or> o_status r \<noteq> O_MAKING
         \<or> some_and revision (\<lambda>n. n \<le> j_last_device_revision job)
      then Inr (ignored r c ''STALE_STEP'', d)
      else
        bind_ok (device_progress payload (j_progress job) (j_step_progress job)) (\<lambda>(progress, step).
        bind_ok (text_or_null (dget payload ''stepId'')) (\<lambda>step_id.
        bind_ok (text_or_null (py_or (dget payload ''stepName'') (dget body ''message''))) (\<lambda>step_name.
        Inr (JObj [(''orderId'', JStr (uuid_str (o_id r))), (''status'', JStr ''PROGRESS'')],
          update_job_progress now (j_id job) progress step step_id step_name
            (num_of (dget payload ''elapsedSeconds'')) (num_of (dget payload ''remainingSeconds''))
            revision (int_of (dget payload ''attempt'')) d)))))"

text \<open>The failure an event carries; \<open>[]\<close> is none.\<close>

definition event_failure :: "dict \<Rightarrow> dict \<Rightarrow> string \<Rightarrow> err + dict" where
  "event_failure body payload event_type =
     (let base = (if truthy (dget payload ''failure'') then dict_of (dget payload ''failure'')
          else if event_type = ''task.rejected'' then
            [(''code'', dget payload ''reasonCode''), (''details'', dget payload ''details'')]
          else [])
      in if event_type \<notin> {''task.failed'', ''task.rejected''} then Inr base
         else
           let code = py_or (dget base ''code'') (py_or (dget base ''errorCode'')
                 (JStr (if event_type = ''task.rejected'' then ''COMMAND_REJECTED'' else ''PRODUCTION_FAILED'')));
               f1 = dset ''code'' code base
           in case failure_info \<lparr>fs_failure_code = code, fs_order_status = None,
                  fs_failure_message = dget body ''message'', fs_failure_json = JObj f1,
                  fs_job_status = None, fs_step_id = None, fs_step_name = None, fs_task_id = None,
                  fs_completed_at = None, fs_updated_at = None\<rparr> of
                None \<Rightarrow> Inl Type_error
              | Some (_, message) \<Rightarrow> Inr (dset ''message'' (JStr message) f1))"

text \<open>The failure columns of the order after the job has moved to \<open>st\<close>.\<close>

definition record_failure ::
  "timestamp \<Rightarrow> dict \<Rightarrow> dict \<Rightarrow> job_status \<Rightarrow> sales_order \<Rightarrow> db \<Rightarrow> err + db" where
  "record_failure now body failure st r d =
     (if failure \<noteq> [] then
        bind_ok (text_param (py_or (dget failure ''code'') (py_or (dget failure ''errorCode'')
            (JStr ''PRODUCTION_FAILED'')))) (\<lambda>code.
        bind_ok (text_param (py_or (dget failure ''message'') (py_or (dget body ''message'')
            (JStr production_failed_text)))) (\<lambda>message.
        Inr (update_failure now (o_id r) code message d)))
      else if st \<in> set [J_EXECUTING, J_SUCCEEDED] \<and> o_failure_code r \<noteq> None \<and> o_failure_code r \<noteq> Some []
      then Inr (update_failure now (o_id r) None None d)
      else Inr d)"

text \<open>
  A task event moves the command, the job and the order together, after the whole plan has been
  checked; then it settles failures, refunds and the next dispatch.
\<close>

definition apply_task_event ::
  "externals \<Rightarrow> timestamp \<Rightarrow> uuid \<Rightarrow> uuid \<Rightarrow> int \<Rightarrow> dict \<Rightarrow> dict \<Rightarrow> string \<Rightarrow> int option
    \<Rightarrow> sales_order \<Rightarrow> production_job \<Rightarrow> terminal_command
    \<Rightarrow> order_status \<times> job_status \<times> command_status \<Rightarrow> db \<Rightarrow> err + json \<times> db" where
  "apply_task_event x now rid nid terminal_id body payload event_type revision r job c targets d =
     (let (ost, jst, cst) = targets;
          planned = num_of (dget payload ''plannedDurationSeconds'');
          steps = json_opt (py_or (dget payload ''stepPlan'') (dget payload ''stepDurations''));
          done = (event_type = ''task.succeeded'')
      in
      bind_ok (event_failure body payload event_type) (\<lambda>failure.
      bind_ok (device_progress payload (j_progress job) (j_step_progress job)) (\<lambda>(pr, sp).
      let progress = (if done then 1 else pr); step_progress = (if done then 1 else sp);
          elapsed = (if done \<and> planned \<noteq> None then planned else num_of (dget payload ''elapsedSeconds''));
          remaining = (if done then Some 0 else num_of (dget payload ''remainingSeconds''));
          accepted_at = (if jst = J_ACCEPTED \<and> j_accepted_at job = None then Some now else j_accepted_at job);
          started_at = (if jst = J_EXECUTING \<and> j_started_at job = None then Some now else j_started_at job);
          completed_at = (if jst \<in> set FINAL_JOBS then Some now else j_completed_at job)
      in
      bind_ok (transition_command now c cst ''device-event'' (Some event_type) (Some (JObj body)) True d)
        (\<lambda>((u, dup), d1).
      let d2 = update_job_terminal now (j_id job) jst progress step_progress planned steps failure elapsed
            remaining revision accepted_at started_at completed_at (int_of (dget payload ''attempt'')) d1;
          d3 = (if jst = J_HOLD then update_job_hold now (j_id job) ''DEVICE_RESTARTED_OUTCOME_UNKNOWN'' None d2
            else if jst \<in> set FINAL_JOBS then clear_job_hold (j_id job) d2 else d2)
      in
      bind_ok (record_failure now body failure jst r d3) (\<lambda>d4.
      bind_ok (transition_order now r ost ''device-event'' (Some event_type) (JObj body) d4) (\<lambda>(r', d5).
      bind_ok (if event_type \<in> {''task.failed'', ''task.rejected'', ''task.cancelled''}
          then create_automatic_refund_record x now rid nid r' job event_type d5 else Inr (None, d5))
        (\<lambda>(_, d6).
      let d7 = (if ost \<in> set TERMINAL_ORDER_STATUSES
            then request_dispatch now terminal_id (''order-'' @ py_lower (order_name ost)) d6 else d6)
      in Inr (JObj [(''orderId'', JStr (uuid_str (o_id r'))), (''status'', JStr (order_name (o_status r'))),
           (''commandTransition'', command_json u dup)], d7))))))))"

text \<open>An event for a job that was located: the associations, then what may be ignored.\<close>

definition reconcile_located ::
  "externals \<Rightarrow> timestamp \<Rightarrow> uuid \<Rightarrow> uuid \<Rightarrow> int \<Rightarrow> string \<Rightarrow> dict \<Rightarrow> dict \<Rightarrow> string \<Rightarrow> int option
    \<Rightarrow> production_job \<times> sales_order \<Rightarrow> db \<Rightarrow> err + json \<times> db" where
  "reconcile_located x now rid nid terminal_id task_id body payload event_type revision located d =
     (let missing = Inr (JObj [(''status'', JStr ''NOT_DISPATCHED''), (''stale'', JBool True)], d) in
      case (find_with_terminal (j_order_id (fst located)) d, lock_job (j_id (fst located)) d) of
        (Some (r, _), Some job) \<Rightarrow>
          (case j_command_id job of
             None \<Rightarrow> missing
           | Some cid \<Rightarrow>
             if cid = 0 then missing
             else
             (case command_by_db_id cid d of
                None \<Rightarrow> Inl (service_error 409 ''production command association mismatch'')
              | Some c \<Rightarrow>
                  if c_command_type c \<noteq> ''MAKE_DRINK'' \<or> c_terminal_id c \<noteq> terminal_id
                     \<or> dget (c_payload_json c) ''taskId'' \<noteq> JStr task_id
                  then Inl (service_error 409 ''production command association mismatch'')
                  else if dget payload ''messageId'' \<notin> {JNull, JStr (c_message_id c)}
                     \<or> dget payload ''orderId'' \<notin> {JNull, JStr (uuid_str (o_id r))}
                  then Inl (service_error 409 ''task event association mismatch'')
                  else if some_and (int_of (dget payload ''attempt'')) (\<lambda>a. a < j_execution_attempt job)
                  then Inr (ignored r c ''STALE_ATTEMPT'', d)
                  else if o_status r \<in> set FINAL_ORDERS \<or> j_status job \<in> set FINAL_JOBS
                     \<or> c_status c \<in> set TERMINAL_STATES
                  then Inr (ignored r c ''FINAL_STATE'', d)
                  else
                    (case event_target event_type of
                       None \<Rightarrow> reconcile_step now body payload revision r job c d
                     | Some (ost, jst, cst) \<Rightarrow>
                         bind_ok (decide_job_event (j_status job) event_type revision (j_last_device_revision job))
                           (\<lambda>dec.
                         if \<not> allowed dec \<or> duplicate dec
                         then Inr (ignored r c (case reason dec of None \<Rightarrow> ''DUPLICATE''
                                | Some t \<Rightarrow> if t \<noteq> [] then t else ''DUPLICATE''), d)
                         else if \<not> order_transition_allowed (o_status r) ost
                            \<or> \<not> allowed (decide_transition (c_status c) cst)
                         then Inr (ignored r c ''ILLEGAL_COORDINATED_TRANSITION'', d)
                         else apply_task_event x now rid nid terminal_id body payload event_type revision
                                r job c (ost, jst, cst) d))))
      | _ \<Rightarrow> missing)"

definition reconcile_task ::
  "externals \<Rightarrow> timestamp \<Rightarrow> uuid \<Rightarrow> uuid \<Rightarrow> int \<Rightarrow> string \<Rightarrow> dict \<Rightarrow> dict \<Rightarrow> string \<Rightarrow> int option
    \<Rightarrow> db \<Rightarrow> err + json \<times> db" where
  "reconcile_task x now rid nid terminal_id task_id body payload event_type revision d =
     (case job_for_task terminal_id task_id d of
        None \<Rightarrow> reconcile_standalone now terminal_id task_id body payload event_type d
      | Some located \<Rightarrow>
          reconcile_located x now rid nid terminal_id task_id body payload event_type revision located d)"

definition reconcile_device_event ::
  "externals \<Rightarrow> timestamp \<Rightarrow> uuid \<Rightarrow> uuid \<Rightarrow> int \<Rightarrow> dict \<Rightarrow> string \<Rightarrow> db \<Rightarrow> err + json \<times> db" where
  "reconcile_device_event x now rid nid terminal_id body event_type d =
     (if event_type = ''task.progress'' then Inr (JObj [(''status'', JStr ''EPHEMERAL_PROGRESS'')], d)
      else if event_target event_type = None \<and> event_type \<notin> {''step.started'', ''step.completed''}
      then Inr (JNull, d)
      else
        let payload = event_payload body in
        bind_ok (revision_of payload) (\<lambda>revision.
        bind_ok (validate_metrics payload) (\<lambda>_.
        case event_task_id body of
          None \<Rightarrow> Inl (service_error 422 ''taskId is required for production events'')
        | Some task_id \<Rightarrow>
            if dget body ''taskId'' \<noteq> JNull \<and> dget payload ''taskId'' \<noteq> JNull
               \<and> dget body ''taskId'' \<noteq> dget payload ''taskId''
            then Inl (service_error 409 ''conflicting taskId fields'')
            else if event_type = ''task.recovered'' \<and> dget payload ''state'' \<noteq> JStr ''PAUSED''
            then Inr (JObj [(''status'', JStr ''IGNORED_RECOVERY'')], d)
            else
              reconcile_task x now rid nid terminal_id task_id body payload event_type revision d)))"

definition reconcile_command_event ::
  "externals \<Rightarrow> timestamp \<Rightarrow> uuid \<Rightarrow> uuid \<Rightarrow> int \<Rightarrow> dict \<Rightarrow> string \<Rightarrow> db \<Rightarrow> err + json \<times> db" where
  "reconcile_command_event x now rid nid terminal_id body event_type d =
     bind_ok (reconcile_device_event x now rid nid terminal_id body event_type d)
       (\<lambda>(v, d1). Inr (if truthy v then dget (dict_of v) ''commandTransition'' else JNull, d1))"

definition reconcile_order_event ::
  "externals \<Rightarrow> timestamp \<Rightarrow> uuid \<Rightarrow> uuid \<Rightarrow> int \<Rightarrow> dict \<Rightarrow> string \<Rightarrow> db \<Rightarrow> err + json \<times> db" where
  "reconcile_order_event x now rid nid terminal_id body event_type d =
     reconcile_device_event x now rid nid terminal_id body event_type d"

definition reconcile_order_ack ::
  "externals \<Rightarrow> timestamp \<Rightarrow> uuid \<Rightarrow> uuid \<Rightarrow> int \<Rightarrow> string \<Rightarrow> dict \<Rightarrow> db \<Rightarrow> err + json \<times> db" where
  "reconcile_order_ack x now rid nid terminal_id task_id body d =
     (case dget body ''accepted'' of
        JBool accepted \<Rightarrow>
          (case dget body ''messageId'' of
             JStr message_id \<Rightarrow>
               if message_id = [] \<or> task_id = []
               then Inl (service_error 422 ''messageId and taskId are required'')
               else
                 (case command_by_message terminal_id message_id d of
                    None \<Rightarrow> Inl (service_error 404 ''task command not found'')
                  | Some c \<Rightarrow>
                      if c_command_type c \<noteq> ''MAKE_DRINK''
                         \<or> dget (c_payload_json c) ''taskId'' \<noteq> JStr task_id
                      then Inl (service_error 404 ''task command not found'')
                      else reconcile_device_event x now rid nid terminal_id
                        [(''payload'', JObj (dset ''taskId'' (JStr task_id) body))]
                        (if accepted then ''task.acknowledged'' else ''task.rejected'') d)
           | _ \<Rightarrow> Inl (service_error 422 ''messageId and taskId are required''))
      | _ \<Rightarrow> Inl (service_error 422 ''accepted must be a boolean''))"

section \<open>Commands the device never received\<close>

definition undelivered_text :: string where
  "undelivered_text =
     utf8 [232, 174, 190, 229, 164, 135, 230, 156, 170, 229, 156, 168, 230, 151, 182, 233, 153,
       144, 229, 134, 133, 230, 142, 165, 230, 148, 182, 229, 136, 182, 228, 189, 156, 230,
       140, 135, 228, 187, 164]"

definition delivered_timeout_text :: string where
  "delivered_timeout_text =
     utf8 [229, 136, 182, 228, 189, 156, 230, 140, 135, 228, 187, 164, 233, 128, 129, 232, 190,
       190, 229, 144, 142, 232, 182, 133, 230, 151, 182, 239, 188, 140, 231, 137, 169, 231,
       144, 134, 231, 187, 147, 230, 158, 156, 230, 156, 170, 231, 159, 165, 239, 188, 140,
       233, 156, 128, 228, 186, 186, 229, 183, 165, 230, 160, 184, 229, 175, 185]"

text \<open>An outbox row that was ever leased may have reached the broker.\<close>

definition outbox_claimed :: "command_outbox option \<Rightarrow> bool" where
  "outbox_claimed b \<longleftrightarrow>
     (case b of None \<Rightarrow> False
      | Some b \<Rightarrow> ob_status b \<noteq> OB_PENDING \<or> 0 < ob_attempt_count b \<or> ob_published_at b \<noteq> None)"

definition withdraw_outbox :: "timestamp \<Rightarrow> terminal_command \<Rightarrow> db \<Rightarrow> db" where
  "withdraw_outbox now c d =
     (case outbox_for_command (c_id c) d of
        None \<Rightarrow> d
      | Some b \<Rightarrow> if outbox_claimed (Some b) then d else terminalize_outbox now (ob_id b) OB_EXPIRED d)"

definition may_have_been_sent :: "terminal_command \<Rightarrow> db \<Rightarrow> bool" where
  "may_have_been_sent c d \<longleftrightarrow> outbox_claimed (outbox_for_command (c_id c) d)
     \<or> c_published_at c \<noteq> None \<or> c_delivered_at c \<noteq> None"

definition expired_refund ::
  "externals \<Rightarrow> timestamp \<Rightarrow> uuid \<Rightarrow> uuid \<Rightarrow> sales_order \<Rightarrow> db \<Rightarrow> err + db" where
  "expired_refund x now rid nid r d =
     (if o_payment_status r \<notin> set (map order_payment_of REFUNDABLE_PAYMENT_STATUSES) then Inr d
      else case (case o_paid_payment_id r of
            Some k \<Rightarrow> Some k | None \<Rightarrow> map_option p_id (paid_for_order (o_id r) d)) of
          None \<Rightarrow> Inr d
        | Some k \<Rightarrow> bind_ok (ensure_automatic_refund_intent x now rid nid k
              (''order:'' @ uuid_str (o_id r) @ '':command-expired-refund'')
              ''command expired before delivery'' ''timeout-monitor'' d)
            (\<lambda>(_, d1). Inr d1))"

text \<open>
  The order and the job of an expired command: held for a person when the command may have been
  delivered, expired and refunded when it provably was not.
\<close>

definition expire_order_part ::
  "externals \<Rightarrow> timestamp \<Rightarrow> uuid \<Rightarrow> uuid \<Rightarrow> terminal_command \<Rightarrow> sales_order \<Rightarrow> production_job \<Rightarrow> bool
    \<Rightarrow> db \<Rightarrow> err + db" where
  "expire_order_part x now rid nid current r job delivered d =
     (let failure = JObj [(''code'', JStr ''COMMAND_EXPIRED''), (''messageId'', JStr (c_message_id current))]
      in if delivered then
           let d1 = update_job_hold now (j_id job) ''COMMAND_EXPIRED_AFTER_DELIVERY'' (Some failure) d;
               d2 = update_failure now (o_id r) (Some ''COMMAND_EXPIRED'') (Some delivered_timeout_text) d1
           in bind_ok (transition_order now r O_HOLD ''timeout-monitor''
                  (Some ''command expired after delivery; outcome unknown'') JNull d2)
                (\<lambda>(_, d3). Inr d3)
         else
           let d1 = update_job_expired now (j_id job) failure d;
               d2 = update_failure now (o_id r) (Some ''COMMAND_EXPIRED'') (Some undelivered_text) d1
           in bind_ok (transition_order now r O_EXPIRED ''timeout-monitor'' (Some ''device command expired'')
                  JNull d2)
                (\<lambda>(_, d3). expired_refund x now rid nid r d3))"

definition expire_order_for_command ::
  "externals \<Rightarrow> timestamp \<Rightarrow> uuid \<Rightarrow> uuid \<Rightarrow> int \<Rightarrow> db \<Rightarrow> err + command_status option \<times> db" where
  "expire_order_for_command x now rid nid command_id d =
     (let found = (case job_for_command command_id d of
            None \<Rightarrow> None
          | Some located \<Rightarrow>
              (case find_with_terminal (j_order_id located) d of
                 None \<Rightarrow> None
               | Some (r, _) \<Rightarrow> map_option (Pair r) (job_for_command command_id d)))
      in case command_by_db_id command_id d of
           None \<Rightarrow> Inr (None, d)
         | Some current \<Rightarrow>
             if c_status current \<noteq> C_CREATED
                \<or> (case c_expires_at current of None \<Rightarrow> True | Some e \<Rightarrow> now < e)
             then Inr (None, d)
             else
               let d1 = withdraw_outbox now current d;
                   delivered = may_have_been_sent current d;
                   verdict = (if delivered then C_UNKNOWN else C_EXPIRED)
               in bind_ok
                    (case found of
                       None \<Rightarrow> Inr d1
                     | Some (r, job) \<Rightarrow>
                         if j_status job \<notin> set [J_DISPATCHED, J_QUEUED] then Inr d1
                         else expire_order_part x now rid nid current r job delivered d1)
                    (\<lambda>d2. bind_ok (transition_command now current verdict ''timeout-monitor''
                         (Some ''command delivery deadline exceeded'') None True d2)
                       (\<lambda>(_, d3). Inr (Some verdict, d3))))"

section \<open>Dispatching the next order\<close>

record dispatch_result =
  dsp_reason :: string
  dsp_command :: "dict option"

definition retryable :: "dispatch_result \<Rightarrow> bool" where
  "retryable v \<longleftrightarrow> dsp_reason v \<in> set [''DEVICE_DISABLED'', ''WAITING_HEARTBEAT'', ''ACTIVE_JOB'',
     ''PICKUP_BLOCKED'', ''DEVICE_BUSY'', ''QUEUE_CHANGED'']"

definition not_dispatched :: "string \<Rightarrow> db \<Rightarrow> err + dispatch_result \<times> db" where
  "not_dispatched why d = Inr (\<lparr>dsp_reason = why, dsp_command = None\<rparr>, d)"

definition customization_keys :: "string list" where
  "customization_keys = [''customization'', ''compiledRecipeDigest'', ''optionSchemaVersion'']"

text \<open>A missing key of the snapshot raises.\<close>

definition make_drink ::
  "externals \<Rightarrow> timestamp \<Rightarrow> string \<Rightarrow> production_job \<Rightarrow> sales_order \<Rightarrow> err + dict" where
  "make_drink x expires_at message_id job r =
     (let command = [(''messageId'', JStr message_id), (''type'', JStr ''MAKE_DRINK''),
            (''taskId'', JStr (j_task_id job)), (''orderId'', JStr (uuid_str (j_order_id job))),
            (''orderNo'', JStr (o_order_no r)), (''recipeId'', JStr (o_recipe_id r)),
            (''recipeVersion'', JStr (o_recipe_version r)), (''expiresAt'', JStr (x_iso x expires_at))];
          snapshot = o_product_snapshot r
      in if \<not> truthy (dget snapshot ''compiledRecipeDigest'') then Inr command
         else if \<exists>k \<in> set customization_keys. map_of snapshot k = None then Inl Key_error
         else Inr (command @ map (\<lambda>k. (k, dget snapshot k)) customization_keys))"

definition dispatch_job ::
  "externals \<Rightarrow> timestamp \<Rightarrow> string \<Rightarrow> uuid \<Rightarrow> terminal \<Rightarrow> production_job \<Rightarrow> sales_order \<Rightarrow> db
    \<Rightarrow> err + dispatch_result \<times> db" where
  "dispatch_job x now message_id outbox_id t job r d =
     (let expires_at = now + 600
      in bind_ok (make_drink x expires_at message_id job r) (\<lambda>command.
         bind_ok (insert_command now (t_id t) message_id ''MAKE_DRINK'' command
             (canonical_digest x (JObj command)) (Some expires_at)
             (Some (''order:'' @ uuid_str (j_order_id job) @ '':make'')) d) (\<lambda>(c, d1).
         bind_ok (insert_initial_command_transition now (c_id c) ''order-service''
             ''dispatch queued order'' (JObj command) d1) (\<lambda>d2.
         bind_ok (insert_outbox now outbox_id (c_id c) (t_id t)
             (''v1/devices/'' @ t_device_id t @ ''/down'')
             (JObj [(''schema'', JStr ''coffee.mqtt-envelope.v1''), (''messageId'', JStr message_id),
                (''deviceId'', JStr (t_device_id t)), (''type'', JStr ''command''),
                (''sentAt'', JStr (x_iso x now)), (''payload'', JObj command)]) d2) (\<lambda>d3.
         let d4 = link_command now (j_id job) (c_id c) d3;
             result = \<lparr>dsp_reason = ''DISPATCHED'', dsp_command = Some command\<rparr>
         in case find_with_terminal (j_order_id job) d4 of
              None \<Rightarrow> Inr (result, d4)
            | Some (r', _) \<Rightarrow>
                bind_ok (transition_order now r' O_DISPATCHED ''order-service''
                    (Some ''device command created'') (JObj [(''messageId'', JStr message_id)]) d4)
                  (\<lambda>(_, d5). Inr (result, d5)))))))"

definition dispatch_next_order_result ::
  "externals \<Rightarrow> settings \<Rightarrow> timestamp \<Rightarrow> string \<Rightarrow> uuid \<Rightarrow> int \<Rightarrow> db \<Rightarrow> err + dispatch_result \<times> db" where
  "dispatch_next_order_result x cfg now message_id outbox_id terminal_id d =
     (case terminal_by_id terminal_id d of
        None \<Rightarrow> not_dispatched ''DEVICE_MISSING'' d
      | Some t \<Rightarrow>
          if t_lifecycle_status t \<noteq> ''ACTIVE'' then not_dispatched ''DEVICE_DISABLED'' d
          else if \<not> terminal_is_online now t (s_offline_threshold_seconds cfg)
          then not_dispatched ''WAITING_HEARTBEAT'' d
          else if active_job_exists terminal_id d then not_dispatched ''ACTIVE_JOB'' d
          else if pickup_blocked terminal_id d then not_dispatched ''PICKUP_BLOCKED'' d
          else if device_is_busy (t_reported_status t) then not_dispatched ''DEVICE_BUSY'' d
          else
            (case next_queued_job terminal_id d of
               None \<Rightarrow> not_dispatched ''NO_ORDERS'' d
             | Some job \<Rightarrow>
                 (case (find_with_terminal (j_order_id job) d, lock_job (j_id job) d) of
                    (Some (r, _), Some current) \<Rightarrow>
                      if o_status r \<noteq> O_QUEUED \<or> j_status current \<noteq> J_QUEUED
                      then not_dispatched ''QUEUE_CHANGED'' d
                      else dispatch_job x now message_id outbox_id t job r d
                  | _ \<Rightarrow> not_dispatched ''QUEUE_CHANGED'' d)))"

section \<open>The watchdog\<close>

definition overdue :: "settings \<Rightarrow> timestamp \<Rightarrow> production_job \<Rightarrow> terminal_command \<Rightarrow> bool" where
  "overdue cfg now job c \<longleftrightarrow>
     (if j_status job \<in> set [J_PAUSED, J_RETRY_WAIT] then
        j_updated_at job + s_production_wait_timeout_seconds cfg < now
      else if c_status c \<in> set [C_DELIVERING, C_PUBLISHED] then
        (case coalesce (c_published_at c) (c_delivered_at c) of
           None \<Rightarrow> False | Some sent \<Rightarrow> sent + s_command_ack_timeout_seconds cfg < now)
      else if c_status c = C_ACKED then
        (case c_acked_at c of
           None \<Rightarrow> False | Some acked \<Rightarrow> acked + s_command_start_timeout_seconds cfg < now)
      else if c_status c = C_EXECUTING then
        (let seconds = (case j_remaining_seconds job of
               Some s \<Rightarrow> s
             | None \<Rightarrow> (case j_planned_duration_seconds job of
                   None \<Rightarrow> 300 | Some p \<Rightarrow> if p = 0 then 300 else p))
         in j_updated_at job + (seconds + s_production_timeout_grace_seconds cfg) < now)
      else False)"

definition hold_overdue_job ::
  "settings \<Rightarrow> timestamp \<Rightarrow> uuid \<Rightarrow> uuid \<Rightarrow> db \<Rightarrow> err + db" where
  "hold_overdue_job cfg now order_id job_id d =
     (case (find_with_terminal order_id d, lock_job job_id d) of
        (Some (r, _), Some job) \<Rightarrow>
          if o_status r \<in> set FINAL_ORDERS
             \<or> j_status job \<notin> set [J_DISPATCHED, J_ACCEPTED, J_EXECUTING, J_PAUSED, J_RETRY_WAIT]
          then Inr d
          else
            (case (case j_command_id job of
                 None \<Rightarrow> None
               | Some k \<Rightarrow> if k = 0 then None else command_by_db_id k d) of
               None \<Rightarrow> Inr d
             | Some c \<Rightarrow>
                 if c_status c \<in> set TERMINAL_STATES \<or> \<not> overdue cfg now job c then Inr d
                 else
                   bind_ok (transition_command now c C_UNKNOWN ''watchdog''
                       (Some ''device outcome requires reconciliation'') None True d)
                     (\<lambda>(_, d1). bind_ok (transition_order now r O_HOLD ''watchdog''
                         (Some ''device outcome unknown'') JNull
                         (update_job_hold now job_id ''DEVICE_OUTCOME_UNKNOWN'' None d1))
                       (\<lambda>(_, d2). Inr d2)))
      | _ \<Rightarrow> Inr d)"

section \<open>Replaying the stored events\<close>

text \<open>\<open>ids\<close> are the UUIDs drawn for the refunds the replay may create, one pair per event.\<close>

fun reconcile_stored ::
  "externals \<Rightarrow> timestamp \<Rightarrow> (nat \<Rightarrow> uuid \<times> uuid) \<Rightarrow> terminal_event list \<Rightarrow> db \<Rightarrow> err + db" where
  "reconcile_stored x now ids [] d = Inr d"
| "reconcile_stored x now ids (e # es) d =
     bind_ok (reconcile_device_event x now (fst (ids (length es))) (snd (ids (length es)))
         (ev_terminal_id e) (ev_payload_json e) (ev_event_type e) d)
       (\<lambda>(_, d1). reconcile_stored x now ids es d1)"

definition reconcile_stored_command_events ::
  "externals \<Rightarrow> timestamp \<Rightarrow> (nat \<Rightarrow> uuid \<times> uuid) \<Rightarrow> db \<Rightarrow> err + db" where
  "reconcile_stored_command_events x now ids d = reconcile_stored x now ids (stored_command_events d) d"

definition reconcile_stored_order_events ::
  "externals \<Rightarrow> timestamp \<Rightarrow> (nat \<Rightarrow> uuid \<times> uuid) \<Rightarrow> db \<Rightarrow> err + db" where
  "reconcile_stored_order_events x now ids d = reconcile_stored x now ids (stored_order_events d) d"

end
