(* ===== verification/Line.thy ===== *)
theory Line
  imports Refunds
begin

text \<open>
  The production line as a specification: for every order its status, for every job the order,
  the terminal, the task and the command it belongs to, for every command what it is for and its
  status. \<open>line_of\<close> reads it off the database; the operations of the services become updates of
  one order, one job and one command.

  \<open>line_ok\<close> is the contract of the line: the three statuses of a drink belong together, a job has
  an order and a command of its own, and a terminal works on one drink at a time.
\<close>

section \<open>The abstract line\<close>

record job_view =
  jv_order :: uuid
  jv_terminal :: int
  jv_task :: string
  jv_command :: "int option"
  jv_status :: job_status

record command_view =
  cv_terminal :: int
  cv_task :: json
  cv_type :: string
  cv_status :: command_status

record line =
  ln_orders :: "uuid \<Rightarrow> order_status option"
  ln_jobs :: "uuid \<Rightarrow> job_view option"
  ln_commands :: "int \<Rightarrow> command_view option"

definition job_view :: "production_job \<Rightarrow> job_view" where
  "job_view j = \<lparr>jv_order = j_order_id j, jv_terminal = j_terminal_id j, jv_task = j_task_id j,
     jv_command = j_command_id j, jv_status = j_status j\<rparr>"

definition command_view :: "terminal_command \<Rightarrow> command_view" where
  "command_view c = \<lparr>cv_terminal = c_terminal_id c, cv_task = dget (c_payload_json c) ''taskId'',
     cv_type = c_command_type c, cv_status = c_status c\<rparr>"

definition line_of :: "db \<Rightarrow> line" where
  "line_of d = \<lparr>ln_orders = (\<lambda>k. map_option o_status (find_order k d)),
     ln_jobs = (\<lambda>k. map_option job_view (lock_job k d)),
     ln_commands = (\<lambda>k. map_option command_view (find_command k d))\<rparr>"

text \<open>The statuses of the drink job \<open>i\<close> makes.\<close>

definition drink_ok :: "line \<Rightarrow> job_view \<Rightarrow> bool" where
  "drink_ok L v \<longleftrightarrow>
     (case ln_orders L (jv_order v) of
        None \<Rightarrow> False
      | Some os \<Rightarrow>
          (case jv_command v of
             None \<Rightarrow> coherent os (jv_status v) None
           | Some k \<Rightarrow>
               (case ln_commands L k of
                  None \<Rightarrow> False
                | Some cv \<Rightarrow> k \<noteq> 0 \<and> cv_terminal cv = jv_terminal v \<and> cv_task cv = JStr (jv_task v)
                    \<and> cv_type cv = ''MAKE_DRINK'' \<and> coherent os (jv_status v) (Some (cv_status cv)))))"

definition line_ok :: "line \<Rightarrow> bool" where
  "line_ok L \<longleftrightarrow>
     (\<forall>i v. ln_jobs L i = Some v \<longrightarrow> drink_ok L v)
     \<and> (\<forall>i i' v v'. ln_jobs L i = Some v \<longrightarrow> ln_jobs L i' = Some v' \<longrightarrow>
          jv_order v = jv_order v' \<or> (jv_command v = jv_command v' \<and> jv_command v \<noteq> None)
          \<or> (jv_terminal v = jv_terminal v' \<and> jv_status v \<in> set ACTIVE_JOBS
               \<and> jv_status v' \<in> set ACTIVE_JOBS) \<longrightarrow> i = i')"

lemma line_ok_drink: "line_ok L \<Longrightarrow> ln_jobs L i = Some v \<Longrightarrow> drink_ok L v"
  by (auto simp: line_ok_def)

lemma line_ok_own:
  "line_ok L \<Longrightarrow> ln_jobs L i = Some v \<Longrightarrow> ln_jobs L i' = Some v' \<Longrightarrow>
    jv_order v = jv_order v' \<or> (jv_command v = jv_command v' \<and> jv_command v \<noteq> None)
      \<or> (jv_terminal v = jv_terminal v' \<and> jv_status v \<in> set ACTIVE_JOBS
           \<and> jv_status v' \<in> set ACTIVE_JOBS) \<Longrightarrow> i = i'"
  unfolding line_ok_def by metis

lemma drink_ok_order: "drink_ok L v \<Longrightarrow> \<exists>os. ln_orders L (jv_order v) = Some os"
  by (cases "ln_orders L (jv_order v)") (simp_all add: drink_ok_def)

lemma drink_okE:
  assumes "drink_ok L v" and "jv_command v = Some k"
  obtains os cv where "ln_orders L (jv_order v) = Some os" and "ln_commands L k = Some cv" and "k \<noteq> 0"
    and "cv_terminal cv = jv_terminal v" and "cv_task cv = JStr (jv_task v)"
    and "cv_type cv = ''MAKE_DRINK''" and "coherent os (jv_status v) (Some (cv_status cv))"
  using assms by (auto simp: drink_ok_def split: option.splits)

section \<open>Moves of the line\<close>

definition move_order :: "uuid \<Rightarrow> order_status \<Rightarrow> line \<Rightarrow> line" where
  "move_order k s L = L\<lparr>ln_orders := (ln_orders L)(k := map_option (\<lambda>_. s) (ln_orders L k))\<rparr>"

definition move_job :: "uuid \<Rightarrow> job_status \<Rightarrow> line \<Rightarrow> line" where
  "move_job i s L =
     L\<lparr>ln_jobs := (ln_jobs L)(i := map_option (\<lambda>v. v\<lparr>jv_status := s\<rparr>) (ln_jobs L i))\<rparr>"

definition move_command :: "int \<Rightarrow> command_status \<Rightarrow> line \<Rightarrow> line" where
  "move_command k s L =
     L\<lparr>ln_commands := (ln_commands L)(k := map_option (\<lambda>v. v\<lparr>cv_status := s\<rparr>) (ln_commands L k))\<rparr>"

lemma move_sel [simp]:
  "ln_orders (move_order k s L) = (ln_orders L)(k := map_option (\<lambda>_. s) (ln_orders L k))"
  "ln_jobs (move_order k s L) = ln_jobs L"
  "ln_commands (move_order k s L) = ln_commands L"
  "ln_orders (move_job i t L) = ln_orders L"
  "ln_jobs (move_job i t L) = (ln_jobs L)(i := map_option (\<lambda>v. v\<lparr>jv_status := t\<rparr>) (ln_jobs L i))"
  "ln_commands (move_job i t L) = ln_commands L"
  "ln_orders (move_command m u L) = ln_orders L"
  "ln_jobs (move_command m u L) = ln_jobs L"
  "ln_commands (move_command m u L) =
     (ln_commands L)(m := map_option (\<lambda>v. v\<lparr>cv_status := u\<rparr>) (ln_commands L m))"
  by (simp_all add: move_order_def move_job_def move_command_def)

lemma line_eqI:
  "ln_orders L = ln_orders M \<Longrightarrow> ln_jobs L = ln_jobs M \<Longrightarrow> ln_commands L = ln_commands M \<Longrightarrow> L = M"
  for L M :: line
  by (rule line.equality) simp_all

lemma move_order_same: "ln_orders L k = Some s \<or> ln_orders L k = None \<Longrightarrow> move_order k s L = L"
  by (rule line_eqI) (auto simp: fun_eq_iff)

lemma move_command_same:
  "(\<And>v. ln_commands L k = Some v \<Longrightarrow> cv_status v = s) \<Longrightarrow> move_command k s L = L"
  by (cases "ln_commands L k") (auto intro!: line_eqI simp: fun_eq_iff)

lemma move_job_twice [simp]: "move_job i s (move_job i t L) = move_job i s L"
  by (rule line_eqI) (auto simp: fun_eq_iff option.map_comp comp_def)

lemma drink_ok_other:
  "drink_ok L v \<Longrightarrow> jv_order v \<noteq> o' \<Longrightarrow> jv_command v \<noteq> Some k \<Longrightarrow>
    drink_ok (move_order o' os (move_job i s (move_command k cs L))) v"
  by (auto simp: drink_ok_def split: option.splits)

text \<open>A drink whose three parts move together to statuses that belong together.\<close>

lemma line_ok_move:
  assumes ok: "line_ok L" and v: "ln_jobs L i = Some v" and k: "jv_command v = Some k"
    and coh: "coherent os s (Some cs)"
    and act: "s \<in> set ACTIVE_JOBS \<Longrightarrow> jv_status v \<in> set ACTIVE_JOBS"
  shows "line_ok (move_order (jv_order v) os (move_job i s (move_command k cs L)))" (is "line_ok ?M")
proof -
  have dv: "drink_ok L v" using line_ok_drink[OF ok v] .
  have here: "drink_ok ?M (v\<lparr>jv_status := s\<rparr>)"
    by (rule drink_okE[OF dv k]) (simp add: drink_ok_def k coh)
  have each: "drink_ok ?M w" if w: "ln_jobs ?M i' = Some w" for i' w
  proof (cases "i' = i")
    case True
    with w v here show ?thesis by auto
  next
    case False
    with w have w': "ln_jobs L i' = Some w" by simp
    have "jv_order w \<noteq> jv_order v" and "jv_command w \<noteq> Some k"
      using line_ok_own[OF ok w' v] False k by auto
    then show ?thesis using drink_ok_other[OF line_ok_drink[OF ok w']] by blast
  qed
  have own: "i1 = i2" if a: "ln_jobs ?M i1 = Some w1" "ln_jobs ?M i2 = Some w2"
      and b: "jv_order w1 = jv_order w2 \<or> (jv_command w1 = jv_command w2 \<and> jv_command w1 \<noteq> None)
        \<or> (jv_terminal w1 = jv_terminal w2 \<and> jv_status w1 \<in> set ACTIVE_JOBS
             \<and> jv_status w2 \<in> set ACTIVE_JOBS)" for i1 i2 w1 w2
  proof -
    have was: "\<exists>u. ln_jobs L i' = Some u \<and> jv_order u = jv_order w \<and> jv_command u = jv_command w
        \<and> jv_terminal u = jv_terminal w
        \<and> (jv_status w \<in> set ACTIVE_JOBS \<longrightarrow> jv_status u \<in> set ACTIVE_JOBS)"
      if "ln_jobs ?M i' = Some w" for i' w
      using that v act by (cases "i' = i") auto
    obtain u1 u2 where u: "ln_jobs L i1 = Some u1" "ln_jobs L i2 = Some u2"
      "jv_order u1 = jv_order w1" "jv_command u1 = jv_command w1" "jv_terminal u1 = jv_terminal w1"
      "jv_order u2 = jv_order w2" "jv_command u2 = jv_command w2" "jv_terminal u2 = jv_terminal w2"
      "jv_status w1 \<in> set ACTIVE_JOBS \<longrightarrow> jv_status u1 \<in> set ACTIVE_JOBS"
      "jv_status w2 \<in> set ACTIVE_JOBS \<longrightarrow> jv_status u2 \<in> set ACTIVE_JOBS"
      using was[OF a(1)] was[OF a(2)] by blast
    show ?thesis
      by (rule line_ok_own[OF ok u(1,2)]) (use b u(3-) in auto)
  qed
  show ?thesis unfolding line_ok_def
    by (intro conjI allI impI) (use each own in \<open>blast+\<close>)
qed

text \<open>A command no job is linked to may move alone.\<close>

lemma line_ok_move_command:
  assumes ok: "line_ok L" and free: "\<And>i v. ln_jobs L i = Some v \<Longrightarrow> jv_command v \<noteq> Some k"
  shows "line_ok (move_command k cs L)"
proof -
  have "drink_ok (move_command k cs L) v" if "ln_jobs L i = Some v" for i v
    using line_ok_drink[OF ok that] free[OF that] by (auto simp: drink_ok_def split: option.splits)
  then show ?thesis using ok unfolding line_ok_def move_sel by blast
qed

text \<open>An order without a job may move alone.\<close>

lemma line_ok_move_order:
  assumes ok: "line_ok L" and free: "\<And>i v. ln_jobs L i = Some v \<Longrightarrow> jv_order v \<noteq> k"
  shows "line_ok (move_order k s L)"
proof -
  have "drink_ok (move_order k s L) v" if "ln_jobs L i = Some v" for i v
    using line_ok_drink[OF ok that] free[OF that] by (auto simp: drink_ok_def split: option.splits)
  then show ?thesis using ok unfolding line_ok_def move_sel by blast
qed

text \<open>A queued drink gets a new command, on a terminal with no drink in hand.\<close>

definition start_drink :: "uuid \<Rightarrow> int \<Rightarrow> line \<Rightarrow> line" where
  "start_drink i n L =
     (case ln_jobs L i of None \<Rightarrow> L
      | Some v \<Rightarrow> move_order (jv_order v) O_DISPATCHED (L\<lparr>
          ln_jobs := (ln_jobs L)(i \<mapsto> v\<lparr>jv_command := Some n, jv_status := J_DISPATCHED\<rparr>),
          ln_commands := (ln_commands L)(n \<mapsto> \<lparr>cv_terminal = jv_terminal v, cv_task = JStr (jv_task v),
            cv_type = ''MAKE_DRINK'', cv_status = C_CREATED\<rparr>)\<rparr>))"

lemma start_drink_sel:
  assumes "ln_jobs L i = Some v"
  shows "ln_orders (start_drink i n L)
      = (ln_orders L)(jv_order v := map_option (\<lambda>_. O_DISPATCHED) (ln_orders L (jv_order v)))"
    and "ln_jobs (start_drink i n L)
      = (ln_jobs L)(i \<mapsto> v\<lparr>jv_command := Some n, jv_status := J_DISPATCHED\<rparr>)"
    and "ln_commands (start_drink i n L) = (ln_commands L)(n \<mapsto> \<lparr>cv_terminal = jv_terminal v,
      cv_task = JStr (jv_task v), cv_type = ''MAKE_DRINK'', cv_status = C_CREATED\<rparr>)"
  using assms by (simp_all add: start_drink_def)

lemma line_ok_start:
  assumes ok: "line_ok L" and v: "ln_jobs L i = Some v" and q: "jv_status v = J_QUEUED"
    and n: "n \<noteq> 0" "ln_commands L n = None"
    and idle: "\<And>i' w. ln_jobs L i' = Some w \<Longrightarrow> jv_terminal w = jv_terminal v \<Longrightarrow>
        jv_status w \<notin> set ACTIVE_JOBS"
  shows "line_ok (start_drink i n L)"
proof -
  have dv: "drink_ok L v" using line_ok_drink[OF ok v] .
  obtain os where os: "ln_orders L (jv_order v) = Some os" using drink_ok_order[OF dv] by blast
  have unlinked: "jv_command w \<noteq> Some n" if "ln_jobs L i' = Some w" for i' w
    using line_ok_drink[OF ok that] n(2) by (auto simp: drink_ok_def split: option.splits)
  have each: "drink_ok (start_drink i n L) w" if w: "ln_jobs (start_drink i n L) i' = Some w" for i' w
  proof (cases "i' = i")
    case True
    with w have "w = v\<lparr>jv_command := Some n, jv_status := J_DISPATCHED\<rparr>" by (simp add: start_drink_sel[OF v])
    with n(1) os show ?thesis by (simp add: drink_ok_def start_drink_sel[OF v])
  next
    case False
    with w have w': "ln_jobs L i' = Some w" by (simp add: start_drink_sel[OF v])
    have ne: "jv_order w \<noteq> jv_order v" using line_ok_own[OF ok w' v] False by auto
    from line_ok_drink[OF ok w'] show ?thesis
      using ne unlinked[OF w'] by (auto simp: drink_ok_def start_drink_sel[OF v] split: option.splits)
  qed
  have own: "i1 = i2" if a: "ln_jobs (start_drink i n L) i1 = Some w1" "ln_jobs (start_drink i n L) i2 = Some w2"
      and b: "jv_order w1 = jv_order w2 \<or> (jv_command w1 = jv_command w2 \<and> jv_command w1 \<noteq> None)
        \<or> (jv_terminal w1 = jv_terminal w2 \<and> jv_status w1 \<in> set ACTIVE_JOBS
             \<and> jv_status w2 \<in> set ACTIVE_JOBS)" for i1 i2 w1 w2
  proof (rule ccontr)
    assume ne: "i1 \<noteq> i2"
    have other: "False" if "ln_jobs L i' = Some w" "i' \<noteq> i"
        "jv_order w = jv_order v \<or> jv_command w = Some n
          \<or> (jv_terminal w = jv_terminal v \<and> jv_status w \<in> set ACTIVE_JOBS)" for i' w
      using that line_ok_own[OF ok that(1) v] unlinked[OF that(1)] idle[OF that(1)] by blast
    show False
    proof (cases "i1 = i \<or> i2 = i")
      case True
      then show False
        using a b ne other[of i1 w1] other[of i2 w2] by (auto simp: start_drink_sel[OF v])
    next
      case False
      then have "ln_jobs L i1 = Some w1" "ln_jobs L i2 = Some w2"
        using a by (simp_all add: start_drink_sel[OF v])
      from line_ok_own[OF ok this b] ne show False by blast
    qed
  qed
  show ?thesis unfolding line_ok_def
    by (intro conjI allI impI) (use each own in \<open>blast+\<close>)
qed

section \<open>What the repositories do to the line\<close>

lemma line_of_cong:
  assumes "\<And>k. map_option o_status (find_order k d') = map_option o_status (find_order k d)"
    and "jobs d' = jobs d" and "commands d' = commands d"
  shows "line_of d' = line_of d"
  using assms by (simp add: line_of_def lock_job_def find_command_def)

lemma line_of_production:
  assumes "production_part d' = production_part d"
  shows "line_of d' = line_of d"
  by (rule line_of_cong[OF find_order_status_core[OF assms] production_part_sel(2,3)[OF assms]])

lemma line_of_update_order:
  assumes "\<And>r. o_id (f r) = o_id r" and "\<And>r. o_status (f r) = o_status r"
  shows "line_of (update_order k f d) = line_of d"
proof (rule line_of_cong)
  show "map_option o_status (find_order k' (update_order k f d)) = map_option o_status (find_order k' d)" for k'
    using assms by (simp add: find_order_update_order option.map_comp comp_def)
qed (simp_all add: update_order_def)

lemma line_of_update_failure [simp]: "line_of (update_failure now k c m d) = line_of d"
  unfolding update_failure_def by (rule line_of_update_order) simp_all

lemma line_of_update_payment_status [simp]: "line_of (update_payment_status now k st d) = line_of d"
  unfolding update_payment_status_def by (rule line_of_update_order) simp_all

lemma line_of_enqueue_dispatch [simp]: "line_of (enqueue_dispatch now t why d) = line_of d"
  by (rule line_of_cong)
    (simp_all add: enqueue_dispatch_def update_dispatch_def find_order_def split: option.splits)

lemma line_of_update_job:
  assumes "\<And>j. j_id (f j) = j_id j"
    and "\<And>j. job_view (f j) = (job_view j)\<lparr>jv_status := g (j_status j)\<rparr>"
  shows "line_of (update_job k f d)
    = (line_of d)\<lparr>ln_jobs := (ln_jobs (line_of d))
        (k := map_option (\<lambda>v. v\<lparr>jv_status := g (jv_status v)\<rparr>) (ln_jobs (line_of d) k))\<rparr>"
proof -
  have "ln_jobs (line_of (update_job k f d)) i
      = (if i = k then map_option (\<lambda>v. v\<lparr>jv_status := g (jv_status v)\<rparr>) (ln_jobs (line_of d) k)
         else ln_jobs (line_of d) i)" for i
    by (simp add: line_of_def lock_job_update_job assms option.map_comp comp_def)
      (simp add: job_view_def)
  moreover have "ln_orders (line_of (update_job k f d)) = ln_orders (line_of d)"
    and "ln_commands (line_of (update_job k f d)) = ln_commands (line_of d)"
    by (simp_all add: line_of_def find_order_def find_command_def update_job_def)
  ultimately show ?thesis by (intro line_eqI) (auto simp: fun_eq_iff)
qed

lemma line_of_set_job:
  assumes "\<And>j. j_id (f j) = j_id j" and "\<And>j. job_view (f j) = (job_view j)\<lparr>jv_status := s\<rparr>"
  shows "line_of (update_job k f d) = move_job k s (line_of d)"
  by (subst line_of_update_job[where g = "\<lambda>_. s"]) (simp_all add: assms move_job_def)

lemma line_of_same_job:
  assumes "\<And>j. j_id (f j) = j_id j" and "\<And>j. job_view (f j) = job_view j"
  shows "line_of (update_job k f d) = line_of d"
proof -
  have v: "job_view (f j) = (job_view j)\<lparr>jv_status := id (j_status j)\<rparr>" for j
    using assms(2) by (simp add: job_view_def)
  have "map_option (\<lambda>v. v\<lparr>jv_status := id (jv_status v)\<rparr>) z = z" for z :: "job_view option"
    by (cases z) simp_all
  then show ?thesis
    by (subst line_of_update_job[where g = id, OF assms(1) v]) simp
qed

lemma line_of_job_writes [simp]:
  "line_of (update_job_terminal now k st p sp pl steps fd el rm rv ac sa co att d) = move_job k st (line_of d)"
  "line_of (update_job_hold now k why fl d) = move_job k J_HOLD (line_of d)"
  "line_of (update_job_expired now k flj d) = move_job k J_EXPIRED (line_of d)"
  "line_of (clear_job_hold k d) = line_of d"
  "line_of (update_job_progress now k p' sp' si sn e' r' rev' att' d) = line_of d"
  unfolding update_job_terminal_def update_job_hold_def update_job_expired_def clear_job_hold_def
    update_job_progress_def
  by (subst line_of_set_job line_of_same_job; simp add: job_view_def)+

lemma line_of_transition_order:
  assumes step: "transition_order now r tgt actor why payload d = Inr (r', d')"
    and here: "ln_orders (line_of d) (o_id r) = Some (o_status r)"
    and ok: "order_transition_allowed (o_status r) tgt"
  shows "line_of d' = move_order (o_id r) tgt (line_of d)" and "o_status r' = tgt"
    and "o_id r' = o_id r" and "o_paid_payment_id r' = o_paid_payment_id r \<or>
      (\<exists>u. find_order (o_id r) d = Some u \<and> o_paid_payment_id r' = o_paid_payment_id u)"
proof -
  have all: "line_of d' = move_order (o_id r) tgt (line_of d) \<and> o_status r' = tgt \<and> o_id r' = o_id r
    \<and> (o_paid_payment_id r' = o_paid_payment_id r \<or>
      (\<exists>u. find_order (o_id r) d = Some u \<and> o_paid_payment_id r' = o_paid_payment_id u))"
    using step
  proof (cases rule: transition_order_cases)
    case 1
    with ok have "o_status r = tgt" by blast
    moreover have "move_order (o_id r) (o_status r) (line_of d) = line_of d"
      by (rule move_order_same) (use here in simp)
    ultimately show ?thesis using 1 by simp
  next
    case (2 u l)
    have "line_of d' = move_order (o_id r) tgt (line_of d)"
    proof (rule line_eqI)
      show "ln_orders (line_of d') = ln_orders (move_order (o_id r) tgt (line_of d))"
        unfolding 2(5) by (auto simp: line_of_def find_order_update_order option.map_comp comp_def fun_eq_iff)
      show "ln_jobs (line_of d') = ln_jobs (move_order (o_id r) tgt (line_of d))"
        and "ln_commands (line_of d') = ln_commands (move_order (o_id r) tgt (line_of d))"
        unfolding 2(5) by (simp_all add: line_of_def lock_job_def find_command_def update_order_def)
    qed
    with 2 show ?thesis by (auto dest: find_order_SomeD)
  qed
  then show "line_of d' = move_order (o_id r) tgt (line_of d)" and "o_status r' = tgt"
    and "o_id r' = o_id r" and "o_paid_payment_id r' = o_paid_payment_id r \<or>
      (\<exists>u. find_order (o_id r) d = Some u \<and> o_paid_payment_id r' = o_paid_payment_id u)"
    by blast+
qed

lemma line_of_update_command:
  assumes "\<And>c. c_id (f c) = c_id c"
    and "\<And>c. command_view (f c) = (command_view c)\<lparr>cv_status := s\<rparr>"
  shows "line_of (update_command k f d) = move_command k s (line_of d)"
proof (rule line_eqI)
  show "ln_commands (line_of (update_command k f d)) = ln_commands (move_command k s (line_of d))"
    by (auto simp: line_of_def find_command_update_command assms option.map_comp comp_def fun_eq_iff)
qed (simp_all add: line_of_def find_order_def lock_job_def update_command_def)

lemma line_of_command_log [simp]: "line_of (d\<lparr>command_log := l\<rparr>) = line_of d"
  by (simp add: line_of_def find_order_def lock_job_def find_command_def)

lemma command_view_transitioned:
  "command_view (transitioned now c tgt payload r) = (command_view r)\<lparr>cv_status := tgt\<rparr>"
  by (simp add: command_view_def)

lemma line_of_transition_command:
  assumes step: "transition_command now c tgt actor why payload strict d = Inr ((u, dup), d')"
    and here: "ln_commands (line_of d) (c_id c) = Some (command_view c)"
  shows "line_of d' = move_command (c_id c) (c_status u) (line_of d)"
    and "c_status u = tgt \<or> \<not> strict \<and> c_status u = c_status c"
proof -
  have "line_of d' = move_command (c_id c) (c_status u) (line_of d)
    \<and> (c_status u = tgt \<or> \<not> strict \<and> c_status u = c_status c)"
    using step
  proof (cases rule: transition_command_cases)
    case 1
    have "move_command (c_id c) (c_status c) (line_of d) = line_of d"
      by (rule move_command_same) (use here in \<open>auto simp: command_view_def\<close>)
    with 1 show ?thesis by simp
  next
    case 2
    have "move_command (c_id c) (c_status c) (line_of d) = line_of d"
      by (rule move_command_same) (use here in \<open>auto simp: command_view_def\<close>)
    with 2 show ?thesis by simp
  next
    case (3 l c0)
    have "line_of d' = move_command (c_id c) tgt (line_of d)"
      unfolding 3(6)
      by (simp add: line_of_update_command[where s = tgt] command_view_transitioned)
    with 3 show ?thesis by simp
  qed
  then show "line_of d' = move_command (c_id c) (c_status u) (line_of d)"
    and "c_status u = tgt \<or> \<not> strict \<and> c_status u = c_status c" by blast+
qed

end
