(* ===== verification/Coordination.thy ===== *)
theory Coordination
  imports Production Line
begin

text \<open>
  The production service keeps the line (\<open>Line.line_ok\<close>): a device event, the expiry of a command,
  the dispatch of an order and the watchdog each move the order, the job and the command of one
  drink together, or change nothing. From that follow what the services take for granted: the
  coordination guard never has to refuse an event that was allowed, a finished drink stays
  finished, and a terminal has at most one drink in hand.
\<close>

section \<open>The invariant\<close>

text \<open>
  The identifiers of the line: what only inserts change. Keys are unique, command numbers come
  from the sequence, and every order refers to a terminal.
\<close>

record line_keys =
  lk_jobs :: "uuid list"
  lk_commands :: "int list"
  lk_seq :: int
  lk_orders :: "(uuid \<times> int) list"
  lk_terminals :: "int list"

definition order_keys :: "sales_order \<Rightarrow> uuid \<times> int" where
  "order_keys r = (o_id r, o_terminal_id r)"

lemma order_keys_fields [simp]: "order_keys r = order_keys q \<longleftrightarrow> o_id r = o_id q \<and> o_terminal_id r = o_terminal_id q"
  by (simp add: order_keys_def)

definition line_ids :: "db \<Rightarrow> line_keys" where
  "line_ids d = \<lparr>lk_jobs = map j_id (jobs d), lk_commands = map c_id (commands d),
     lk_seq = command_seq d, lk_orders = map order_keys (orders d),
     lk_terminals = map t_id (terminals d)\<rparr>"

definition ids_ok :: "line_keys \<Rightarrow> bool" where
  "ids_ok v \<longleftrightarrow> distinct (lk_jobs v) \<and> distinct (lk_commands v)
     \<and> (\<forall>k \<in> set (lk_commands v). 0 < k \<and> k \<le> lk_seq v) \<and> 0 \<le> lk_seq v
     \<and> distinct (map fst (lk_orders v)) \<and> (\<forall>p \<in> set (lk_orders v). snd p \<in> set (lk_terminals v))"

definition line_inv :: "db \<Rightarrow> bool" where
  "line_inv d \<longleftrightarrow> line_ok (line_of d) \<and> ids_ok (line_ids d)"

lemma line_invI: "line_ok (line_of d') \<Longrightarrow> line_ids d' = line_ids d \<Longrightarrow> line_inv d \<Longrightarrow> line_inv d'"
  by (simp add: line_inv_def)

lemma line_inv_same: "line_of d' = line_of d \<Longrightarrow> line_ids d' = line_ids d \<Longrightarrow> line_inv d \<Longrightarrow> line_inv d'"
  by (simp add: line_inv_def)

lemma line_ids_cong:
  "jobs d' = jobs d \<Longrightarrow> commands d' = commands d \<Longrightarrow> command_seq d' = command_seq d \<Longrightarrow>
    map order_keys (orders d') = map order_keys (orders d) \<Longrightarrow>
    map t_id (terminals d') = map t_id (terminals d) \<Longrightarrow> line_ids d' = line_ids d"
  by (simp add: line_ids_def)

lemma line_ids_production:
  assumes "production_part d' = production_part d"
  shows "line_ids d' = line_ids d"
proof (rule line_ids_cong)
  have "map order_keys (orders y) = map order_keys (map order_core (orders y))" for y
    by (simp add: order_keys_def)
  then show "map order_keys (orders d') = map order_keys (orders d)"
    by (metis production_part_sel(1)[OF assms])
qed (simp_all only: production_part_sel[OF assms])

lemma line_ids_update_order:
  "(\<And>r. o_id (f r) = o_id r) \<Longrightarrow> (\<And>r. o_terminal_id (f r) = o_terminal_id r) \<Longrightarrow>
    line_ids (update_order k f d) = line_ids d"
  by (simp add: line_ids_def update_order_def map_update_rows)

lemma line_ids_update_job:
  "(\<And>j. j_id (f j) = j_id j) \<Longrightarrow> line_ids (update_job k f d) = line_ids d"
  by (simp add: line_ids_def update_job_def map_update_rows)

lemma line_ids_writes [simp]:
  "line_ids (update_job_terminal now k st p sp pl steps fd el rm rv ac sa co att d) = line_ids d"
  "line_ids (update_job_hold now k why fl d) = line_ids d"
  "line_ids (update_job_expired now k flj d) = line_ids d"
  "line_ids (clear_job_hold k d) = line_ids d"
  "line_ids (update_job_progress now k p' sp' si sn e' r' rev' att' d) = line_ids d"
  "line_ids (update_failure now ko co' ms d) = line_ids d"
  "line_ids (enqueue_dispatch now t wh d) = line_ids d"
  unfolding update_job_terminal_def update_job_hold_def update_job_expired_def clear_job_hold_def
    update_job_progress_def
    update_failure_def
  by (simp_all add: line_ids_update_job line_ids_update_order)
    (simp_all add: line_ids_def enqueue_dispatch_def update_dispatch_def split: option.splits)

lemma line_ids_transition_order:
  assumes "transition_order now r tgt actor why payload d = Inr (r', d')"
  shows "line_ids d' = line_ids d"
  using assms
proof (cases rule: transition_order_cases)
  case (2 u l)
  then show ?thesis
    by (simp add: line_ids_def update_order_def map_update_rows)
qed simp_all

lemma line_ids_transition_command:
  assumes "transition_command now c tgt actor why payload strict d = Inr ((u, dup), d')"
  shows "line_ids d' = line_ids d"
  using assms
proof (cases rule: transition_command_cases)
  case (3 l c0)
  then show ?thesis by (simp add: line_ids_def update_command_def map_update_rows)
qed simp_all

section \<open>A task event that is applied\<close>

lemma create_automatic_refund_production:
  assumes "create_automatic_refund_record x now rid nid r job why d = Inr (v, d')"
  shows "production_part d' = production_part d"
  using assms unfolding create_automatic_refund_record_def Let_def
  by (auto split: option.splits if_splits simp: bind_ok_Inr dest: ensure_production)

lemma record_failure_line:
  "record_failure now body failure st r d = Inr d' \<Longrightarrow>
    line_of d' = line_of d \<and> line_ids d' = line_ids d"
  by (auto simp: record_failure_def bind_ok_Inr split: if_splits)

lemma apply_task_event_line:
  assumes run: "apply_task_event x now rid nid terminal_id body payload event_type revision r job c
      (ost, jst, cst) d = Inr (v, d')"
    and ro: "ln_orders (line_of d) (o_id r) = Some (o_status r)"
    and cc: "ln_commands (line_of d) (c_id c) = Some (command_view c)"
    and ok: "order_transition_allowed (o_status r) ost"
  shows "line_of d' = move_order (o_id r) ost (move_job (j_id job) jst (move_command (c_id c) cst (line_of d)))
    \<and> line_ids d' = line_ids d"
proof -
  from run obtain failure pr sp u dup d1 d4 r' d5 rf d6
    where cmd: "transition_command now c cst ''device-event'' (Some event_type) (Some (JObj body)) True d
        = Inr ((u, dup), d1)"
      and rec: "record_failure now body failure jst r
        (if jst = J_HOLD then update_job_hold now (j_id job) ''DEVICE_RESTARTED_OUTCOME_UNKNOWN'' None pr
         else if jst \<in> set FINAL_JOBS then clear_job_hold (j_id job) pr else pr) = Inr d4"
      and prd: "line_of pr = move_job (j_id job) jst (line_of d1)" "line_ids pr = line_ids d1"
      and ord: "transition_order now r ost ''device-event'' (Some event_type) (JObj body) d4 = Inr (r', d5)"
      and rf: "(if event_type \<in> {''task.failed'', ''task.rejected'', ''task.cancelled''}
          then create_automatic_refund_record x now rid nid r' job event_type d5 else Inr (None, d5))
        = Inr (rf, d6)"
      and d': "d' = (if ost \<in> set TERMINAL_ORDER_STATUSES
            then request_dispatch now terminal_id (''order-'' @ py_lower (order_name ost)) d6 else d6)"
    unfolding apply_task_event_def Let_def prod.case
    by (auto simp: bind_ok_Inr)
  have l1: "line_of d1 = move_command (c_id c) cst (line_of d)" "line_ids d1 = line_ids d"
    using line_of_transition_command[OF cmd cc] line_ids_transition_command[OF cmd] by auto
  have l4: "line_of d4 = move_job (j_id job) jst (line_of d1)" "line_ids d4 = line_ids d1"
    using record_failure_line[OF rec] prd by (auto split: if_splits)
  have o4: "ln_orders (line_of d4) (o_id r) = Some (o_status r)"
    using ro by (simp add: l4 l1)
  have l5: "line_of d5 = move_order (o_id r) ost (line_of d4)" "line_ids d5 = line_ids d4"
    using line_of_transition_order(1)[OF ord o4 ok] line_ids_transition_order[OF ord] by auto
  have l6: "line_of d6 = line_of d5" "line_ids d6 = line_ids d5"
    using rf create_automatic_refund_production[THEN line_of_production]
      create_automatic_refund_production[THEN line_ids_production] by (auto split: if_splits)
  show ?thesis using d' l6 l5 l4 l1 by (auto simp: request_dispatch_def)
qed

section \<open>Locating the drink of an event\<close>

text \<open>The rows a located event reads are the rows of the abstract line.\<close>

lemma ln_ordersI: "find_order k d = Some r \<Longrightarrow> ln_orders (line_of d) k = Some (o_status r)"
  by (simp add: line_of_def)

lemma ln_jobsI: "lock_job k d = Some j \<Longrightarrow> ln_jobs (line_of d) k = Some (job_view j)"
  by (simp add: line_of_def)

lemma ln_commandsI: "find_command k d = Some c \<Longrightarrow> ln_commands (line_of d) k = Some (command_view c)"
  by (simp add: line_of_def)

lemma job_view_sel [simp]:
  "jv_order (job_view j) = j_order_id j" "jv_terminal (job_view j) = j_terminal_id j"
  "jv_task (job_view j) = j_task_id j" "jv_command (job_view j) = j_command_id j"
  "jv_status (job_view j) = j_status j"
  by (simp_all add: job_view_def)

lemma command_view_sel [simp]:
  "cv_terminal (command_view c) = c_terminal_id c" "cv_type (command_view c) = c_command_type c"
  "cv_task (command_view c) = dget (c_payload_json c) ''taskId''"
  "cv_status (command_view c) = c_status c"
  by (simp_all add: command_view_def)

lemma lock_job_mem: "ids_ok (line_ids d) \<Longrightarrow> j \<in> set (jobs d) \<Longrightarrow> lock_job (j_id j) d = Some j"
  by (simp add: lock_job_get ids_ok_def line_ids_def job_table.get_of_row)

lemma job_for_taskD:
  assumes "job_for_task terminal_id task_id d = Some (j, r)"
  shows "j \<in> set (jobs d) \<and> j_terminal_id j = terminal_id \<and> j_task_id j = task_id
    \<and> find_order (j_order_id j) d = Some r"
  using assms by (auto simp: job_for_task_def dest: find_row_SomeD split: bind_splits)

text \<open>The order, the job and the command of a dispatched drink.\<close>

lemma drink_rows:
  assumes inv: "line_inv d" and j: "lock_job k d = Some j" and cid: "j_command_id j = Some cid"
  obtains r c where "find_order (j_order_id j) d = Some r" and "find_command cid d = Some c"
    and "cid \<noteq> 0" and "c_terminal_id c = j_terminal_id j"
    and "dget (c_payload_json c) ''taskId'' = JStr (j_task_id j)"
    and "c_command_type c = ''MAKE_DRINK''"
    and "coherent (o_status r) (j_status j) (Some (c_status c))"
proof -
  have ok: "drink_ok (line_of d) (job_view j)"
    using inv ln_jobsI[OF j] by (auto simp: line_inv_def intro: line_ok_drink)
  obtain os cv where "ln_orders (line_of d) (j_order_id j) = Some os" "ln_commands (line_of d) cid = Some cv"
    "cid \<noteq> 0" "cv_terminal cv = j_terminal_id j" "cv_task cv = JStr (j_task_id j)"
    "cv_type cv = ''MAKE_DRINK''" "coherent os (j_status j) (Some (cv_status cv))"
    using ok cid by (rule_tac drink_okE[where k = cid]) auto
  with that show ?thesis by (auto simp: line_of_def command_view_def)
qed

text \<open>The three moves of a drink keep the line when its statuses end up together.\<close>

lemma line_inv_move:
  assumes inv: "line_inv d" and j: "lock_job k d = Some j" and cid: "j_command_id j = Some cid"
    and l: "line_of d' = move_order (j_order_id j) os (move_job k s (move_command cid cs (line_of d)))"
    and i: "line_ids d' = line_ids d"
    and coh: "coherent os s (Some cs)"
    and act: "s \<in> set ACTIVE_JOBS \<Longrightarrow> j_status j \<in> set ACTIVE_JOBS"
  shows "line_inv d'"
proof (rule line_invI[OF _ i inv])
  have "line_ok (line_of d)" using inv by (simp add: line_inv_def)
  from line_ok_move[OF this ln_jobsI[OF j], of cid os s cs] show "line_ok (line_of d')"
    unfolding l using cid coh act by simp
qed

section \<open>Device events\<close>

text \<open>What a located event may do: nothing to the line, or the moves its type stands for.\<close>

lemma reconcile_step_line:
  assumes "reconcile_step now body payload revision r job c d = Inr (v, d')"
  shows "line_of d' = line_of d" "line_ids d' = line_ids d"
    "dget (dict_of v) ''reason'' \<noteq> JStr ''ILLEGAL_COORDINATED_TRANSITION''"
  using assms by (auto simp: reconcile_step_def ignored_def bind_ok_Inr split: if_splits)

definition event_moves ::
  "string \<Rightarrow> int option \<Rightarrow> production_job \<Rightarrow> db \<Rightarrow> db \<Rightarrow> bool" where
  "event_moves event_type revision j d d' \<longleftrightarrow>
     (\<exists>ost jst cst cid dec. event_target event_type = Some (ost, jst, cst) \<and> j_command_id j = Some cid
        \<and> decide_job_event (j_status j) event_type revision (j_last_device_revision j) = Inr dec
        \<and> allowed dec
        \<and> line_of d' = move_order (j_order_id j) ost (move_job (j_id j) jst
             (move_command cid cst (line_of d))))"

lemma event_moves_line_inv:
  assumes inv: "line_inv d" and j: "lock_job (j_id j) d = Some j" and i: "line_ids d' = line_ids d"
    and m: "event_moves event_type revision j d d'"
  shows "line_inv d'"
proof -
  obtain ost jst cst cid dec where t: "event_target event_type = Some (ost, jst, cst)"
    and cid: "j_command_id j = Some cid"
    and dec: "decide_job_event (j_status j) event_type revision (j_last_device_revision j) = Inr dec" "allowed dec"
    and l: "line_of d' = move_order (j_order_id j) ost (move_job (j_id j) jst
      (move_command cid cst (line_of d)))"
    using m unfolding event_moves_def by blast
  have "j_status j \<in> set ACTIVE_JOBS"
    using decide_job_event_allowed(1)[OF dec] by (simp add: ACTIVE_JOBS_def)
  with line_inv_move[OF inv j cid l i event_target_coherent[OF t]] show ?thesis by blast
qed

lemma reason_if: "reason x \<noteq> z \<Longrightarrow> reason y \<noteq> z \<Longrightarrow> reason (if b then x else y) \<noteq> z"
  by simp

lemma decide_job_event_reason:
  assumes "decide_job_event cur event drev lastr = Inr dec"
  shows "reason dec \<noteq> Some ''ILLEGAL_COORDINATED_TRANSITION''"
proof (cases "event_target event")
  case None
  with assms show ?thesis by (simp add: decide_job_event_def)
next
  case (Some t)
  obtain oo j c where t: "t = (oo, j, c)" by (cases t)
  note dec = assms[unfolded decide_job_event_def Some t option.case prod.case sum.inject Let_def, symmetric]
  show ?thesis unfolding dec by (intro reason_if) simp_all
qed

lemma reconcile_located_line:
  assumes inv: "line_inv d" and loc: "job_for_task terminal_id task_id d = Some (j, r0)"
    and run: "reconcile_located x now rid nid terminal_id task_id body payload event_type revision (j, r0) d
      = Inr (v, d')"
  shows "dget (dict_of v) ''reason'' \<noteq> JStr ''ILLEGAL_COORDINATED_TRANSITION''
    \<and> line_ids d' = line_ids d \<and> (line_of d' = line_of d \<or> event_moves event_type revision j d d')"
proof -
  have jin: "j \<in> set (jobs d)" and r0: "find_order (j_order_id j) d = Some r0"
    using job_for_taskD[OF loc] by auto
  have jl: "lock_job (j_id j) d = Some j" using inv jin by (simp add: line_inv_def lock_job_mem)
  consider (none) "find_with_terminal (j_order_id j) d = None"
    | (some) t where "find_with_terminal (j_order_id j) d = Some (r0, t)"
    using find_with_terminal_SomeD[of "j_order_id j" d] r0
    by (cases "find_with_terminal (j_order_id j) d") auto
  then show ?thesis
  proof cases
    case none
    with run show ?thesis by (auto simp: reconcile_located_def Let_def)
  next
    case (some t)
    show ?thesis
    proof (cases "j_command_id j")
      case None
      with run some jl show ?thesis by (auto simp: reconcile_located_def Let_def)
    next
      case (Some cid)
      obtain r c where r: "find_order (j_order_id j) d = Some r" and c: "find_command cid d = Some c"
        and cid0: "cid \<noteq> 0" and coh: "coherent (o_status r) (j_status j) (Some (c_status c))"
        using drink_rows[OF inv jl Some] by blast
      have rr: "r = r0" using r r0 by simp
      have oid: "o_id r0 = j_order_id j" using r0 by (auto dest: find_order_SomeD)
      have ccid: "c_id c = cid" using c by (auto dest: find_command_SomeD)
      have byid: "command_by_db_id cid d = Some c" using c by (simp add: command_by_db_id_def)
      have ig: "dget (dict_of (ignored r0 c w)) ''reason'' = JStr w" for w by (simp add: ignored_def)
      note body = run[unfolded reconcile_located_def Let_def fst_conv snd_conv some(1) jl Some byid
        prod.case option.case]
      consider (same) "d' = d" "v = JObj [(''status'', JStr ''NOT_DISPATCHED''), (''stale'', JBool True)]
            \<or> (\<exists>w. v = ignored r0 c w \<and> w \<noteq> ''ILLEGAL_COORDINATED_TRANSITION'')"
        | (step) "reconcile_step now body payload revision r0 j c d = Inr (v, d')"
        | (go) ost jst cst dec where "event_target event_type = Some (ost, jst, cst)"
            "decide_job_event (j_status j) event_type revision (j_last_device_revision j) = Inr dec"
            "allowed dec"
            "apply_task_event x now rid nid terminal_id body payload event_type revision r0 j c
               (ost, jst, cst) d = Inr (v, d')"
      proof (cases "event_target event_type")
        case None
        with body that(1,2) show ?thesis by (auto split: if_splits)
      next
        case (Some t)
        obtain ost jst cst where t: "t = (ost, jst, cst)" by (cases t)
        obtain dec where dec: "decide_job_event (j_status j) event_type revision (j_last_device_revision j) = Inr dec"
          using decide_job_event_Inr Some t by blast
        have ne: "reason dec \<noteq> Some ''ILLEGAL_COORDINATED_TRANSITION''"
          using decide_job_event_reason[OF dec] .
        have al: "order_transition_allowed (o_status r0) ost \<and> allowed (decide_transition (c_status c) cst)"
          if "allowed dec"
          using allowed_event_coordinated[OF dec that Some[unfolded t]] coh rr by blast
        show ?thesis
        proof (cases "allowed dec \<and> \<not> duplicate dec")
          case True
          with body Some t dec al that(1) that(3)[of ost jst cst dec] show ?thesis
            by (auto split: if_splits)
        next
          case False
          with body Some t dec ne that(1) show ?thesis
            by (auto split: if_splits option.splits)
        qed
      qed
      then show ?thesis
      proof cases
        case same
        then show ?thesis by (auto simp: ig)
      next
        case step
        then show ?thesis using reconcile_step_line[OF step] by blast
      next
        case go
        have ok: "order_transition_allowed (o_status r0) ost"
          using allowed_event_coordinated[OF go(2,3,1)] coh rr by blast
        have "line_of d' = move_order (o_id r0) ost (move_job (j_id j) jst (move_command (c_id c) cst (line_of d)))
          \<and> line_ids d' = line_ids d"
          by (rule apply_task_event_line[OF go(4) _ _ ok])
            (use r0 oid c ccid in \<open>auto intro: ln_ordersI ln_commandsI\<close>)
        moreover have "dget (dict_of v) ''reason'' = JNull"
          using go(4) unfolding apply_task_event_def Let_def prod.case
          by (auto simp: bind_ok_Inr)
        ultimately show ?thesis using go(1-3) Some oid ccid unfolding event_moves_def by auto
      qed
    qed
  qed
qed

lemma find_command_mem: "ids_ok (line_ids d) \<Longrightarrow> c \<in> set (commands d) \<Longrightarrow> find_command (c_id c) d = Some c"
  by (simp add: find_command_get ids_ok_def line_ids_def command_table.get_of_row)

lemma command_by_taskD:
  assumes "command_by_task terminal_id task_id d = Some c"
  shows "c \<in> set (commands d) \<and> c_terminal_id c = terminal_id
    \<and> dget (c_payload_json c) ''taskId'' = JStr task_id \<and> c_command_type c = ''MAKE_DRINK''"
proof -
  let ?s = "sort_key (\<lambda>c. - c_id c) (filter (\<lambda>c. c_terminal_id c = terminal_id
     \<and> dget (c_payload_json c) ''taskId'' = JStr task_id \<and> c_command_type c = ''MAKE_DRINK'') (commands d))"
  obtain cs where "?s = c # cs" using assms by (auto simp: command_by_task_def split: list.splits)
  then have "c \<in> set ?s" by (simp only: list.set_intros)
  then show ?thesis by simp
qed

text \<open>A command found for a task no job has is linked to no job.\<close>

lemma standalone_free:
  assumes inv: "line_inv d" and none: "job_for_task terminal_id task_id d = None"
    and c: "command_by_task terminal_id task_id d = Some c"
    and v: "ln_jobs (line_of d) i = Some v"
  shows "jv_command v \<noteq> Some (c_id c)"
proof
  assume k: "jv_command v = Some (c_id c)"
  obtain j where j: "lock_job i d = Some j" "v = job_view j"
    using v by (auto simp: line_of_def)
  have fc: "find_command (c_id c) d = Some c"
    using inv command_by_taskD[OF c] by (simp add: line_inv_def find_command_mem)
  have "j_command_id j = Some (c_id c)" using k j by simp
  then obtain r c' where c': "find_command (c_id c) d = Some c'" "c_terminal_id c' = j_terminal_id j"
    "dget (c_payload_json c') ''taskId'' = JStr (j_task_id j)"
    by (rule drink_rows[OF inv j(1)])
  then have "c' = c" using fc by simp
  with c' command_by_taskD[OF c] have jt: "j_terminal_id j = terminal_id" "j_task_id j = task_id"
    by simp_all
  have "find_row (\<lambda>j. j_terminal_id j = terminal_id \<and> j_task_id j = task_id) (jobs d) \<noteq> None"
    using lock_job_SomeD[OF j(1)] jt by (auto simp: find_row_None)
  then obtain j' where f: "find_row (\<lambda>j. j_terminal_id j = terminal_id \<and> j_task_id j = task_id) (jobs d) = Some j'"
    by auto
  then have "j' \<in> set (jobs d)" by (auto dest: find_row_SomeD)
  then have "lock_job (j_id j') d = Some j'" using inv by (simp add: line_inv_def lock_job_mem)
  then have "drink_ok (line_of d) (job_view j')"
    using inv by (auto simp: line_inv_def dest: ln_jobsI line_ok_drink)
  from drink_ok_order[OF this] have "ln_orders (line_of d) (j_order_id j') \<noteq> None" by auto
  then have "find_order (j_order_id j') d \<noteq> None" by (simp add: line_of_def)
  with f none show False by (auto simp: job_for_task_def)
qed

lemma reconcile_standalone_line:
  assumes inv: "line_inv d" and none: "job_for_task terminal_id task_id d = None"
    and run: "reconcile_standalone now terminal_id task_id body payload event_type d = Inr (v, d')"
  shows "line_inv d' \<and> ln_jobs (line_of d') = ln_jobs (line_of d) \<and> ln_orders (line_of d') = ln_orders (line_of d)
    \<and> dget (dict_of v) ''reason'' = JNull"
proof (cases "d' = d")
  case True
  with inv run show ?thesis
    by (auto simp: reconcile_standalone_def bind_ok_Inr split: option.splits if_splits)
next
  case False
  with run obtain c tgt u dup where c: "command_by_task terminal_id task_id d = Some c"
    and step: "transition_command now c tgt ''device-event'' (Some event_type) (Some (JObj body)) False d
      = Inr ((u, dup), d')" and v: "dget (dict_of v) ''reason'' = JNull"
    by (auto simp: reconcile_standalone_def bind_ok_Inr split: option.splits if_splits)
  have cc: "ln_commands (line_of d) (c_id c) = Some (command_view c)"
    using inv command_by_taskD[OF c] by (auto simp: line_inv_def find_command_mem intro!: ln_commandsI)
  have l: "line_of d' = move_command (c_id c) (c_status u) (line_of d)"
    by (rule line_of_transition_command(1)[OF step cc])
  have "line_ok (line_of d')"
    unfolding l using inv standalone_free[OF inv none c]
    by (intro line_ok_move_command) (auto simp: line_inv_def)
  with line_ids_transition_command[OF step] inv v l show ?thesis by (auto simp: line_inv_def)
qed

text \<open>All events: nothing, a command of its own, or the three moves.\<close>

lemma reconcile_device_event_cases:
  assumes inv: "line_inv d"
    and run: "reconcile_device_event x now rid nid terminal_id body event_type d = Inr (v, d')"
  shows "dget (dict_of v) ''reason'' \<noteq> JStr ''ILLEGAL_COORDINATED_TRANSITION'' \<and> line_inv d'
    \<and> ((ln_jobs (line_of d') = ln_jobs (line_of d) \<and> ln_orders (line_of d') = ln_orders (line_of d))
       \<or> (\<exists>j revision. lock_job (j_id j) d = Some j \<and> j_terminal_id j = terminal_id
            \<and> event_task_id body = Some (j_task_id j) \<and> revision_of (event_payload body) = Inr revision
            \<and> event_moves event_type revision j d d'))"
proof -
  let ?p = "event_payload body"
  have same: ?thesis if "d' = d" and "dget (dict_of v) ''reason'' = JNull"
    using that inv by simp
  show ?thesis
  proof (cases "event_type = ''task.progress''
      \<or> (event_target event_type = None \<and> event_type \<notin> {''step.started'', ''step.completed''})")
    case True
    with run have "d' = d" and "dget (dict_of v) ''reason'' = JNull"
      by (auto simp: reconcile_device_event_def split: if_splits)
    then show ?thesis by (rule same)
  next
    case False
    then have ev: "event_type \<noteq> ''task.progress''"
      "\<not> (event_target event_type = None \<and> event_type \<notin> {''step.started'', ''step.completed''})" by blast+
    note run' = run[unfolded reconcile_device_event_def Let_def if_not_P[OF ev(1)] if_not_P[OF ev(2)]]
    obtain revision where rv: "revision_of ?p = Inr revision"
      and rest: "bind_ok (validate_metrics ?p) (\<lambda>_.
        case event_task_id body of
          None \<Rightarrow> Inl (service_error 422 ''taskId is required for production events'')
        | Some task_id \<Rightarrow>
            if dget body ''taskId'' \<noteq> JNull \<and> dget ?p ''taskId'' \<noteq> JNull
               \<and> dget body ''taskId'' \<noteq> dget ?p ''taskId''
            then Inl (service_error 409 ''conflicting taskId fields'')
            else if event_type = ''task.recovered'' \<and> dget ?p ''state'' \<noteq> JStr ''PAUSED''
            then Inr (JObj [(''status'', JStr ''IGNORED_RECOVERY'')], d)
            else reconcile_task x now rid nid terminal_id task_id body ?p event_type revision d) = Inr (v, d')"
      using run' by (rule bind_ok_InrE)
    obtain task_id where tk: "event_task_id body = Some task_id"
      and or: "v = JObj [(''status'', JStr ''IGNORED_RECOVERY'')] \<and> d' = d
        \<or> reconcile_task x now rid nid terminal_id task_id body ?p event_type revision d = Inr (v, d')"
      using rest by (cases "event_task_id body") (auto simp only: bind_ok_Inr option.case split: if_split_asm)
    show ?thesis
    proof (cases "v = JObj [(''status'', JStr ''IGNORED_RECOVERY'')] \<and> d' = d")
      case True
      then show ?thesis using same by simp
    next
      case False
      with or have step: "reconcile_task x now rid nid terminal_id task_id body ?p event_type revision d = Inr (v, d')"
        by blast
      show ?thesis
      proof (cases "job_for_task terminal_id task_id d")
        case None
        with step reconcile_standalone_line[OF inv None] show ?thesis by (auto simp: reconcile_task_def)
      next
        case (Some p)
        obtain j r where p: "p = (j, r)" by (cases p)
        note jr = Some[unfolded p]
        have run': "reconcile_located x now rid nid terminal_id task_id body ?p event_type revision (j, r) d
            = Inr (v, d')"
          using step by (simp only: jr option.case reconcile_task_def)
        note L = reconcile_located_line[OF inv jr run']
        have jl: "lock_job (j_id j) d = Some j"
          using inv job_for_taskD[OF jr] by (simp add: line_inv_def lock_job_mem)
        show ?thesis
        proof (cases "line_of d' = line_of d")
          case True
          with L inv show ?thesis by (auto intro: line_inv_same)
        next
          case moved: False
          with L have m: "event_moves event_type revision j d d'" by blast
          have "line_inv d'" using event_moves_line_inv[OF inv jl _ m] L by blast
          with L m jl job_for_taskD[OF jr] rv tk show ?thesis by blast
        qed
      qed
    qed
  qed
qed

section \<open>Expiry and the watchdog\<close>

lemma job_for_commandD:
  "job_for_command k d = Some j \<Longrightarrow> j \<in> set (jobs d) \<and> j_command_id j = Some k"
  by (auto simp: job_for_command_def dest: find_row_SomeD)

lemma line_of_terminalize [simp]:
  "line_of (terminalize_outbox now k st d) = line_of d"
  "line_ids (terminalize_outbox now k st d) = line_ids d"
  by (simp_all add: terminalize_outbox_def update_outbox_def line_of_def line_ids_def find_order_def
      lock_job_def find_command_def)

lemma expired_refund_production:
  assumes "expired_refund x now rid nid r d = Inr d'"
  shows "production_part d' = production_part d"
  using assms unfolding expired_refund_def
  by (auto split: option.splits if_splits simp: bind_ok_Inr dest: ensure_production)

lemma expire_order_part_line:
  assumes run: "expire_order_part x now rid nid current r job delivered d = Inr d'"
    and ro: "ln_orders (line_of d) (o_id r) = Some (o_status r)"
    and ok: "order_transition_allowed (o_status r) (if delivered then O_HOLD else O_EXPIRED)"
  shows "line_of d' = move_order (o_id r) (if delivered then O_HOLD else O_EXPIRED)
      (move_job (j_id job) (if delivered then J_HOLD else J_EXPIRED) (line_of d))
    \<and> line_ids d' = line_ids d"
proof (cases delivered)
  case True
  with run obtain r' where ord: "transition_order now r O_HOLD ''timeout-monitor''
      (Some ''command expired after delivery; outcome unknown'') JNull
      (update_failure now (o_id r) (Some ''COMMAND_EXPIRED'') (Some delivered_timeout_text)
        (update_job_hold now (j_id job) ''COMMAND_EXPIRED_AFTER_DELIVERY''
          (Some (JObj [(''code'', JStr ''COMMAND_EXPIRED''), (''messageId'', JStr (c_message_id current))])) d))
      = Inr (r', d')"
    by (auto simp: expire_order_part_def Let_def bind_ok_Inr)
  show ?thesis
    using line_of_transition_order(1)[OF ord] line_ids_transition_order[OF ord] ro ok True by simp
next
  case False
  note run' = run[unfolded expire_order_part_def Let_def if_not_P[OF False]]
  obtain q where ord0: "transition_order now r O_EXPIRED ''timeout-monitor''
      (Some ''device command expired'') JNull
      (update_failure now (o_id r) (Some ''COMMAND_EXPIRED'') (Some undelivered_text)
        (update_job_expired now (j_id job)
          (JObj [(''code'', JStr ''COMMAND_EXPIRED''), (''messageId'', JStr (c_message_id current))]) d))
      = Inr q" and rf0: "(case q of (_, d3) \<Rightarrow> expired_refund x now rid nid r d3) = Inr d'"
    using run' by (rule bind_ok_InrE)
  obtain r' d3 where q: "q = (r', d3)" by (cases q)
  note ord = ord0[unfolded q] and rf = rf0[unfolded q prod.case]
  have p: "production_part d' = production_part d3" using rf by (rule expired_refund_production)
  have o: "ln_orders (line_of (update_failure now (o_id r) (Some ''COMMAND_EXPIRED'') (Some undelivered_text)
        (update_job_expired now (j_id job)
          (JObj [(''code'', JStr ''COMMAND_EXPIRED''), (''messageId'', JStr (c_message_id current))]) d)))
      (o_id r) = Some (o_status r)"
    using ro by simp
  have ok': "order_transition_allowed (o_status r) O_EXPIRED" using ok False by simp
  have "line_of d' = move_order (o_id r) O_EXPIRED (move_job (j_id job) J_EXPIRED (line_of d))"
    unfolding line_of_production[OF p] line_of_transition_order(1)[OF ord o ok'] by simp
  moreover have "line_ids d' = line_ids d"
    unfolding line_ids_production[OF p] line_ids_transition_order[OF ord] by simp
  ultimately show ?thesis using False by simp
qed

lemma join_terminal_found:
  assumes "ids_ok (line_ids d)" and "find_order k d = Some r"
  shows "\<exists>t. find_with_terminal k d = Some (r, t)"
proof -
  have "o_terminal_id r \<in> t_id ` set (terminals d)"
    using assms by (auto simp: ids_ok_def line_ids_def order_keys_def dest!: find_order_SomeD)
  then have "terminal_by_id (o_terminal_id r) d \<noteq> None"
    by (auto simp: terminal_by_id_def find_row_None)
  with assms(2) show ?thesis by (auto simp: find_with_terminal_def join_terminal_def)
qed

lemma job_for_command_iff:
  assumes inv: "line_inv d"
  shows "job_for_command k d = Some j \<longleftrightarrow> lock_job (j_id j) d = Some j \<and> j_command_id j = Some k"
proof
  assume "job_for_command k d = Some j"
  then show "lock_job (j_id j) d = Some j \<and> j_command_id j = Some k"
    using inv by (auto simp: line_inv_def lock_job_mem dest: job_for_commandD)
next
  assume r: "lock_job (j_id j) d = Some j \<and> j_command_id j = Some k"
  then have "job_for_command k d \<noteq> None"
    by (auto simp: job_for_command_def find_row_None dest: lock_job_SomeD)
  then obtain j' where j': "job_for_command k d = Some j'" by auto
  then have l': "lock_job (j_id j') d = Some j'" and k': "j_command_id j' = Some k"
    using inv by (auto simp: line_inv_def lock_job_mem dest: job_for_commandD)
  have ok: "line_ok (line_of d)" using inv by (simp add: line_inv_def)
  have "j_id j = j_id j'"
  proof (rule line_ok_own[OF ok])
    show "ln_jobs (line_of d) (j_id j) = Some (job_view j)" using r by (intro ln_jobsI) blast
    show "ln_jobs (line_of d) (j_id j') = Some (job_view j')" using l' by (rule ln_jobsI)
    show "jv_order (job_view j) = jv_order (job_view j')
      \<or> (jv_command (job_view j) = jv_command (job_view j') \<and> jv_command (job_view j) \<noteq> None)
      \<or> (jv_terminal (job_view j) = jv_terminal (job_view j')
           \<and> jv_status (job_view j) \<in> set ACTIVE_JOBS \<and> jv_status (job_view j') \<in> set ACTIVE_JOBS)"
      using r k' by simp
  qed
  then have "Some j = Some j'" using r l' by metis
  with j' show "job_for_command k d = Some j" by (simp only: option.inject)
qed

lemma no_job_for_command:
  assumes inv: "line_inv d" and none: "job_for_command k d = None"
    and v: "ln_jobs (line_of d) i = Some v"
  shows "jv_command v \<noteq> Some k"
proof
  assume "jv_command v = Some k"
  moreover obtain j where "lock_job i d = Some j" "v = job_view j" using v by (auto simp: line_of_def)
  ultimately have "lock_job (j_id j) d = Some j \<and> j_command_id j = Some k"
    by (auto dest: lock_job_SomeD)
  then have "job_for_command k d = Some j" using job_for_command_iff[OF inv] by blast
  with none show False by simp
qed

text \<open>
  The expiry of a command that a job is waiting for moves the drink to HOLD or to EXPIRED; a
  command no waiting job is linked to expires alone.
\<close>

lemma withdraw_outbox_line [simp]:
  "line_of (withdraw_outbox now c d) = line_of d" "line_ids (withdraw_outbox now c d) = line_ids d"
  by (simp_all add: withdraw_outbox_def split: option.splits)

lemma expire_cases:
  assumes inv: "line_inv d"
    and run: "expire_order_for_command x now rid nid k d = Inr (v, d')"
  obtains "v = None" and "d' = d"
  | c where "v = Some (if may_have_been_sent c d then C_UNKNOWN else C_EXPIRED)"
      and "find_command k d = Some c" and "c_status c = C_CREATED"
      and "\<exists>e. c_expires_at c = Some e \<and> e \<le> now"
      and "job_for_command k d = None"
      and "line_of d' = move_command k (if may_have_been_sent c d then C_UNKNOWN else C_EXPIRED) (line_of d)"
      and "line_ids d' = line_ids d"
  | c j where "v = Some (if may_have_been_sent c d then C_UNKNOWN else C_EXPIRED)"
      and "find_command k d = Some c" and "c_status c = C_CREATED"
      and "\<exists>e. c_expires_at c = Some e \<and> e \<le> now"
      and "job_for_command k d = Some j" and "j_status j = J_DISPATCHED"
      and "line_of d' = move_order (j_order_id j) (if may_have_been_sent c d then O_HOLD else O_EXPIRED)
          (move_job (j_id j) (if may_have_been_sent c d then J_HOLD else J_EXPIRED)
            (move_command k (if may_have_been_sent c d then C_UNKNOWN else C_EXPIRED) (line_of d)))"
      and "line_ids d' = line_ids d"
      and "\<exists>r d2 u dup. find_order (j_order_id j) d = Some r
        \<and> expire_order_part x now rid nid c r j (may_have_been_sent c d) (withdraw_outbox now c d) = Inr d2
        \<and> transition_command now c (if may_have_been_sent c d then C_UNKNOWN else C_EXPIRED)
             ''timeout-monitor'' (Some ''command delivery deadline exceeded'') None True d2 = Inr ((u, dup), d')"
proof (cases "find_command k d")
  case None
  with run that(1) show ?thesis
    by (simp add: expire_order_for_command_def Let_def command_by_db_id_def)
next
  case (Some c)
  then have byid: "command_by_db_id k d = Some c" and ck: "c_id c = k"
    by (auto simp: command_by_db_id_def dest: find_command_SomeD)
  note run1 = run[unfolded expire_order_for_command_def Let_def byid option.case]
  show ?thesis
  proof (cases "c_status c \<noteq> C_CREATED
      \<or> (case c_expires_at c of None \<Rightarrow> True | Some e \<Rightarrow> now < e)")
    case True
    with run1 that(1) show ?thesis by (simp only: if_P sum.inject prod.inject)
  next
    case False
    then have st: "c_status c = C_CREATED" and due: "\<exists>e. c_expires_at c = Some e \<and> e \<le> now"
      by (auto split: option.splits)
    define sent where "sent = may_have_been_sent c d"
    define verdict where "verdict = (if sent then C_UNKNOWN else C_EXPIRED)"
    define d1 where "d1 = withdraw_outbox now c d"
    have d1: "line_of d1 = line_of d" "line_ids d1 = line_ids d" by (simp_all add: d1_def)
    define found where "found = (case job_for_command k d of
            None \<Rightarrow> None
          | Some located \<Rightarrow>
              (case find_with_terminal (j_order_id located) d of
                 None \<Rightarrow> None
               | Some (r, _) \<Rightarrow> map_option (Pair r) (job_for_command k d)))"
    have run2: "bind_ok (case found of None \<Rightarrow> Inr d1
          | Some (r, job) \<Rightarrow> if j_status job \<notin> set [J_DISPATCHED, J_QUEUED] then Inr d1
              else expire_order_part x now rid nid c r job sent d1)
        (\<lambda>d2. bind_ok (transition_command now c verdict ''timeout-monitor''
             (Some ''command delivery deadline exceeded'') None True d2)
           (\<lambda>(_, d3). Inr (Some verdict, d3))) = Inr (v, d')"
      using run1[unfolded if_not_P[OF False]]
      unfolding found_def d1_def sent_def verdict_def .
    obtain d2 where part: "(case found of None \<Rightarrow> Inr d1
          | Some (r, job) \<Rightarrow> if j_status job \<notin> set [J_DISPATCHED, J_QUEUED] then Inr d1
              else expire_order_part x now rid nid c r job sent d1) = Inr d2"
      and rest: "bind_ok (transition_command now c verdict ''timeout-monitor''
             (Some ''command delivery deadline exceeded'') None True d2)
           (\<lambda>(_, d3). Inr (Some verdict, d3)) = Inr (v, d')"
      using run2 by (rule bind_ok_InrE)
    obtain u dup where cmd: "transition_command now c verdict ''timeout-monitor''
             (Some ''command delivery deadline exceeded'') None True d2 = Inr ((u, dup), d')"
      and v: "v = Some verdict"
      using rest by (auto simp: bind_ok_Inr)
    have cc: "ln_commands (line_of d) (c_id c) = Some (command_view c)"
      using Some ck by (simp add: ln_commandsI)
    show ?thesis
    proof (cases "job_for_command k d")
      case None
      then have d2: "d2 = d1" using part by (simp add: found_def)
      have l: "line_of d' = move_command k verdict (line_of d)"
        using line_of_transition_command[OF cmd] cc by (simp add: d1 d2 ck)
      show ?thesis
        by (rule that(2)[of c])
          (use v Some st due None l line_ids_transition_command[OF cmd] d1 d2 in
            \<open>simp_all add: verdict_def sent_def\<close>)
    next
      case (Some j)
      have jl: "lock_job (j_id j) d = Some j" and jc: "j_command_id j = Some k"
        using job_for_command_iff[OF inv] Some by blast+
      obtain r c' where r: "find_order (j_order_id j) d = Some r" and c': "find_command k d = Some c'"
        and coh: "coherent (o_status r) (j_status j) (Some (c_status c'))"
        by (rule drink_rows[OF inv jl jc])
      have "c' = c" using c' \<open>find_command k d = Some c\<close> by simp
      with coh st have js: "j_status j = J_DISPATCHED" and os: "o_status r = O_DISPATCHED"
        by (cases "j_status j"; simp)+
      have oid: "o_id r = j_order_id j" using r by (auto dest: find_order_SomeD)
      obtain t where "find_with_terminal (j_order_id j) d = Some (r, t)"
        using join_terminal_found[OF _ r] inv unfolding line_inv_def by blast
      then have "found = Some (r, j)" by (simp add: found_def Some)
      with part js have part': "expire_order_part x now rid nid c r j sent d1 = Inr d2" by simp
      have ro: "ln_orders (line_of d1) (o_id r) = Some (o_status r)"
        using r oid by (simp add: d1 ln_ordersI)
      have "order_transition_allowed (o_status r) (if sent then O_HOLD else O_EXPIRED)"
        by (simp add: os order_transition_allowed_def)
      note L2 = expire_order_part_line[OF part' ro this]
      have cc2: "ln_commands (line_of d2) (c_id c) = Some (command_view c)"
        using L2 cc by (simp add: d1)
      have comm: "move_command a b (move_order o' e (move_job i f L)) = move_order o' e (move_job i f (move_command a b L))"
        for a b o' e i f L by (rule line_eqI) simp_all
      have "c_status u = verdict" using line_of_transition_command(2)[OF cmd cc2] by simp
      then have l: "line_of d' = move_order (j_order_id j) (if sent then O_HOLD else O_EXPIRED)
          (move_job (j_id j) (if sent then J_HOLD else J_EXPIRED) (move_command k verdict (line_of d)))"
        using line_of_transition_command(1)[OF cmd cc2] L2 by (simp add: d1 ck oid comm)
      have ex: "\<exists>r d2 u dup. find_order (j_order_id j) d = Some r
        \<and> expire_order_part x now rid nid c r j sent (withdraw_outbox now c d) = Inr d2
        \<and> transition_command now c verdict ''timeout-monitor''
             (Some ''command delivery deadline exceeded'') None True d2 = Inr ((u, dup), d')"
        using r part' cmd unfolding d1_def by blast
      show ?thesis
        by (rule that(3)[of c j])
          (use v \<open>find_command k d = Some c\<close> st due Some js l line_ids_transition_command[OF cmd] L2 d1 ex in
            \<open>simp_all add: verdict_def sent_def\<close>)
    qed
  qed
qed

lemma expire_line:
  assumes inv: "line_inv d"
    and run: "expire_order_for_command x now rid nid k d = Inr (v, d')"
  shows "line_inv d'"
proof (cases rule: expire_cases[OF inv run])
  case 1
  with inv show ?thesis by simp
next
  case (2 c)
  have "line_ok (line_of d')"
    unfolding 2(6) using no_job_for_command[OF inv 2(5)] inv
    by (intro line_ok_move_command) (auto simp: line_inv_def)
  then show ?thesis using 2(7) inv by (simp add: line_inv_def)
next
  case (3 c j)
  have jl: "lock_job (j_id j) d = Some j" and jc: "j_command_id j = Some k"
    using job_for_command_iff[OF inv] 3(5) by blast+
  show ?thesis
    by (rule line_inv_move[OF inv jl jc 3(7,8)]) (auto simp: 3(6) ACTIVE_JOBS_def split: if_splits)
qed

lemma hold_overdue_line:
  assumes inv: "line_inv d" and run: "hold_overdue_job cfg now order_id job_id d = Inr d'"
    and own: "\<And>j. lock_job job_id d = Some j \<Longrightarrow> j_order_id j = order_id"
  shows "line_inv d'"
proof (cases "d' = d")
  case True
  with inv show ?thesis by simp
next
  case False
  with run obtain r t job k c u dup d1 r' where r: "find_with_terminal order_id d = Some (r, t)"
    and job: "lock_job job_id d = Some job" and k: "j_command_id job = Some k"
    and c: "find_command k d = Some c"
    and js: "j_status job \<in> set [J_DISPATCHED, J_ACCEPTED, J_EXECUTING, J_PAUSED, J_RETRY_WAIT]"
    and cmd: "transition_command now c C_UNKNOWN ''watchdog''
        (Some ''device outcome requires reconciliation'') None True d = Inr ((u, dup), d1)"
    and ord: "transition_order now r O_HOLD ''watchdog'' (Some ''device outcome unknown'') JNull
        (update_job_hold now job_id ''DEVICE_OUTCOME_UNKNOWN'' None d1) = Inr (r', d')"
    by (auto simp: hold_overdue_job_def bind_ok_Inr command_by_db_id_def split: option.splits if_splits)
  have jid: "j_id job = job_id" using job by (auto dest: lock_job_SomeD)
  obtain r2 c2 where r2: "find_order (j_order_id job) d = Some r2" and c2: "find_command k d = Some c2"
    and coh: "coherent (o_status r2) (j_status job) (Some (c_status c2))"
    by (rule drink_rows[OF inv job k])
  have rr: "r2 = r" "c2 = c" using r2 c2 c own[OF job] find_with_terminal_SomeD[OF r] by auto
  have ids: "o_id r = j_order_id job" "c_id c = k"
    using r2 rr c by (auto dest: find_order_SomeD find_command_SomeD)
  have cc: "ln_commands (line_of d) (c_id c) = Some (command_view c)" using c ids by (simp add: ln_commandsI)
  have l1: "line_of d1 = move_command k C_UNKNOWN (line_of d)"
    using line_of_transition_command[OF cmd cc] ids by simp
  have ro: "ln_orders (line_of (update_job_hold now job_id ''DEVICE_OUTCOME_UNKNOWN'' None d1)) (o_id r)
      = Some (o_status r)"
    using r2 rr ids by (simp add: l1 ln_ordersI)
  have "order_transition_allowed (o_status r) O_HOLD"
    using coh js rr by (auto simp: order_transition_allowed_def)
  note L = line_of_transition_order(1)[OF ord ro this]
  have l: "line_of d' = move_order (j_order_id job) O_HOLD (move_job job_id J_HOLD (move_command k C_UNKNOWN (line_of d)))"
    using L by (simp add: l1 ids)
  have i: "line_ids d' = line_ids d"
    using line_ids_transition_order[OF ord] line_ids_transition_command[OF cmd] by simp
  show ?thesis
    by (rule line_inv_move[OF inv job k l i]) (use js in \<open>auto simp: ACTIVE_JOBS_def\<close>)
qed

lemma reconcile_stored_line:
  "line_inv d \<Longrightarrow> reconcile_stored x now ids es d = Inr d' \<Longrightarrow> line_inv d'"
proof (induction es arbitrary: d)
  case Nil
  then show ?case by simp
next
  case (Cons e es)
  then obtain v d1 where "reconcile_device_event x now (fst (ids (length es))) (snd (ids (length es)))
      (ev_terminal_id e) (ev_payload_json e) (ev_event_type e) d = Inr (v, d1)"
    and "reconcile_stored x now ids es d1 = Inr d'"
    by (auto simp: bind_ok_Inr)
  with Cons reconcile_device_event_cases[OF Cons.prems(1)] show ?case by blast
qed

section \<open>Dispatch\<close>

lemma make_drink_task:
  "make_drink x e m job r = Inr command \<Longrightarrow> dget command ''taskId'' = JStr (j_task_id job)"
  by (auto simp: make_drink_def Let_def dget_def split: if_splits)

lemma insert_command_line:
  assumes run: "insert_command now terminal_id message_id kind payload digest e key d = Inr (c, d')"
    and inv: "ids_ok (line_ids d)"
  shows "line_of d' = (line_of d)\<lparr>ln_commands := (ln_commands (line_of d))(command_seq d + 1 \<mapsto>
        \<lparr>cv_terminal = terminal_id, cv_task = dget payload ''taskId'', cv_type = kind, cv_status = C_CREATED\<rparr>)\<rparr>"
    and "ln_commands (line_of d) (command_seq d + 1) = None" and "c_id c = command_seq d + 1"
    and "ids_ok (line_ids d')" and "jobs d' = jobs d" and "orders d' = orders d" and "terminals d' = terminals d"
proof -
  let ?n = "command_seq d + 1"
  let ?c = "new_command now ?n terminal_id message_id kind payload digest e key"
  have d': "d' = d\<lparr>commands := commands d @ [?c], command_seq := ?n\<rparr>" "c = ?c"
    using run by (auto simp: insert_command_def Let_def bind_ok_Inr insert_row_Inr)
  have fresh: "find_command ?n d = None"
    using inv by (fastforce simp: find_command_def find_row_None ids_ok_def line_ids_def)
  then show "ln_commands (line_of d) ?n = None" by (simp add: line_of_def)
  show "line_of d' = (line_of d)\<lparr>ln_commands := (ln_commands (line_of d))(?n \<mapsto>
        \<lparr>cv_terminal = terminal_id, cv_task = dget payload ''taskId'', cv_type = kind, cv_status = C_CREATED\<rparr>)\<rparr>"
    using fresh unfolding d'
    by (auto intro!: line_eqI simp: line_of_def find_order_def lock_job_def find_command_def
        find_row_append fun_eq_iff new_command_def command_view_def split: option.splits)
  show "c_id c = ?n" and "jobs d' = jobs d" and "orders d' = orders d" and "terminals d' = terminals d"
    by (simp_all add: d' new_command_def)
  show "ids_ok (line_ids d')"
    using inv unfolding d' by (fastforce simp: ids_ok_def line_ids_def order_keys_def new_command_def)
qed

lemma command_log_outbox_frame:
  "append_command_log e d = Inr d1 \<Longrightarrow> line_of d1 = line_of d \<and> line_ids d1 = line_ids d"
  "insert_outbox now k cid t tpc env d = Inr d2 \<Longrightarrow> line_of d2 = line_of d \<and> line_ids d2 = line_ids d"
  by (auto simp: append_command_log_def insert_outbox_def bind_ok_Inr line_of_def line_ids_def
      find_order_def lock_job_def find_command_def split: if_splits)

lemma link_command_line:
  "line_of (link_command now k n d) = (line_of d)\<lparr>ln_jobs := (ln_jobs (line_of d))
      (k := map_option (\<lambda>v. v\<lparr>jv_command := Some n, jv_status := J_DISPATCHED\<rparr>) (ln_jobs (line_of d) k))\<rparr>"
  "line_ids (link_command now k n d) = line_ids d"
proof -
  have v: "job_view (j\<lparr>j_command_id := Some n, j_status := J_DISPATCHED, j_revision := rv, j_updated_at := now\<rparr>)
      = (job_view j)\<lparr>jv_command := Some n, jv_status := J_DISPATCHED\<rparr>" for j rv
    by (simp add: job_view_def)
  show "line_of (link_command now k n d) = (line_of d)\<lparr>ln_jobs := (ln_jobs (line_of d))
      (k := map_option (\<lambda>v. v\<lparr>jv_command := Some n, jv_status := J_DISPATCHED\<rparr>) (ln_jobs (line_of d) k))\<rparr>"
  proof (rule line_eqI)
    show "ln_jobs (line_of (link_command now k n d)) = ln_jobs ((line_of d)\<lparr>ln_jobs := (ln_jobs (line_of d))
      (k := map_option (\<lambda>v. v\<lparr>jv_command := Some n, jv_status := J_DISPATCHED\<rparr>) (ln_jobs (line_of d) k))\<rparr>)"
      by (auto simp: link_command_def line_of_def lock_job_update_job option.map_comp comp_def v fun_eq_iff)
  qed (simp_all add: link_command_def update_job_def line_of_def find_order_def find_command_def)
  show "line_ids (link_command now k n d) = line_ids d"
    unfolding link_command_def by (rule line_ids_update_job) simp
qed

lemma dispatch_job_line:
  assumes ids: "ids_ok (line_ids d)"
    and run: "dispatch_job x now message_id outbox_id t job r d = Inr (v, d')"
    and job: "lock_job (j_id job) d = Some job" and t: "t_id t = j_terminal_id job"
    and r: "find_with_terminal (j_order_id job) d = Some (r, t')" and q: "o_status r = O_QUEUED"
  shows "line_of d' = start_drink (j_id job) (command_seq d + 1) (line_of d)"
    and "ids_ok (line_ids d')" and "dsp_reason v = ''DISPATCHED''"
proof -
  let ?n = "command_seq d + 1"
  obtain command where mk: "make_drink x (now + 600) message_id job r = Inr command"
    and run1: "bind_ok (insert_command now (t_id t) message_id ''MAKE_DRINK'' command
             (canonical_digest x (JObj command)) (Some (now + 600))
             (Some (''order:'' @ uuid_str (j_order_id job) @ '':make'')) d) (\<lambda>(c, d1).
         bind_ok (insert_initial_command_transition now (c_id c) ''order-service''
             ''dispatch queued order'' (JObj command) d1) (\<lambda>d2.
         bind_ok (insert_outbox now outbox_id (c_id c) (t_id t)
             (''v1/devices/'' @ t_device_id t @ ''/down'')
             (JObj [(''schema'', JStr ''coffee.mqtt-envelope.v1''), (''messageId'', JStr message_id),
                (''deviceId'', JStr (t_device_id t)), (''type'', JStr ''command''),
                (''sentAt'', JStr (x_iso x now)), (''payload'', JObj command)]) d2) (\<lambda>d3.
         let d4 = link_command now (j_id job) (c_id c) d3;
             result = \<lparr>dsp_reason = ''DISPATCHED'', dsp_command = Some command\<rparr>
         in case find_with_terminal (j_order_id job) d4 of
              None \<Rightarrow> Inr (result, d4)
            | Some (r', _) \<Rightarrow>
                bind_ok (transition_order now r' O_DISPATCHED ''order-service''
                    (Some ''device command created'') (JObj [(''messageId'', JStr message_id)]) d4)
                  (\<lambda>(_, d5). Inr (result, d5))))) = Inr (v, d')"
    using run unfolding dispatch_job_def Let_def by (rule bind_ok_InrE)
  obtain c d1 where ins: "insert_command now (t_id t) message_id ''MAKE_DRINK'' command
        (canonical_digest x (JObj command)) (Some (now + 600))
        (Some (''order:'' @ uuid_str (j_order_id job) @ '':make'')) d = Inr (c, d1)"
    and run2: "bind_ok (insert_initial_command_transition now (c_id c) ''order-service''
             ''dispatch queued order'' (JObj command) d1) (\<lambda>d2.
         bind_ok (insert_outbox now outbox_id (c_id c) (t_id t)
             (''v1/devices/'' @ t_device_id t @ ''/down'')
             (JObj [(''schema'', JStr ''coffee.mqtt-envelope.v1''), (''messageId'', JStr message_id),
                (''deviceId'', JStr (t_device_id t)), (''type'', JStr ''command''),
                (''sentAt'', JStr (x_iso x now)), (''payload'', JObj command)]) d2) (\<lambda>d3.
         let d4 = link_command now (j_id job) (c_id c) d3;
             result = \<lparr>dsp_reason = ''DISPATCHED'', dsp_command = Some command\<rparr>
         in case find_with_terminal (j_order_id job) d4 of
              None \<Rightarrow> Inr (result, d4)
            | Some (r', _) \<Rightarrow>
                bind_ok (transition_order now r' O_DISPATCHED ''order-service''
                    (Some ''device command created'') (JObj [(''messageId'', JStr message_id)]) d4)
                  (\<lambda>(_, d5). Inr (result, d5)))) = Inr (v, d')"
    using run1 by (auto elim: bind_ok_InrE)
  obtain d2 where lg: "insert_initial_command_transition now (c_id c) ''order-service''
             ''dispatch queued order'' (JObj command) d1 = Inr d2"
    and run3: "bind_ok (insert_outbox now outbox_id (c_id c) (t_id t)
             (''v1/devices/'' @ t_device_id t @ ''/down'')
             (JObj [(''schema'', JStr ''coffee.mqtt-envelope.v1''), (''messageId'', JStr message_id),
                (''deviceId'', JStr (t_device_id t)), (''type'', JStr ''command''),
                (''sentAt'', JStr (x_iso x now)), (''payload'', JObj command)]) d2) (\<lambda>d3.
         let d4 = link_command now (j_id job) (c_id c) d3;
             result = \<lparr>dsp_reason = ''DISPATCHED'', dsp_command = Some command\<rparr>
         in case find_with_terminal (j_order_id job) d4 of
              None \<Rightarrow> Inr (result, d4)
            | Some (r', _) \<Rightarrow>
                bind_ok (transition_order now r' O_DISPATCHED ''order-service''
                    (Some ''device command created'') (JObj [(''messageId'', JStr message_id)]) d4)
                  (\<lambda>(_, d5). Inr (result, d5))) = Inr (v, d')"
    using run2 by (rule bind_ok_InrE)
  then obtain d3 env where ob: "insert_outbox now outbox_id (c_id c) (t_id t)
             (''v1/devices/'' @ t_device_id t @ ''/down'') env d2 = Inr d3"
    and run4: "(case find_with_terminal (j_order_id job) (link_command now (j_id job) (c_id c) d3) of
              None \<Rightarrow> Inr (\<lparr>dsp_reason = ''DISPATCHED'', dsp_command = Some command\<rparr>,
                link_command now (j_id job) (c_id c) d3)
            | Some (r', _) \<Rightarrow>
                bind_ok (transition_order now r' O_DISPATCHED ''order-service''
                    (Some ''device command created'') (JObj [(''messageId'', JStr message_id)])
                    (link_command now (j_id job) (c_id c) d3))
                  (\<lambda>(_, d5). Inr (\<lparr>dsp_reason = ''DISPATCHED'', dsp_command = Some command\<rparr>, d5)))
      = Inr (v, d')"
    unfolding Let_def by (auto elim: bind_ok_InrE)
  note I = insert_command_line[OF ins ids]
  define d4 where "d4 = link_command now (j_id job) (c_id c) d3"
  have l3: "line_of d3 = line_of d1" "line_ids d3 = line_ids d1"
    using command_log_outbox_frame(1)[OF lg[unfolded insert_initial_command_transition_def]]
      command_log_outbox_frame(2)[OF ob] by simp_all
  have ids4: "ids_ok (line_ids d4)" using I(4) l3 by (simp add: d4_def link_command_line)
  have ord: "find_order (j_order_id job) d = Some r" using find_with_terminal_SomeD[OF r] by blast
  have jv: "ln_jobs (line_of d) (j_id job) = Some (job_view job)" using job by (rule ln_jobsI)
  have o4: "ln_orders (line_of d4) = ln_orders (line_of d)"
    by (simp add: d4_def link_command_line l3 I(1))
  then obtain r4 where r4: "find_order (j_order_id job) d4 = Some r4" "o_status r4 = O_QUEUED"
    using ord q by (cases "find_order (j_order_id job) d4")
      (auto simp: line_of_def dest!: fun_cong[where x = "j_order_id job"])
  obtain t4 where "find_with_terminal (j_order_id job) d4 = Some (r4, t4)"
    using join_terminal_found[OF ids4 r4(1)] by blast
  with run4 obtain r5 where tr: "transition_order now r4 O_DISPATCHED ''order-service''
      (Some ''device command created'') (JObj [(''messageId'', JStr message_id)]) d4 = Inr (r5, d')"
    and v: "dsp_reason v = ''DISPATCHED''"
    unfolding d4_def[symmetric] by (auto simp: bind_ok_Inr)
  have oid: "o_id r4 = j_order_id job" using r4 by (auto dest: find_order_SomeD)
  have ro: "ln_orders (line_of d4) (o_id r4) = Some (o_status r4)" using r4 oid by (simp add: ln_ordersI)
  have al: "order_transition_allowed (o_status r4) O_DISPATCHED"
    by (simp add: r4(2) order_transition_allowed_def)
  have "line_of d' = move_order (j_order_id job) O_DISPATCHED (line_of d4)"
    using line_of_transition_order(1)[OF tr ro al] oid by simp
  also have "\<dots> = start_drink (j_id job) ?n (line_of d)"
    by (rule line_eqI)
      (simp_all add: start_drink_sel[OF jv] o4 d4_def link_command_line l3 I(1,3) jv t
        make_drink_task[OF mk])
  finally show "line_of d' = start_drink (j_id job) ?n (line_of d)" .
  show "ids_ok (line_ids d')" using ids4 line_ids_transition_order[OF tr] by simp
  show "dsp_reason v = ''DISPATCHED''" by (rule v)
qed

text \<open>The job chosen is the oldest of the queue.\<close>

lemma by_age_head:
  assumes "by_age js = j # rest" and "q \<in> set js"
  shows "j_created_at j < j_created_at q \<or> (j_created_at j = j_created_at q \<and> j_id j \<le> j_id q)"
proof -
  let ?ys = "sort_key j_id js"
  have all: "set (by_age js) = set js" by (simp add: by_age_def)
  have le: "j_created_at j \<le> j_created_at q"
  proof -
    have "sorted (map j_created_at (by_age js))" by (simp add: by_age_def)
    then show ?thesis using assms all by auto
  qed
  have "j_id j \<le> j_id q" if eq: "j_created_at j = j_created_at q"
  proof -
    have "filter (\<lambda>y. j_created_at j = j_created_at y) (by_age js)
        = filter (\<lambda>y. j_created_at j = j_created_at y) ?ys"
      unfolding by_age_def using sort_key_stable[of j_created_at "j_created_at j" ?ys]
      by (simp add: eq_commute)
    then have f: "filter (\<lambda>y. j_created_at j = j_created_at y) ?ys
        = j # filter (\<lambda>y. j_created_at j = j_created_at y) rest"
      by (simp add: assms(1))
    have "sorted (map j_id ?ys)" by simp
    then have "sorted (map j_id (filter (\<lambda>y. j_created_at j = j_created_at y) ?ys))"
      by (rule sorted_filter)
    moreover have "q \<in> set (filter (\<lambda>y. j_created_at j = j_created_at y) ?ys)"
      using assms(2) eq by simp
    ultimately show ?thesis unfolding f by auto
  qed
  with le show ?thesis by linarith
qed

lemma next_queued_jobD:
  assumes "next_queued_job terminal_id d = Some j"
  shows "j \<in> set (jobs d) \<and> j_terminal_id j = terminal_id \<and> j_status j = J_QUEUED"
    and "\<And>q. q \<in> set (jobs d) \<Longrightarrow> j_terminal_id q = terminal_id \<Longrightarrow> j_status q = J_QUEUED \<Longrightarrow>
      order_queued d q \<Longrightarrow>
      j_created_at j < j_created_at q \<or> (j_created_at j = j_created_at q \<and> j_id j \<le> j_id q)"
proof -
  let ?q = "filter (\<lambda>j. j_terminal_id j = terminal_id \<and> j_status j = J_QUEUED \<and> order_queued d j) (jobs d)"
  obtain rest where b: "by_age ?q = j # rest"
    using assms by (auto simp: next_queued_job_def split: list.splits)
  have "j \<in> set (by_age ?q)" unfolding b by simp
  then show "j \<in> set (jobs d) \<and> j_terminal_id j = terminal_id \<and> j_status j = J_QUEUED"
    by (simp add: by_age_def)
  show "j_created_at j < j_created_at q \<or> (j_created_at j = j_created_at q \<and> j_id j \<le> j_id q)"
    if "q \<in> set (jobs d)" "j_terminal_id q = terminal_id" "j_status q = J_QUEUED" "order_queued d q" for q
    by (rule by_age_head[OF b]) (use that in simp)
qed

lemma no_active_job:
  assumes "\<not> active_job_exists terminal_id d" and "ln_jobs (line_of d) i = Some w"
    and "jv_terminal w = terminal_id"
  shows "jv_status w \<notin> set ACTIVE_JOBS"
proof -
  obtain j where "lock_job i d = Some j" "w = job_view j" using assms(2) by (auto simp: line_of_def)
  with assms(1,3) show ?thesis
    by (auto simp: active_job_exists_def list_ex_iff ACTIVE_JOBS_def dest!: lock_job_SomeD)
qed

lemma dispatch_cases:
  assumes inv: "line_inv d"
    and run: "dispatch_next_order_result x cfg now message_id outbox_id terminal_id d = Inr (v, d')"
  obtains "d' = d" and "dsp_command v = None" and "dsp_reason v \<noteq> ''DISPATCHED''"
  | t job where "dsp_reason v = ''DISPATCHED''" and "terminal_by_id terminal_id d = Some t"
      and "t_lifecycle_status t = ''ACTIVE''" and "terminal_is_online now t (s_offline_threshold_seconds cfg)"
      and "\<not> pickup_blocked terminal_id d" and "\<not> device_is_busy (t_reported_status t)"
      and "\<not> active_job_exists terminal_id d" and "next_queued_job terminal_id d = Some job"
      and "line_of d' = start_drink (j_id job) (command_seq d + 1) (line_of d)" and "line_inv d'"
proof (cases "d' = d \<and> dsp_command v = None \<and> dsp_reason v \<noteq> ''DISPATCHED''")
  case True
  then show ?thesis by (elim conjE) (rule that(1))
next
  case False
  with run obtain t job r t' current where t: "terminal_by_id terminal_id d = Some t"
      and g: "t_lifecycle_status t = ''ACTIVE''" "terminal_is_online now t (s_offline_threshold_seconds cfg)"
        "\<not> active_job_exists terminal_id d" "\<not> pickup_blocked terminal_id d"
        "\<not> device_is_busy (t_reported_status t)"
      and job: "next_queued_job terminal_id d = Some job"
      and r: "find_with_terminal (j_order_id job) d = Some (r, t')" and q: "o_status r = O_QUEUED"
      and step: "dispatch_job x now message_id outbox_id t job r d = Inr (v, d')"
    by (auto simp: dispatch_next_order_result_def not_dispatched_def split: option.splits if_splits)
  have J: "job \<in> set (jobs d)" "j_terminal_id job = terminal_id" "j_status job = J_QUEUED"
    using next_queued_jobD(1)[OF job] by blast+
  have ok: "line_ok (line_of d)" and ids: "ids_ok (line_ids d)" using inv by (simp_all add: line_inv_def)
  have jl: "lock_job (j_id job) d = Some job" by (rule lock_job_mem[OF ids J(1)])
  have tid: "t_id t = j_terminal_id job"
    using t J(2) by (auto simp: terminal_by_id_def dest: find_row_SomeD)
  note D = dispatch_job_line[OF ids step jl tid r q]
  have fresh: "command_seq d + 1 \<noteq> 0" "ln_commands (line_of d) (command_seq d + 1) = None"
    using ids by (fastforce simp: line_of_def find_command_def find_row_None ids_ok_def line_ids_def)+
  have "line_ok (line_of d')"
    unfolding D(1)
    by (rule line_ok_start[OF ok ln_jobsI[OF jl] _ fresh]) (use J no_active_job[OF g(3)] in auto)
  with D(2) have "line_inv d'" by (simp add: line_inv_def)
  with that(2)[OF D(3) t g(1,2,4,5,3) job D(1)] show ?thesis by blast
qed

end
