(* ===== verification/LineSamples.thy ===== *)
theory LineSamples
  imports Coordination Samples
begin

text \<open>
  Concrete rows of the production line: a job, its command and its outbox row, on a database with a
  paid order in the queue and on one where the order is dispatched; both satisfy the invariants.
\<close>

section \<open>Concrete lines\<close>

definition sample_job :: production_job where
  "sample_job = \<lparr>j_id = Uuid ''job-1'', j_task_id = ''task-1'', j_order_id = Uuid ''order-1'',
     j_terminal_id = 7, j_command_id = None, j_status = J_QUEUED, j_revision = 0, j_progress = 0,
     j_step_progress = 0, j_current_step_id = None, j_current_step_name = None,
     j_planned_duration_seconds = Some 60, j_elapsed_seconds = 0, j_remaining_seconds = None,
     j_step_durations = JArr [], j_failure_json = None, j_last_device_revision = 0,
     j_execution_attempt = 1, j_hold_reason = None, j_manual_review_required = False,
     j_created_at = 100, j_updated_at = 100, j_accepted_at = None, j_started_at = None,
     j_completed_at = None\<rparr>"

definition sample_command :: terminal_command where
  "sample_command = \<lparr>c_id = 1, c_terminal_id = 7, c_message_id = ''cmd-1'',
     c_command_type = ''MAKE_DRINK'', c_payload_json = [(''taskId'', JStr ''task-1'')],
     c_idempotency_key = Some ''order:order-1:make'', c_payload_digest = Some ''digest'',
     c_status = C_CREATED, c_revision = 0, c_result_json = None, c_created_at = 200,
     c_expires_at = Some 800, c_last_transition_at = 200, c_published_at = None,
     c_delivered_at = None, c_acked_at = None, c_executing_at = None, c_completed_at = None\<rparr>"

definition sample_outbox :: command_outbox where
  "sample_outbox = \<lparr>ob_id = Uuid ''box-1'', ob_command_id = 1, ob_terminal_id = 7,
     ob_topic = ''v1/devices/device-7/down'', ob_envelope_json = JNull, ob_status = OB_PENDING,
     ob_attempt_count = 0, ob_next_attempt_at = 200, ob_locked_by = None, ob_locked_until = None,
     ob_published_at = None, ob_last_error = None, ob_created_at = 200\<rparr>"

text \<open>A paid order in the queue; the same order dispatched, its command not sent yet.\<close>

definition sample_queue_db :: db where
  "sample_queue_db = sample_paid_db\<lparr>orders := [sample_order\<lparr>o_status := O_QUEUED\<rparr>], jobs := [sample_job]\<rparr>"

definition sample_dispatched_db :: db where
  "sample_dispatched_db = sample_paid_db\<lparr>orders := [sample_order\<lparr>o_status := O_DISPATCHED\<rparr>],
     jobs := [sample_job\<lparr>j_status := J_DISPATCHED, j_command_id := Some 1\<rparr>],
     commands := [sample_command], command_seq := 1, outbox := [sample_outbox]\<rparr>"

lemmas line_sample_defs = sample_queue_db_def sample_dispatched_db_def sample_job_def
  sample_command_def sample_outbox_def sample_defs

lemma line_inv_single:
  assumes "orders d = [r]" and "jobs d = [j]" and "drink_ok (line_of d) (job_view j)"
    and "ids_ok (line_ids d)"
  shows "line_inv d"
proof -
  have one: "ln_jobs (line_of d) i = (if j_id j = i then Some (job_view j) else None)" for i
    using assms(2) by (simp add: line_of_def lock_job_def)
  have at: "i = j_id j \<and> v = job_view j" if "ln_jobs (line_of d) i = Some v" for i v
    using that unfolding one by (cases "j_id j = i") auto
  have "line_ok (line_of d)"
    unfolding line_ok_def using at assms(3) by metis
  with assms(4) show ?thesis by (simp add: line_inv_def)
qed

lemma sample_line_inv: "line_inv sample_queue_db" "line_inv sample_dispatched_db"
  by (rule line_inv_single, simp add: line_sample_defs, simp add: line_sample_defs,
      simp add: line_sample_defs drink_ok_def line_of_def job_view_def command_view_def find_order_def
        find_command_def, simp add: line_sample_defs ids_ok_def line_ids_def order_keys_def)+

lemma sample_line_ledger: "refund_ledger sample_dispatched_db"
proof -
  have "refund_ledger sample_dispatched_db = refund_ledger sample_paid_db"
    by (rule refund_ledger_cong) (simp_all add: line_sample_defs)
  then show ?thesis using sample_ledgers by simp
qed

end
