(* ===== verification/Outbox.thy ===== *)
theory Outbox
  imports DispatchRepo Samples
begin

text \<open>
  The transactional outbox and the dispatch queue: what a claim hands out, that a lease excludes
  every other gateway until it runs out, that only deliverable commands leave the outbox, and that
  a dispatch request raised while another is being served is never lost.
\<close>

section \<open>Claiming outbox rows\<close>

lemma lease_outbox_sel [simp]:
  "ob_id (lease_outbox now gw ls b) = ob_id b"
  "ob_command_id (lease_outbox now gw ls b) = ob_command_id b"
  "ob_status (lease_outbox now gw ls b) = OB_PUBLISHING"
  "ob_locked_until (lease_outbox now gw ls b) = Some (now + ls)"
  "ob_locked_by (lease_outbox now gw ls b) = Some gw"
  "ob_attempt_count (lease_outbox now gw ls b) = ob_attempt_count b + 1"
  by (simp_all add: lease_outbox_def)

lemma outbox_update_outbox:
  "outbox (update_outbox k f d) = update_rows (\<lambda>b. ob_id b = k) f (outbox d)"
  "commands (update_outbox k f d) = commands d"
  by (simp_all add: update_outbox_def)

definition leased :: "timestamp \<Rightarrow> string \<Rightarrow> rat \<Rightarrow> db \<Rightarrow> command_outbox \<Rightarrow> command_outbox \<Rightarrow> bool" where
  "leased now gw ls d b0 b \<longleftrightarrow> b = lease_outbox now gw ls b0 \<and> outbox_ready now b0
     \<and> (\<exists>c \<in> set (commands d). c_id c = ob_command_id b0 \<and> command_deliverable now c)"

lemma claim_loop_rows:
  assumes "distinct (map ob_id (outbox d))" and "distinct (map ob_id cands)"
    and "set cands \<subseteq> set (outbox d)" and "claim_loop now gw ls cands d = (rows, d')"
  shows "distinct (map ob_id rows) \<and> set (map ob_id rows) \<subseteq> set (map ob_id cands)
    \<and> length rows \<le> length cands \<and> commands d' = commands d
    \<and> map ob_id (outbox d') = map ob_id (outbox d)
    \<and> (\<forall>b \<in> set rows. b \<in> set (outbox d') \<and> (\<exists>b0 \<in> set cands. leased now gw ls d b0 b))
    \<and> (\<forall>y \<in> set (outbox d). ob_id y \<notin> set (map ob_id cands) \<longrightarrow> y \<in> set (outbox d'))"
  using assms
proof (induction cands arbitrary: d rows)
  case Nil
  then show ?case by simp
next
  case (Cons cand cands)
  let ?c = "find_row (\<lambda>c. c_id c = ob_command_id cand \<and> command_deliverable now c) (commands d)"
  let ?b = "find_row (\<lambda>b. ob_id b = ob_id cand \<and> outbox_ready now b) (outbox d)"
  have skip: ?case if "claim_loop now gw ls cands d = (rows, d')"
    using Cons.IH[OF Cons.prems(1) _ _ that] Cons.prems(2,3) by auto
  show ?case
  proof (cases "?c = None \<or> ?b = None")
    case True
    with Cons.prems(4) have "claim_loop now gw ls cands d = (rows, d')"
      by (cases ?c) auto
    then show ?thesis by (rule skip)
  next
    case False
    then obtain c b where c: "?c = Some c" and b: "?b = Some b" by auto
    have bb: "b \<in> set (outbox d)" "ob_id b = ob_id cand" "outbox_ready now b"
      using find_row_SomeD[OF b] by auto
    have "b = cand"
      using distinct_key_eq[OF Cons.prems(1) bb(1) _ bb(2)] Cons.prems(3) by simp
    have cc: "c \<in> set (commands d)" "c_id c = ob_command_id cand" "command_deliverable now c"
      using find_row_SomeD[OF c] by auto
    let ?d1 = "update_outbox (ob_id cand) (lease_outbox now gw ls) d"
    obtain rest where r: "claim_loop now gw ls cands ?d1 = (rest, d')"
      and rows: "rows = lease_outbox now gw ls b # rest"
      using Cons.prems(4) c b by (auto simp: Let_def split: prod.splits)
    have ids: "map ob_id (outbox ?d1) = map ob_id (outbox d)"
      by (simp add: outbox_update_outbox map_update_rows)
    have sub: "set cands \<subseteq> set (outbox ?d1)"
    proof
      fix y assume y: "y \<in> set cands"
      have "ob_id cand \<notin> ob_id ` set cands" using Cons.prems(2) by simp
      with y have "ob_id y \<noteq> ob_id cand" by (metis imageI)
      moreover have "y \<in> set (outbox d)" using y Cons.prems(3) by auto
      ultimately show "y \<in> set (outbox ?d1)"
        unfolding outbox_update_outbox set_update_rows by (intro image_eqI[where x = y]) simp_all
    qed
    have in1: "lease_outbox now gw ls b \<in> set (outbox ?d1)"
      unfolding outbox_update_outbox set_update_rows
      by (rule image_eqI[OF _ bb(1)]) (simp add: bb(2))
    have IH: "distinct (map ob_id rest) \<and> set (map ob_id rest) \<subseteq> set (map ob_id cands)
        \<and> length rest \<le> length cands \<and> commands d' = commands ?d1
        \<and> map ob_id (outbox d') = map ob_id (outbox ?d1)
        \<and> (\<forall>b \<in> set rest. b \<in> set (outbox d') \<and> (\<exists>b0 \<in> set cands. leased now gw ls ?d1 b0 b))
        \<and> (\<forall>y \<in> set (outbox ?d1). ob_id y \<notin> set (map ob_id cands) \<longrightarrow> y \<in> set (outbox d'))"
      by (rule Cons.IH[OF _ _ sub r])
        (use Cons.prems(1,2) ids in simp_all)
    have lv: "leased now gw ls ?d1 b0 y = leased now gw ls d b0 y" for b0 y
      by (simp add: leased_def outbox_update_outbox)
    have notin: "ob_id cand \<notin> set (map ob_id cands)" using Cons.prems(2) by simp
    have first: "lease_outbox now gw ls b \<in> set (outbox d')"
      using IH in1 notin bb(2) by auto
    have keep: "y \<in> set (outbox d')" if "y \<in> set (outbox d)" "ob_id y \<noteq> ob_id cand"
        "ob_id y \<notin> set (map ob_id cands)" for y
    proof -
      have "y \<in> set (outbox ?d1)"
        unfolding outbox_update_outbox set_update_rows
        by (rule image_eqI[OF _ that(1)]) (simp add: that(2))
      with IH that(3) show ?thesis by blast
    qed
    have lead: "leased now gw ls d cand (lease_outbox now gw ls b)"
      using \<open>b = cand\<close> bb(3) cc by (auto simp: leased_def)
    show ?thesis
      unfolding rows
    proof (intro conjI ballI impI)
      show "distinct (map ob_id (lease_outbox now gw ls b # rest))" using IH notin bb(2) by auto
      show "set (map ob_id (lease_outbox now gw ls b # rest)) \<subseteq> set (map ob_id (cand # cands))"
        using IH bb(2) by auto
      show "length (lease_outbox now gw ls b # rest) \<le> length (cand # cands)" using IH by simp
      show "commands d' = commands d" using IH by (simp add: outbox_update_outbox)
      show "map ob_id (outbox d') = map ob_id (outbox d)" using IH ids by simp
      show "y \<in> set (outbox d')" if "y \<in> set (lease_outbox now gw ls b # rest)" for y
        using that first IH by auto
      show "\<exists>b0\<in>set (cand # cands). leased now gw ls d b0 y" if "y \<in> set (lease_outbox now gw ls b # rest)" for y
        using that lead IH by (auto simp: lv)
      show "y \<in> set (outbox d')" if "y \<in> set (outbox d)" "ob_id y \<notin> set (map ob_id (cand # cands))" for y
        using that keep by simp
    qed
  qed
qed

lemma claim_candidates_sub:
  "set (claim_candidates now limit d) \<subseteq> set (outbox d)"
  "length (claim_candidates now limit d) \<le> limit"
  "\<And>b. b \<in> set (claim_candidates now limit d) \<Longrightarrow> outbox_ready now b
    \<and> (\<exists>c. find_command (ob_command_id b) d = Some c \<and> command_deliverable now c)"
  by (auto simp: claim_candidates_def dest!: in_set_takeD split: option.splits)

lemma claim_candidates_distinct:
  assumes "distinct (map ob_id (outbox d))"
  shows "distinct (map ob_id (claim_candidates now limit d))"
proof -
  let ?q = "filter (\<lambda>b. outbox_ready now b
     \<and> (case find_command (ob_command_id b) d of
          None \<Rightarrow> False | Some c \<Rightarrow> command_deliverable now c)) (outbox d)"
  have "distinct (map ob_id ?q)" using assms by (rule distinct_map_filter)
  then have "distinct (map ob_id (sort_key ob_created_at (sort_key ob_id ?q)))"
    unfolding distinct_map by simp
  then show ?thesis unfolding claim_candidates_def by (metis distinct_take take_map)
qed

lemma claim_rows:
  assumes "distinct (map ob_id (outbox d))" and "claim_outbox now gw limit ls d = (rows, d')"
  shows "distinct (map ob_id rows)" "length rows \<le> limit" "commands d' = commands d"
    "map ob_id (outbox d') = map ob_id (outbox d)"
    "\<And>b. b \<in> set rows \<Longrightarrow> b \<in> set (outbox d') \<and> (\<exists>b0 \<in> set (outbox d). leased now gw ls d b0 b
       \<and> (\<exists>c. find_command (ob_command_id b) d = Some c \<and> command_deliverable now c))"
proof -
  note R = claim_loop_rows[OF assms(1) claim_candidates_distinct[OF assms(1)] claim_candidates_sub(1)
      assms(2)[unfolded claim_outbox_def]]
  note R2 = R[THEN conjunct2] and R3 = R[THEN conjunct2, THEN conjunct2]
  note R4 = R3[THEN conjunct2] and R5 = R3[THEN conjunct2, THEN conjunct2]
  note R6 = R5[THEN conjunct2, THEN conjunct1]
  show "distinct (map ob_id rows)" by (rule R[THEN conjunct1])
  show "commands d' = commands d" by (rule R4[THEN conjunct1])
  show "map ob_id (outbox d') = map ob_id (outbox d)" by (rule R5[THEN conjunct1])
  show "length rows \<le> limit"
    using R3[THEN conjunct1] claim_candidates_sub(2)[of now limit d] by (rule le_trans)
  show "b \<in> set (outbox d') \<and> (\<exists>b0 \<in> set (outbox d). leased now gw ls d b0 b
       \<and> (\<exists>c. find_command (ob_command_id b) d = Some c \<and> command_deliverable now c))"
    if b: "b \<in> set rows" for b
  proof -
    obtain b0 where b0: "b0 \<in> set (claim_candidates now limit d)" "leased now gw ls d b0 b"
      and bin: "b \<in> set (outbox d')"
      using bspec[OF R6 b] by (elim conjE bexE)
    then have "ob_command_id b = ob_command_id b0" by (simp add: leased_def)
    then have c: "\<exists>c. find_command (ob_command_id b) d = Some c \<and> command_deliverable now c"
      using claim_candidates_sub(3)[OF b0(1)] by simp
    have "b0 \<in> set (outbox d)" using claim_candidates_sub(1) b0(1) by (rule subsetD)
    with bin b0(2) c show ?thesis by (intro conjI bexI[of _ b0])
  qed
qed

text \<open>C14 A claim hands out at most \<open>limit\<close> distinct outbox rows. Each was ready, belongs to a command
  that may still be delivered, and is in the table under the gateway's lease with one more
  attempt; and while the lease lasts no other claim hands out any of them.\<close>

theorem claim_leases:
  assumes keys: "distinct (map ob_id (outbox d))"
    and run: "claim_outbox now gw limit ls d = (rows, d')"
  shows "length rows \<le> limit \<and> distinct (map ob_id rows)
    \<and> (\<forall>b \<in> set rows. b \<in> set (outbox d') \<and> ob_status b = OB_PUBLISHING \<and> ob_locked_by b = Some gw
         \<and> ob_locked_until b = Some (now + ls)
         \<and> (\<exists>b0 \<in> set (outbox d). outbox_ready now b0 \<and> ob_id b = ob_id b0
              \<and> ob_attempt_count b = ob_attempt_count b0 + 1)
         \<and> (\<exists>c. find_command (ob_command_id b) d = Some c \<and> command_deliverable now c))
    \<and> (\<forall>later gw' limit' ls'. later \<le> now + ls \<longrightarrow>
         (\<forall>b \<in> set rows. ob_id b \<notin> ob_id ` set (fst (claim_outbox later gw' limit' ls' d'))))"
proof (intro conjI allI impI ballI)
  note R = claim_rows[OF keys run]
  show "length rows \<le> limit" and "distinct (map ob_id rows)" by (rule R)+
  have each: "b \<in> set (outbox d') \<and> (\<exists>b0 \<in> set (outbox d). leased now gw ls d b0 b
       \<and> (\<exists>c. find_command (ob_command_id b) d = Some c \<and> command_deliverable now c))"
    if "b \<in> set rows" for b using R(5)[OF that] .
  show "b \<in> set (outbox d')" "ob_status b = OB_PUBLISHING" "ob_locked_by b = Some gw"
    "ob_locked_until b = Some (now + ls)"
    "\<exists>b0 \<in> set (outbox d). outbox_ready now b0 \<and> ob_id b = ob_id b0
       \<and> ob_attempt_count b = ob_attempt_count b0 + 1"
    "\<exists>c. find_command (ob_command_id b) d = Some c \<and> command_deliverable now c"
    if "b \<in> set rows" for b
    using each[OF that] by (auto simp: leased_def)
  fix later gw' limit' ls' b
  assume soon: "later \<le> now + ls" and b: "b \<in> set rows"
  have keys': "distinct (map ob_id (outbox d'))" using R(4) keys by simp
  obtain rows2 d2 where run2: "claim_outbox later gw' limit' ls' d' = (rows2, d2)"
    by (cases "claim_outbox later gw' limit' ls' d'")
  have bin: "b \<in> set (outbox d')" and lk: "ob_status b = OB_PUBLISHING" "ob_locked_until b = Some (now + ls)"
    using each[OF b] by (auto simp: leased_def)
  have "ob_id b2 \<noteq> ob_id b" if b2: "b2 \<in> set rows2" for b2
  proof
    assume eq: "ob_id b2 = ob_id b"
    obtain b0 where b0: "b0 \<in> set (outbox d')" "leased later gw' ls' d' b0 b2"
      using claim_rows(5)[OF keys' run2 b2] by blast
    then have "ob_id b0 = ob_id b" and ready: "outbox_ready later b0"
      using eq by (auto simp: leased_def)
    then have "b0 = b" using distinct_key_eq[OF keys' b0(1) bin] by simp
    with ready lk soon show False by (simp add: outbox_ready_def)
  qed
  then show "ob_id b \<notin> ob_id ` set (fst (claim_outbox later gw' limit' ls' d'))"
    unfolding run2 fst_conv by (metis imageE)
qed

definition sample_ready_db :: db where
  "sample_ready_db = empty_db\<lparr>commands := [new_command 200 1 7 ''cmd-1'' ''MAKE_DRINK''
       [(''taskId'', JStr ''task-1'')] ''digest'' (Some 800) None],
     outbox := [\<lparr>ob_id = Uuid ''box-1'', ob_command_id = 1, ob_terminal_id = 7, ob_topic = ''t'',
       ob_envelope_json = JNull, ob_status = OB_PENDING, ob_attempt_count = 0,
       ob_next_attempt_at = 200, ob_locked_by = None, ob_locked_until = None,
       ob_published_at = None, ob_last_error = None, ob_created_at = 200\<rparr>]\<rparr>"

theorem claim_leases_witness:
  "map ob_status (fst (claim_outbox 300 ''gw-1'' 10 30 sample_ready_db)) = [OB_PUBLISHING]
    \<and> Uuid ''box-1'' \<notin> ob_id ` set (fst (claim_outbox 310 ''gw-2'' 10 30
           (snd (claim_outbox 300 ''gw-1'' 10 30 sample_ready_db))))"
proof
  show "map ob_status (fst (claim_outbox 300 ''gw-1'' 10 30 sample_ready_db)) = [OB_PUBLISHING]"
    by code_simp
  have keys: "distinct (map ob_id (outbox sample_ready_db))" by (simp add: sample_ready_db_def)
  have "map ob_id (fst (claim_outbox 300 ''gw-1'' 10 30 sample_ready_db)) = [Uuid ''box-1'']"
    by code_simp
  then obtain b where b: "b \<in> set (fst (claim_outbox 300 ''gw-1'' 10 30 sample_ready_db))"
    "ob_id b = Uuid ''box-1''" by (auto simp: map_eq_Cons_conv)
  have run: "claim_outbox 300 ''gw-1'' 10 30 sample_ready_db
      = (fst (claim_outbox 300 ''gw-1'' 10 30 sample_ready_db), snd (claim_outbox 300 ''gw-1'' 10 30 sample_ready_db))"
    by simp
  have "(310::rat) \<le> 300 + 30" by simp
  from claim_leases[OF keys run, THEN conjunct2, THEN conjunct2, THEN conjunct2, rule_format, OF this b(1)] b(2)
  show "Uuid ''box-1'' \<notin> ob_id ` set (fst (claim_outbox 310 ''gw-2'' 10 30
           (snd (claim_outbox 300 ''gw-1'' 10 30 sample_ready_db))))"
    by metis
qed

text \<open>A command that has reached a terminal state, or whose deadline has passed, never leaves the outbox.\<close>

lemma claim_only_deliverable:
  assumes "distinct (map ob_id (outbox d))" and "find_command k d = Some c" and "\<not> command_deliverable now c"
  shows "\<forall>b \<in> set (fst (claim_outbox now gw limit ls d)). ob_command_id b \<noteq> k"
proof -
  obtain rows d' where r: "claim_outbox now gw limit ls d = (rows, d')"
    by (cases "claim_outbox now gw limit ls d")
  show ?thesis using claim_rows(5)[OF assms(1) r] assms(2,3) unfolding r fst_conv by fastforce
qed

section \<open>Dispatch requests\<close>

lemma find_dispatch_update_here:
  assumes "\<And>q. dr_terminal_id (f q) = dr_terminal_id q"
  shows "find_dispatch t (update_dispatch t P f d)
    = map_option (\<lambda>q. if P q then f q else q) (find_dispatch t d)"
proof -
  have "find_row (\<lambda>q. dr_terminal_id q = t) (update_rows (\<lambda>q. dr_terminal_id q = t \<and> P q) f rs)
      = map_option (\<lambda>q. if P q then f q else q) (find_row (\<lambda>q. dr_terminal_id q = t) rs)" for rs
    using assms by (induction rs) auto
  then show ?thesis by (simp add: find_dispatch_def update_dispatch_def)
qed

lemma find_dispatch_enqueue:
  assumes "find_dispatch t d = Some q"
  shows "find_dispatch t (enqueue_dispatch now t why d) = Some (q\<lparr>dr_reason := py_take 120 why,
     dr_requested_at := now, dr_revision := dr_revision q + 1,
     dr_status := (if dr_status q = DR_PROCESSING then DR_PROCESSING else DR_PENDING),
     dr_next_attempt_at := now, dr_last_error := None\<rparr>)"
  using assms by (simp add: enqueue_dispatch_def find_dispatch_update_here)

lemma claim_dispatch_found:
  assumes "claim_dispatch now w d = (Some q, d1)"
  shows "find_dispatch (dr_terminal_id q) d1 = Some q \<and> dr_status q = DR_PROCESSING
    \<and> dr_locked_by q = Some w \<and> dr_locked_until q = Some (now + 30)"
proof -
  obtain c where c: "c \<in> set (dispatches d)"
    and q: "find_dispatch (dr_terminal_id c) d1 = Some q"
    and d1: "d1 = update_dispatch (dr_terminal_id c) (\<lambda>_. True)
      (\<lambda>r. r\<lparr>dr_status := DR_PROCESSING, dr_locked_by := Some w, dr_locked_until := Some (now + 30)\<rparr>) d"
  proof (cases "sort_key dr_requested_at (filter (dispatch_ready now) (dispatches d))")
    case Nil
    with assms show ?thesis by (simp add: claim_dispatch_def)
  next
    case (Cons c cs)
    have "c \<in> set (sort_key dr_requested_at (filter (dispatch_ready now) (dispatches d)))"
      unfolding Cons by simp
    then have c: "c \<in> set (dispatches d)" by simp
    let ?D = "update_dispatch (dr_terminal_id c) (\<lambda>_. True)
      (\<lambda>r. r\<lparr>dr_status := DR_PROCESSING, dr_locked_by := Some w, dr_locked_until := Some (now + 30)\<rparr>) d"
    have "find_dispatch (dr_terminal_id c) ?D = Some q \<and> ?D = d1"
      using assms by (auto simp only: claim_dispatch_def Cons Let_def list.case prod.inject)
    then show ?thesis using that[OF c] by blast
  qed
  have tq: "dr_terminal_id q = dr_terminal_id c"
    using q by (auto simp: find_dispatch_def dest!: find_row_SomeD)
  from q d1 obtain q0 where "find_dispatch (dr_terminal_id c) d = Some q0"
    and "q = q0\<lparr>dr_status := DR_PROCESSING, dr_locked_by := Some w, dr_locked_until := Some (now + 30)\<rparr>"
    by (auto simp: find_dispatch_update_here)
  then show ?thesis using q tq by simp
qed

lemma revision_exists:
  assumes "distinct (map dr_terminal_id (dispatches d))" and "find_dispatch t d = Some q"
  shows "list_ex (\<lambda>r. dr_terminal_id r = t \<and> dr_revision r = n) (dispatches d) \<longleftrightarrow> dr_revision q = n"
proof -
  have q: "q \<in> set (dispatches d)" "dr_terminal_id q = t"
    using assms(2) by (auto simp: find_dispatch_def dest: find_row_SomeD)
  have same: "r = q" if "r \<in> set (dispatches d)" "dr_terminal_id r = t" for r
    using distinct_key_eq[OF assms(1) that(1) q(1)] that(2) q(2) by simp
  show ?thesis unfolding list_ex_iff
  proof
    assume "\<exists>r \<in> set (dispatches d). dr_terminal_id r = t \<and> dr_revision r = n"
    then show "dr_revision q = n" using same by blast
  next
    assume "dr_revision q = n"
    with q show "\<exists>r \<in> set (dispatches d). dr_terminal_id r = t \<and> dr_revision r = n" by blast
  qed
qed

lemma dispatch_keys:
  "map dr_terminal_id (dispatches (enqueue_dispatch now t why d))
    = (if find_dispatch t d = None then map dr_terminal_id (dispatches d) @ [t]
       else map dr_terminal_id (dispatches d))"
  "map dr_terminal_id (dispatches (snd (claim_dispatch now w d))) = map dr_terminal_id (dispatches d)"
  by (simp_all add: enqueue_dispatch_def update_dispatch_def map_update_rows new_dispatch_def
      claim_dispatch_def Let_def split: option.splits list.splits)

text \<open>C15 A wake-up is never lost: when an order asks for a dispatch while a worker is serving the
  terminal's request, the completion or the retry of the claimed revision leaves the request
  pending and due at once, with the new reason. Without such a wake-up the completion removes it.\<close>

theorem wakeup_not_lost:
  assumes keys: "distinct (map dr_terminal_id (dispatches d))"
    and claimed: "claim_dispatch t0 w d = (Some q, d1)"
  shows "(\<exists>q'. find_dispatch (dr_terminal_id q) (complete_dispatch t2 (dr_terminal_id q) (dr_revision q)
            (enqueue_dispatch t1 (dr_terminal_id q) why d1)) = Some q'
        \<and> dr_status q' = DR_PENDING \<and> dispatch_ready t2 q' \<and> dr_reason q' = py_take 120 why)
    \<and> (\<exists>q'. find_dispatch (dr_terminal_id q) (retry_dispatch t2 (dr_terminal_id q) (dr_revision q) err
            (enqueue_dispatch t1 (dr_terminal_id q) why d1)) = Some q'
        \<and> dr_status q' = DR_PENDING \<and> dispatch_ready t2 q' \<and> dr_reason q' = py_take 120 why)
    \<and> find_dispatch (dr_terminal_id q) (complete_dispatch t2 (dr_terminal_id q) (dr_revision q) d1) = None"
proof -
  let ?t = "dr_terminal_id q"
  note C = claim_dispatch_found[OF claimed]
  have keys1: "distinct (map dr_terminal_id (dispatches d1))"
    using dispatch_keys(2)[of t0 w d] keys claimed by simp
  let ?d2 = "enqueue_dispatch t1 ?t why d1"
  have keys2: "distinct (map dr_terminal_id (dispatches ?d2))"
    using keys1 C by (simp add: dispatch_keys)
  note Q2 = find_dispatch_enqueue[OF C[THEN conjunct1], of t1 why]
  have no: "\<not> list_ex (\<lambda>r. dr_terminal_id r = ?t \<and> dr_revision r = dr_revision q) (dispatches ?d2)"
    unfolding revision_exists[OF keys2 Q2] by simp
  have a: "\<exists>q'. find_dispatch ?t (complete_dispatch t2 ?t (dr_revision q) ?d2) = Some q'
        \<and> dr_status q' = DR_PENDING \<and> dispatch_ready t2 q' \<and> dr_reason q' = py_take 120 why"
    using no C by (simp add: complete_dispatch_def find_dispatch_update_here Q2 dispatch_ready_def)
  have b: "\<exists>q'. find_dispatch ?t (retry_dispatch t2 ?t (dr_revision q) err ?d2) = Some q'
        \<and> dr_status q' = DR_PENDING \<and> dispatch_ready t2 q' \<and> dr_reason q' = py_take 120 why"
    using no C by (simp add: retry_dispatch_def find_dispatch_update_here Q2 dispatch_ready_def)
  have yes: "list_ex (\<lambda>r. dr_terminal_id r = ?t \<and> dr_revision r = dr_revision q) (dispatches d1)"
    unfolding revision_exists[OF keys1 C[THEN conjunct1]] by simp
  have "r \<notin> set (filter (\<lambda>r. \<not> (dr_terminal_id r = ?t \<and> dr_revision r = dr_revision q)) (dispatches d1))"
    if "dr_terminal_id r = ?t" for r
  proof
    assume "r \<in> set (filter (\<lambda>r. \<not> (dr_terminal_id r = ?t \<and> dr_revision r = dr_revision q)) (dispatches d1))"
    then have r: "r \<in> set (dispatches d1)" "dr_revision r \<noteq> dr_revision q" using that by auto
    have "q \<in> set (dispatches d1)" using C by (auto simp: find_dispatch_def dest: find_row_SomeD)
    with distinct_key_eq[OF keys1 r(1) _ that] r(2) show False by simp
  qed
  then have "find_dispatch ?t (complete_dispatch t2 ?t (dr_revision q) d1) = None"
    using yes by (auto simp: complete_dispatch_def find_dispatch_def find_row_None)
  with a b show ?thesis by blast
qed

definition sample_dispatch_db :: db where
  "sample_dispatch_db = empty_db\<lparr>dispatches := [new_dispatch 100 7 ''order-paid'']\<rparr>"

theorem wakeup_not_lost_witness:
  "\<exists>q'. find_dispatch 7 (complete_dispatch 120 7 1 (enqueue_dispatch 110 7 ''device-idle''
       (snd (claim_dispatch 105 ''worker'' sample_dispatch_db)))) = Some q'
     \<and> dispatch_ready 120 q' \<and> dr_reason q' = ''device-idle''"
proof -
  have keys: "distinct (map dr_terminal_id (dispatches sample_dispatch_db))"
    by (simp add: sample_dispatch_db_def)
  obtain q where c: "claim_dispatch 105 ''worker'' sample_dispatch_db
      = (Some q, snd (claim_dispatch 105 ''worker'' sample_dispatch_db))"
    and q: "dr_terminal_id q = 7" "dr_revision q = 1"
    by (simp add: claim_dispatch_def sample_dispatch_db_def new_dispatch_def dispatch_ready_def
        update_dispatch_def find_dispatch_def)
  have "py_take 120 ''device-idle'' = ''device-idle''" by (rule py_take_all) (simp add: py_len_def)
  then show ?thesis using wakeup_not_lost[OF keys c, of 120 110 "''device-idle''"] q
    by (auto simp del: py_take.simps)
qed

text \<open>After the recovery sweep every terminal with a drink in its queue has a dispatch request,
  when the sweep met its limit with room to spare; requests that were there stay.\<close>

theorem repair_finds_queues:
  assumes run: "repair_missing now limit d = (n, d')" and room: "n < limit"
  shows "(\<forall>j \<in> set (jobs d). j_status j = J_QUEUED \<and> order_queued d j \<longrightarrow>
      find_dispatch (j_terminal_id j) d' \<noteq> None)
    \<and> (\<forall>t q. find_dispatch t d = Some q \<longrightarrow> find_dispatch t d' = Some q)"
proof -
  define need where "need = sort (remdups (map j_terminal_id (filter (\<lambda>j. j_status j = J_QUEUED
      \<and> order_queued d j \<and> find_dispatch (j_terminal_id j) d = None) (jobs d))))"
  have n: "n = length (take limit need)"
    and d': "dispatches d' = dispatches d
      @ map (\<lambda>t. new_dispatch now t ''queued-order-recovery'') (take limit need)"
    using run by (auto simp: repair_missing_def Let_def missing_dispatches_def need_def)
  have all: "take limit need = need" using n room by simp
  have app: "find_dispatch t d' = (case find_dispatch t d of Some q \<Rightarrow> Some q
      | None \<Rightarrow> find_row (\<lambda>q. dr_terminal_id q = t)
          (map (\<lambda>t. new_dispatch now t ''queued-order-recovery'') need))" for t
    by (simp add: find_dispatch_def d' all find_row_append split: option.split)
  have "find_dispatch (j_terminal_id j) d' \<noteq> None"
    if j: "j \<in> set (jobs d)" "j_status j = J_QUEUED" "order_queued d j" for j
  proof (cases "find_dispatch (j_terminal_id j) d")
    case None
    with j have "j_terminal_id j \<in> set need" by (auto simp: need_def)
    then show ?thesis by (simp add: app None find_row_None new_dispatch_def)
  qed (simp add: app)
  then show ?thesis by (simp add: app)
qed

theorem repair_finds_queues_witness:
  "find_dispatch 7 (snd (repair_missing 500 50 sample_dispatch_db)) \<noteq> None"
proof -
  have r: "repair_missing 500 50 sample_dispatch_db
      = (fst (repair_missing 500 50 sample_dispatch_db), snd (repair_missing 500 50 sample_dispatch_db))"
    by simp
  have "fst (repair_missing 500 50 sample_dispatch_db) < 50" by code_simp
  moreover have "find_dispatch 7 sample_dispatch_db = Some (new_dispatch 100 7 ''order-paid'')"
    by (simp add: find_dispatch_def sample_dispatch_db_def new_dispatch_def)
  ultimately show ?thesis using repair_finds_queues[OF r] by auto
qed

end
