(* ===== verification/LineSafety.thy ===== *)
theory LineSafety
  imports LineSamples Outbox
begin

text \<open>
  What the coordination of \<open>Coordination\<close> gives a customer and an operator, stated on the rows of
  the database: events move the three parts of a drink together, finished drinks stay finished, a
  terminal makes one drink at a time and takes the oldest order, a command that was never sent is
  refunded and one that may have been sent is held for a person. Each property is followed by its
  instance on a small database.
\<close>

section \<open>Device events\<close>

text \<open>C8 Whatever a device reports, in whatever order, the order, the job and the command of every
  drink stay in statuses that belong together, and the coordination guard of the service never has
  to refuse an event that the job's own rules allowed.\<close>

theorem device_event_keeps_line:
  assumes "line_inv d"
    and "reconcile_device_event x now rid nid terminal_id body event_type d = Inr (v, d')"
  shows "line_inv d' \<and> dget (dict_of v) ''reason'' \<noteq> JStr ''ILLEGAL_COORDINATED_TRANSITION''"
  using reconcile_device_event_cases[OF assms] by blast

definition sample_ack :: dict where
  "sample_ack = [(''payload'', JObj [(''taskId'', JStr ''task-1''), (''messageId'', JStr ''cmd-1''),
     (''taskRevision'', JInt 1)])]"

definition sample_ack_run :: "err + json \<times> db" where
  "sample_ack_run = reconcile_device_event sample_x 300 (Uuid ''a'') (Uuid ''b'') 7 sample_ack
     ''task.acknowledged'' sample_dispatched_db"

lemma sample_ack_ok: "sample_ack_run = Inr (fst (projr sample_ack_run), snd (projr sample_ack_run))"
proof -
  have "\<not> isl sample_ack_run" by code_simp
  then show ?thesis by (cases sample_ack_run) simp_all
qed

theorem device_event_keeps_line_witness:
  "line_inv (snd (projr sample_ack_run))
    \<and> map j_status (jobs (snd (projr sample_ack_run))) = [J_ACCEPTED]"
proof
  show "line_inv (snd (projr sample_ack_run))"
    using device_event_keeps_line[OF sample_line_inv(2) sample_ack_ok[unfolded sample_ack_run_def]]
    by (simp add: sample_ack_run_def)
  show "map j_status (jobs (snd (projr sample_ack_run))) = [J_ACCEPTED]" by code_simp
qed

lemma line_inv_drink:
  assumes "line_inv d" and "lock_job i d = Some j"
  shows "\<exists>r. find_order (j_order_id j) d = Some r
    \<and> (case j_command_id j of None \<Rightarrow> coherent (o_status r) (j_status j) None
       | Some k \<Rightarrow> \<exists>c. find_command k d = Some c \<and> coherent (o_status r) (j_status j) (Some (c_status c)))"
proof -
  have "drink_ok (line_of d) (job_view j)"
    using assms by (auto simp: line_inv_def intro: line_ok_drink ln_jobsI)
  then show ?thesis by (auto simp: drink_ok_def line_of_def split: option.splits)
qed



text \<open>C10 A finished drink stays finished: no event, however late or often, changes the status of a job
  that has ended, of its order or of its command.\<close>

theorem finished_drink_stays:
  assumes inv: "line_inv d"
    and run: "reconcile_device_event x now rid nid terminal_id body event_type d = Inr (v, d')"
    and j: "lock_job i d = Some j" and final: "j_status j \<in> set FINAL_JOBS"
  shows "map_option j_status (lock_job i d') = Some (j_status j)
    \<and> map_option o_status (find_order (j_order_id j) d') = map_option o_status (find_order (j_order_id j) d)
    \<and> (\<forall>k. j_command_id j = Some k \<longrightarrow>
         map_option c_status (find_command k d') = map_option c_status (find_command k d))"
proof -
  have v: "ln_jobs (line_of d) i = Some (job_view j)" using j by (simp add: ln_jobsI)
  have ok: "line_ok (line_of d)" using inv by (simp add: line_inv_def)
  have same: "ln_jobs (line_of d') i = Some (job_view j)
      \<and> ln_orders (line_of d') (j_order_id j) = ln_orders (line_of d) (j_order_id j)"
  proof -
    consider "ln_jobs (line_of d') = ln_jobs (line_of d)" "ln_orders (line_of d') = ln_orders (line_of d)"
      | j0 rev0 where "lock_job (j_id j0) d = Some j0" "event_moves event_type rev0 j0 d d'"
      using reconcile_device_event_cases[OF inv run] by blast
    then show ?thesis
    proof cases
      case 1
      with v show ?thesis by simp
    next
      case (2 j0 rev0)
      obtain ost jst cst k dec where
        dec: "decide_job_event (j_status j0) event_type rev0 (j_last_device_revision j0) = Inr dec" "allowed dec"
        and l: "line_of d' = move_order (j_order_id j0) ost (move_job (j_id j0) jst (move_command k cst (line_of d)))"
        using 2(2) unfolding event_moves_def by blast
      have "j_id j0 \<noteq> i"
      proof
        assume "j_id j0 = i"
        then have "j0 = j" using 2(1) j by simp
        with decide_job_event_allowed(1)[OF dec] final show False by (auto simp: FINAL_JOBS_def)
      qed
      moreover have "j_order_id j0 \<noteq> j_order_id j"
        using line_ok_own[OF ok ln_jobsI[OF 2(1)] v] \<open>j_id j0 \<noteq> i\<close> by auto
      ultimately show ?thesis using v by (simp add: l)
    qed
  qed
  have "drink_ok (line_of d) (job_view j)" "drink_ok (line_of d') (job_view j)"
    using reconcile_device_event_cases[OF inv run] same v inv
    by (auto simp: line_inv_def intro: line_ok_drink)
  moreover have "c' = c" if "coherent os (j_status j) (Some c)" "coherent os (j_status j) (Some c')" for os c c'
    using that final by (cases "j_status j") (auto simp: FINAL_JOBS_def)
  ultimately have cmd: "map_option cv_status (ln_commands (line_of d') k)
      = map_option cv_status (ln_commands (line_of d) k)" if "j_command_id j = Some k" for k
    using that same by (auto simp: drink_ok_def split: option.splits)
  have "map_option c_status (find_command k d') = map_option c_status (find_command k d)"
    if "j_command_id j = Some k" for k
    using cmd[OF that] by (simp add: line_of_def option.map_comp comp_def)
  moreover have "map_option o_status (find_order (j_order_id j) d') = map_option o_status (find_order (j_order_id j) d)"
    using same by (simp add: line_of_def)
  moreover have "map_option j_status (lock_job i d') = Some (j_status j)"
    using same by (auto simp: line_of_def job_view_def)
  ultimately show ?thesis by blast
qed

definition sample_done_db :: db where
  "sample_done_db = sample_paid_db\<lparr>orders := [sample_order\<lparr>o_status := O_READY\<rparr>],
     jobs := [sample_job\<lparr>j_status := J_SUCCEEDED, j_command_id := Some 1\<rparr>],
     commands := [sample_command\<lparr>c_status := C_SUCCEEDED\<rparr>], command_seq := 1\<rparr>"

lemma sample_done_inv: "line_inv sample_done_db"
  by (rule line_inv_single, simp add: line_sample_defs sample_done_db_def,
      simp add: line_sample_defs sample_done_db_def,
      simp add: line_sample_defs sample_done_db_def drink_ok_def line_of_def job_view_def
        command_view_def find_order_def find_command_def,
      simp add: line_sample_defs sample_done_db_def ids_ok_def line_ids_def order_keys_def)

definition sample_late_run :: "err + json \<times> db" where
  "sample_late_run = reconcile_device_event sample_x 400 (Uuid ''a'') (Uuid ''b'') 7 sample_ack
     ''task.started'' sample_done_db"

lemma sample_late_ok: "sample_late_run = Inr (fst (projr sample_late_run), snd (projr sample_late_run))"
proof -
  have "\<not> isl sample_late_run" by code_simp
  then show ?thesis by (cases sample_late_run) simp_all
qed

theorem finished_drink_stays_witness:
  "map_option j_status (lock_job (Uuid ''job-1'') (snd (projr sample_late_run))) = Some J_SUCCEEDED"
proof -
  have j: "lock_job (Uuid ''job-1'') sample_done_db
      = Some (sample_job\<lparr>j_status := J_SUCCEEDED, j_command_id := Some 1\<rparr>)"
    by (simp add: lock_job_def sample_done_db_def sample_job_def)
  show ?thesis
    using finished_drink_stays[OF sample_done_inv sample_late_ok[unfolded sample_late_run_def] j]
    by (simp add: FINAL_JOBS_def sample_late_run_def)
qed

section \<open>Dispatch\<close>

text \<open>C11 A dispatch keeps the line and starts at most one drink. It starts one only on an active,
  online terminal with a free pickup slot and an idle device, takes the oldest queued job of that
  terminal, and leaves that job as the only one in hand there; otherwise it changes nothing.\<close>

theorem dispatch_starts_oldest:
  assumes inv: "line_inv d"
    and run: "dispatch_next_order_result x cfg now message_id outbox_id terminal_id d = Inr (v, d')"
  shows "line_inv d' \<and> (if dsp_reason v \<noteq> ''DISPATCHED'' then d' = d \<and> dsp_command v = None
    else \<exists>t j. terminal_by_id terminal_id d = Some t \<and> t_lifecycle_status t = ''ACTIVE''
      \<and> terminal_is_online now t (s_offline_threshold_seconds cfg)
      \<and> \<not> pickup_blocked terminal_id d \<and> \<not> device_is_busy (t_reported_status t)
      \<and> j \<in> set (jobs d) \<and> j_terminal_id j = terminal_id \<and> j_status j = J_QUEUED
      \<and> (\<forall>q \<in> set (jobs d). j_terminal_id q = terminal_id \<and> j_status q = J_QUEUED \<and> order_queued d q \<longrightarrow>
           j_created_at j < j_created_at q \<or> j_created_at j = j_created_at q \<and> j_id j \<le> j_id q)
      \<and> map_option o_status (find_order (j_order_id j) d') = Some O_DISPATCHED
      \<and> (\<forall>q \<in> set (jobs d'). j_terminal_id q = terminal_id \<and> j_status q \<in> set ACTIVE_JOBS
           \<longleftrightarrow> j_id q = j_id j))"
proof (cases rule: dispatch_cases[OF inv run])
  case 1
  with inv show ?thesis by simp
next
  case (2 t job)
  note J = next_queued_jobD[OF 2(8)]
  have jl: "lock_job (j_id job) d = Some job" using inv J(1) by (simp add: line_inv_def lock_job_mem)
  have v: "ln_jobs (line_of d) (j_id job) = Some (job_view job)" using jl by (rule ln_jobsI)
  note S = start_drink_sel[OF v, of "command_seq d + 1", folded 2(9)]
  have "drink_ok (line_of d) (job_view job)" using inv v by (auto simp: line_inv_def intro: line_ok_drink)
  then have "ln_orders (line_of d') (j_order_id job) = Some O_DISPATCHED"
    using drink_ok_order by (fastforce simp: S)
  then have o: "map_option o_status (find_order (j_order_id job) d') = Some O_DISPATCHED"
    by (simp add: line_of_def)
  have only: "(j_terminal_id q = terminal_id \<and> j_status q \<in> set ACTIVE_JOBS) = (j_id q = j_id job)"
    if q: "q \<in> set (jobs d')" for q
  proof -
    have "lock_job (j_id q) d' = Some q" using 2(10) q by (simp add: line_inv_def lock_job_mem)
    then have qv: "ln_jobs (line_of d') (j_id q) = Some (job_view q)" by (rule ln_jobsI)
    show ?thesis
    proof (cases "j_id q = j_id job")
      case True
      with qv have "job_view q = (job_view job)\<lparr>jv_command := Some (command_seq d + 1), jv_status := J_DISPATCHED\<rparr>"
        by (simp add: S)
      then have "j_terminal_id q = terminal_id" "j_status q = J_DISPATCHED"
        using J(1) by (simp_all add: job_view_def)
      with True show ?thesis by (simp add: ACTIVE_JOBS_def)
    next
      case False
      with qv have "ln_jobs (line_of d) (j_id q) = Some (job_view q)" by (simp add: S)
      from no_active_job[OF 2(7) this] False show ?thesis by auto
    qed
  qed
  show ?thesis using 2 J o only by auto
qed

definition sample_dispatch_run :: "err + dispatch_result \<times> db" where
  "sample_dispatch_run = dispatch_next_order_result sample_x (default_settings ''admin'') 1010 ''cmd-1''
     (Uuid ''box-1'') 7 sample_queue_db"

lemma sample_dispatch_ok:
  "sample_dispatch_run = Inr (fst (projr sample_dispatch_run), snd (projr sample_dispatch_run))"
  "dsp_reason (fst (projr sample_dispatch_run)) = ''DISPATCHED''"
proof -
  have "\<not> isl sample_dispatch_run" by code_simp
  then show "sample_dispatch_run = Inr (fst (projr sample_dispatch_run), snd (projr sample_dispatch_run))"
    by (cases sample_dispatch_run) simp_all
  show "dsp_reason (fst (projr sample_dispatch_run)) = ''DISPATCHED''" by code_simp
qed

theorem dispatch_starts_oldest_witness:
  "line_inv (snd (projr sample_dispatch_run))
    \<and> (\<exists>j. j \<in> set (jobs sample_queue_db)
         \<and> map_option o_status (find_order (j_order_id j) (snd (projr sample_dispatch_run))) = Some O_DISPATCHED)"
  using dispatch_starts_oldest[OF sample_line_inv(1) sample_dispatch_ok(1)[unfolded sample_dispatch_run_def]]
    sample_dispatch_ok(2)
  by (auto simp: sample_dispatch_run_def)

section \<open>Expired commands\<close>

lemma outbox_production:
  "production_part d' = production_part d \<Longrightarrow> outbox d' = outbox d"
  by (rule production_part_sel)

lemma expire_order_part_outbox:
  assumes "expire_order_part x now rid nid c r j sent d = Inr d'"
  shows "outbox d' = outbox d"
proof -
  have f: "outbox (update_failure now k co ms y) = outbox y" "outbox (update_job_hold now i why fl y) = outbox y"
    "outbox (update_job_expired now i fj y) = outbox y" for k co ms y i why fl fj
    by (simp_all add: update_failure_def update_order_def update_job_hold_def update_job_expired_def update_job_def)
  show ?thesis
  proof (cases sent)
    case True
    then show ?thesis
      using assms by (auto simp: expire_order_part_def Let_def bind_ok_Inr f dest!: transition_order_frame(6))
  next
    case False
    note run' = assms[unfolded expire_order_part_def Let_def if_not_P[OF False]]
    obtain q where q: "transition_order now r O_EXPIRED ''timeout-monitor''
        (Some ''device command expired'') JNull
        (update_failure now (o_id r) (Some ''COMMAND_EXPIRED'') (Some undelivered_text)
          (update_job_expired now (j_id j)
            (JObj [(''code'', JStr ''COMMAND_EXPIRED''), (''messageId'', JStr (c_message_id c))]) d)) = Inr q"
      and rf: "(case q of (_, d3) \<Rightarrow> expired_refund x now rid nid r d3) = Inr d'"
      using run' by (rule bind_ok_InrE)
    obtain r' d3 where qq: "q = (r', d3)" by (cases q)
    have "expired_refund x now rid nid r d3 = Inr d'" using rf by (simp add: qq)
    from outbox_production[OF expired_refund_production[OF this]]
    show ?thesis using transition_order_frame(6)[OF q[unfolded qq]] by (simp add: f)
  qed
qed

text \<open>The order, the job and the command after the expiry of a command a job waits for.\<close>

lemma expire_statuses:
  assumes inv: "line_inv d" and j: "job_for_command k d = Some j"
    and run: "expire_order_for_command x now rid nid k d = Inr (Some verdict, d')"
  shows "\<exists>sent c. find_command k d = Some c \<and> sent = may_have_been_sent c d
    \<and> verdict = (if sent then C_UNKNOWN else C_EXPIRED)
    \<and> map_option o_status (find_order (j_order_id j) d') = Some (if sent then O_HOLD else O_EXPIRED)
    \<and> map_option j_status (lock_job (j_id j) d') = Some (if sent then J_HOLD else J_EXPIRED)
    \<and> map_option c_status (find_command k d') = Some verdict"
  using inv run
proof (cases rule: expire_cases)
  case 1
  then show ?thesis by simp
next
  case (2 c)
  then show ?thesis using j by simp
next
  case (3 c j0)
  have jj: "j0 = j" using 3(5) j by simp
  have jl: "lock_job (j_id j) d = Some j" and jc: "j_command_id j = Some k"
    using job_for_command_iff[OF inv] j by blast+
  obtain r where r: "find_order (j_order_id j) d = Some r" by (rule drink_rows[OF inv jl jc])
  define sent where "sent = may_have_been_sent c d"
  note l = 3(7)[folded sent_def, unfolded jj]
  have "ln_orders (line_of d') (j_order_id j) = Some (if sent then O_HOLD else O_EXPIRED)"
    using r by (simp add: l ln_ordersI)
  moreover have "map_option jv_status (ln_jobs (line_of d') (j_id j)) = Some (if sent then J_HOLD else J_EXPIRED)"
    using jl by (simp add: l ln_jobsI)
  moreover have "map_option cv_status (ln_commands (line_of d') k) = Some verdict"
    using 3(1,2) by (simp add: l ln_commandsI sent_def)
  ultimately show ?thesis using 3(1,2)
    by (auto simp: line_of_def option.map_comp comp_def sent_def)
qed

lemma money_frames:
  "payments (update_job_expired now k f d) = payments d" "refunds (update_job_expired now k f d) = refunds d"
  "payment_log (update_job_expired now k f d) = payment_log d"
  "payments (update_job_hold now k w g d) = payments d" "refunds (update_job_hold now k w g d) = refunds d"
  "payment_log (update_job_hold now k w g d) = payment_log d"
  "payments (update_failure now i co ms d) = payments d" "refunds (update_failure now i co ms d) = refunds d"
  "payment_log (update_failure now i co ms d) = payment_log d"
  "payments (withdraw_outbox now c d) = payments d" "refunds (withdraw_outbox now c d) = refunds d"
  "payment_log (withdraw_outbox now c d) = payment_log d"
  by (simp_all add: update_job_expired_def update_job_hold_def update_job_def update_failure_def
      update_order_def withdraw_outbox_def terminalize_outbox_def update_outbox_def split: option.splits)

lemma find_refund_idempotent_cong:
  "refunds d' = refunds d \<Longrightarrow> find_refund_idempotent pid key d' = find_refund_idempotent pid key d"
  by (simp add: find_refund_idempotent_def)

text \<open>The money side of the expiry: the part that refunds, and the part that does not.\<close>

lemma expire_order_part_money:
  assumes led: "refund_ledger d"
    and run: "expire_order_part x now rid nid c r j False d = Inr d'"
    and st: "o_payment_status r \<in> set (map order_payment_of REFUNDABLE_PAYMENT_STATUSES)"
    and pid: "o_paid_payment_id r = Some pid" and p: "find_payment pid d = Some p"
    and ps: "p_status p \<in> set REFUNDABLE_PAYMENT_STATUSES"
    and new: "find_refund_idempotent pid (''order:'' @ uuid_str (o_id r) @ '':command-expired-refund'') d = None"
  shows "refund_ledger d' \<and> remaining_budget p d' = 0"
proof -
  note run' = run[unfolded expire_order_part_def Let_def if_False]
  obtain q where q: "transition_order now r O_EXPIRED ''timeout-monitor'' (Some ''device command expired'') JNull
      (update_failure now (o_id r) (Some ''COMMAND_EXPIRED'') (Some undelivered_text)
        (update_job_expired now (j_id j)
          (JObj [(''code'', JStr ''COMMAND_EXPIRED''), (''messageId'', JStr (c_message_id c))]) d)) = Inr q"
    and rf: "(case q of (_, d3) \<Rightarrow> expired_refund x now rid nid r d3) = Inr d'"
    using run' by (rule bind_ok_InrE)
  obtain r' d3 where qq: "q = (r', d3)" by (cases q)
  note F = transition_order_frame[OF q[unfolded qq]]
  have same: "payments d3 = payments d" "refunds d3 = refunds d" "payment_log d3 = payment_log d"
    using F by (simp_all add: money_frames)
  have led3: "refund_ledger d3" using led by (simp only: refund_ledger_cong[OF same])
  have p3: "find_payment pid d3 = Some p" using p by (simp add: find_payment_def same)
  let ?key = "''order:'' @ uuid_str (o_id r) @ '':command-expired-refund''"
  have new3: "find_refund_idempotent pid ?key d3 = None"
    using new by (simp only: find_refund_idempotent_cong[OF same(2)])
  have "expired_refund x now rid nid r d3 = Inr d'" using rf by (simp add: qq)
  with st pid obtain i where "ensure_automatic_refund_intent x now rid nid pid ?key
      ''command expired before delivery'' ''timeout-monitor'' d3 = Inr (i, d')"
    by (auto simp: expired_refund_def bind_ok_Inr)
  with ensure_covers[OF led3 p3 ps, where x = x and now = now and rid = rid and nid = nid and key = ?key
      and why = "''command expired before delivery''" and actor = "''timeout-monitor''"] new3
  show ?thesis by simp
qed

lemma outbox_after_withdraw:
  assumes "\<not> may_have_been_sent c d" and "outbox_for_command (c_id c) (withdraw_outbox now c d) = Some b"
  shows "ob_status b = OB_EXPIRED"
proof -
  obtain b0 where b0: "outbox_for_command (c_id c) d = Some b0"
  proof (cases "outbox_for_command (c_id c) d")
    case None
    with assms(2) show ?thesis by (simp add: withdraw_outbox_def)
  qed (use that in blast)
  with assms(1) have w: "withdraw_outbox now c d = terminalize_outbox now (ob_id b0) OB_EXPIRED d"
    by (simp add: withdraw_outbox_def may_have_been_sent_def)
  have "find_row (\<lambda>b. ob_command_id b = c_id c) (update_rows (\<lambda>b. ob_id b = k) f rs) = Some b \<longrightarrow>
      find_row (\<lambda>b. ob_command_id b = c_id c) rs = Some b1 \<longrightarrow> k = ob_id b1 \<longrightarrow> b = f b1"
    if "\<And>y. ob_command_id (f y) = ob_command_id y" for f rs k b1
    using that by (induction rs) auto
  from this[of "\<lambda>b. b\<lparr>ob_status := OB_EXPIRED, ob_locked_by := None, ob_locked_until := None,
       ob_next_attempt_at := now + 3600\<rparr>" "ob_id b0" "outbox d" b0]
  show ?thesis using assms(2) b0
    by (simp add: w outbox_for_command_def terminalize_outbox_def update_outbox_def)
qed

text \<open>C12 A command that expires before it can have reached the device costs the customer nothing. The
  order, the job and the command all end in EXPIRED, everything that is left of the payment is
  refunded or reserved for refund in the same transaction, and the outbox row is withdrawn: no
  later claim of any gateway hands the command out.\<close>

theorem unsent_command_refunded:
  assumes inv: "line_inv d" and led: "refund_ledger d" and keys: "distinct (map ob_id (outbox d))"
    and j: "job_for_command k d = Some j" and r: "find_order (j_order_id j) d = Some r"
    and run: "expire_order_for_command x now rid nid k d = Inr (Some C_EXPIRED, d')"
    and st: "o_payment_status r \<in> set (map order_payment_of REFUNDABLE_PAYMENT_STATUSES)"
    and pid: "o_paid_payment_id r = Some pid" and p: "find_payment pid d = Some p"
    and ps: "p_status p \<in> set REFUNDABLE_PAYMENT_STATUSES"
    and new: "find_refund_idempotent pid (''order:'' @ uuid_str (o_id r) @ '':command-expired-refund'') d = None"
  shows "map_option o_status (find_order (j_order_id j) d') = Some O_EXPIRED
    \<and> map_option j_status (lock_job (j_id j) d') = Some J_EXPIRED
    \<and> map_option c_status (find_command k d') = Some C_EXPIRED
    \<and> refund_ledger d' \<and> remaining_budget p d' = 0
    \<and> (\<forall>b. outbox_for_command k d' = Some b \<longrightarrow> ob_status b = OB_EXPIRED)
    \<and> (\<forall>later gw limit ls. \<forall>b \<in> set (fst (claim_outbox later gw limit ls d')). ob_command_id b \<noteq> k)"
proof -
  from expire_statuses[OF inv j run] obtain c where c: "find_command k d = Some c"
    and unsent: "\<not> may_have_been_sent c d"
    and statuses: "map_option o_status (find_order (j_order_id j) d') = Some O_EXPIRED"
      "map_option j_status (lock_job (j_id j) d') = Some J_EXPIRED"
      "map_option c_status (find_command k d') = Some C_EXPIRED"
    by (auto split: if_splits)
  obtain d2 u dup where part: "expire_order_part x now rid nid c r j False (withdraw_outbox now c d) = Inr d2"
    and cmd: "transition_command now c C_EXPIRED ''timeout-monitor''
             (Some ''command delivery deadline exceeded'') None True d2 = Inr ((u, dup), d')"
    using inv run
  proof (cases rule: expire_cases)
    case (3 c' j')
    then show ?thesis using that c j r unsent by auto
  qed (use j in auto)
  note W = money_frames(10-12)[of now c d]
  note T = transition_command_frame[OF cmd]
  have led1: "refund_ledger (withdraw_outbox now c d)" using led by (simp only: refund_ledger_cong[OF W])
  have p1: "find_payment pid (withdraw_outbox now c d) = Some p" using p by (simp add: find_payment_def W)
  have new1: "find_refund_idempotent pid (''order:'' @ uuid_str (o_id r) @ '':command-expired-refund'')
      (withdraw_outbox now c d) = None"
    using new by (simp only: find_refund_idempotent_cong[OF W(2)])
  note M = expire_order_part_money[OF led1 part st pid p1 ps new1]
  have money: "refund_ledger d'" "remaining_budget p d' = 0"
    using M by (simp_all add: refund_ledger_cong[OF T(3,4,10)] remaining_budget_def refunded_total_cong[OF T(4)])
  have box: "outbox d' = outbox (withdraw_outbox now c d)"
    using T(6) expire_order_part_outbox[OF part] by simp
  have ck: "c_id c = k" using c by (auto dest: find_command_SomeD)
  have boxed: "ob_status b = OB_EXPIRED" if "outbox_for_command k d' = Some b" for b
    using outbox_after_withdraw[OF unsent, of now b] that by (simp add: outbox_for_command_def box ck)
  have keys': "distinct (map ob_id (outbox d'))"
    using keys by (simp add: box withdraw_outbox_def terminalize_outbox_def update_outbox_def
        map_update_rows split: option.splits)
  obtain c' where c': "find_command k d' = Some c'" "c_status c' = C_EXPIRED" using statuses(3) by auto
  have never: "\<forall>b \<in> set (fst (claim_outbox later gw limit ls d')). ob_command_id b \<noteq> k" for later gw limit ls
    by (rule claim_only_deliverable[OF keys' c'(1)])
      (simp add: command_deliverable_def DELIVERABLE_COMMAND_STATES_def c'(2))
  show ?thesis using statuses money boxed never by blast
qed

definition sample_expiry_run :: "err + command_status option \<times> db" where
  "sample_expiry_run = expire_order_for_command sample_x 900 (Uuid ''r1'') (Uuid ''r2'') 1 sample_dispatched_db"

lemma sample_expiry_ok:
  "sample_expiry_run = Inr (Some C_EXPIRED, snd (projr sample_expiry_run))"
proof -
  have "\<not> isl sample_expiry_run" by code_simp
  then obtain q where q: "sample_expiry_run = Inr q" by (rule run_ok)
  have "fst (projr sample_expiry_run) = Some C_EXPIRED" by code_simp
  then show ?thesis by (cases q) (simp add: q)
qed

theorem unsent_command_refunded_witness:
  "remaining_budget sample_payment (snd (projr sample_expiry_run)) = 0
    \<and> map_option o_status (find_order (Uuid ''order-1'') (snd (projr sample_expiry_run))) = Some O_EXPIRED"
proof -
  let ?j = "sample_job\<lparr>j_status := J_DISPATCHED, j_command_id := Some 1\<rparr>"
  let ?r = "sample_order\<lparr>o_status := O_DISPATCHED\<rparr>"
  have keys: "distinct (map ob_id (outbox sample_dispatched_db))"
    and j: "job_for_command 1 sample_dispatched_db = Some ?j"
    and r: "find_order (j_order_id ?j) sample_dispatched_db = Some ?r"
    and p: "find_payment (Uuid ''pay-1'') sample_dispatched_db = Some sample_payment"
    and new: "find_refund_idempotent (Uuid ''pay-1'')
      (''order:'' @ uuid_str (o_id ?r) @ '':command-expired-refund'') sample_dispatched_db = None"
    and pid: "o_paid_payment_id ?r = Some (Uuid ''pay-1'')"
    and st: "o_payment_status ?r \<in> set (map order_payment_of REFUNDABLE_PAYMENT_STATUSES)"
    and ps: "p_status sample_payment \<in> set REFUNDABLE_PAYMENT_STATUSES"
    by (simp_all add: line_sample_defs job_for_command_def find_order_def find_payment_def
        find_refund_idempotent_def REFUNDABLE_PAYMENT_STATUSES_def)
  have "j_order_id ?j = Uuid ''order-1''" by (simp add: sample_job_def)
  with unsent_command_refunded[OF sample_line_inv(2) sample_line_ledger keys j r
      sample_expiry_ok[unfolded sample_expiry_run_def] st pid p ps new]
  show ?thesis by (simp add: sample_expiry_run_def)
qed

text \<open>C13 A command that may have reached the device is never refunded automatically when it expires:
  the order and the job are held for a person, the command's outcome is recorded as unknown, and
  no refund is created.\<close>

theorem sent_command_held:
  assumes inv: "line_inv d" and j: "job_for_command k d = Some j"
    and c: "find_command k d = Some c" and sent: "may_have_been_sent c d"
    and run: "expire_order_for_command x now rid nid k d = Inr (Some verdict, d')"
  shows "verdict = C_UNKNOWN
    \<and> map_option o_status (find_order (j_order_id j) d') = Some O_HOLD
    \<and> map_option j_status (lock_job (j_id j) d') = Some J_HOLD
    \<and> map_option c_status (find_command k d') = Some C_UNKNOWN
    \<and> refunds d' = refunds d \<and> payments d' = payments d"
proof -
  have statuses: "verdict = C_UNKNOWN" "map_option o_status (find_order (j_order_id j) d') = Some O_HOLD"
    "map_option j_status (lock_job (j_id j) d') = Some J_HOLD"
    "map_option c_status (find_command k d') = Some C_UNKNOWN"
    using expire_statuses[OF inv j run] c sent by auto
  obtain r d2 u dup where part: "expire_order_part x now rid nid c r j True (withdraw_outbox now c d) = Inr d2"
    and cmd: "transition_command now c C_UNKNOWN ''timeout-monitor''
             (Some ''command delivery deadline exceeded'') None True d2 = Inr ((u, dup), d')"
    using inv run
  proof (cases rule: expire_cases)
    case (3 c' j')
    then show ?thesis using that c j sent by auto
  qed (use j in auto)
  obtain r' where "transition_order now r O_HOLD ''timeout-monitor''
      (Some ''command expired after delivery; outcome unknown'') JNull
      (update_failure now (o_id r) (Some ''COMMAND_EXPIRED'') (Some delivered_timeout_text)
        (update_job_hold now (j_id j) ''COMMAND_EXPIRED_AFTER_DELIVERY''
          (Some (JObj [(''code'', JStr ''COMMAND_EXPIRED''), (''messageId'', JStr (c_message_id c))]))
          (withdraw_outbox now c d))) = Inr (r', d2)"
    using part by (auto simp: expire_order_part_def Let_def bind_ok_Inr)
  from transition_order_frame(3,4)[OF this] transition_command_frame(3,4)[OF cmd] statuses
  show ?thesis by (simp add: money_frames)
qed

definition sample_sent_db :: db where
  "sample_sent_db = sample_dispatched_db\<lparr>outbox := [sample_outbox\<lparr>ob_status := OB_PUBLISHING,
     ob_attempt_count := 1\<rparr>]\<rparr>"

lemma sample_sent_inv: "line_inv sample_sent_db"
  by (rule line_inv_same[OF _ _ sample_line_inv(2)])
    (simp_all add: sample_sent_db_def line_of_def line_ids_def find_order_def lock_job_def find_command_def)

definition sample_hold_run :: "err + command_status option \<times> db" where
  "sample_hold_run = expire_order_for_command sample_x 900 (Uuid ''r1'') (Uuid ''r2'') 1 sample_sent_db"

lemma sample_hold_ok: "sample_hold_run = Inr (Some C_UNKNOWN, snd (projr sample_hold_run))"
proof -
  have "\<not> isl sample_hold_run" by code_simp
  then obtain q where q: "sample_hold_run = Inr q" by (rule run_ok)
  have "fst (projr sample_hold_run) = Some C_UNKNOWN" by code_simp
  then show ?thesis by (cases q) (simp add: q)
qed

theorem sent_command_held_witness:
  "refunds (snd (projr sample_hold_run)) = []
    \<and> map_option c_status (find_command 1 (snd (projr sample_hold_run))) = Some C_UNKNOWN"
proof -
  have j: "job_for_command 1 sample_sent_db = Some (sample_job\<lparr>j_status := J_DISPATCHED, j_command_id := Some 1\<rparr>)"
    and c: "find_command 1 sample_sent_db = Some sample_command"
    and e: "refunds sample_sent_db = []"
    by (simp_all add: line_sample_defs sample_sent_db_def job_for_command_def find_command_def)
  have "may_have_been_sent sample_command sample_sent_db" by code_simp
  from sent_command_held[OF sample_sent_inv j c this sample_hold_ok[unfolded sample_hold_run_def]] e
  show ?thesis by (simp add: sample_hold_run_def)
qed

end
