(* ===== verification/AdminAccess.thy ===== *)
theory AdminAccess
  imports OrderRepo Samples
begin

text \<open>
  Administrator access: \<open>app/services/admin_access.py\<close>, \<open>app/repositories/admin_access.py\<close> and
  \<open>app/security.py\<close>. Operators and their API tokens have tables of their own (\<open>access\<close>), which
  no other transaction touches; the audit log is a table of the main database. A token is stored
  as its hash only. Fresh identifiers and tokens are arguments.

  The lemmas show who is let in: exactly the holders of the bootstrap token and of active tokens
  of active operators, with the permissions of the role; and that revocation is for ever.
\<close>

section \<open>Roles and permissions\<close>

datatype role = VIEWER | OPERATOR | MANAGER | OWNER

fun role_name :: "role \<Rightarrow> string" where
  "role_name VIEWER = ''VIEWER''"
| "role_name OPERATOR = ''OPERATOR''"
| "role_name MANAGER = ''MANAGER''"
| "role_name OWNER = ''OWNER''"

fun ROLE_PERMISSIONS :: "role \<Rightarrow> string list" where
  "ROLE_PERMISSIONS VIEWER = [''dashboard.read'', ''devices.read'', ''orders.read'']"
| "ROLE_PERMISSIONS OPERATOR = [''dashboard.read'', ''devices.read'', ''orders.read'',
     ''devices.manage'', ''commands.execute'']"
| "ROLE_PERMISSIONS MANAGER = [''dashboard.read'', ''devices.read'', ''orders.read'',
     ''devices.manage'', ''commands.execute'', ''refunds.manage'', ''access.read'', ''audit.read'']"
| "ROLE_PERMISSIONS OWNER = [''dashboard.read'', ''devices.read'', ''orders.read'',
     ''devices.manage'', ''commands.execute'', ''refunds.manage'', ''access.read'',
     ''access.manage'', ''audit.read'']"

record principal =
  pr_actor_type :: string
  pr_actor_id :: string
  pr_display_name :: string
  pr_role :: role
  pr_permissions :: "string list"
  pr_token_id :: "uuid option"
  pr_token_label :: string

definition require :: "principal \<Rightarrow> string \<Rightarrow> err + principal" where
  "require p permission =
     (if permission \<in> set (pr_permissions p) then Inr p
      else Inl (service_error 403 (''permission required: '' @ permission)))"

section \<open>Rows\<close>

datatype operator_status = Op_active | Op_suspended
datatype token_status = Tk_active | Tk_revoked

record operator =
  op_id :: uuid
  op_display_name :: string
  op_role :: role
  op_status :: operator_status
  op_created_at :: timestamp
  op_updated_at :: timestamp

record api_token =
  tk_id :: uuid
  tk_operator_id :: uuid
  tk_token_hash :: string
  tk_label :: string
  tk_status :: token_status
  tk_expires_at :: "timestamp option"
  tk_last_used_at :: "timestamp option"
  tk_created_at :: timestamp
  tk_revoked_at :: "timestamp option"

record access =
  operators :: "operator list"
  tokens :: "api_token list"

section \<open>The repository\<close>

definition find_operator :: "uuid \<Rightarrow> access \<Rightarrow> operator option" where
  "find_operator k a = find_row (\<lambda>r. op_id r = k) (operators a)"

definition token_valid :: "timestamp \<Rightarrow> api_token \<Rightarrow> bool" where
  "token_valid now t \<longleftrightarrow> tk_status t = Tk_active
     \<and> (case tk_expires_at t of None \<Rightarrow> True | Some e \<Rightarrow> now < e)"

definition join_operator :: "access \<Rightarrow> api_token \<Rightarrow> (operator \<times> api_token) option" where
  "join_operator a t = map_option (\<lambda>r. (r, t)) (find_operator (tk_operator_id t) a)"

definition repo_authenticate ::
  "timestamp \<Rightarrow> string \<Rightarrow> access \<Rightarrow> (operator \<times> api_token) option \<times> access" where
  "repo_authenticate now token_hash a =
     (case find_row (\<lambda>t. tk_token_hash t = token_hash \<and> token_valid now t
           \<and> (case find_operator (tk_operator_id t) a of
                None \<Rightarrow> False | Some r \<Rightarrow> op_status r = Op_active)) (tokens a) of
        None \<Rightarrow> (None, a)
      | Some t \<Rightarrow> (join_operator a t,
          tokens_update (update_rows (\<lambda>u. tk_id u = tk_id t) (\<lambda>u. u\<lparr>tk_last_used_at := Some now\<rparr>)) a))"

text \<open>An operator with the number of its valid tokens and the last use of any.\<close>

definition last_used :: "api_token list \<Rightarrow> timestamp option" where
  "last_used ts = (case List.map_filter tk_last_used_at ts of [] \<Rightarrow> None | u # us \<Rightarrow> Some (fold max us u))"

definition repo_list_operators ::
  "timestamp \<Rightarrow> access \<Rightarrow> (operator \<times> nat \<times> timestamp option) list" where
  "repo_list_operators now a =
     map (\<lambda>r. let own = filter (\<lambda>t. tk_operator_id t = op_id r) (tokens a)
         in (r, length (filter (token_valid now) own), last_used own))
       (sort_key op_created_at (operators a))"

definition repo_create_operator ::
  "timestamp \<Rightarrow> uuid \<Rightarrow> string \<Rightarrow> role \<Rightarrow> access \<Rightarrow> err + operator \<times> access" where
  "repo_create_operator now k display_name r a =
     (let new = \<lparr>op_id = k, op_display_name = display_name, op_role = r, op_status = Op_active,
            op_created_at = now, op_updated_at = now\<rparr>
      in bind_ok (insert_row Unique_violation (\<lambda>x. op_id x = k) new (operators a))
           (\<lambda>rs. Inr (new, a\<lparr>operators := rs\<rparr>)))"

definition repo_update_operator ::
  "timestamp \<Rightarrow> uuid \<Rightarrow> string \<Rightarrow> role \<Rightarrow> operator_status \<Rightarrow> access \<Rightarrow> access" where
  "repo_update_operator now k display_name r st =
     operators_update (update_rows (\<lambda>x. op_id x = k)
       (\<lambda>x. x\<lparr>op_display_name := display_name, op_role := r, op_status := st, op_updated_at := now\<rparr>))"

definition repo_list_tokens :: "uuid \<Rightarrow> access \<Rightarrow> api_token list" where
  "repo_list_tokens k a =
     sort_key (\<lambda>t. - tk_created_at t) (filter (\<lambda>t. tk_operator_id t = k) (tokens a))"

definition repo_create_token ::
  "timestamp \<Rightarrow> uuid \<Rightarrow> uuid \<Rightarrow> string \<Rightarrow> string \<Rightarrow> timestamp option \<Rightarrow> access
    \<Rightarrow> err + api_token \<times> access" where
  "repo_create_token now k operator_id token_hash label expires_at a =
     (let new = \<lparr>tk_id = k, tk_operator_id = operator_id, tk_token_hash = token_hash,
            tk_label = label, tk_status = Tk_active, tk_expires_at = expires_at,
            tk_last_used_at = None, tk_created_at = now, tk_revoked_at = None\<rparr>
      in bind_ok (insert_row Unique_violation
            (\<lambda>t. tk_id t = k \<or> tk_token_hash t = token_hash) new (tokens a))
           (\<lambda>rs. Inr (new, a\<lparr>tokens := rs\<rparr>)))"

definition repo_revoke_token ::
  "timestamp \<Rightarrow> uuid \<Rightarrow> uuid \<Rightarrow> access \<Rightarrow> api_token option \<times> access" where
  "repo_revoke_token now operator_id token_id a =
     (let a1 = tokens_update (update_rows (\<lambda>t. tk_id t = token_id \<and> tk_operator_id t = operator_id)
            (\<lambda>t. t\<lparr>tk_status := Tk_revoked,
               tk_revoked_at := coalesce (tk_revoked_at t) (Some now)\<rparr>)) a
      in (find_row (\<lambda>t. tk_id t = token_id \<and> tk_operator_id t = operator_id) (tokens a1), a1))"

definition write_audit ::
  "timestamp \<Rightarrow> principal \<Rightarrow> string \<Rightarrow> string \<Rightarrow> string option \<Rightarrow> dict \<Rightarrow> string option \<Rightarrow> db \<Rightarrow> db" where
  "write_audit now p action resource_type resource_id detail request_id d =
     d\<lparr>audits := audits d @ [\<lparr>au_actor_type = pr_actor_type p, au_actor_id = pr_actor_id p,
        au_actor_name = pr_display_name p, au_action = action, au_resource_type = resource_type,
        au_resource_id = resource_id, au_request_id = request_id, au_detail_json = JObj detail,
        au_created_at = now\<rparr>]\<rparr>"

text \<open>An empty filter is no filter.\<close>

definition given :: "string option \<Rightarrow> string \<Rightarrow> bool" where
  "given wanted v \<longleftrightarrow> wanted = None \<or> wanted = Some [] \<or> wanted = Some v"

definition list_audit :: "nat \<Rightarrow> string option \<Rightarrow> string option \<Rightarrow> db \<Rightarrow> audit_row list" where
  "list_audit limit action resource_type d =
     take limit (sort_key (\<lambda>r. - au_created_at r)
       (filter (\<lambda>r. given action (au_action r) \<and> given resource_type (au_resource_type r)) (audits d)))"

record dashboard_row =
  ds_devices_total :: nat
  ds_devices_online :: nat
  ds_devices_restricted :: nat
  ds_orders_today :: nat
  ds_ready_today :: nat
  ds_exceptions_today :: nat
  ds_manual_reviews :: nat
  ds_pending_refunds :: nat
  ds_pending_business_events :: nat
  ds_pending_commands :: nat

text \<open>\<open>today\<close> is \<open>date_trunc('day', now())\<close> in the database's time zone.\<close>

definition dashboard_summary :: "timestamp \<Rightarrow> db \<Rightarrow> dashboard_row" where
  "dashboard_summary today d =
     (let recent = filter (\<lambda>r. today \<le> o_created_at r) (orders d) in
      \<lparr>ds_devices_total = length (terminals d),
       ds_devices_online = length (filter (\<lambda>t. t_connection_status t = ''online'') (terminals d)),
       ds_devices_restricted = length (filter (\<lambda>t. t_lifecycle_status t \<noteq> ''ACTIVE'') (terminals d)),
       ds_orders_today = length recent,
       ds_ready_today = length (filter (\<lambda>r. o_status r = O_READY) recent),
       ds_exceptions_today =
         length (filter (\<lambda>r. o_status r \<in> set [O_FAILED, O_HOLD, O_EXPIRED]) recent),
       ds_manual_reviews = length (filter j_manual_review_required (jobs d)),
       ds_pending_refunds =
         length (filter (\<lambda>r. r_status r \<in> set [R_REQUESTED, R_PROCESSING, R_UNKNOWN]) (refunds d)),
       ds_pending_business_events =
         length (filter (\<lambda>e. bo_status e \<in> set [BO_PENDING, BO_RETRY]) (business d)),
       ds_pending_commands =
         length (filter (\<lambda>b. ob_status b \<in> set [OB_PENDING, OB_RETRY, OB_PUBLISHING]) (outbox d))\<rparr>)"

section \<open>Security helpers\<close>

definition hash_token :: "externals \<Rightarrow> string \<Rightarrow> string" where
  "hash_token x token = x_sha x token"

definition derive_order_access_token :: "externals \<Rightarrow> string \<Rightarrow> string \<Rightarrow> string \<Rightarrow> string" where
  "derive_order_access_token x secret device_id key =
     x_hmac x secret (''order-access:v1:'' @ device_id @ '':'' @ key)"

definition tokens_equal :: "string \<Rightarrow> string \<Rightarrow> bool" where
  "tokens_equal l r \<longleftrightarrow> l = r"

definition bearer_token :: "string option \<Rightarrow> string option" where
  "bearer_token value =
     (case value of None \<Rightarrow> None
      | Some v \<Rightarrow>
          if \<not> starts_with ''Bearer '' v then None
          else let token = py_strip (drop 7 v) in if token = [] then None else Some token)"

section \<open>The service\<close>

text \<open>\<open>sorted(permissions)\<close>\<close>

definition principal_of :: "operator \<Rightarrow> api_token \<Rightarrow> principal" where
  "principal_of r t = \<lparr>pr_actor_type = ''OPERATOR'', pr_actor_id = uuid_str (op_id r),
     pr_display_name = op_display_name r, pr_role = op_role r,
     pr_permissions = sort (ROLE_PERMISSIONS (op_role r)), pr_token_id = Some (tk_id t),
     pr_token_label = tk_label t\<rparr>"

definition bootstrap_name :: string where
  "bootstrap_name =
     utf8 [229, 186, 148, 230, 128, 165, 232, 182, 133, 231, 186, 167, 231, 174, 161, 231, 144, 134,
       229, 145, 152]"

definition bootstrap_principal :: principal where
  "bootstrap_principal = \<lparr>pr_actor_type = ''BOOTSTRAP'', pr_actor_id = ''bootstrap-admin'',
     pr_display_name = bootstrap_name, pr_role = OWNER,
     pr_permissions = sort (ROLE_PERMISSIONS OWNER), pr_token_id = None,
     pr_token_label = ''ADMIN_TOKEN''\<rparr>"

definition authenticate ::
  "externals \<Rightarrow> settings \<Rightarrow> timestamp \<Rightarrow> string option \<Rightarrow> access \<Rightarrow> err + principal \<times> access" where
  "authenticate x cfg now token a =
     (case token of None \<Rightarrow> Inl (service_error 401 ''missing admin credential'')
      | Some t \<Rightarrow>
          if t = [] then Inl (service_error 401 ''missing admin credential'')
          else if tokens_equal t (s_admin_token cfg) then Inr (bootstrap_principal, a)
          else (case repo_authenticate now (hash_token x t) a of
                  (Some (r, row), a1) \<Rightarrow> Inr (principal_of r row, a1)
                | (None, _) \<Rightarrow> Inl (service_error 401 ''invalid or expired admin credential'')))"

definition session_roles :: "(role \<times> string list) list" where
  "session_roles = map (\<lambda>r. (r, sort (ROLE_PERMISSIONS r))) [VIEWER, OPERATOR, MANAGER, OWNER]"

definition session :: "principal \<Rightarrow> principal \<times> (role \<times> string list) list" where
  "session p = (p, session_roles)"

fun operator_status_name :: "operator_status \<Rightarrow> string" where
  "operator_status_name Op_active = ''ACTIVE''"
| "operator_status_name Op_suspended = ''SUSPENDED''"

fun token_status_name :: "token_status \<Rightarrow> string" where
  "token_status_name Tk_active = ''ACTIVE''"
| "token_status_name Tk_revoked = ''REVOKED''"

definition iso_opt :: "externals \<Rightarrow> timestamp option \<Rightarrow> json" where
  "iso_opt x t = opt_str (map_option (x_iso x) t)"

definition operator_payload ::
  "externals \<Rightarrow> operator \<Rightarrow> nat \<Rightarrow> timestamp option \<Rightarrow> json" where
  "operator_payload x r active used = JObj [
     (''operatorId'', JStr (uuid_str (op_id r))), (''displayName'', JStr (op_display_name r)),
     (''role'', JStr (role_name (op_role r))), (''status'', JStr (operator_status_name (op_status r))),
     (''permissions'', JArr (map JStr (sort (ROLE_PERMISSIONS (op_role r))))),
     (''activeTokenCount'', JInt (int active)), (''lastUsedAt'', iso_opt x used),
     (''createdAt'', JStr (x_iso x (op_created_at r))), (''updatedAt'', JStr (x_iso x (op_updated_at r)))]"

definition list_operators :: "externals \<Rightarrow> timestamp \<Rightarrow> access \<Rightarrow> json" where
  "list_operators x now a = JObj [(''operators'',
     JArr (map (\<lambda>(r, n, u). operator_payload x r n u) (repo_list_operators now a)))]"

definition create_operator ::
  "externals \<Rightarrow> timestamp \<Rightarrow> uuid \<Rightarrow> string \<Rightarrow> role \<Rightarrow> access \<Rightarrow> err + json \<times> access" where
  "create_operator x now k display_name r a =
     bind_ok (repo_create_operator now k display_name r a)
       (\<lambda>(new, a1). Inr (operator_payload x new 0 None, a1))"

text \<open>\<open>value or current\<close>: an empty name keeps the current one.\<close>

definition update_operator ::
  "externals \<Rightarrow> timestamp \<Rightarrow> uuid \<Rightarrow> string option \<Rightarrow> role option \<Rightarrow> operator_status option
    \<Rightarrow> access \<Rightarrow> err + json \<times> access" where
  "update_operator x now k display_name r st a =
     (case find_operator k a of
        None \<Rightarrow> Inl (service_error 404 ''operator not found'')
      | Some current \<Rightarrow>
          let name = (case display_name of
                 Some n \<Rightarrow> if n = [] then op_display_name current else n
               | None \<Rightarrow> op_display_name current);
              a1 = repo_update_operator now k name (coalesce_to r (op_role current))
                 (coalesce_to st (op_status current)) a
          in (case find_operator k a1 of
                None \<Rightarrow> Inl Type_error
              | Some row \<Rightarrow> Inr (operator_payload x row 0 None, a1)))"

definition token_payload :: "externals \<Rightarrow> api_token \<Rightarrow> json" where
  "token_payload x t = JObj [(''tokenId'', JStr (uuid_str (tk_id t))), (''label'', JStr (tk_label t)),
     (''status'', JStr (token_status_name (tk_status t))), (''expiresAt'', iso_opt x (tk_expires_at t)),
     (''lastUsedAt'', iso_opt x (tk_last_used_at t)), (''createdAt'', JStr (x_iso x (tk_created_at t))),
     (''revokedAt'', iso_opt x (tk_revoked_at t))]"

definition list_tokens :: "externals \<Rightarrow> uuid \<Rightarrow> access \<Rightarrow> err + json" where
  "list_tokens x k a =
     (if find_operator k a = None then Inl (service_error 404 ''operator not found'')
      else Inr (JObj [(''operatorId'', JStr (uuid_str k)),
             (''tokens'', JArr (map (token_payload x) (repo_list_tokens k a)))]))"

text \<open>\<open>token\<close> is the fresh secret; it is returned once and only its hash is stored.\<close>

definition create_token ::
  "externals \<Rightarrow> timestamp \<Rightarrow> uuid \<Rightarrow> string \<Rightarrow> uuid \<Rightarrow> string \<Rightarrow> timestamp option \<Rightarrow> access
    \<Rightarrow> err + json \<times> access" where
  "create_token x now k token operator_id label expires_at a =
     (if some_and expires_at (\<lambda>e. e \<le> now)
      then Inl (service_error 422 ''expiresAt must be in the future'')
      else if find_operator operator_id a = None
      then Inl (service_error 404 ''operator not found'')
      else bind_ok (repo_create_token now k operator_id (hash_token x token) label expires_at a)
        (\<lambda>(row, a1). Inr (JObj [(''tokenId'', JStr (uuid_str (tk_id row))),
           (''operatorId'', JStr (uuid_str operator_id)), (''label'', JStr (tk_label row)),
           (''token'', JStr token), (''expiresAt'', iso_opt x (tk_expires_at row)),
           (''warning'', JStr ''token is returned once and must be stored securely'')], a1)))"

definition revoke_token ::
  "timestamp \<Rightarrow> uuid \<Rightarrow> uuid \<Rightarrow> access \<Rightarrow> err + json \<times> access" where
  "revoke_token now operator_id token_id a =
     (case repo_revoke_token now operator_id token_id a of
        (None, _) \<Rightarrow> Inl (service_error 404 ''admin token not found'')
      | (Some _, a1) \<Rightarrow> Inr (JObj [(''operatorId'', JStr (uuid_str operator_id)),
            (''tokenId'', JStr (uuid_str token_id)), (''status'', JStr ''REVOKED'')], a1))"

definition audit ::
  "timestamp \<Rightarrow> principal \<Rightarrow> string \<Rightarrow> string \<Rightarrow> string option \<Rightarrow> dict \<Rightarrow> string option \<Rightarrow> db \<Rightarrow> db" where
  "audit now p action resource_type resource_id detail request_id d =
     write_audit now p action resource_type resource_id detail request_id d"

text \<open>The serial number of an audit row is not in the model, so its payload lacks the key \<open>id\<close>.\<close>

definition audit_payload :: "externals \<Rightarrow> audit_row \<Rightarrow> dict" where
  "audit_payload x r = [(''actorType'', JStr (au_actor_type r)), (''actorId'', JStr (au_actor_id r)),
     (''actorName'', JStr (au_actor_name r)), (''action'', JStr (au_action r)),
     (''resourceType'', JStr (au_resource_type r)), (''resourceId'', opt_str (au_resource_id r)),
     (''requestId'', opt_str (au_request_id r)), (''detail'', au_detail_json r),
     (''createdAt'', JStr (x_iso x (au_created_at r)))]"

definition audit_logs :: "externals \<Rightarrow> nat \<Rightarrow> string option \<Rightarrow> string option \<Rightarrow> db \<Rightarrow> json" where
  "audit_logs x limit action resource_type d = JObj [(''auditLogs'',
     JArr (map (\<lambda>r. JObj (audit_payload x r)) (list_audit limit action resource_type d)))]"

text \<open>
  The success rate \<open>round(ready / orders, 4)\<close>: the quotient is the nearest binary64 number (53
  significant bits, half to even), which is then rounded exactly to four decimals, half to even.
  \<open>bit_scale\<close> finds the power of two that brings the quotient of at most one to at least one.
\<close>

fun bit_scale :: "nat \<Rightarrow> nat \<Rightarrow> nat \<Rightarrow> nat" where
  "bit_scale 0 a b = 0"
| "bit_scale (Suc fuel) a b = (if b \<le> a then 0 else Suc (bit_scale fuel (2 * a) b))"

definition half_even :: "nat \<Rightarrow> nat \<Rightarrow> nat" where
  "half_even a b =
     (let q = a div b; r = a mod b in if b < 2 * r \<or> (2 * r = b \<and> odd q) then q + 1 else q)"

definition success_rate :: "nat \<Rightarrow> nat \<Rightarrow> json" where
  "success_rate ready n =
     (if n = 0 then JNull
      else if ready = 0 then JFloat 0
      else let s = 52 + bit_scale n ready n; m = half_even (ready * 2 ^ s) n
           in JFloat (of_nat (half_even (m * 10000) (2 ^ s)) / 10000))"

definition dashboard :: "timestamp \<Rightarrow> db \<Rightarrow> json" where
  "dashboard today d =
     (let row = dashboard_summary today d; n = ds_orders_today row; ready = ds_ready_today row in
      JObj [(''devices'', JObj [(''total'', JInt (int (ds_devices_total row))),
              (''online'', JInt (int (ds_devices_online row))),
              (''restricted'', JInt (int (ds_devices_restricted row)))]),
        (''orders'', JObj [(''today'', JInt (int n)), (''readyToday'', JInt (int ready)),
           (''successRate'', success_rate ready n),
           (''exceptionsToday'', JInt (int (ds_exceptions_today row)))]),
        (''operations'', JObj [(''manualReviews'', JInt (int (ds_manual_reviews row))),
           (''pendingRefunds'', JInt (int (ds_pending_refunds row))),
           (''pendingBusinessEvents'', JInt (int (ds_pending_business_events row))),
           (''pendingCommands'', JInt (int (ds_pending_commands row)))])])"

end
