(* ===== verification/AccessSafety.thy ===== *)
theory AccessSafety
  imports AdminAccess
begin

text \<open>
  Who may act as an administrator. The operations on the accounts are a step relation; what
  every reachable state satisfies (unique identifiers and unique hashes) and what stays true
  for ever once it is (a revoked token) are shown by rule induction.
\<close>

section \<open>Roles are ordered\<close>

fun role_rank :: "role \<Rightarrow> nat" where
  "role_rank VIEWER = 0"
| "role_rank OPERATOR = 1"
| "role_rank MANAGER = 2"
| "role_rank OWNER = 3"

lemma role_rank_inject [simp]: "role_rank a = role_rank b \<longleftrightarrow> a = b"
  by (cases a; cases b) simp_all

instantiation role :: linorder
begin

definition less_eq_role :: "role \<Rightarrow> role \<Rightarrow> bool" where
  "less_eq_role a b \<longleftrightarrow> role_rank a \<le> role_rank b"

definition less_role :: "role \<Rightarrow> role \<Rightarrow> bool" where
  "less_role a b \<longleftrightarrow> role_rank a < role_rank b"

instance
  by standard (auto simp: less_eq_role_def less_role_def)

end

section \<open>The operations as steps\<close>

definition empty_access :: access where
  "empty_access = \<lparr>operators = [], tokens = []\<rparr>"

inductive access_step :: "externals \<Rightarrow> settings \<Rightarrow> access \<Rightarrow> access \<Rightarrow> bool"
  for x :: externals and cfg :: settings where
  step_authenticate: "authenticate x cfg now token a = Inr (p, a') \<Longrightarrow> access_step x cfg a a'"
| step_create_operator: "create_operator x now k name r a = Inr (j, a') \<Longrightarrow> access_step x cfg a a'"
| step_update_operator: "update_operator x now k name r st a = Inr (j, a') \<Longrightarrow> access_step x cfg a a'"
| step_create_token:
    "create_token x now k token oid label expires a = Inr (j, a') \<Longrightarrow> access_step x cfg a a'"
| step_revoke: "revoke_token now oid tid a = Inr (j, a') \<Longrightarrow> access_step x cfg a a'"

inductive access_reach :: "externals \<Rightarrow> settings \<Rightarrow> access \<Rightarrow> access \<Rightarrow> bool"
  for x :: externals and cfg :: settings where
  reach_here: "access_reach x cfg a a"
| reach_step: "access_reach x cfg a b \<Longrightarrow> access_step x cfg b c \<Longrightarrow> access_reach x cfg a c"

section \<open>What a step does to the tokens\<close>

text \<open>
  A step rewrites each token in place (its identity, owner, hash and a revocation stay), or adds
  one whose identifier and hash are new.
\<close>

definition same_token :: "api_token \<Rightarrow> api_token \<Rightarrow> bool" where
  "same_token t u \<longleftrightarrow> tk_id u = tk_id t \<and> tk_operator_id u = tk_operator_id t
     \<and> tk_token_hash u = tk_token_hash t \<and> (tk_status t = Tk_revoked \<longrightarrow> tk_status u = Tk_revoked)"

definition token_clash :: "api_token \<Rightarrow> api_token \<Rightarrow> bool" where
  "token_clash u t \<longleftrightarrow> tk_id t = tk_id u \<or> tk_token_hash t = tk_token_hash u"

inductive tokens_grow :: "api_token list \<Rightarrow> api_token list \<Rightarrow> bool" where
  grow_map: "(\<And>t. same_token t (f t)) \<Longrightarrow> tokens_grow ts (map f ts)"
| grow_new: "\<not> list_ex (token_clash u) ts \<Longrightarrow> tokens_grow ts (ts @ [u])"

lemma same_token_refl [simp]: "same_token t t"
  by (simp add: same_token_def)

lemma grow_refl [simp]: "tokens_grow ts ts"
  using grow_map[of "\<lambda>t. t" ts] by simp

lemma grow_update:
  assumes "\<And>t. same_token t (f t)"
  shows "tokens_grow ts (update_rows P f ts)"
  unfolding update_rows_def by (rule grow_map) (simp add: assms)

definition access_ok :: "access \<Rightarrow> bool" where
  "access_ok a \<longleftrightarrow> distinct (map tk_id (tokens a)) \<and> distinct (map tk_token_hash (tokens a))"

lemma repo_authenticate_grows:
  "tokens_grow (tokens a) (tokens (snd (repo_authenticate now h a)))"
  by (auto simp: repo_authenticate_def same_token_def intro!: grow_update split: option.split)

lemma access_step_grows: "access_step x cfg a a' \<Longrightarrow> tokens_grow (tokens a) (tokens a')"
proof (induction rule: access_step.induct)
  case (step_authenticate now token a p a')
  then show ?case
    using repo_authenticate_grows[of a now "hash_token x (the token)"]
    by (auto simp: authenticate_def split: option.splits if_splits prod.splits)
next
  case (step_create_operator now k name r a j a')
  then show ?case
    by (auto simp: create_operator_def repo_create_operator_def bind_ok_Inr Let_def)
next
  case (step_update_operator now k name r st a j a')
  then show ?case
    by (auto simp: update_operator_def repo_update_operator_def Let_def split: option.splits)
next
  case (step_create_token now k token oid label expires a j a')
  then show ?case
    by (auto simp: create_token_def repo_create_token_def bind_ok_Inr insert_row_def Let_def
        token_clash_def list_ex_iff intro!: grow_new split: if_splits)
next
  case (step_revoke now oid tid a j a')
  then show ?case
    by (auto simp: revoke_token_def repo_revoke_token_def Let_def same_token_def
        intro!: grow_update split: option.splits)
qed

lemma grow_keeps_ok:
  assumes "tokens_grow (tokens a) (tokens a')" and "access_ok a"
  shows "access_ok a'"
  using assms(1)
proof (cases rule: tokens_grow.cases)
  case (grow_map f)
  then have "map tk_id (tokens a') = map tk_id (tokens a)"
    and "map tk_token_hash (tokens a') = map tk_token_hash (tokens a)"
    by (simp_all add: same_token_def)
  with assms(2) show ?thesis by (simp add: access_ok_def)
next
  case (grow_new u)
  with assms(2) show ?thesis by (auto simp: access_ok_def list_ex_iff token_clash_def)
qed

lemma access_reach_ok: "access_reach x cfg a a' \<Longrightarrow> access_ok a \<Longrightarrow> access_ok a'"
  by (induction rule: access_reach.induct) (blast intro: grow_keeps_ok access_step_grows)+

text \<open>A revoked token: its hash belongs to a revoked row, and no other row has it.\<close>

definition hash_revoked :: "string \<Rightarrow> access \<Rightarrow> bool" where
  "hash_revoked h a \<longleftrightarrow> (\<exists>t \<in> set (tokens a). tk_token_hash t = h \<and> tk_status t = Tk_revoked)"

lemma grow_keeps_revoked:
  assumes "tokens_grow (tokens a) (tokens a')" and "hash_revoked h a"
  shows "hash_revoked h a'"
  using assms(1)
proof (cases rule: tokens_grow.cases)
  case (grow_map f)
  with assms(2) show ?thesis by (auto simp: hash_revoked_def same_token_def)
next
  case (grow_new u)
  with assms(2) show ?thesis by (auto simp: hash_revoked_def)
qed

lemma access_reach_revoked: "access_reach x cfg a a' \<Longrightarrow> hash_revoked h a \<Longrightarrow> hash_revoked h a'"
  by (induction rule: access_reach.induct) (blast intro: grow_keeps_revoked access_step_grows)+

section \<open>Who is let in\<close>

text \<open>The condition of the join: an active token that has not expired, of an active operator.\<close>

definition holds_key :: "timestamp \<Rightarrow> string \<Rightarrow> access \<Rightarrow> bool" where
  "holds_key now h a \<longleftrightarrow> (\<exists>t \<in> set (tokens a). tk_token_hash t = h \<and> tk_status t = Tk_active
     \<and> (tk_expires_at t = None \<or> (\<exists>e. tk_expires_at t = Some e \<and> now < e))
     \<and> (\<exists>r. find_operator (tk_operator_id t) a = Some r \<and> op_status r = Op_active))"

lemma repo_authenticate_iff: "(\<exists>v a'. repo_authenticate now h a = (Some v, a')) \<longleftrightarrow> holds_key now h a"
proof -
  let ?P = "\<lambda>t. tk_token_hash t = h \<and> token_valid now t
    \<and> (case find_operator (tk_operator_id t) a of None \<Rightarrow> False | Some r \<Rightarrow> op_status r = Op_active)"
  have P: "?P t \<longleftrightarrow> tk_token_hash t = h \<and> tk_status t = Tk_active
     \<and> (tk_expires_at t = None \<or> (\<exists>e. tk_expires_at t = Some e \<and> now < e))
     \<and> (\<exists>r. find_operator (tk_operator_id t) a = Some r \<and> op_status r = Op_active)" for t
    by (auto simp: token_valid_def split: option.splits)
  have "holds_key now h a \<longleftrightarrow> (\<exists>t \<in> set (tokens a). ?P t)"
    unfolding holds_key_def P by (rule refl)
  also have "\<dots> \<longleftrightarrow> find_row ?P (tokens a) \<noteq> None" by (auto simp: find_row_None)
  also have "\<dots> \<longleftrightarrow> (\<exists>v a'. repo_authenticate now h a = (Some v, a'))"
  proof (cases "find_row ?P (tokens a)")
    case None
    then show ?thesis by (simp add: repo_authenticate_def)
  next
    case (Some t)
    with find_row_SomeD[OF Some] show ?thesis
      by (auto simp: repo_authenticate_def join_operator_def split: option.splits)
  qed
  finally show ?thesis by simp
qed

lemma repo_authenticate_SomeD:
  assumes "repo_authenticate now h a = (Some (r, t), a')"
  shows "t \<in> set (tokens a)" and "tk_token_hash t = h" and "tk_status t = Tk_active"
    and "find_operator (tk_operator_id t) a = Some r" and "op_status r = Op_active"
  using assms
  by (auto simp: repo_authenticate_def join_operator_def token_valid_def dest!: find_row_SomeD
      split: option.splits)

lemma revoked_not_held:
  assumes "access_ok a" and "hash_revoked h a"
  shows "\<not> holds_key now h a"
proof
  assume "holds_key now h a"
  then obtain t where t: "t \<in> set (tokens a)" "tk_token_hash t = h" "tk_status t = Tk_active"
    by (auto simp: holds_key_def)
  moreover obtain u where u: "u \<in> set (tokens a)" "tk_token_hash u = h" "tk_status u = Tk_revoked"
    using assms(2) by (auto simp: hash_revoked_def)
  moreover have "t = u"
    using assms(1) t u distinct_key_eq[of tk_token_hash "tokens a" t u] by (simp add: access_ok_def)
  ultimately show False by simp
qed

lemma revoke_revokes:
  assumes "revoke_token now oid tid a = Inr (j, a')" and "access_ok a"
    and "t \<in> set (tokens a)" and "tk_id t = tid"
  shows "hash_revoked (tk_token_hash t) a'"
proof -
  obtain u where u: "find_row (\<lambda>t. tk_id t = tid \<and> tk_operator_id t = oid) (tokens a') = Some u"
    and a': "a' = snd (repo_revoke_token now oid tid a)"
    using assms(1) by (auto simp: revoke_token_def repo_revoke_token_def Let_def split: option.splits)
  from find_row_SomeD[OF u] obtain w where w: "w \<in> set (tokens a)" "tk_id w = tid"
      "tk_operator_id w = oid"
    by (auto simp: a' repo_revoke_token_def Let_def set_update_rows split: if_splits)
  with assms distinct_key_eq[of tk_id "tokens a"] have "w = t" by (auto simp: access_ok_def)
  have "t\<lparr>tk_status := Tk_revoked, tk_revoked_at := coalesce (tk_revoked_at t) (Some now)\<rparr>
      \<in> set (tokens a')"
    using w \<open>w = t\<close> by (auto simp: a' repo_revoke_token_def Let_def set_update_rows image_iff)
  then show ?thesis unfolding hash_revoked_def by (rule rev_bexI) simp
qed

lemma authenticate_key:
  assumes "t \<noteq> s_admin_token cfg"
  shows "(\<exists>p a'. authenticate x cfg now (Some t) a = Inr (p, a'))
    \<longleftrightarrow> t \<noteq> [] \<and> holds_key now (hash_token x t) a"
proof (cases "repo_authenticate now (hash_token x t) a")
  case (Pair v a1)
  then show ?thesis
    using assms repo_authenticate_iff[of now "hash_token x t" a]
    by (cases v) (auto simp: authenticate_def tokens_equal_def)
qed

section \<open>Properties\<close>

text \<open>Authentication lets in exactly the holder of the bootstrap token and the holders of a token
  whose hash is stored, that is active and not expired and that belongs to an active operator.\<close>

theorem authenticate_exact:
  "(\<exists>p a'. authenticate x cfg now (Some t) a = Inr (p, a'))
    \<longleftrightarrow> t \<noteq> [] \<and> (t = s_admin_token cfg \<or> holds_key now (hash_token x t) a)"
proof (cases "t = s_admin_token cfg")
  case True
  then show ?thesis by (auto simp: authenticate_def tokens_equal_def)
next
  case False
  then show ?thesis by (simp add: authenticate_key)
qed

text \<open>C28 A revoked token is revoked for ever: whatever operations follow, in whatever order, its
  holder is refused, although the token is still stored and the operator may be active.\<close>

theorem revoked_token_refused:
  assumes "access_reach x cfg empty_access a"
    and "revoke_token now oid tid a = Inr (j, a1)"
    and "u \<in> set (tokens a)" and "tk_id u = tid" and "tk_token_hash u = hash_token x t"
    and "access_reach x cfg a1 a2" and "t \<noteq> s_admin_token cfg"
  shows "\<exists>m. authenticate x cfg later (Some t) a2 = Inl (service_error 401 m)"
proof -
  have ok: "access_ok a" using access_reach_ok[OF assms(1)] by (simp add: access_ok_def empty_access_def)
  have "access_ok a1" using grow_keeps_ok[OF access_step_grows[OF step_revoke[OF assms(2)]] ok] .
  with assms(6) have "access_ok a2" by (rule access_reach_ok)
  moreover have "hash_revoked (hash_token x t) a2"
    using access_reach_revoked[OF assms(6)] revoke_revokes[OF assms(2) ok assms(3,4)] assms(5) by simp
  ultimately have "\<not> holds_key later (hash_token x t) a2" by (rule revoked_not_held)
  with assms(7) have "\<nexists>p a'. authenticate x cfg later (Some t) a2 = Inr (p, a')"
    by (simp add: authenticate_key)
  then show ?thesis
    by (auto simp: authenticate_def split: if_splits option.splits prod.splits)
qed

text \<open>An operator is created, gets a token, and the token is revoked.\<close>

definition sample_operators :: "err + json \<times> access" where
  "sample_operators = create_operator sample_x 10 (Uuid ''op'') ''Ann'' MANAGER empty_access"

definition sample_tokens :: "err + json \<times> access" where
  "sample_tokens = create_token sample_x 20 (Uuid ''tok'') ''secret'' (Uuid ''op'') ''laptop'' (Some 99)
     (snd (projr sample_operators))"

definition sample_revoked :: "err + json \<times> access" where
  "sample_revoked = revoke_token 30 (Uuid ''op'') (Uuid ''tok'') (snd (projr sample_tokens))"

lemma sample_access_runs:
  "sample_operators = Inr (fst (projr sample_operators), snd (projr sample_operators))"
  "sample_tokens = Inr (fst (projr sample_tokens), snd (projr sample_tokens))"
  "sample_revoked = Inr (fst (projr sample_revoked), snd (projr sample_revoked))"
proof -
  have "\<not> isl sample_operators" "\<not> isl sample_tokens" "\<not> isl sample_revoked" by code_simp+
  then show "sample_operators = Inr (fst (projr sample_operators), snd (projr sample_operators))"
    "sample_tokens = Inr (fst (projr sample_tokens), snd (projr sample_tokens))"
    "sample_revoked = Inr (fst (projr sample_revoked), snd (projr sample_revoked))" by simp_all
qed

theorem revoked_token_refused_witness:
  "(\<exists>p a'. authenticate sample_x (default_settings ''root'') 25 (Some ''secret'') (snd (projr sample_tokens))
      = Inr (p, a'))
    \<and> (\<exists>m. authenticate sample_x (default_settings ''root'') 40 (Some ''secret'') (snd (projr sample_revoked))
      = Inl (service_error 401 m))"
proof
  let ?cfg = "default_settings ''root''"
  have "\<not> isl (authenticate sample_x ?cfg 25 (Some ''secret'') (snd (projr sample_tokens)))" by code_simp
  then show "\<exists>p a'. authenticate sample_x ?cfg 25 (Some ''secret'') (snd (projr sample_tokens)) = Inr (p, a')"
    by (metis sum.collapse(2) surj_pair)
  have reach: "access_reach sample_x ?cfg empty_access (snd (projr sample_tokens))"
    by (rule reach_step[OF reach_step[OF reach_here]])
      (rule step_create_operator[OF trans[OF sample_operators_def[symmetric] sample_access_runs(1)]],
       rule step_create_token[OF trans[OF sample_tokens_def[symmetric] sample_access_runs(2)]])
  obtain u where "tokens (snd (projr sample_tokens)) = [u]" and u: "tk_id u = Uuid ''tok''"
      "tk_token_hash u = hash_token sample_x ''secret''"
  proof -
    have "map tk_id (tokens (snd (projr sample_tokens))) = [Uuid ''tok'']"
      "map tk_token_hash (tokens (snd (projr sample_tokens))) = [hash_token sample_x ''secret'']"
      by code_simp+
    with that show thesis by (auto simp: map_eq_Cons_conv)
  qed
  then have in_tokens: "u \<in> set (tokens (snd (projr sample_tokens)))" by simp
  have "''secret'' \<noteq> s_admin_token ?cfg" by (simp add: default_settings_def)
  from revoked_token_refused[OF reach trans[OF sample_revoked_def[symmetric] sample_access_runs(3)] in_tokens u
      reach_here this]
  show "\<exists>m. authenticate sample_x ?cfg 40 (Some ''secret'') (snd (projr sample_revoked))
      = Inl (service_error 401 m)" .
qed

text \<open>The roles form a chain: one role has at least the permissions of another exactly when it
  ranks at least as high, and only the owner may manage access.\<close>

theorem roles_nested:
  "(r \<le> r' \<longleftrightarrow> set (ROLE_PERMISSIONS r) \<subseteq> set (ROLE_PERMISSIONS r'))
    \<and> (''access.manage'' \<in> set (ROLE_PERMISSIONS r) \<longleftrightarrow> r = OWNER)"
  by (cases r; cases r') (simp_all add: less_eq_role_def)

end
