(* ===== verification/Adjudication.thy ===== *)
theory Adjudication
  imports LineSamples AdminAccess
begin

text \<open>
  Human adjudication of a held drink: \<open>app/services/adjudications.py\<close>. A person who has looked at
  the machine decides how the drink ended; order, job and command move to that end together, a
  drink that was not made is refunded, and the answer is stored under the caller's key, so that a
  repeated request gets it again and a different one is refused.
\<close>

section \<open>The operation\<close>

datatype outcome = Succeeded | Failed | Cancelled

fun outcome_name :: "outcome \<Rightarrow> string" where
  "outcome_name Succeeded = ''SUCCEEDED''"
| "outcome_name Failed = ''FAILED''"
| "outcome_name Cancelled = ''CANCELLED''"

fun outcome_job :: "outcome \<Rightarrow> job_status" where
  "outcome_job Succeeded = J_SUCCEEDED"
| "outcome_job Failed = J_FAILED"
| "outcome_job Cancelled = J_CANCELLED"

fun outcome_command :: "outcome \<Rightarrow> command_status" where
  "outcome_command Succeeded = C_SUCCEEDED"
| "outcome_command Failed = C_FAILED"
| "outcome_command Cancelled = C_CANCELLED"

fun outcome_order :: "outcome \<Rightarrow> order_status" where
  "outcome_order Succeeded = O_READY"
| "outcome_order Failed = O_FAILED"
| "outcome_order Cancelled = O_CANCELLED"

record adjudication_request =
  ar_task_id :: string
  ar_expected_revision :: int
  ar_outcome :: outcome
  ar_reason :: string

definition adjudication_body :: "adjudication_request \<Rightarrow> dict" where
  "adjudication_body q = [(''taskId'', JStr (ar_task_id q)),
     (''expectedRevision'', JInt (ar_expected_revision q)),
     (''outcome'', JStr (outcome_name (ar_outcome q))), (''reason'', JStr (ar_reason q))]"

text \<open>The held drink as the checks found it: the order, the job and the command.\<close>

definition held_drink ::
  "adjudication_request \<Rightarrow> sales_order \<Rightarrow> db \<Rightarrow> err + production_job \<times> terminal_command" where
  "held_drink q r d =
     (case Option.bind (job_of_order (o_id r) d) (\<lambda>located. lock_job (j_id located) d) of
        None \<Rightarrow> Inl (service_error 409 ''task does not belong to this order'')
      | Some job \<Rightarrow>
          if j_task_id job \<noteq> ar_task_id q
          then Inl (service_error 409 ''task does not belong to this order'')
          else if j_revision job \<noteq> ar_expected_revision q
          then Inl (service_error 409 ''production job revision changed; refresh before adjudication'')
          else if o_status r \<noteq> O_HOLD \<or> j_status job \<noteq> J_HOLD \<or> \<not> j_manual_review_required job
          then Inl (service_error 409 ''order is not awaiting manual review'')
          else
            (case Option.bind (j_command_id job) (\<lambda>k. if k = 0 then None else command_by_db_id k d) of
               None \<Rightarrow> Inl (service_error 409 ''production command association mismatch'')
             | Some c \<Rightarrow>
                 if c_command_type c \<noteq> ''MAKE_DRINK'' \<or> c_terminal_id c \<noteq> o_terminal_id r
                    \<or> dget (c_payload_json c) ''taskId'' \<noteq> JStr (ar_task_id q)
                 then Inl (service_error 409 ''production command association mismatch'')
                 else if \<not> allowed (decide_transition (c_status c) (outcome_command (ar_outcome q)))
                 then Inl (service_error 409 ''command cannot accept this adjudication'')
                 else Inr (job, c)))"

definition adjudication_result :: "adjudication_request \<Rightarrow> sales_order \<Rightarrow> production_job \<Rightarrow> db \<Rightarrow> json" where
  "adjudication_result q r job d =
     JObj [(''orderId'', JStr (uuid_str (o_id r))), (''taskId'', JStr (ar_task_id q)),
       (''status'', JStr (order_name (outcome_order (ar_outcome q)))),
       (''productionStatus'', JStr (outcome_name (ar_outcome q))),
       (''productionRevision'', JInt (j_revision job + 1)),
       (''deviceReleasePending'', JBool (case terminal_by_id (o_terminal_id r) d of
           None \<Rightarrow> True | Some t \<Rightarrow> device_is_busy (t_reported_status t))),
       (''physicalStopConfirmedByServer'', JBool False)]"

text \<open>The ended job without its hold, and the failure texts of the order.\<close>

definition settled_job ::
  "timestamp \<Rightarrow> adjudication_request \<Rightarrow> sales_order \<Rightarrow> production_job \<Rightarrow> db \<Rightarrow> db" where
  "settled_job now q r job d =
     (let done = (ar_outcome q = Succeeded);
          d1 = update_job_terminal now (j_id job) (outcome_job (ar_outcome q))
            (if done then 1 else j_progress job) (if done then 1 else j_step_progress job) None None
            (if done then [] else [(''code'', JStr ''MANUAL_ADJUDICATION''), (''reason'', JStr (ar_reason q))])
            (Some (j_elapsed_seconds job)) (if done then Some 0 else j_remaining_seconds job) None
            (j_accepted_at job) (j_started_at job) (Some now) None d
      in update_failure now (o_id r) (if done then None else Some ''MANUAL_ADJUDICATION'')
           (if done then None else Some (ar_reason q)) (clear_job_hold (j_id job) d1))"

text \<open>The three transitions and the refund of a drink that was not made.\<close>

definition settle_drink ::
  "externals \<Rightarrow> timestamp \<Rightarrow> uuid \<Rightarrow> uuid \<Rightarrow> principal \<Rightarrow> adjudication_request \<Rightarrow> sales_order
    \<Rightarrow> production_job \<Rightarrow> terminal_command \<Rightarrow> db \<Rightarrow> err + db" where
  "settle_drink x now rid nid p q r job c d =
     (let actor = ''admin:'' @ pr_actor_id p; done = (ar_outcome q = Succeeded);
          body = JObj (adjudication_body q) in
      bind_ok (transition_command now c (outcome_command (ar_outcome q)) actor (Some (ar_reason q))
          (Some body) True d) (\<lambda>(_, d1).
      bind_ok (transition_order now r (outcome_order (ar_outcome q)) actor (Some (ar_reason q)) body
          (settled_job now q r job d1)) (\<lambda>(r', d2).
      if done then Inr d2
      else bind_ok (create_automatic_refund_record x now rid nid r' job ''manual-adjudication'' d2)
        (\<lambda>(_, d3). Inr d3))))"

definition record_adjudication ::
  "timestamp \<Rightarrow> principal \<Rightarrow> string option \<Rightarrow> adjudication_request \<Rightarrow> string \<Rightarrow> string \<Rightarrow> sales_order \<Rightarrow> json
    \<Rightarrow> db \<Rightarrow> err + db" where
  "record_adjudication now p request_id q key digest r result d =
     (let d1 = request_dispatch now (o_terminal_id r) ''manual-adjudication'' d;
          d2 = write_audit now p ''order.adjudicate'' ''order'' (Some (uuid_str (o_id r)))
            (adjudication_body q @ [(''result'', result)]) request_id d1
      in insert_adjudication (o_id r) (ar_task_id q) key digest result d2)"

definition adjudicate ::
  "externals \<Rightarrow> timestamp \<Rightarrow> uuid \<Rightarrow> uuid \<Rightarrow> uuid \<Rightarrow> adjudication_request \<Rightarrow> string \<Rightarrow> principal
    \<Rightarrow> string option \<Rightarrow> db \<Rightarrow> err + json \<times> db" where
  "adjudicate x now rid nid order_id q key p request_id d =
     bind_ok (require p ''commands.execute'') (\<lambda>_.
     bind_ok (require p ''refunds.manage'') (\<lambda>_.
     if py_strip key = [] \<or> 160 < py_len key
     then Inl (service_error 422 ''Idempotency-Key must contain 1 to 160 characters'')
     else let digest = canonical_digest x (JObj (adjudication_body q)) in
       (case find_with_terminal order_id d of
          None \<Rightarrow> Inl (service_error 404 ''order not found'')
        | Some (r, _) \<Rightarrow>
            (case find_adjudication order_id key d of
               Some previous \<Rightarrow>
                 if py_strip (ad_request_digest previous) \<noteq> digest
                 then Inl (service_error 409 ''Idempotency-Key payload conflict'')
                 else Inr (ad_response_json previous, d)
             | None \<Rightarrow>
                 bind_ok (held_drink q r d) (\<lambda>(job, c).
                 bind_ok (settle_drink x now rid nid p q r job c d) (\<lambda>d1.
                 let result = adjudication_result q r job d1 in
                 bind_ok (record_adjudication now p request_id q key digest r result d1) (\<lambda>d2.
                 Inr (result, d2))))))))"

section \<open>What an adjudication does\<close>

lemma held_drinkD:
  assumes "held_drink q r d = Inr (job, c)"
  shows "lock_job (j_id job) d = Some job" and "j_task_id job = ar_task_id q"
    and "j_revision job = ar_expected_revision q" and "o_status r = O_HOLD" and "j_status job = J_HOLD"
    and "j_manual_review_required job" and "j_command_id job = Some (c_id c)"
    and "find_command (c_id c) d = Some c" and "c_terminal_id c = o_terminal_id r"
    and "\<exists>located. job_of_order (o_id r) d = Some located \<and> j_id located = j_id job"
    and "allowed (decide_transition (c_status c) (outcome_command (ar_outcome q)))"
proof -
  obtain located where at: "job_of_order (o_id r) d = Some located" "lock_job (j_id located) d = Some job"
      and rest: "j_task_id job = ar_task_id q" "j_revision job = ar_expected_revision q"
        "o_status r = O_HOLD" "j_status job = J_HOLD" "j_manual_review_required job"
        "c_terminal_id c = o_terminal_id r"
        "allowed (decide_transition (c_status c) (outcome_command (ar_outcome q)))"
      and c: "Option.bind (j_command_id job) (\<lambda>k. if k = 0 then None else command_by_db_id k d) = Some c"
    using assms by (auto simp: held_drink_def split: if_splits option.splits bind_splits)
  obtain k where k: "j_command_id job = Some k" "find_command k d = Some c"
    using c by (auto simp: command_by_db_id_def split: if_splits bind_splits)
  have ids: "j_id job = j_id located" "c_id c = k"
    using lock_job_SomeD[OF at(2)] find_command_SomeD[OF k(2)] by simp_all
  show "lock_job (j_id job) d = Some job" "j_command_id job = Some (c_id c)"
    "find_command (c_id c) d = Some c" using at(2) k ids by simp_all
  show "\<exists>located. job_of_order (o_id r) d = Some located \<and> j_id located = j_id job" using at ids by simp
qed (use assms in \<open>auto simp: held_drink_def split: if_splits option.splits bind_splits\<close>)

text \<open>The job of a line is the job of its order.\<close>

lemma job_of_order_line:
  assumes inv: "line_inv d" and at: "job_of_order k d = Some located"
  shows "lock_job (j_id located) d = Some located \<and> j_order_id located = k"
  using assms lock_job_mem[of d located]
  by (auto simp: job_of_order_def line_inv_def dest!: find_row_SomeD)

lemma outcome_coherent: "coherent (outcome_order oc) (outcome_job oc) (Some (outcome_command oc))"
  by (cases oc) simp_all

lemma outcome_reachable: "order_transition_allowed O_HOLD (outcome_order oc)"
  by (cases oc) (simp_all add: order_transition_allowed_def)

lemma settled_job_line:
  "line_of (settled_job now q r job d) = move_job (j_id job) (outcome_job (ar_outcome q)) (line_of d)"
  "line_ids (settled_job now q r job d) = line_ids d"
  by (simp_all add: settled_job_def Let_def)

lemma settle_drinkE:
  assumes "settle_drink x now rid nid p q r job c d = Inr d'"
  obtains u dup d1 r' d2 where "transition_command now c (outcome_command (ar_outcome q))
        (''admin:'' @ pr_actor_id p) (Some (ar_reason q)) (Some (JObj (adjudication_body q))) True d
        = Inr ((u, dup), d1)"
      and "transition_order now r (outcome_order (ar_outcome q)) (''admin:'' @ pr_actor_id p)
        (Some (ar_reason q)) (JObj (adjudication_body q)) (settled_job now q r job d1) = Inr (r', d2)"
      and "if ar_outcome q = Succeeded then d' = d2
        else \<exists>v. create_automatic_refund_record x now rid nid r' job ''manual-adjudication'' d2 = Inr (v, d')"
proof -
  let ?oc = "ar_outcome q" and ?a = "''admin:'' @ pr_actor_id p" and ?b = "JObj (adjudication_body q)"
  let ?f = "\<lambda>(r', d2). if ?oc = Succeeded then Inr d2
    else bind_ok (create_automatic_refund_record x now rid nid r' job ''manual-adjudication'' d2)
      (\<lambda>(_, d3). Inr d3)"
  obtain w d1 where w: "transition_command now c (outcome_command ?oc) ?a (Some (ar_reason q)) (Some ?b) True d
      = Inr (w, d1)"
    and rest: "bind_ok (transition_order now r (outcome_order ?oc) ?a (Some (ar_reason q)) ?b
        (settled_job now q r job d1)) ?f = Inr d'"
    using assms unfolding settle_drink_def Let_def by (rule bind_ok_InrE) (simp split: prod.splits)
  from rest obtain z where z: "transition_order now r (outcome_order ?oc) ?a (Some (ar_reason q)) ?b
        (settled_job now q r job d1) = Inr z" and fin: "?f z = Inr d'" by (rule bind_ok_InrE)
  obtain r' d2 where "z = (r', d2)" by (cases z)
  moreover obtain u dup where "w = (u, dup)" by (cases w)
  ultimately show thesis using that w z fin by (auto simp: bind_ok_Inr split: if_splits)
qed

lemma settle_drink_line:
  assumes run: "settle_drink x now rid nid p q r job c d = Inr d'"
    and r: "find_order (o_id r) d = Some r" and hold: "o_status r = O_HOLD"
    and c: "find_command (c_id c) d = Some c"
  shows "line_of d' = move_order (o_id r) (outcome_order (ar_outcome q))
      (move_job (j_id job) (outcome_job (ar_outcome q))
        (move_command (c_id c) (outcome_command (ar_outcome q)) (line_of d)))
    \<and> line_ids d' = line_ids d"
proof -
  let ?oc = "ar_outcome q"
  obtain u dup d1 r' d2 where cmd: "transition_command now c (outcome_command ?oc)
        (''admin:'' @ pr_actor_id p) (Some (ar_reason q)) (Some (JObj (adjudication_body q))) True d
        = Inr ((u, dup), d1)"
      and ord: "transition_order now r (outcome_order ?oc) (''admin:'' @ pr_actor_id p) (Some (ar_reason q))
        (JObj (adjudication_body q)) (settled_job now q r job d1) = Inr (r', d2)"
      and d': "if ?oc = Succeeded then d' = d2
        else \<exists>v. create_automatic_refund_record x now rid nid r' job ''manual-adjudication'' d2 = Inr (v, d')"
    using settle_drinkE[OF run] by metis
  note S = settled_job_line[of now q r job d1]
  have l1: "line_of d1 = move_command (c_id c) (outcome_command ?oc) (line_of d)" "line_ids d1 = line_ids d"
    using line_of_transition_command[OF cmd ln_commandsI[OF c]] line_ids_transition_command[OF cmd] by auto
  have o3: "ln_orders (line_of (settled_job now q r job d1)) (o_id r) = Some (o_status r)"
    using ln_ordersI[OF r] by (simp add: S l1)
  have l2: "line_of d2 = move_order (o_id r) (outcome_order ?oc) (line_of (settled_job now q r job d1))"
    "line_ids d2 = line_ids (settled_job now q r job d1)"
    using line_of_transition_order(1)[OF ord o3] line_ids_transition_order[OF ord] hold outcome_reachable
    by auto
  have "line_of d' = line_of d2" "line_ids d' = line_ids d2"
    using d' create_automatic_refund_production[THEN line_of_production]
      create_automatic_refund_production[THEN line_ids_production] by (auto split: if_splits)
  then show ?thesis by (simp add: l2 S l1)
qed

lemma record_adjudication_line:
  assumes "record_adjudication now p request_id q key digest r result d = Inr d'"
  shows "line_of d' = line_of d" and "line_ids d' = line_ids d"
proof -
  have "line_of d' = line_of (request_dispatch now (o_terminal_id r) ''manual-adjudication'' d)"
    and "line_ids d' = line_ids (request_dispatch now (o_terminal_id r) ''manual-adjudication'' d)"
    using assms by (auto simp: record_adjudication_def insert_adjudication_def write_audit_def bind_ok_Inr
        Let_def line_of_def line_ids_def find_order_def lock_job_def find_command_def)
  then show "line_of d' = line_of d" and "line_ids d' = line_ids d"
    by (simp_all add: request_dispatch_def)
qed

text \<open>An adjudication is a replay, or it ends a held drink.\<close>

lemma adjudicate_cases:
  assumes run: "adjudicate x now rid nid order_id q key p request_id d = Inr (v, d')"
  obtains (replay) previous where "d' = d" and "find_adjudication order_id key d = Some previous"
      and "v = ad_response_json previous"
  | (settled) r t job c d1 where "find_adjudication order_id key d = None"
      and "find_with_terminal order_id d = Some (r, t)" and "held_drink q r d = Inr (job, c)"
      and "settle_drink x now rid nid p q r job c d = Inr d1"
      and "v = adjudication_result q r job d1"
      and "record_adjudication now p request_id q key (canonical_digest x (JObj (adjudication_body q)))
        r v d1 = Inr d'"
proof -
  from run obtain r t where r: "find_with_terminal order_id d = Some (r, t)"
    by (auto simp: adjudicate_def bind_ok_Inr Let_def split: if_splits option.splits)
  show thesis
  proof (cases "find_adjudication order_id key d")
    case (Some previous)
    with run r replay show thesis
      by (auto simp: adjudicate_def bind_ok_Inr Let_def split: if_splits)
  next
    case None
    with run r obtain job c d1 where "held_drink q r d = Inr (job, c)"
      and "settle_drink x now rid nid p q r job c d = Inr d1"
      and "v = adjudication_result q r job d1"
      and "record_adjudication now p request_id q key (canonical_digest x (JObj (adjudication_body q)))
        r v d1 = Inr d'"
      by (auto simp: adjudicate_def bind_ok_Inr Let_def split: if_splits)
    with None r settled show thesis by blast
  qed
qed

lemma find_with_terminalD:
  "find_with_terminal k d = Some (r, t) \<Longrightarrow> find_order (o_id r) d = Some r \<and> o_id r = k"
  by (auto simp: find_with_terminal_def join_terminal_def dest: find_order_SomeD split: bind_splits)

lemma adjudicate_line:
  assumes inv: "line_inv d"
    and run: "adjudicate x now rid nid order_id q key p request_id d = Inr (v, d')"
  obtains (replay) "d' = d" and "find_adjudication order_id key d \<noteq> None"
  | (settled) job c r where "held_drink q r d = Inr (job, c)" and "j_order_id job = order_id"
      and "find_order order_id d = Some r" and "line_inv d'"
      and "line_of d' = move_order order_id (outcome_order (ar_outcome q))
        (move_job (j_id job) (outcome_job (ar_outcome q))
          (move_command (c_id c) (outcome_command (ar_outcome q)) (line_of d)))"
  using run
proof (cases rule: adjudicate_cases)
  case (replay previous)
  with that(1) show thesis by simp
next
  case (settled r t job c d1)
  note H = held_drinkD[OF settled(3)]
  note R = find_with_terminalD[OF settled(2)]
  obtain located where loc: "job_of_order (o_id r) d = Some located" "j_id located = j_id job"
    using H(10) by blast
  have jo: "j_order_id job = order_id"
  proof -
    note L = job_of_order_line[OF inv loc(1)]
    have "Some job = Some located" using L H(1) unfolding loc(2) by metis
    with L R show ?thesis by auto
  qed
  have l: "line_of d' = move_order order_id (outcome_order (ar_outcome q))
        (move_job (j_id job) (outcome_job (ar_outcome q))
          (move_command (c_id c) (outcome_command (ar_outcome q)) (line_of d)))"
    and i: "line_ids d' = line_ids d"
    using settle_drink_line[OF settled(4) R[THEN conjunct1] H(4,8)] record_adjudication_line[OF settled(6)]
    by (simp_all only: R[THEN conjunct2])
  have act: "outcome_job (ar_outcome q) \<in> set ACTIVE_JOBS \<Longrightarrow> j_status job \<in> set ACTIVE_JOBS"
    using H(5) by (simp add: ACTIVE_JOBS_def)
  have inv': "line_inv d'" by (rule line_inv_move[OF inv H(1) H(7) l[folded jo] i outcome_coherent act])
  have "find_order order_id d = Some r" using R by auto
  from that(2)[OF settled(3) jo this inv' l] show thesis .
qed

section \<open>Money\<close>

lemma create_automatic_refund_record_ledger:
  assumes "refund_ledger d" and "create_automatic_refund_record x now rid nid r job why d = Inr (v, d')"
  shows "refund_ledger d'"
  using assms unfolding create_automatic_refund_record_def Let_def
  by (auto split: option.splits if_splits simp: bind_ok_Inr dest: ensure_ledger)

lemma settled_job_money:
  "payments (settled_job now q r job d) = payments d" "refunds (settled_job now q r job d) = refunds d"
  "payment_log (settled_job now q r job d) = payment_log d"
  by (simp_all add: settled_job_def Let_def update_failure_def update_order_def clear_job_hold_def
      update_job_terminal_def update_job_def)

lemma settle_drink_ledger:
  assumes led: "refund_ledger d" and run: "settle_drink x now rid nid p q r job c d = Inr d'"
  shows "refund_ledger d'"
proof -
  obtain u dup d1 r' d2 where cmd: "transition_command now c (outcome_command (ar_outcome q))
        (''admin:'' @ pr_actor_id p) (Some (ar_reason q)) (Some (JObj (adjudication_body q))) True d
        = Inr ((u, dup), d1)"
      and ord: "transition_order now r (outcome_order (ar_outcome q)) (''admin:'' @ pr_actor_id p)
        (Some (ar_reason q)) (JObj (adjudication_body q)) (settled_job now q r job d1) = Inr (r', d2)"
      and d': "if ar_outcome q = Succeeded then d' = d2
        else \<exists>v. create_automatic_refund_record x now rid nid r' job ''manual-adjudication'' d2 = Inr (v, d')"
    using settle_drinkE[OF run] by metis
  note C = transition_command_frame[OF cmd] and T = transition_order_frame[OF ord]
  have same: "payments d2 = payments d" "refunds d2 = refunds d" "payment_log d2 = payment_log d"
    using C T by (simp_all add: settled_job_money)
  have "refund_ledger d2" using led by (simp only: refund_ledger_cong[OF same])
  with d' show ?thesis by (auto split: if_splits dest: create_automatic_refund_record_ledger)
qed

lemma record_adjudication_frame:
  assumes "record_adjudication now p request_id q key digest r result d = Inr d'"
  shows "payments d' = payments d" and "refunds d' = refunds d" and "payment_log d' = payment_log d"
    and "orders d' = orders d" and "terminals d' = terminals d"
  using assms by (auto simp: record_adjudication_def insert_adjudication_def write_audit_def bind_ok_Inr
      Let_def request_dispatch_def enqueue_dispatch_def update_dispatch_def split: option.splits)

lemma record_adjudication_found:
  assumes "record_adjudication now p request_id q key digest r result d = Inr d'"
  shows "find_adjudication (o_id r) key d' = Some \<lparr>ad_order_id = o_id r, ad_task_id = ar_task_id q,
    ad_idempotency_key = key, ad_request_digest = digest, ad_response_json = result\<rparr>"
proof -
  let ?row = "\<lparr>ad_order_id = o_id r, ad_task_id = ar_task_id q, ad_idempotency_key = key,
    ad_request_digest = digest, ad_response_json = result\<rparr>"
  obtain as where as: "adjudications d' = as @ [?row]"
    and new: "\<forall>a \<in> set as. \<not> (ad_order_id a = o_id r \<and> ad_idempotency_key a = key)"
    using assms by (auto simp: record_adjudication_def insert_adjudication_def bind_ok_Inr Let_def
        insert_row_Inr)
  have "find_row (\<lambda>a. ad_order_id a = o_id r \<and> ad_idempotency_key a = key) as = None"
    using new by (auto simp: find_row_None)
  then show ?thesis by (simp add: find_adjudication_def as find_row_append)
qed

section \<open>Properties\<close>

text \<open>C23 An adjudication keeps the line and the refund ledger. Unless it repeats an earlier request, it
  needs both permissions, ends exactly one drink that was held for a person and whose job has not
  changed since the person looked at it, and leaves its job, its order and its command in the decided
  end.\<close>

theorem adjudication_ends_held_drink:
  assumes inv: "line_inv d" and led: "refund_ledger d"
    and run: "adjudicate x now rid nid order_id q key p request_id d = Inr (v, d')"
  shows "line_inv d' \<and> refund_ledger d'
    \<and> {''commands.execute'', ''refunds.manage''} \<subseteq> set (pr_permissions p)
    \<and> (if find_adjudication order_id key d \<noteq> None then d' = d
       else \<exists>r job c. held_drink q r d = Inr (job, c) \<and> o_id r = order_id
         \<and> o_status r = O_HOLD \<and> j_status job = J_HOLD \<and> j_revision job = ar_expected_revision q
         \<and> line_of d' = move_order order_id (outcome_order (ar_outcome q))
             (move_job (j_id job) (outcome_job (ar_outcome q))
               (move_command (c_id c) (outcome_command (ar_outcome q)) (line_of d))))"
proof -
  have allowed: "{''commands.execute'', ''refunds.manage''} \<subseteq> set (pr_permissions p)"
    using run by (auto simp: adjudicate_def bind_ok_Inr require_def split: if_splits)
  have money: "refund_ledger d'"
    using run
  proof (cases rule: adjudicate_cases)
    case (settled r t job c d1)
    have "refund_ledger d1" using settle_drink_ledger[OF led settled(4)] .
    then show ?thesis by (simp only: refund_ledger_cong[OF record_adjudication_frame(1-3)[OF settled(6)]])
  qed (use led in simp)
  show ?thesis
  proof (cases rule: adjudicate_line[OF inv run])
    case 1
    with inv money allowed show ?thesis by simp
  next
    case (2 job c r)
    have "find_adjudication order_id key d = None"
      using run
    proof (cases rule: adjudicate_cases)
      case (replay previous)
      then have "move_order order_id (outcome_order (ar_outcome q)) (move_job (j_id job)
          (outcome_job (ar_outcome q)) (move_command (c_id c) (outcome_command (ar_outcome q)) (line_of d)))
          = line_of d" using 2 by simp
      then have "ln_orders (line_of d) order_id = Some (outcome_order (ar_outcome q))"
        using 2(3) by (metis (no_types, lifting) fun_upd_same line_of_def ln_ordersI move_sel(1,4,7) option.map(2))
      then show ?thesis using ln_ordersI[OF 2(3)] held_drinkD(4)[OF 2(1)]
        by (cases "ar_outcome q") simp_all
    qed
    then show ?thesis
      using money allowed 2 held_drinkD(3,4,5)[OF 2(1)] find_order_SomeD[OF 2(3)] by auto
  qed
qed

text \<open>A drink held after its command expired on the device, and the decision that it failed.\<close>

definition sample_held_db :: db where
  "sample_held_db = sample_dispatched_db\<lparr>orders := [sample_order\<lparr>o_status := O_HOLD\<rparr>],
     jobs := [sample_job\<lparr>j_status := J_HOLD, j_command_id := Some 1, j_manual_review_required := True\<rparr>],
     commands := [sample_command\<lparr>c_status := C_UNKNOWN\<rparr>]\<rparr>"

definition sample_decision :: adjudication_request where
  "sample_decision = \<lparr>ar_task_id = ''task-1'', ar_expected_revision = 0, ar_outcome = Failed,
     ar_reason = ''cup empty''\<rparr>"

definition sample_adjudication :: "err + json \<times> db" where
  "sample_adjudication = adjudicate sample_x 900 (Uuid ''r1'') (Uuid ''r2'') (Uuid ''order-1'')
     sample_decision ''k1'' bootstrap_principal None sample_held_db"

lemma sample_held_inv: "line_inv sample_held_db"
  by (rule line_inv_single, simp add: sample_held_db_def, simp add: sample_held_db_def,
      simp add: sample_held_db_def line_sample_defs drink_ok_def line_of_def job_view_def
        command_view_def find_order_def find_command_def,
      simp add: sample_held_db_def line_sample_defs ids_ok_def line_ids_def order_keys_def)

lemma sample_held_ledger: "refund_ledger sample_held_db"
proof -
  have "refund_ledger sample_held_db = refund_ledger sample_dispatched_db"
    by (rule refund_ledger_cong) (simp_all add: sample_held_db_def)
  then show ?thesis using sample_line_ledger by simp
qed

lemma sample_adjudication_ok:
  "sample_adjudication = Inr (fst (projr sample_adjudication), snd (projr sample_adjudication))"
proof -
  have "\<not> isl sample_adjudication" by code_simp
  then show ?thesis by (cases sample_adjudication) simp_all
qed

theorem adjudication_ends_held_drink_witness:
  "line_inv (snd (projr sample_adjudication)) \<and> refund_ledger (snd (projr sample_adjudication))
    \<and> map o_status (orders (snd (projr sample_adjudication))) = [O_FAILED]
    \<and> map r_amount_minor (refunds (snd (projr sample_adjudication))) = [500]"
proof (intro conjI)
  note run = trans[OF sample_adjudication_def[symmetric] sample_adjudication_ok]
  show "line_inv (snd (projr sample_adjudication))" "refund_ledger (snd (projr sample_adjudication))"
    using adjudication_ends_held_drink[OF sample_held_inv sample_held_ledger run] by blast+
  show "map o_status (orders (snd (projr sample_adjudication))) = [O_FAILED]" by code_simp
  show "map r_amount_minor (refunds (snd (projr sample_adjudication))) = [500]" by code_simp
qed

text \<open>Once an adjudication has succeeded, its key is bound to its answer: the same decision under the
  same key returns that answer and changes nothing, and a different decision under that key is
  refused. (A digest is printed without surrounding blanks.)\<close>

theorem adjudication_replay:
  assumes inv: "line_inv d" and run: "adjudicate x now rid nid order_id q key p request_id d = Inr (v, d')"
    and hex: "\<And>u. py_strip (canonical_digest x u) = canonical_digest x u"
  shows "adjudicate x later rid' nid' order_id q' key p request_id' d'
    = (if canonical_digest x (JObj (adjudication_body q')) = canonical_digest x (JObj (adjudication_body q))
       then Inr (v, d') else Inl (service_error 409 ''Idempotency-Key payload conflict''))"
proof -
  let ?dg = "\<lambda>q. canonical_digest x (JObj (adjudication_body q))"
  have ok: "require p ''commands.execute'' = Inr p" "require p ''refunds.manage'' = Inr p"
    "\<not> (py_strip key = [] \<or> 160 < py_len key)"
    using run by (auto simp: adjudicate_def bind_ok_Inr require_def split: if_splits)
  obtain row where row: "find_adjudication order_id key d' = Some row"
      "py_strip (ad_request_digest row) = ?dg q" "ad_response_json row = v"
    using run
  proof (cases rule: adjudicate_cases)
    case (replay previous)
    have "py_strip (ad_request_digest previous) = ?dg q"
      using run replay by (auto simp: adjudicate_def bind_ok_Inr Let_def split: if_splits option.splits)
    with replay that show thesis by simp
  next
    case (settled r t job c d1)
    have "o_id r = order_id" using find_with_terminalD[OF settled(2)] by simp
    with record_adjudication_found[OF settled(6)] that hex show thesis by simp
  qed
  obtain r t where r: "find_with_terminal order_id d' = Some (r, t)"
  proof (cases rule: adjudicate_line[OF inv run])
    case 1
    obtain r t where "find_with_terminal order_id d = Some (r, t)"
      using run by (auto simp: adjudicate_def bind_ok_Inr Let_def split: if_splits option.splits)
    with that 1 show thesis by simp
  next
    case (2 job c r)
    have "ln_orders (line_of d') order_id = Some (outcome_order (ar_outcome q))"
      using ln_ordersI[OF 2(3)] by (simp add: 2(5))
    then obtain r' where "find_order order_id d' = Some r'" by (auto simp: line_of_def)
    with join_terminal_found[of d' order_id r'] 2(4) that show thesis by (auto simp: line_inv_def)
  qed
  show ?thesis unfolding adjudicate_def Let_def using ok r row by simp
qed

theorem adjudication_replay_witness:
  "adjudicate (sample_x\<lparr>x_json_sha := \<lambda>_. ''digest''\<rparr>) 950 (Uuid ''r3'') (Uuid ''r4'') (Uuid ''order-1'')
     sample_decision ''k1'' bootstrap_principal None
     (snd (projr (adjudicate (sample_x\<lparr>x_json_sha := \<lambda>_. ''digest''\<rparr>) 900 (Uuid ''r1'') (Uuid ''r2'')
       (Uuid ''order-1'') sample_decision ''k1'' bootstrap_principal None sample_held_db)))
   = Inr (projr (adjudicate (sample_x\<lparr>x_json_sha := \<lambda>_. ''digest''\<rparr>) 900 (Uuid ''r1'') (Uuid ''r2'')
       (Uuid ''order-1'') sample_decision ''k1'' bootstrap_principal None sample_held_db))"
proof -
  let ?x = "sample_x\<lparr>x_json_sha := \<lambda>_. ''digest''\<rparr>"
  let ?run = "adjudicate ?x 900 (Uuid ''r1'') (Uuid ''r2'') (Uuid ''order-1'') sample_decision ''k1''
    bootstrap_principal None sample_held_db"
  have "\<not> isl ?run" by code_simp
  then have run: "?run = Inr (fst (projr ?run), snd (projr ?run))" by (cases ?run) simp_all
  have "py_strip (canonical_digest ?x u) = canonical_digest ?x u" for u
    by (simp add: canonical_digest_def) code_simp
  from adjudication_replay[OF sample_held_inv run this] show ?thesis by simp
qed

end
