(* ===== verification/Callback.thy ===== *)
theory Callback
  imports Refunds
begin

text \<open>
  \<open>app/payment_service.py\<close>: what a verified payment notification does. The callback's values
  are the text fields of the notification. The refund an unwanted payment triggers draws two
  identifiers (\<open>rid\<close>, \<open>nid\<close>) and the business event one (\<open>bid\<close>).

  The lemmas give the amount parsing (cents and yuan), what a callback may never do (mark money
  received on another amount, revive a dead order, run twice) and that the refund ledger holds
  throughout.
\<close>

type_synonym fields = "(string \<times> string) list"

definition fget :: "fields \<Rightarrow> string \<Rightarrow> string option" where
  "fget v k = map_of v k"

text \<open>\<open>values.get(a) or values.get(b)\<close>: an empty text is no value.\<close>

definition fget_or :: "fields \<Rightarrow> string \<Rightarrow> string \<Rightarrow> string option" where
  "fget_or v a b = (case fget v a of
     Some s \<Rightarrow> if s \<noteq> [] then Some s else fget v b
   | None \<Rightarrow> fget v b)"

definition fields_json :: "fields \<Rightarrow> json" where
  "fields_json v = JObj (map (\<lambda>(k, s). (k, JStr s)) v)"

definition PAID_CALLBACK_STATUSES :: "payment_status list" where
  "PAID_CALLBACK_STATUSES = [P_PAID, P_REFUNDING, P_PARTIALLY_REFUNDED, P_REFUNDED]"

definition DEAD_ORDER_STATUSES :: "order_status list" where
  "DEAD_ORDER_STATUSES = [O_CANCELLED, O_EXPIRED, O_FAILED]"

section \<open>Parsing the notification\<close>

definition callback_event_id :: "externals \<Rightarrow> fields \<Rightarrow> string" where
  "callback_event_id x v =
     (case fget_or v ''notify_id'' ''event_id'' of
        Some s \<Rightarrow> if s \<noteq> [] then s
          else ''digest:'' @ canonical_digest x (fields_json (filter (\<lambda>(k, _). k \<noteq> ''sign'') v))
      | None \<Rightarrow>
          ''digest:'' @ canonical_digest x (fields_json (filter (\<lambda>(k, _). k \<noteq> ''sign'') v)))"

definition blank :: "string option \<Rightarrow> bool" where
  "blank s \<longleftrightarrow> (case s of None \<Rightarrow> True | Some t \<Rightarrow> py_strip t = [])"

definition parse_amount :: "bool \<Rightarrow> string \<Rightarrow> err + int option" where
  "parse_amount yuan raw =
     (case parse_decimal raw of
        None \<Rightarrow> Inl (http_error 409 ''payment callback amount is invalid'')
      | Some amount \<Rightarrow>
          if \<not> dec_finite amount \<or> \<not> dec_positive amount
          then Inl (http_error 409 ''payment callback amount is invalid'')
          else
            let cents = (if yuan then dec_times amount 100 else amount)
            in if \<not> dec_whole cents
               then Inl (http_error 409 ''payment callback amount has fractional minor units'')
               else Inr (Some (dec_int cents)))"

definition callback_amount_minor :: "fields \<Rightarrow> err + int option" where
  "callback_amount_minor v =
     (case fget v ''total_amount'' of
        Some t \<Rightarrow>
          if py_strip t \<noteq> [] then parse_amount True t
          else (case fget v ''amount_minor'' of
              None \<Rightarrow> Inr None
            | Some m \<Rightarrow> if py_strip m = [] then Inr None else parse_amount False m)
      | None \<Rightarrow>
          (case fget v ''amount_minor'' of
             None \<Rightarrow> Inr None
           | Some m \<Rightarrow> if py_strip m = [] then Inr None else parse_amount False m))"

section \<open>Events and late money\<close>

text \<open>\<open>on conflict ... do update\<close>: an event with the key is returned, else one is stored.\<close>

definition enqueue_outbox ::
  "timestamp \<Rightarrow> uuid \<Rightarrow> string \<Rightarrow> string \<Rightarrow> string \<Rightarrow> dict \<Rightarrow> string \<Rightarrow> db \<Rightarrow> business_event \<times> db" where
  "enqueue_outbox now bid event_type aggregate_type aggregate_id payload key d =
     (case find_row (\<lambda>b. bo_idempotency_key b = key) (business d) of
        Some b \<Rightarrow> (b, d)
      | None \<Rightarrow>
          let b = \<lparr>bo_id = bid, bo_event_type = event_type, bo_aggregate_type = aggregate_type,
                bo_aggregate_id = aggregate_id, bo_payload_json = payload, bo_idempotency_key = key,
                bo_status = BO_PENDING, bo_attempt_count = 0, bo_next_attempt_at = now,
                bo_locked_by = None, bo_locked_until = None, bo_last_error = None,
                bo_created_at = now, bo_processed_at = None\<rparr>
          in (b, d\<lparr>business := business d @ [b]\<rparr>))"

definition late_paid :: "timestamp \<Rightarrow> int \<Rightarrow> fields \<Rightarrow> payment \<Rightarrow> payment" where
  "late_paid now n v p =
     p\<lparr>p_status := P_PAID, p_revision := n, p_updated_at := now,
       p_paid_at := coalesce (p_paid_at p) (Some now),
       p_provider_response := coalesce (p_provider_response p) (Some (fields_json v))\<rparr>"

definition record_late_paid ::
  "timestamp \<Rightarrow> payment \<Rightarrow> string \<Rightarrow> fields \<Rightarrow> db \<Rightarrow> err + payment \<times> db" where
  "record_late_paid now p provider v d =
     (let d1 = update_payment (p_id p) (late_paid now (p_revision p + 1) v) d
      in case find_payment (p_id p) d1 of
           None \<Rightarrow> Inl Type_error
         | Some u \<Rightarrow>
             bind_ok (append_payment_log \<lparr>pe_payment_id = p_id p,
                 pe_event_id = ''late-paid:'' @ str_int (p_revision p + 1),
                 pe_event_type = ''payment.late_paid_recorded'',
                 pe_actor = provider @ ''-callback'', pe_payload_json = fields_json v\<rparr> d1)
               (\<lambda>d2. Inr (u, d2)))"

definition inbox_row :: "string \<Rightarrow> string \<Rightarrow> db \<Rightarrow> callback_inbox option" where
  "inbox_row provider event_id d =
     find_row (\<lambda>c. ci_provider c = provider \<and> ci_provider_event_id c = event_id) (inbox d)"

definition inbox_conflict :: "callback_inbox \<Rightarrow> string \<Rightarrow> bool" where
  "inbox_conflict c digest \<longleftrightarrow> py_strip (ci_payload_digest c) \<noteq> digest"

definition insert_inbox ::
  "timestamp \<Rightarrow> string \<Rightarrow> string \<Rightarrow> uuid \<Rightarrow> string \<Rightarrow> fields \<Rightarrow> db \<Rightarrow> err + db" where
  "insert_inbox now provider event_id payment_id digest v d =
     bind_ok (insert_row Unique_violation
         (\<lambda>c. ci_provider c = provider \<and> ci_provider_event_id c = event_id)
         \<lparr>ci_provider = provider, ci_provider_event_id = event_id, ci_payment_id = payment_id,
          ci_payload_digest = digest, ci_payload_json = fields_json v, ci_processed_at = now\<rparr>
         (inbox d))
       (\<lambda>rs. Inr (d\<lparr>inbox := rs\<rparr>))"

definition ensure_extra_refund ::
  "externals \<Rightarrow> timestamp \<Rightarrow> uuid \<Rightarrow> uuid \<Rightarrow> payment \<Rightarrow> string \<Rightarrow> string \<Rightarrow> db
    \<Rightarrow> err + payment option \<times> db" where
  "ensure_extra_refund x now rid nid p key why d =
     (if p_status p \<notin> set REFUNDABLE_PAYMENT_STATUSES then Inr (Some p, d)
      else bind_ok (ensure_automatic_refund_intent x now rid nid (p_id p) key why ''payment-service'' d)
        (\<lambda>(i, d1). Inr ((case i of Some j \<Rightarrow> ri_payment j | None \<Rightarrow> Some p), d1)))"

section \<open>The callback\<close>

text \<open>
  The channel's trade number: the first one recorded is the fact, another one is refused, and
  so is one that funds another payment.
\<close>

definition confirm_trade_no ::
  "timestamp \<Rightarrow> string \<Rightarrow> fields \<Rightarrow> payment \<Rightarrow> db \<Rightarrow> err + payment \<times> db" where
  "confirm_trade_no now provider v p d =
     (case fget_or v ''trade_no'' ''provider_trade_no'' of
        None \<Rightarrow> Inr (p, d)
      | Some no \<Rightarrow>
          if no = [] then Inr (p, d)
          else
            let recorded = py_strip (coalesce_to (p_provider_trade_no p) []);
                incoming = py_strip no
            in if recorded \<noteq> [] \<and> recorded \<noteq> incoming
               then Inl (http_error 409 ''provider trade number conflict'')
               else if find_row (\<lambda>q. p_provider q = provider \<and> p_provider_trade_no q = Some no
                        \<and> p_id q \<noteq> p_id p) (payments d) \<noteq> None
               then Inl (http_error 409 ''provider trade number conflict'')
               else
                 let d1 = update_payment (p_id p) (\<lambda>q. q\<lparr>p_provider_trade_no := Some no,
                       p_provider_response := Some (fields_json v), p_updated_at := now\<rparr>) d
                 in case find_payment (p_id p) d1 of
                      None \<Rightarrow> Inl Type_error
                    | Some u \<Rightarrow> Inr (u, d1))"

text \<open>Recording that money arrived: the payment, and whether the fact was known already.\<close>

definition record_paid_fact ::
  "timestamp \<Rightarrow> string \<Rightarrow> fields \<Rightarrow> payment \<Rightarrow> db \<Rightarrow> err + (payment \<times> bool) \<times> db" where
  "record_paid_fact now provider v p d =
     (if p_status p \<in> set PAID_CALLBACK_STATUSES then Inr ((p, True), d)
      else if p_status p \<in> set [P_CLOSED, P_FAILED] then
        bind_ok (record_late_paid now p provider v d) (\<lambda>(u, d1). Inr ((u, False), d1))
      else transition_payment now p P_PAID (provider @ ''-callback'') (fields_json v) d)"

text \<open>
  The order side. A dead order gets its money back and never revives; known money changes
  nothing; money on another payment than the order's is returned; the first payment of a live
  order makes it paid and announces it once.
\<close>

definition route_dead_order ::
  "externals \<Rightarrow> timestamp \<Rightarrow> uuid \<Rightarrow> uuid \<Rightarrow> sales_order \<Rightarrow> payment \<Rightarrow> db
    \<Rightarrow> err + payment option \<times> db" where
  "route_dead_order x now rid nid r p d =
     (let d1 = (if o_paid_payment_id r = None then set_paid_payment_id now (o_id r) (p_id p) d else d);
          primary = coalesce (o_paid_payment_id r) (Some (p_id p));
          d2 = (if str_uuid_opt primary = uuid_str (p_id p) then
                  orders_update (update_rows (\<lambda>q. o_id q = o_id r
                      \<and> o_payment_status q \<in> set [OP_NOT_STARTED, OP_PENDING, OP_PAID, OP_PARTIALLY_REFUNDED])
                    (\<lambda>q. q\<lparr>o_payment_status := OP_REFUNDING, o_updated_at := now\<rparr>)) d1
                else d1)
      in ensure_extra_refund x now rid nid p
           (''payment:'' @ uuid_str (p_id p) @ '':cancelled-order-refund'')
           ''payment completed after order cancellation'' d2)"

definition route_live_order ::
  "externals \<Rightarrow> timestamp \<Rightarrow> uuid \<Rightarrow> uuid \<Rightarrow> uuid \<Rightarrow> sales_order \<Rightarrow> payment \<Rightarrow> db
    \<Rightarrow> err + payment option \<times> db" where
  "route_live_order x now rid nid bid r p d =
     (let d1 = (if o_paid_payment_id r = None then set_paid_payment_id now (o_id r) (p_id p) d else d);
          primary = coalesce (o_paid_payment_id r) (Some (p_id p))
      in if str_uuid_opt primary \<noteq> uuid_str (p_id p) then
           ensure_extra_refund x now rid nid p
             (''payment:'' @ uuid_str (p_id p) @ '':extra-paid-refund'')
             ''duplicate payment received for order'' d1
         else if o_payment_status r \<noteq> OP_PAID then
           let d2 = update_order (o_id r) (\<lambda>q. q\<lparr>o_payment_status := OP_PAID,
                 o_status := (if o_status q \<in> set [O_CREATED, O_AWAITING_PAYMENT] then O_PAID
                   else o_status q), o_updated_at := now\<rparr>) d1;
               (_, d3) = enqueue_outbox now bid ''payment.paid'' ''payment'' (uuid_str (p_id p))
                 [(''paymentId'', JStr (uuid_str (p_id p))), (''orderId'', JStr (uuid_str (o_id r))),
                  (''terminalId'', JInt (o_terminal_id r))]
                 (''payment:'' @ uuid_str (p_id p) @ '':paid'') d2
           in Inr (Some p, d3)
         else Inr (Some p, d1))"

definition route_money ::
  "externals \<Rightarrow> timestamp \<Rightarrow> uuid \<Rightarrow> uuid \<Rightarrow> uuid \<Rightarrow> sales_order \<Rightarrow> payment \<Rightarrow> bool \<Rightarrow> db
    \<Rightarrow> err + (payment option \<times> bool) \<times> db" where
  "route_money x now rid nid bid r p dup d =
     (if o_status r \<in> set DEAD_ORDER_STATUSES then
        (if dup then Inr ((Some p, dup), d)
         else bind_ok (route_dead_order x now rid nid r p d) (\<lambda>(u, d1). Inr ((u, dup), d1)))
      else if dup then Inr ((Some p, True), d)
      else bind_ok (route_live_order x now rid nid bid r p d) (\<lambda>(u, d1). Inr ((u, dup), d1)))"

text \<open>
  \<open>apply_paid_callback\<close>: the payment row, the inbox and the order are read again under the row
  locks, which within one transaction finds the same rows.
\<close>

definition apply_paid_callback ::
  "externals \<Rightarrow> timestamp \<Rightarrow> uuid \<Rightarrow> uuid \<Rightarrow> uuid \<Rightarrow> string \<Rightarrow> string \<Rightarrow> fields \<Rightarrow> db
    \<Rightarrow> err + (payment option \<times> bool) \<times> db" where
  "apply_paid_callback x now rid nid bid provider event_id v d =
     (let digest = canonical_digest x (fields_json v) in
      case inbox_row provider event_id d of
        Some c \<Rightarrow>
          if inbox_conflict c digest then Inl (http_error 409 ''provider event id payload conflict'')
          else Inr ((find_payment (ci_payment_id c) d, True), d)
      | None \<Rightarrow>
          let merchant_no = coalesce_to (fget_or v ''out_trade_no'' ''merchant_payment_no'') [] in
          case find_row (\<lambda>p. p_provider p = provider \<and> p_merchant_payment_no p = merchant_no) (payments d) of
            None \<Rightarrow> Inl (http_error 404 ''payment not found'')
          | Some p \<Rightarrow>
              bind_ok (callback_amount_minor v) (\<lambda>amount.
              case amount of
                None \<Rightarrow> Inl (http_error 409 ''payment callback amount is required'')
              | Some n \<Rightarrow>
                  if n \<noteq> p_amount_minor p
                  then Inl (http_error 409 ''payment callback amount mismatch'')
                  else case find_order (p_order_id p) d of
                    None \<Rightarrow> Inl (http_error 404 ''order not found'')
                  | Some r \<Rightarrow>
                      (case find_payment (p_id p) d of
                         None \<Rightarrow> Inl Assertion_error
                       | Some p0 \<Rightarrow>
                           (case inbox_row provider event_id d of
                              Some c \<Rightarrow>
                                if inbox_conflict c digest
                                then Inl (http_error 409 ''provider event id payload conflict'')
                                else Inr ((Some p0, True), d)
                            | None \<Rightarrow>
                                bind_ok (confirm_trade_no now provider v p0 d) (\<lambda>(p1, d1).
                                bind_ok (record_paid_fact now provider v p1 d1) (\<lambda>((p2, dup), d2).
                                bind_ok (insert_inbox now provider event_id (p_id p2) digest v d2) (\<lambda>d3.
                                route_money x now rid nid bid r p2 dup d3)))))))"

section \<open>The ledger through a callback\<close>

lemma find_payment_same:
  "find_payment k d = Some p \<Longrightarrow> find_payment (p_id p) d = Some p"
  using find_payment_SomeD by fastforce

text \<open>Rewriting columns of one payment that the ledger does not read.\<close>

lemma ledger_soft_update:
  assumes led: "refund_ledger d"
    and f: "\<And>p. p_id (f p) = p_id p" "\<And>p. p_status (f p) = p_status p"
      "\<And>p. p_amount_minor (f p) = p_amount_minor p" "\<And>p. p_revision (f p) = p_revision p"
  shows "refund_ledger (update_payment k f d)"
proof (cases "find_payment k d")
  case None
  then have "update_rows (\<lambda>p. p_id p = k) f (payments d) = payments d"
    by (intro update_rows_none) (auto simp: find_payment_def find_row_None)
  then have "payments (update_payment k f d) = payments d"
    by (simp add: update_payment_def)
  then have "refund_ledger (update_payment k f d) = refund_ledger d"
    by (intro refund_ledger_cong) (simp_all add: update_payment_def)
  with led show ?thesis by simp
next
  case (Some p)
  have "settled d (f p)"
    using led find_payment_SomeD[OF Some] payment_target_cong[of d d "f p" p]
    by (auto simp: refund_ledger_def settled_def f)
  with led show ?thesis
    by (intro ledger_payment_update[where es = "[]" and f = f, OF _ _ Some])
      (auto simp: refund_ledger_def update_payment_def f find_payment_SomeD[OF Some])
qed

text \<open>Money arriving on a payment without refunds settles as paid.\<close>

lemma unreceived_target:
  assumes led: "refund_ledger d" and p: "p \<in> set (payments d)"
    and st: "p_status p \<notin> set received_statuses"
  shows "payment_target p d = P_PAID"
proof -
  have none: "\<forall>r \<in> set (refunds d). r_payment_id r \<noteq> p_id p"
    using led p st by (auto simp: refund_ledger_def settled_def)
  then have "refunds_of (p_id p) S d = []" for S
    by (auto simp: refunds_of_def filter_empty_conv)
  moreover have "\<not> inflight_refund_exists (p_id p) d"
    using none by (auto simp: inflight_refund_exists_def list_ex_iff)
  moreover have "0 < p_amount_minor p"
    using led p by (simp add: refund_ledger_def ledger_base_def)
  ultimately show ?thesis by (simp add: payment_target_def refunded_total_def)
qed

lemma late_paid_sel [simp]:
  "p_id (late_paid now n v p) = p_id p" "p_status (late_paid now n v p) = P_PAID"
  "p_amount_minor (late_paid now n v p) = p_amount_minor p"
  "p_revision (late_paid now n v p) = n" "p_order_id (late_paid now n v p) = p_order_id p"
  by (simp_all add: late_paid_def)

lemma append_payment_log_Inr:
  "append_payment_log e d = Inr d' \<Longrightarrow> d' = d\<lparr>payment_log := payment_log d @ [e]\<rparr>"
  by (auto simp: append_payment_log_def bind_ok_Inr insert_row_Inr)

lemma record_late_paid_ledger:
  assumes led: "refund_ledger d" and p: "find_payment (p_id p) d = Some p"
    and st: "p_status p \<notin> set received_statuses"
    and step: "record_late_paid now p provider v d = Inr (u, d')"
  shows "refund_ledger d'" "find_payment (p_id p) d' = Some u" "p_status u = P_PAID" "p_id u = p_id p"
    "p_amount_minor u = p_amount_minor p" "refunds d' = refunds d" "orders d' = orders d" "inbox d' = inbox d" "business d' = business d"
proof -
  let ?n = "p_revision p + 1"
  let ?e = "\<lparr>pe_payment_id = p_id p, pe_event_id = ''late-paid:'' @ str_int ?n,
      pe_event_type = ''payment.late_paid_recorded'', pe_actor = provider @ ''-callback'',
      pe_payload_json = fields_json v\<rparr>"
  have fu: "find_payment (p_id p) (update_payment (p_id p) (late_paid now ?n v) d) = Some (late_paid now ?n v p)"
    using p by (simp add: find_payment_update_payment)
  from step fu have app: "append_payment_log ?e (update_payment (p_id p) (late_paid now ?n v) d) = Inr d'"
    and u: "u = late_paid now ?n v p"
    by (auto simp only: record_late_paid_def Let_def bind_ok_Inr option.case prod.inject sum.inject)
  have d': "d' = (update_payment (p_id p) (late_paid now ?n v) d)\<lparr>payment_log := payment_log d @ [?e]\<rparr>"
    using append_payment_log_Inr[OF app] by (simp add: update_payment_def)
  have pin: "p \<in> set (payments d)" using find_payment_SomeD[OF p] by simp
  have "settled d (late_paid now ?n v p)"
    using unreceived_target[OF led pin st] payment_target_cong[of d d "late_paid now ?n v p" p]
    by (simp add: settled_def received_statuses_def)
  then show "refund_ledger d'"
    using led unfolding d'
    by (intro ledger_payment_update[where es = "[?e]" and f = "late_paid now ?n v", OF _ _ p])
      (auto simp: refund_ledger_def update_payment_def starts_with_def)
  show "find_payment (p_id p) d' = Some u" "p_status u = P_PAID" "p_id u = p_id p"
    "p_amount_minor u = p_amount_minor p" "refunds d' = refunds d" "orders d' = orders d" "inbox d' = inbox d" "business d' = business d"
    using fu by (simp_all add: d' u find_payment_def update_payment_def)
qed

text \<open>What confirming a trade number and recording the fact leave.\<close>

lemma confirm_trade_no_Inr:
  assumes step: "confirm_trade_no now provider v p d = Inr (u, d')"
    and p: "find_payment (p_id p) d = Some p"
  shows "refund_ledger d \<Longrightarrow> refund_ledger d'" "find_payment (p_id p) d' = Some u"
    "p_id u = p_id p" "p_status u = p_status p" "p_amount_minor u = p_amount_minor p"
    "received d' k = received d k" "refunds d' = refunds d" "orders d' = orders d"
    "inbox d' = inbox d" "business d' = business d" "production_part d' = production_part d"
proof -
  define f where "f = (\<lambda>no q. q\<lparr>p_provider_trade_no := Some no,
      p_provider_response := Some (fields_json v), p_updated_at := now\<rparr> :: payment)"
  have f: "p_id (f no q) = p_id q" "p_status (f no q) = p_status q"
    "p_amount_minor (f no q) = p_amount_minor q" "p_revision (f no q) = p_revision q" for no q
    by (simp_all add: f_def)
  from step p consider "u = p" "d' = d"
    | no where "u = f no p" "d' = update_payment (p_id p) (f no) d"
    by (auto simp: confirm_trade_no_def Let_def f_def find_payment_update_payment split: option.splits if_splits)
  note cs = this
  show "refund_ledger d \<Longrightarrow> refund_ledger d'"
    using cs by cases (simp_all add: ledger_soft_update f)
  show "received d' k = received d k"
    using cs by cases (simp_all add: received_update_payment f)
  show "find_payment (p_id p) d' = Some u"
    using cs p by cases (simp_all add: find_payment_update_payment f)
  show "p_id u = p_id p" "p_status u = p_status p" "p_amount_minor u = p_amount_minor p"
    using cs by (cases; simp add: f)+
  show "refunds d' = refunds d" "orders d' = orders d" "inbox d' = inbox d" "business d' = business d"
    using cs by (cases; simp add: update_payment_def)+
  show "production_part d' = production_part d"
    using cs by cases simp_all
qed

lemma record_paid_fact_Inr:
  assumes step: "record_paid_fact now provider v p d = Inr ((u, dup), d')"
    and p: "find_payment (p_id p) d = Some p" and led: "refund_ledger d"
  shows "refund_ledger d'" "find_payment (p_id p) d' = Some u" "p_id u = p_id p"
    "p_status u \<in> set received_statuses"
    "dup \<longleftrightarrow> p_status p \<in> set received_statuses" "dup \<Longrightarrow> d' = d \<and> u = p"
    "\<not> dup \<Longrightarrow> p_status u = P_PAID" "p_amount_minor u = p_amount_minor p"
    "refunds d' = refunds d" "orders d' = orders d" "inbox d' = inbox d" "business d' = business d"
proof -
  have "refund_ledger d' \<and> find_payment (p_id p) d' = Some u \<and> p_id u = p_id p
    \<and> p_status u \<in> set received_statuses \<and> (dup \<longleftrightarrow> p_status p \<in> set received_statuses)
    \<and> (dup \<longrightarrow> d' = d \<and> u = p) \<and> (\<not> dup \<longrightarrow> p_status u = P_PAID)
    \<and> p_amount_minor u = p_amount_minor p
    \<and> refunds d' = refunds d \<and> orders d' = orders d \<and> inbox d' = inbox d \<and> business d' = business d"
  proof (cases "p_status p \<in> set received_statuses")
    case True
    then have "p_status p \<in> set PAID_CALLBACK_STATUSES"
      by (simp add: PAID_CALLBACK_STATUSES_def received_statuses_def)
    with step have "u = p" "dup" "d' = d" by (simp_all add: record_paid_fact_def)
    with True led p show ?thesis by simp
  next
    case un: False
    then have nc: "p_status p \<notin> set PAID_CALLBACK_STATUSES"
      by (simp add: PAID_CALLBACK_STATUSES_def received_statuses_def)
    have pin: "p \<in> set (payments d)" using find_payment_SomeD[OF p] by simp
    show ?thesis
    proof (cases "p_status p \<in> set [P_CLOSED, P_FAILED]")
      case True
      with step nc have "record_late_paid now p provider v d = Inr (u, d')" "\<not> dup"
        by (auto simp: record_paid_fact_def bind_ok_Inr)
      with record_late_paid_ledger[OF led p un this(1)] un show ?thesis
        by (simp add: received_statuses_def)
    next
      case False
      with step nc have tp: "transition_payment now p P_PAID (provider @ ''-callback'') (fields_json v) d
          = Inr ((u, dup), d')" by (simp add: record_paid_fact_def)
      have st: "p_status p = P_CREATED \<or> p_status p = P_PENDING"
        using False nc by (cases "p_status p") (simp_all add: PAID_CALLBACK_STATUSES_def)
      have base: "ledger_base d" using led by (simp add: refund_ledger_def)
      have tg: "P_PAID = payment_target p d" using unreceived_target[OF led pin un] by simp
      have mv: "p_status p = P_PAID \<or> payment_decision.moves (p_status p) P_PAID"
        using st by (auto simp: payment_moves_iff)
      have "\<And>q. q \<in> set (payments d) \<Longrightarrow> settled d q" using led by (simp add: refund_ledger_def)
      from transition_payment_ledger[OF base p this mv tg, where now = now
          and actor = "provider @ ''-callback''" and payload = "fields_json v"] tp
      have l: "refund_ledger d'" "refunds d' = refunds d" "orders d' = orders d"
        by (auto simp: received_statuses_def)
      from tp have "u = payment_moved now P_PAID (p_revision p + 1) p \<and> \<not> dup
          \<and> find_payment (p_id p) d' = Some u"
      proof (cases rule: transition_payment_cases)
        case 1
        with st show ?thesis by auto
      next
        case (2 l p0)
        have "find_payment (p_id p) d' = find_payment (p_id p)
            (update_payment (p_id p) (payment_moved now P_PAID (p_revision p + 1)) d)"
          by (simp add: 2(5) find_payment_def)
        also have "\<dots> = Some u" using 2(2,3) by (simp add: find_payment_update_payment)
        finally show ?thesis using 2 p by simp
      qed
      with l un transition_payment_frame(11,12)[OF tp] show ?thesis
        by (simp add: received_statuses_def)
    qed
  qed
  then show "refund_ledger d'" "find_payment (p_id p) d' = Some u" "p_id u = p_id p"
    "p_status u \<in> set received_statuses"
    "dup \<longleftrightarrow> p_status p \<in> set received_statuses" "dup \<Longrightarrow> d' = d \<and> u = p"
    "\<not> dup \<Longrightarrow> p_status u = P_PAID" "p_amount_minor u = p_amount_minor p"
    "refunds d' = refunds d" "orders d' = orders d" "inbox d' = inbox d" "business d' = business d"
    by blast+
qed

lemma insert_inbox_Inr:
  assumes "insert_inbox now provider event_id k dg v d = Inr d'"
  shows "\<exists>cs. d' = d\<lparr>inbox := cs\<rparr>" "inbox_row provider event_id d' = Some
    \<lparr>ci_provider = provider, ci_provider_event_id = event_id, ci_payment_id = k,
     ci_payload_digest = dg, ci_payload_json = fields_json v, ci_processed_at = now\<rparr>"
    "orders d' = orders d" "business d' = business d" "refunds d' = refunds d"
    "payments d' = payments d" "payment_log d' = payment_log d" "production_part d' = production_part d"
proof -
  let ?c = "\<lparr>ci_provider = provider, ci_provider_event_id = event_id, ci_payment_id = k,
     ci_payload_digest = dg, ci_payload_json = fields_json v, ci_processed_at = now\<rparr>"
  have d': "d' = d\<lparr>inbox := inbox d @ [?c]\<rparr>"
    and none: "find_row (\<lambda>c. ci_provider c = provider \<and> ci_provider_event_id c = event_id) (inbox d) = None"
    using assms by (auto simp: insert_inbox_def bind_ok_Inr insert_row_Inr find_row_None)
  show "inbox_row provider event_id d' = Some ?c"
    using none by (simp add: d' inbox_row_def find_row_append)
  show "\<exists>cs. d' = d\<lparr>inbox := cs\<rparr>" "orders d' = orders d" "business d' = business d"
    "refunds d' = refunds d" "payments d' = payments d" "payment_log d' = payment_log d"
    "production_part d' = production_part d"
    using d' by auto
qed

text \<open>A callback that succeeds either was seen before or goes through every stage.\<close>

lemma apply_paid_callback_InrE:
  assumes step: "apply_paid_callback x now rid nid bid provider event_id v d = Inr ((res, dup), d')"
  obtains (seen) c where "inbox_row provider event_id d = Some c"
      and "\<not> inbox_conflict c (canonical_digest x (fields_json v))"
      and "res = find_payment (ci_payment_id c) d" and "dup" and "d' = d"
  | (processed) p p0 r p1 d1 p2 d2 d3 where "inbox_row provider event_id d = None"
      and "find_row (\<lambda>p. p_provider p = provider \<and> p_merchant_payment_no p
             = coalesce_to (fget_or v ''out_trade_no'' ''merchant_payment_no'') []) (payments d) = Some p"
      and "callback_amount_minor v = Inr (Some (p_amount_minor p))"
      and "find_order (p_order_id p) d = Some r"
      and "find_payment (p_id p) d = Some p0"
      and "confirm_trade_no now provider v p0 d = Inr (p1, d1)"
      and "record_paid_fact now provider v p1 d1 = Inr ((p2, dup), d2)"
      and "insert_inbox now provider event_id (p_id p2) (canonical_digest x (fields_json v)) v d2 = Inr d3"
      and "route_money x now rid nid bid r p2 dup d3 = Inr ((res, dup), d')"
proof (cases "inbox_row provider event_id d")
  case (Some c)
  with step show ?thesis
    by (intro seen) (auto simp: apply_paid_callback_def Let_def split: if_splits)
next
  case None
  let ?P = "\<lambda>p. p_provider p = provider \<and> p_merchant_payment_no p
      = coalesce_to (fget_or v ''out_trade_no'' ''merchant_payment_no'') []"
  have dup: "b' = b" if "route_money x now rid nid bid r p b y = Inr ((q, b'), y')" for r p b y q b' y'
    using that by (auto simp: route_money_def bind_ok_Inr split: if_splits)
  obtain p where p: "find_row ?P (payments d) = Some p"
    using step None by (auto simp: apply_paid_callback_def Let_def split: option.splits)
  obtain n where n: "callback_amount_minor v = Inr (Some n)"
    using step None p by (auto simp: apply_paid_callback_def Let_def bind_ok_Inr split: option.splits)
  have n': "n = p_amount_minor p"
    using step None p n by (auto simp: apply_paid_callback_def Let_def split: if_splits)
  obtain r where r: "find_order (p_order_id p) d = Some r"
    using step None p n n' by (auto simp: apply_paid_callback_def Let_def split: option.splits)
  obtain p0 where p0: "find_payment (p_id p) d = Some p0"
    using step None p n n' r by (auto simp: apply_paid_callback_def Let_def split: option.splits)
  have rest: "bind_ok (confirm_trade_no now provider v p0 d) (\<lambda>(p1, d1).
      bind_ok (record_paid_fact now provider v p1 d1) (\<lambda>((p2, dup), d2).
      bind_ok (insert_inbox now provider event_id (p_id p2) (canonical_digest x (fields_json v)) v d2) (\<lambda>d3.
      route_money x now rid nid bid r p2 dup d3))) = Inr ((res, dup), d')"
    using step None p n n' r p0 by (simp add: apply_paid_callback_def Let_def)
  then obtain p1 d1 p2 b d2 d3 where *: "confirm_trade_no now provider v p0 d = Inr (p1, d1)"
    "record_paid_fact now provider v p1 d1 = Inr ((p2, b), d2)"
    "insert_inbox now provider event_id (p_id p2) (canonical_digest x (fields_json v)) v d2 = Inr d3"
    "route_money x now rid nid bid r p2 b d3 = Inr ((res, dup), d')"
    by (auto simp: bind_ok_Inr)
  with dup[OF *(4)] n n' show ?thesis
    using processed[OF None p _ r p0 *(1)] by simp
qed

lemma record_paid_fact_others:
  assumes step: "record_paid_fact now provider v p d = Inr ((u, dup), d')" and k: "k \<noteq> p_id p"
  shows "find_payment k d' = find_payment k d" "production_part d' = production_part d"
proof -
  have "find_payment k d' = find_payment k d \<and> production_part d' = production_part d"
  proof (cases "p_status p \<in> set PAID_CALLBACK_STATUSES")
    case True
    with step show ?thesis by (simp add: record_paid_fact_def)
  next
    case nc: False
    have log: "find_payment k (y\<lparr>payment_log := l\<rparr>) = find_payment k y" for y l
      by (simp add: find_payment_def)
    show ?thesis
    proof (cases "p_status p \<in> set [P_CLOSED, P_FAILED]")
      case True
      with step nc show ?thesis using k
        by (auto simp: record_paid_fact_def record_late_paid_def Let_def bind_ok_Inr
            find_payment_update_payment log dest!: append_payment_log_Inr split: option.splits)
    next
      case False
      with step nc have tp: "transition_payment now p P_PAID (provider @ ''-callback'') (fields_json v) d
          = Inr ((u, dup), d')" by (simp add: record_paid_fact_def)
      then have "find_payment k d' = find_payment k d"
      proof (cases rule: transition_payment_cases)
        case (2 l p0)
        with k show ?thesis by (simp add: log find_payment_update_payment)
      qed simp
      with transition_payment_production[OF tp] show ?thesis by simp
    qed
  qed
  then show "find_payment k d' = find_payment k d" "production_part d' = production_part d" by auto
qed

section \<open>Where the money goes\<close>

lemma ensure_extra_refund_Inr:
  assumes step: "ensure_extra_refund x now rid nid p key why d = Inr (u, d')"
  shows "refund_ledger d \<Longrightarrow> refund_ledger d'" "received d' k = received d k"
    "inbox d' = inbox d" "business d' = business d" "production_part d' = production_part d"
proof -
  from step consider "d' = d"
    | i where "ensure_automatic_refund_intent x now rid nid (p_id p) key why ''payment-service'' d = Inr (i, d')"
    by (auto simp: ensure_extra_refund_def bind_ok_Inr split: if_splits)
  note cs = this
  show "refund_ledger d \<Longrightarrow> refund_ledger d'" using cs by cases (simp_all add: ensure_ledger)
  show "received d' k = received d k" using cs by cases (simp_all add: ensure_received)
  show "inbox d' = inbox d" "business d' = business d" "production_part d' = production_part d"
    using cs by (cases; simp add: ensure_frame ensure_production)+
qed

lemma ensure_extra_refund_covers:
  assumes step: "ensure_extra_refund x now rid nid p key why d = Inr (u, d')"
    and led: "refund_ledger d" and p: "find_payment (p_id p) d = Some p" and st: "p_status p = P_PAID"
    and none: "\<forall>r \<in> set (refunds d). r_payment_id r \<noteq> p_id p"
  shows "remaining_budget p d' = 0"
proof -
  have rf: "p_status p \<in> set REFUNDABLE_PAYMENT_STATUSES"
    using st by (simp add: REFUNDABLE_PAYMENT_STATUSES_def)
  have "find_refund_idempotent (p_id p) key d = None"
    using none by (auto simp: find_refund_idempotent_def find_row_None)
  moreover from step rf obtain i where
    "ensure_automatic_refund_intent x now rid nid (p_id p) key why ''payment-service'' d = Inr (i, d')"
    by (auto simp: ensure_extra_refund_def bind_ok_Inr)
  ultimately show ?thesis
    using ensure_covers[OF led p rf, where x = x and now = now and rid = rid and nid = nid
        and key = key and why = why and actor = "''payment-service''"] by simp
qed

lemma str_uuid_opt_Some [simp]: "str_uuid_opt (Some a) = uuid_str b \<longleftrightarrow> a = b"
  by (cases a; cases b) (simp add: str_uuid_opt_def)

lemma orders_update_frame [simp]:
  "payments (orders_update g d) = payments d" "refunds (orders_update g d) = refunds d"
  "payment_log (orders_update g d) = payment_log d" "inbox (orders_update g d) = inbox d"
  "business (orders_update g d) = business d"
  by simp_all

lemma money_tables_cong:
  assumes "payments d' = payments d" "refunds d' = refunds d" "payment_log d' = payment_log d"
  shows "refund_ledger d \<Longrightarrow> refund_ledger d'" "received d' k = received d k"
    "find_payment k d' = find_payment k d"
  using refund_ledger_cong[OF assms] received_cong[OF assms(1)] assms(1)
  by (simp_all add: find_payment_def)

text \<open>The order side of a dead order: only money columns, then the refund.\<close>

lemma route_dead_order_Inr:
  assumes step: "route_dead_order x now rid nid r p d = Inr (u, d')"
  shows "refund_ledger d \<Longrightarrow> refund_ledger d'" "received d' k = received d k"
    "inbox d' = inbox d" "business d' = business d" "production_part d' = production_part d"
    "refund_ledger d \<Longrightarrow> find_payment (p_id p) d = Some p \<Longrightarrow> p_status p = P_PAID \<Longrightarrow>
      \<forall>r \<in> set (refunds d). r_payment_id r \<noteq> p_id p \<Longrightarrow> remaining_budget p d' = 0"
proof -
  from step obtain d2 key why where ex: "ensure_extra_refund x now rid nid p key why d2 = Inr (u, d')"
    and d2: "payments d2 = payments d" "refunds d2 = refunds d" "payment_log d2 = payment_log d"
      "inbox d2 = inbox d" "business d2 = business d" "production_part d2 = production_part d"
  proof -
    define d1 where "d1 = (if o_paid_payment_id r = None then set_paid_payment_id now (o_id r) (p_id p) d else d)"
    have f1: "payments d1 = payments d" "refunds d1 = refunds d" "payment_log d1 = payment_log d"
      "inbox d1 = inbox d" "business d1 = business d" "production_part d1 = production_part d"
      by (simp_all add: d1_def) (simp_all add: set_paid_payment_id_def)
    have pp: "production_part (orders_update (update_rows P (\<lambda>q. q\<lparr>o_payment_status := OP_REFUNDING, o_updated_at := now\<rparr>)) d1)
        = production_part d1" for P
      by (rule production_part_orders) (simp add: order_core_def)
    show thesis
      using step unfolding route_dead_order_def Let_def d1_def[symmetric]
      by (rule that) (use f1 pp in \<open>simp_all split: if_split\<close>)
  qed
  note e = ensure_extra_refund_Inr[OF ex] and c = money_tables_cong[OF d2(1-3)]
  show "refund_ledger d \<Longrightarrow> refund_ledger d'" using e(1) c(1) by blast
  show "received d' k = received d k" using e(2) c(2) by simp
  show "inbox d' = inbox d" "business d' = business d" "production_part d' = production_part d"
    using e(3-5) d2 by simp_all
  show "remaining_budget p d' = 0" if "refund_ledger d" "find_payment (p_id p) d = Some p"
      "p_status p = P_PAID" "\<forall>r \<in> set (refunds d). r_payment_id r \<noteq> p_id p"
    using ensure_extra_refund_covers[OF ex] that c d2(2) by simp
qed

text \<open>The order side of a live order: the money is returned, or the order is paid by it.\<close>

definition order_paid_by :: "db \<Rightarrow> uuid \<Rightarrow> uuid \<Rightarrow> bool" where
  "order_paid_by d k pid \<longleftrightarrow>
     (case find_order k d of None \<Rightarrow> False
      | Some r \<Rightarrow> o_payment_status r = OP_PAID \<and> o_paid_payment_id r = Some pid
          \<and> o_status r \<notin> set [O_CREATED, O_AWAITING_PAYMENT])"

definition paid_event_key :: "uuid \<Rightarrow> string" where
  "paid_event_key pid = ''payment:'' @ uuid_str pid @ '':paid''"

definition paid_event_queued :: "db \<Rightarrow> uuid \<Rightarrow> bool" where
  "paid_event_queued d pid \<longleftrightarrow> list_ex (\<lambda>b. bo_idempotency_key b = paid_event_key pid) (business d)"

lemma enqueue_outbox_frame:
  assumes "enqueue_outbox now bid t a i v key d = (b, d')"
  shows "d' = d\<lparr>business := business d'\<rparr>" "list_ex (\<lambda>b. bo_idempotency_key b = key) (business d')"
proof -
  have "d' = d\<lparr>business := business d'\<rparr> \<and> list_ex (\<lambda>b. bo_idempotency_key b = key) (business d')"
    using assms
    by (auto simp: enqueue_outbox_def Let_def list_ex_iff split: option.splits dest: find_row_SomeD)
  then show "d' = d\<lparr>business := business d'\<rparr>"
    "list_ex (\<lambda>b. bo_idempotency_key b = key) (business d')" by auto
qed

lemma route_live_order_cases:
  assumes step: "route_live_order x now rid nid bid r p d = Inr (u, d')"
    and r: "find_order (o_id r) d = Some r"
  obtains (extra) key why where "o_paid_payment_id r \<noteq> None" and "o_paid_payment_id r \<noteq> Some (p_id p)"
      and "ensure_extra_refund x now rid nid p key why d = Inr (u, d')"
  | (funds) d1 b where "o_paid_payment_id r = None \<or> o_paid_payment_id r = Some (p_id p)"
      and "o_payment_status r \<noteq> OP_PAID" and "u = Some p"
      and "d1 = (if o_paid_payment_id r = None then set_paid_payment_id now (o_id r) (p_id p) d else d)"
      and "enqueue_outbox now bid ''payment.paid'' ''payment'' (uuid_str (p_id p))
          [(''paymentId'', JStr (uuid_str (p_id p))), (''orderId'', JStr (uuid_str (o_id r))),
           (''terminalId'', JInt (o_terminal_id r))] (paid_event_key (p_id p))
          (update_order (o_id r) (\<lambda>q. q\<lparr>o_payment_status := OP_PAID,
             o_status := (if o_status q \<in> set [O_CREATED, O_AWAITING_PAYMENT] then O_PAID else o_status q),
             o_updated_at := now\<rparr>) d1) = (b, d')"
  | (shown) "o_paid_payment_id r = None \<or> o_paid_payment_id r = Some (p_id p)"
      and "o_payment_status r = OP_PAID" and "u = Some p"
      and "d' = (if o_paid_payment_id r = None then set_paid_payment_id now (o_id r) (p_id p) d else d)"
proof -
  consider "o_paid_payment_id r = None" | "o_paid_payment_id r = Some (p_id p)"
    | q where "o_paid_payment_id r = Some q" "q \<noteq> p_id p" by (cases "o_paid_payment_id r") auto
  then show ?thesis
  proof cases
    case 3
    with step show ?thesis by (intro extra) (auto simp: route_live_order_def Let_def)
  qed (cases "o_payment_status r = OP_PAID";
      use step in \<open>auto simp: route_live_order_def Let_def paid_event_key_def split: prod.splits intro: funds shown\<close>)+
qed

lemma find_order_set_paid:
  "find_order k' (set_paid_payment_id now k pid d) =
    (if k' = k then map_option (\<lambda>r. if o_paid_payment_id r = None
        then r\<lparr>o_paid_payment_id := Some pid, o_updated_at := now\<rparr> else r) (find_order k d)
     else find_order k' d)"
proof -
  have "set_paid_payment_id now k pid d = update_order k (\<lambda>r. if o_paid_payment_id r = None
      then r\<lparr>o_paid_payment_id := Some pid, o_updated_at := now\<rparr> else r) d"
    unfolding set_paid_payment_id_def update_order_def update_rows_def
    by (intro arg_cong[where f = "\<lambda>g. orders_update g d"] ext map_cong refl) auto
  then show ?thesis by (simp add: find_order_update_order)
qed

text \<open>The order after its primary payment is set, if it had none.\<close>

definition primary_set :: "timestamp \<Rightarrow> uuid \<Rightarrow> sales_order \<Rightarrow> sales_order" where
  "primary_set now pid r =
     (if o_paid_payment_id r = None then r\<lparr>o_paid_payment_id := Some pid, o_updated_at := now\<rparr> else r)"

lemma primary_set_sel [simp]:
  "o_status (primary_set now pid r) = o_status r"
  "o_payment_status (primary_set now pid r) = o_payment_status r"
  "o_id (primary_set now pid r) = o_id r"
  "o_paid_payment_id r = None \<or> o_paid_payment_id r = Some pid \<Longrightarrow>
    o_paid_payment_id (primary_set now pid r) = Some pid"
  by (auto simp: primary_set_def)

lemma find_order_primary:
  assumes "find_order (o_id r) d = Some r"
  shows "find_order i (if o_paid_payment_id r = None then set_paid_payment_id now (o_id r) pid d else d)
    = (if i = o_id r then Some (primary_set now pid r) else find_order i d)"
  using assms by (simp add: find_order_set_paid primary_set_def)

lemma set_paid_frame [simp]:
  "payments (set_paid_payment_id now k pid d) = payments d"
  "refunds (set_paid_payment_id now k pid d) = refunds d"
  "payment_log (set_paid_payment_id now k pid d) = payment_log d"
  "inbox (set_paid_payment_id now k pid d) = inbox d"
  "business (set_paid_payment_id now k pid d) = business d"
  by (simp_all add: set_paid_payment_id_def)

lemma route_live_order_Inr:
  assumes step: "route_live_order x now rid nid bid r p d = Inr (u, d')"
    and r: "find_order (o_id r) d = Some r"
  shows "refund_ledger d \<Longrightarrow> refund_ledger d'" "received d' k = received d k" "inbox d' = inbox d"
    "\<And>i s. find_order i d = Some s \<Longrightarrow> \<exists>s'. find_order i d' = Some s'
        \<and> (o_status s' = o_status s \<or> (o_status s \<in> set [O_CREATED, O_AWAITING_PAYMENT] \<and> o_status s' = O_PAID))"
    "\<lbrakk>refund_ledger d; find_payment (p_id p) d = Some p; p_status p = P_PAID;
      \<forall>r \<in> set (refunds d). r_payment_id r \<noteq> p_id p\<rbrakk> \<Longrightarrow> remaining_budget p d' = 0
        \<or> (map_option o_payment_status (find_order (o_id r) d') = Some OP_PAID
           \<and> Option.bind (find_order (o_id r) d') o_paid_payment_id = Some (p_id p)
           \<and> (o_payment_status r \<noteq> OP_PAID \<longrightarrow> paid_event_queued d' (p_id p)))"
proof -
  let ?g = "\<lambda>q. q\<lparr>o_payment_status := OP_PAID,
     o_status := (if o_status q \<in> set [O_CREATED, O_AWAITING_PAYMENT] then O_PAID else o_status q),
     o_updated_at := now\<rparr> :: sales_order"
  have all: "(refund_ledger d \<longrightarrow> refund_ledger d') \<and> received d' k = received d k \<and> inbox d' = inbox d
    \<and> (\<forall>i s. find_order i d = Some s \<longrightarrow> (\<exists>s'. find_order i d' = Some s'
        \<and> (o_status s' = o_status s \<or> (o_status s \<in> set [O_CREATED, O_AWAITING_PAYMENT] \<and> o_status s' = O_PAID))))
    \<and> (refund_ledger d \<and> find_payment (p_id p) d = Some p \<and> p_status p = P_PAID
      \<and> (\<forall>r \<in> set (refunds d). r_payment_id r \<noteq> p_id p) \<longrightarrow> remaining_budget p d' = 0
        \<or> (map_option o_payment_status (find_order (o_id r) d') = Some OP_PAID
           \<and> Option.bind (find_order (o_id r) d') o_paid_payment_id = Some (p_id p)
           \<and> (o_payment_status r \<noteq> OP_PAID \<longrightarrow> paid_event_queued d' (p_id p))))" for k
    using step r
  proof (cases rule: route_live_order_cases)
    case (extra key why)
    note e = ensure_extra_refund_Inr[OF extra(3)]
    have "\<exists>s'. find_order i d' = Some s' \<and> o_status s' = o_status s" if "find_order i d = Some s" for i s
      using find_order_status_core[OF e(5), of i] that by (auto simp: map_option_eq_Some)
    then show ?thesis
      using e ensure_extra_refund_covers[OF extra(3)] by blast
  next
    case (funds d1 b)
    have d1: "payments d1 = payments d" "refunds d1 = refunds d" "payment_log d1 = payment_log d"
      "inbox d1 = inbox d" by (simp_all add: funds(4))
    have o1: "find_order i d1 = (if i = o_id r then Some (primary_set now (p_id p) r) else find_order i d)" for i
      unfolding funds(4) by (rule find_order_primary[OF r])
    note f = enqueue_outbox_frame[OF funds(5)]
    have same: "payments d' = payments d" "refunds d' = refunds d" "payment_log d' = payment_log d"
      "inbox d' = inbox d" "orders d' = orders (update_order (o_id r) ?g d1)"
      by (subst f(1); simp add: update_order_def d1)+
    have o': "find_order i d' = (if i = o_id r then map_option ?g (find_order i d1) else find_order i d)" for i
    proof -
      have "find_order i d' = find_order i (update_order (o_id r) ?g d1)"
        by (simp only: find_order_def same(5))
      then show ?thesis by (simp add: find_order_update_order o1)
    qed
    have q: "paid_event_queued d' (p_id p)" using f(2) by (simp add: paid_event_queued_def)
    have st: "\<exists>s'. find_order i d' = Some s' \<and> (o_status s' = o_status s
        \<or> (o_status s \<in> set [O_CREATED, O_AWAITING_PAYMENT] \<and> o_status s' = O_PAID))"
      if "find_order i d = Some s" for i s
      using that r by (cases "i = o_id r") (simp_all add: o' o1)
    have "map_option o_payment_status (find_order (o_id r) d') = Some OP_PAID"
      "Option.bind (find_order (o_id r) d') o_paid_payment_id = Some (p_id p)"
      using funds(1) by (simp_all add: o' o1)
    with st q money_tables_cong[OF same(1-3)] same(4) show ?thesis by blast
  next
    case shown
    have same: "payments d' = payments d" "refunds d' = refunds d" "payment_log d' = payment_log d"
      "inbox d' = inbox d" by (simp_all add: shown(4))
    have o': "find_order i d' = (if i = o_id r then Some (primary_set now (p_id p) r) else find_order i d)" for i
      unfolding shown(4) by (rule find_order_primary[OF r])
    have st: "\<exists>s'. find_order i d' = Some s' \<and> (o_status s' = o_status s
        \<or> (o_status s \<in> set [O_CREATED, O_AWAITING_PAYMENT] \<and> o_status s' = O_PAID))"
      if "find_order i d = Some s" for i s
      using that r by (cases "i = o_id r") (simp_all add: o')
    have "map_option o_payment_status (find_order (o_id r) d') = Some OP_PAID"
      "Option.bind (find_order (o_id r) d') o_paid_payment_id = Some (p_id p)"
      using shown(1,2) by (simp_all add: o')
    with st shown(2) money_tables_cong[OF same(1-3)] same(4) show ?thesis by blast
  qed
  show "refund_ledger d \<Longrightarrow> refund_ledger d'" "received d' k = received d k" "inbox d' = inbox d"
    using all by blast+
  show "\<exists>s'. find_order i d' = Some s'
        \<and> (o_status s' = o_status s \<or> (o_status s \<in> set [O_CREATED, O_AWAITING_PAYMENT] \<and> o_status s' = O_PAID))"
    if "find_order i d = Some s" for i s using all that by blast
  show "remaining_budget p d' = 0
        \<or> (map_option o_payment_status (find_order (o_id r) d') = Some OP_PAID
           \<and> Option.bind (find_order (o_id r) d') o_paid_payment_id = Some (p_id p)
           \<and> (o_payment_status r \<noteq> OP_PAID \<longrightarrow> paid_event_queued d' (p_id p)))"
    if "refund_ledger d" "find_payment (p_id p) d = Some p" "p_status p = P_PAID"
      "\<forall>r \<in> set (refunds d). r_payment_id r \<noteq> p_id p" using all that by blast
qed

section \<open>The whole callback\<close>

lemma route_money_Inr:
  assumes step: "route_money x now rid nid bid r p dup d = Inr ((res, dup), d')"
    and r: "find_order (o_id r) d = Some r"
  shows "refund_ledger d \<Longrightarrow> refund_ledger d'" "received d' k = received d k" "inbox d' = inbox d"
    "dup \<Longrightarrow> d' = d \<and> res = Some p"
    "\<And>i s. find_order i d = Some s \<Longrightarrow> \<exists>s'. find_order i d' = Some s'
        \<and> (o_status s' = o_status s \<or> (o_status s \<in> set [O_CREATED, O_AWAITING_PAYMENT] \<and> o_status s' = O_PAID))"
    "\<lbrakk>\<not> dup; refund_ledger d; find_payment (p_id p) d = Some p; p_status p = P_PAID;
      \<forall>r \<in> set (refunds d). r_payment_id r \<noteq> p_id p\<rbrakk> \<Longrightarrow> remaining_budget p d' = 0
        \<or> (o_status r \<notin> set DEAD_ORDER_STATUSES
           \<and> map_option o_payment_status (find_order (o_id r) d') = Some OP_PAID
           \<and> Option.bind (find_order (o_id r) d') o_paid_payment_id = Some (p_id p)
           \<and> (o_payment_status r \<noteq> OP_PAID \<longrightarrow> paid_event_queued d' (p_id p)))"
proof -
  from step consider (dup) "dup" "d' = d" "res = Some p"
    | (dead) "\<not> dup" "o_status r \<in> set DEAD_ORDER_STATUSES"
        "route_dead_order x now rid nid r p d = Inr (res, d')"
    | (live) "\<not> dup" "o_status r \<notin> set DEAD_ORDER_STATUSES"
        "route_live_order x now rid nid bid r p d = Inr (res, d')"
    by (cases "o_status r \<in> set DEAD_ORDER_STATUSES"; cases dup)
      (auto simp: route_money_def bind_ok_Inr)
  note cs = this
  show "refund_ledger d \<Longrightarrow> refund_ledger d'"
    using cs by cases (simp_all add: route_dead_order_Inr(1) route_live_order_Inr(1)[OF _ r])
  show "received d' k = received d k"
    using cs by cases (simp_all add: route_dead_order_Inr(2) route_live_order_Inr(2)[OF _ r])
  show "inbox d' = inbox d"
    using cs by cases (simp_all add: route_dead_order_Inr(3) route_live_order_Inr(3)[OF _ r])
  show "dup \<Longrightarrow> d' = d \<and> res = Some p" using cs by cases simp_all
  show "\<exists>s'. find_order i d' = Some s'
        \<and> (o_status s' = o_status s \<or> (o_status s \<in> set [O_CREATED, O_AWAITING_PAYMENT] \<and> o_status s' = O_PAID))"
    if s: "find_order i d = Some s" for i s
    using cs
  proof cases
    case dead
    from find_order_status_core[OF route_dead_order_Inr(5)[OF dead(3)], of i] s show ?thesis
      by (auto simp: map_option_eq_Some)
  next
    case live
    from route_live_order_Inr(4)[OF live(3) r s] show ?thesis .
  qed (use s in simp)
  show "remaining_budget p d' = 0
        \<or> (o_status r \<notin> set DEAD_ORDER_STATUSES
           \<and> map_option o_payment_status (find_order (o_id r) d') = Some OP_PAID
           \<and> Option.bind (find_order (o_id r) d') o_paid_payment_id = Some (p_id p)
           \<and> (o_payment_status r \<noteq> OP_PAID \<longrightarrow> paid_event_queued d' (p_id p)))"
    if h: "\<not> dup" "refund_ledger d" "find_payment (p_id p) d = Some p" "p_status p = P_PAID"
      "\<forall>r \<in> set (refunds d). r_payment_id r \<noteq> p_id p"
    using cs
  proof cases
    case dead
    show ?thesis using route_dead_order_Inr(6)[OF dead(3)] h by blast
  next
    case live
    show ?thesis using route_live_order_Inr(5)[OF live(3) r] h live(2) by blast
  qed (use h in simp)
qed

text \<open>What a processed callback goes through, with what is known at each stage.\<close>

lemma processed_facts:
  assumes led: "refund_ledger d"
    and p: "find_row P (payments d) = Some p" and p0: "find_payment (p_id p) d = Some p0"
    and r: "find_order (p_order_id p) d = Some r"
    and c: "confirm_trade_no now provider v p0 d = Inr (p1, d1)"
    and f: "record_paid_fact now provider v p1 d1 = Inr ((p2, dup), d2)"
    and i: "insert_inbox now provider event_id (p_id p2) dg v d2 = Inr d3"
  shows "p0 = p" "p_id p2 = p_id p" "p_amount_minor p2 = p_amount_minor p" "refund_ledger d3"
    "find_order (o_id r) d3 = Some r" "orders d3 = orders d" "refunds d3 = refunds d"
    "business d3 = business d"
    "find_payment (p_id p2) d3 = Some p2" "dup \<longleftrightarrow> received d (p_id p)"
    "\<not> dup \<Longrightarrow> p_status p2 = P_PAID" "k \<noteq> p_id p \<Longrightarrow> received d3 k = received d k"
    "\<not> dup \<Longrightarrow> \<forall>r \<in> set (refunds d). r_payment_id r \<noteq> p_id p"
proof -
  have dist: "distinct (map p_id (payments d))" using led by (simp add: refund_ledger_def ledger_base_def)
  have pin: "p \<in> set (payments d)" using find_row_SomeD[OF p] by simp
  show pp: "p0 = p"
    using p0 find_row_key[OF dist pin] by (simp add: find_payment_def)
  have fp: "find_payment (p_id p) d = Some p" using p0 pp by simp
  note c' = confirm_trade_no_Inr[OF c[unfolded pp] fp]
  have fp1: "find_payment (p_id p1) d1 = Some p1" using c'(2,3) by simp
  note f' = record_paid_fact_Inr[OF f fp1 c'(1)[OF led]] and i' = insert_inbox_Inr[OF i]
  note m = money_tables_cong[OF i'(6,5,7)]
  show "p_id p2 = p_id p" using f'(3) c'(3) by simp
  show "p_amount_minor p2 = p_amount_minor p" using f'(8) c'(5) by simp
  show "refund_ledger d3" using m(1) f'(1) by blast
  show ord: "orders d3 = orders d" using i'(3) f'(10) c'(8) by simp
  show "find_order (o_id r) d3 = Some r"
    using r find_order_SomeD[OF r] by (simp add: find_order_def ord)
  show "refunds d3 = refunds d" using i'(5) f'(9) c'(7) by simp
  show "business d3 = business d" using i'(4) f'(12) c'(10) by simp
  show "find_payment (p_id p2) d3 = Some p2" using m(3) f'(2,3) by simp
  show dup: "dup \<longleftrightarrow> received d (p_id p)"
    using f'(5) c'(4) fp by (simp add: received_def)
  show "\<not> dup \<Longrightarrow> p_status p2 = P_PAID" by (rule f'(7))
  show "received d3 k = received d k" if "k \<noteq> p_id p"
  proof -
    have "find_payment k d2 = find_payment k d1"
      using record_paid_fact_others(1)[OF f] that c'(3) by simp
    then have "received d2 k = received d1 k" by (simp add: received_def)
    with m(2) c'(6) show ?thesis by simp
  qed
  show "\<forall>r \<in> set (refunds d). r_payment_id r \<noteq> p_id p" if "\<not> dup"
    using led pin that dup fp by (auto simp: refund_ledger_def settled_def received_def split: if_splits)
qed

lemma apply_paid_callback_keeps:
  assumes led: "refund_ledger d"
    and step: "apply_paid_callback x now rid nid bid provider event_id v d = Inr ((res, dup), d')"
  shows "refund_ledger d'"
  using step
proof (cases rule: apply_paid_callback_InrE)
  case (processed p p0 r p1 d1 p2 d2 d3)
  note f = processed_facts[OF led processed(2,5,4,6,7,8)]
  show ?thesis using route_money_Inr(1)[OF processed(9) f(5)] f(4) by blast
qed (use led in simp)

lemma apply_paid_callback_statuses:
  assumes led: "refund_ledger d" and s: "find_order i d = Some s"
    and step: "apply_paid_callback x now rid nid bid provider event_id v d = Inr ((res, dup), d')"
  shows "\<exists>s'. find_order i d' = Some s'
    \<and> (o_status s' = o_status s \<or> (o_status s \<in> set [O_CREATED, O_AWAITING_PAYMENT] \<and> o_status s' = O_PAID))"
  using step
proof (cases rule: apply_paid_callback_InrE)
  case (processed p p0 r p1 d1 p2 d2 d3)
  note f = processed_facts[OF led processed(2,5,4,6,7,8)]
  have "find_order i d3 = Some s" using s f(6) by (simp add: find_order_def)
  from route_money_Inr(5)[OF processed(9) f(5) this] show ?thesis .
qed (use s in simp)

text \<open>C4 A verified payment notification keeps the refund ledger: whatever it does with the money,
  refunded and reserved amounts stay within every payment and every payment's status is the
  settlement of its refunds.\<close>

theorem callback_keeps_ledger:
  assumes "refund_ledger d"
    and "apply_paid_callback x now rid nid bid provider event_id v d = Inr ((res, dup), d')"
  shows "refund_ledger d'"
  using assms by (rule apply_paid_callback_keeps)

text \<open>C6 Money is recorded as received only for the payment the notification names, from its own
  provider, and only when the notified amount is the payment's amount to the cent.\<close>

theorem callback_amount_checked:
  assumes led: "refund_ledger d"
    and step: "apply_paid_callback x now rid nid bid provider event_id v d = Inr ((res, dup), d')"
    and new: "received d' k" "\<not> received d k"
  shows "\<exists>p \<in> set (payments d). p_id p = k \<and> p_provider p = provider
    \<and> p_merchant_payment_no p = coalesce_to (fget_or v ''out_trade_no'' ''merchant_payment_no'') []
    \<and> callback_amount_minor v = Inr (Some (p_amount_minor p))"
  using step
proof (cases rule: apply_paid_callback_InrE)
  case (processed p p0 r p1 d1 p2 d2 d3)
  note f = processed_facts[OF led processed(2,5,4,6,7,8)]
  have "received d3 k" using route_money_Inr(2)[OF processed(9) f(5), of k] new(1) by simp
  then have "k = p_id p" using f(12)[of k] new(2) by blast
  with find_row_SomeD[OF processed(2)] processed(3) show ?thesis by auto
qed (use new in simp)

text \<open>C7 A notification never revives an order: the only status change it makes is from an unpaid
  live order (CREATED, AWAITING\_PAYMENT) to PAID. Cancelled, expired and failed orders keep
  their status, and so does every order already in production.\<close>

theorem callback_never_revives:
  assumes "refund_ledger d" and "find_order i d = Some s"
    and "apply_paid_callback x now rid nid bid provider event_id v d = Inr ((res, dup), d')"
  shows "\<exists>s'. find_order i d' = Some s'
    \<and> (o_status s' = o_status s \<or> (o_status s \<in> set [O_CREATED, O_AWAITING_PAYMENT] \<and> o_status s' = O_PAID))"
  using assms by (rule apply_paid_callback_statuses)


text \<open>A provider event is processed once: delivering the same notification again, at any later
  time, answers duplicate and changes nothing; the same event id with another payload is
  refused. (\<open>py_strip\<close> on the digest: a SHA-256 text has no surrounding blanks.)\<close>

theorem callback_replay:
  assumes led: "refund_ledger d" and fresh: "inbox_row provider event_id d = None"
    and step: "apply_paid_callback x now rid nid bid provider event_id v d = Inr ((res, dup), d')"
    and strip: "py_strip (canonical_digest x (fields_json v)) = canonical_digest x (fields_json v)"
  shows "apply_paid_callback x now' rid' nid' bid' provider event_id v' d' =
    (if canonical_digest x (fields_json v') = canonical_digest x (fields_json v)
     then Inr ((find_payment (ci_payment_id (the (inbox_row provider event_id d'))) d', True), d')
     else Inl (http_error 409 ''provider event id payload conflict''))"
  using step
proof (cases rule: apply_paid_callback_InrE)
  case (seen c)
  with fresh show ?thesis by simp
next
  case (processed p p0 r p1 d1 p2 d2 d3)
  note f = processed_facts[OF led processed(2,5,4,6,7,8)]
  have "inbox d' = inbox d3" by (rule route_money_Inr(3)[OF processed(9) f(5)])
  then have row: "inbox_row provider event_id d' = inbox_row provider event_id d3"
    by (simp add: inbox_row_def)
  show ?thesis
    using insert_inbox_Inr(2)[OF processed(8)] strip
    by (simp add: apply_paid_callback_def Let_def row inbox_conflict_def)
qed

text \<open>A second provider event for money already recorded only confirms it: no order, no refund
  and no business event changes.\<close>

theorem callback_confirms_only:
  assumes led: "refund_ledger d"
    and step: "apply_paid_callback x now rid nid bid provider event_id v d = Inr ((res, True), d')"
  shows "orders d' = orders d \<and> refunds d' = refunds d \<and> business d' = business d"
  using step
proof (cases rule: apply_paid_callback_InrE)
  case (processed p p0 r p1 d1 p2 d2 d3)
  note f = processed_facts[OF led processed(2,5,4,6,7,8)]
  show ?thesis using route_money_Inr(4)[OF processed(9) f(5)] f(6-8) by simp
qed simp

section \<open>The properties at one notification\<close>

definition sample_callback :: "db \<Rightarrow> err + (payment option \<times> bool) \<times> db" where
  "sample_callback = apply_paid_callback sample_x 200 (Uuid ''a1'') (Uuid ''b2'') (Uuid ''c3'')
     ''mock'' ''N1'' sample_notification"

definition sample_after :: db where
  "sample_after = (case sample_callback sample_pending_db of Inl e \<Rightarrow> sample_pending_db | Inr (_, d) \<Rightarrow> d)"

lemma sample_pending_ledger: "refund_ledger sample_pending_db"
  by code_simp

lemma sample_callback_runs:
  "\<exists>res. sample_callback sample_pending_db = Inr ((res, False), sample_after)"
proof -
  have "case sample_callback sample_pending_db of Inl e \<Rightarrow> False | Inr ((_, dup), _) \<Rightarrow> \<not> dup"
    by code_simp
  then show ?thesis by (auto simp: sample_after_def split: sum.splits)
qed

lemma sample_fresh: "inbox_row ''mock'' ''N1'' sample_pending_db = None"
  by (simp add: inbox_row_def sample_pending_db_def sample_defs)

theorem callback_keeps_ledger_witness: "refund_ledger sample_after"
proof -
  obtain res where run: "sample_callback sample_pending_db = Inr ((res, False), sample_after)"
    using sample_callback_runs by blast
  show ?thesis by (rule callback_keeps_ledger[OF sample_pending_ledger run[unfolded sample_callback_def]])
qed

theorem callback_amount_checked_witness:
  "\<exists>p \<in> set (payments sample_pending_db). p_id p = Uuid ''pay-1'' \<and> p_provider p = ''mock''
    \<and> p_merchant_payment_no p
       = coalesce_to (fget_or sample_notification ''out_trade_no'' ''merchant_payment_no'') []
    \<and> callback_amount_minor sample_notification = Inr (Some (p_amount_minor p))"
proof -
  obtain res where run: "sample_callback sample_pending_db = Inr ((res, False), sample_after)"
    using sample_callback_runs by blast
  have rc: "received sample_after (Uuid ''pay-1'')" "\<not> received sample_pending_db (Uuid ''pay-1'')"
    by code_simp+
  show ?thesis
    by (rule callback_amount_checked[OF sample_pending_ledger run[unfolded sample_callback_def] rc])
qed

theorem callback_never_revives_witness:
  "\<exists>s'. find_order (Uuid ''order-1'') sample_after = Some s'
    \<and> (o_status s' = O_AWAITING_PAYMENT \<or> o_status s' = O_PAID)"
proof -
  obtain res where run: "sample_callback sample_pending_db = Inr ((res, False), sample_after)"
    using sample_callback_runs by blast
  have s: "find_order (Uuid ''order-1'') sample_pending_db = Some (hd (orders sample_pending_db))"
    and st: "o_status (hd (orders sample_pending_db)) = O_AWAITING_PAYMENT"
    by (simp_all add: find_order_def sample_pending_db_def sample_defs)
  from callback_never_revives[OF sample_pending_ledger s run[unfolded sample_callback_def]] st
  show ?thesis by auto
qed


theorem callback_replay_witness:
  "sample_callback sample_after = Inr ((find_payment (Uuid ''pay-1'') sample_after, True), sample_after)"
proof -
  obtain res where run: "sample_callback sample_pending_db = Inr ((res, False), sample_after)"
    using sample_callback_runs by blast
  have strip: "py_strip (canonical_digest sample_x (fields_json sample_notification))
      = canonical_digest sample_x (fields_json sample_notification)"
    and ci: "ci_payment_id (the (inbox_row ''mock'' ''N1'' sample_after)) = Uuid ''pay-1''"
    by code_simp+
  show ?thesis
    unfolding sample_callback_def
    by (subst callback_replay[OF sample_pending_ledger sample_fresh run[unfolded sample_callback_def] strip])
      (simp add: ci)
qed

theorem callback_confirms_only_witness:
  "case apply_paid_callback sample_x 300 (Uuid ''a1'') (Uuid ''b2'') (Uuid ''c3'') ''mock'' ''N2''
      sample_notification sample_after of
    Inl e \<Rightarrow> False
  | Inr ((_, dup), d') \<Rightarrow> dup \<and> orders d' = orders sample_after"
  (is "case ?r of Inl e \<Rightarrow> _ e | Inr q \<Rightarrow> _ q")
proof -
  have run: "case ?r of Inl e \<Rightarrow> False | Inr ((_, dup), _) \<Rightarrow> dup" by code_simp
  then obtain res d' where r: "?r = Inr ((res, True), d')"
    by (auto split: sum.splits)
  have "refund_ledger sample_after" by code_simp
  from callback_confirms_only[OF this r] r show ?thesis by simp
qed

end
