(* ===== verification/Providers.thy ===== *)
theory Providers
  imports Callback
begin

text \<open>
  The repository's side of the payment channels (\<open>app/payment_providers.py\<close>): the amount text and
  the signing text of Alipay, the reading of its answers, the verification of its callbacks with
  the signature check as a parameter, and the process-local mock provider. The HTTP exchange
  itself is not modelled: an answer's JSON body is an input.

  The round trips show that an amount sent to the channel comes back as the same number of cents.
\<close>

section \<open>The mock provider\<close>

text \<open>Its state: the results by merchant payment number, the newest first.\<close>

type_synonym mock_state = "(string \<times> provider_result) list"

definition result :: "string \<Rightarrow> string option \<Rightarrow> string option \<Rightarrow> json \<Rightarrow> provider_result" where
  "result st trade qr raw = \<lparr>pr_status = st, pr_qr_code = qr, pr_provider_trade_no = trade, pr_raw = raw\<rparr>"

definition mock_pending :: "string \<Rightarrow> provider_result" where
  "mock_pending no = result ''PENDING'' None (Some (''mock://pay/'' @ no)) (JObj [])"

definition mock_create_payment :: "string \<Rightarrow> mock_state \<Rightarrow> provider_result \<times> mock_state" where
  "mock_create_payment no m =
     (case map_of m no of Some r \<Rightarrow> (r, m) | None \<Rightarrow> (mock_pending no, (no, mock_pending no) # m))"

definition mock_set_paid :: "string \<Rightarrow> string option \<Rightarrow> mock_state \<Rightarrow> provider_result \<times> mock_state" where
  "mock_set_paid no trade m =
     (let t = (case trade of Some s \<Rightarrow> if s \<noteq> [] then s else ''mock-'' @ no | None \<Rightarrow> ''mock-'' @ no);
          r = result ''PAID'' (Some t) None (JObj [])
      in (r, AList.update no r m))"

definition mock_query_payment :: "string \<Rightarrow> mock_state \<Rightarrow> provider_result" where
  "mock_query_payment no m = (case map_of m no of Some r \<Rightarrow> r | None \<Rightarrow> mock_pending no)"

definition mock_close_payment :: "string \<Rightarrow> mock_state \<Rightarrow> provider_result \<times> mock_state" where
  "mock_close_payment no m =
     (let r = result ''CLOSED'' None None (JObj []) in (r, AList.update no r m))"

text \<open>\<open>refund\<close> and \<open>query_refund\<close> answer the same.\<close>

definition mock_refund :: "string \<Rightarrow> string option \<Rightarrow> provider_result" where
  "mock_refund refund_no trade = result ''REFUNDED'' trade None (JObj [(''refundNo'', JStr refund_no)])"

section \<open>Alipay: what is sent\<close>

text \<open>Yuan with two decimals: \<open>(amount / 100).quantize(0.01)\<close>, exact for a whole number of cents.\<close>

definition alipay_amount :: "nat \<Rightarrow> string" where
  "alipay_amount n = str_nat (n div 100) @ CHR ''.'' # [digit_char (n div 10 mod 10), digit_char (n mod 10)]"

fun join :: "string \<Rightarrow> string list \<Rightarrow> string" where
  "join sep [] = []"
| "join sep [s] = s"
| "join sep (s # t # ss) = s @ sep @ join sep (t # ss)"

definition signing_text :: "fields \<Rightarrow> string" where
  "signing_text v = join ''&'' (map (\<lambda>(k, s). k @ ''='' @ s)
     (filter (\<lambda>(k, s). s \<noteq> [] \<and> k \<noteq> ''sign'') (sort_key fst v)))"

text \<open>The signature check (base64 and RSA) is \<open>verify signature text\<close>.\<close>

definition verify_and_parse_callback ::
  "(string \<Rightarrow> string \<Rightarrow> bool) \<Rightarrow> fields \<Rightarrow> err + fields" where
  "verify_and_parse_callback verify v =
     (case fget v ''sign'' of
        None \<Rightarrow> Inl Value_error
      | Some signature \<Rightarrow>
          if signature = [] \<or> coalesce_to (fget v ''sign_type'') ''RSA2'' \<noteq> ''RSA2'' then Inl Value_error
          else if \<not> verify signature
              (signing_text (filter (\<lambda>(k, _). k \<notin> set [''sign'', ''sign_type'']) v))
          then Inl Value_error
          else Inr v)"

definition mock_verify_and_parse_callback :: "fields \<Rightarrow> err + fields" where
  "mock_verify_and_parse_callback v =
     (if fget v ''mock_signature'' \<noteq> Some ''accepted-for-tests-only'' then Inl Value_error else Inr v)"

section \<open>Alipay: what is answered\<close>

definition alipay_precreate_result :: "dict \<Rightarrow> provider_result" where
  "alipay_precreate_result raw =
     result ''PENDING'' (str_of (dget raw ''trade_no'')) (str_of (dget raw ''qr_code'')) (JObj raw)"

definition trade_status_of :: "json \<Rightarrow> string" where
  "trade_status_of v =
     (if v = JStr ''TRADE_SUCCESS'' then ''PAID''
      else if v = JStr ''TRADE_FINISHED'' then ''PAID''
      else if v = JStr ''WAIT_BUYER_PAY'' then ''PENDING''
      else if v = JStr ''TRADE_CLOSED'' then ''CLOSED''
      else ''FAILED'')"

definition alipay_query_result :: "dict \<Rightarrow> provider_result" where
  "alipay_query_result raw =
     (if dget raw ''sub_code'' = JStr ''ACQ.TRADE_NOT_EXIST'' then result ''NOT_FOUND'' None None (JObj raw)
      else result (trade_status_of (dget raw ''trade_status'')) (str_of (dget raw ''trade_no'')) None (JObj raw))"

definition alipay_close_result :: "dict \<Rightarrow> provider_result" where
  "alipay_close_result raw = result ''CLOSED'' (str_of (dget raw ''trade_no'')) None (JObj raw)"

definition alipay_refund_result :: "dict \<Rightarrow> provider_result" where
  "alipay_refund_result raw =
     (let changed = (case dget_default raw ''fund_change'' (JStr ''Y'') of
            JStr s \<Rightarrow> py_upper s = ''Y'' | _ \<Rightarrow> False)
      in result (if changed then ''REFUNDED'' else ''REFUNDING'') (str_of (dget raw ''trade_no'')) None (JObj raw))"

definition alipay_query_refund_result :: "dict \<Rightarrow> provider_result" where
  "alipay_query_refund_result raw =
     (let refunded = truthy (py_or (dget raw ''refund_amount'') (dget raw ''refund_detail_item_list''))
      in result (if refunded then ''REFUNDED'' else ''PENDING'') (str_of (dget raw ''trade_no'')) None (JObj raw))"

text \<open>Which answers \<open>\_request\<close> accepts: code 10000 or an expected sub-code.\<close>

definition alipay_accepts :: "string list \<Rightarrow> dict \<Rightarrow> bool" where
  "alipay_accepts accepted raw \<longleftrightarrow> dget raw ''code'' = JStr ''10000''
     \<or> (\<exists>s \<in> set accepted. dget raw ''sub_code'' = JStr s)"

section \<open>Amounts come back as they were sent\<close>

lemma is_digit_digit_char [simp]: "d < 10 \<Longrightarrow> is_digit (digit_char d)"
  by (rule is_digit_char)

lemma not_digit_dot: "\<not> is_digit (CHR ''.'')"
  by (simp add: is_digit_code)

lemma parse_amount_text:
  "parse_decimal (alipay_amount n) = Some (Dec (int n) (- 2))"
proof -
  let ?w = "str_nat (n div 100)" and ?f = "[digit_char (n div 10 mod 10), digit_char (n mod 10)]"
  have w: "list_all is_digit ?w" by (rule str_nat_digits)
  have f: "list_all is_digit ?f" by simp
  let ?s = "?w @ CHR ''.'' # ?f"
  have cs: "is_digit c \<or> c = CHR ''.''" if "c \<in> set ?s" for c
    using that w by (auto simp: list_all_iff)
  have sp: "\<not> is_space c" if "c \<in> set ?s" for c
    using cs[OF that] digit_not(5)[of c] by (auto simp: is_space_def)
  have drop: "dropWhile is_space t = t" if "\<And>c. c \<in> set t \<Longrightarrow> \<not> is_space c" for t
    using that by (cases t) auto
  have strip: "py_strip ?s = ?s"
    unfolding py_strip_def using drop[of ?s] drop[of "rev ?s"] sp by simp
  have us: "filter (\<lambda>c. c \<noteq> CHR ''_'') ?s = ?s"
    using cs digit_not(3) by (intro filter_True) fastforce
  obtain a t where at: "?w = a # t" by (cases ?w) (auto dest: arg_cong[where f = length])
  have ad: "is_digit a" using w at by simp
  have sg: "split_sign ?s = (1, ?s)" using ad by (simp add: at digit_not)
  have ns: "\<not> special_text ?s"
  proof -
    have "upper_char a = a" "a \<noteq> CHR ''I''" "a \<noteq> CHR ''N''" "a \<noteq> CHR ''S''"
      using ad by (auto simp: digit_not is_digit_code)
    then show ?thesis by (simp add: special_text_def Let_def at py_upper_def starts_with_def)
  qed
  have tw: "takeWhile is_digit ?s = ?w" "dropWhile is_digit ?s = CHR ''.'' # ?f"
    using w not_digit_dot by (simp_all add: list_all_iff)
  have ff: "takeWhile is_digit ?f = ?f" "dropWhile is_digit ?f = []" by simp_all
  have val: "digits_value (?w @ ?f) = n"
  proof -
    have "?w @ ?f = (?w @ [digit_char (n div 10 mod 10)]) @ [digit_char (n mod 10)]" by simp
    then have "digits_value (?w @ ?f) = 10 * (10 * (n div 100) + n div 10 mod 10) + n mod 10"
      by (simp only: digits_value_snoc digits_value_str_nat mod_less_divisor zero_less_numeral)
    also have "\<dots> = 10 * (n div 10) + n mod 10"
      using mult_div_mod_eq[of 10 "n div 10"] by (simp add: div_mult2_eq[of n 10 10, simplified])
    also have "\<dots> = n" by simp
    finally show ?thesis .
  qed
  have "int (digits_value (?w @ ?f)) = int n" using val by simp
  then show ?thesis
    unfolding alipay_amount_def parse_decimal_def strip us sg Let_def tw prod.case if_not_P[OF ns]
      list.case if_P[OF refl] ff
    by (simp add: parse_exponent_def)
qed

lemma str_nat_length: "n < 10 ^ k \<Longrightarrow> 0 < k \<Longrightarrow> length (str_nat n) \<le> k"
proof (induction n arbitrary: k rule: str_nat.induct)
  case (1 n)
  show ?case
  proof (cases "n < 10")
    case True
    with 1(3) show ?thesis by (subst str_nat.simps) simp
  next
    case False
    with 1(2) have "k \<noteq> 1" by auto
    with 1(3) obtain j where k: "k = Suc j" "0 < j" by (cases k) auto
    have "n div 10 < 10 ^ j" using 1(2) k(1) by (simp add: div_less_iff_less_mult mult.commute)
    with 1(1)[OF False this k(2)] k(1) False show ?thesis by (subst str_nat.simps) simp
  qed
qed

text \<open>C22 An amount sent to Alipay as yuan text is read back from the notification as the same number
  of cents (amounts below 10 to the 26, where the decimal arithmetic of 28 digits is exact).\<close>

theorem alipay_amount_roundtrip:
  assumes "0 < n" and "n < 10 ^ 26"
  shows "callback_amount_minor [(''total_amount'', alipay_amount n)] = Inr (Some (int n))"
proof -
  have "length (str_nat (n * 100)) \<le> 28"
    using assms(2) by (intro str_nat_length) simp_all
  then have "length (str_nat (nat (int n * 100))) \<le> dec_prec"
    by (simp add: dec_prec_def nat_mult_distrib)
  then have "dec_times (Dec (int n) (- 2)) 100 = Dec (int n * 100) (- 2)" by simp
  moreover have "py_strip (alipay_amount n) \<noteq> []"
    using parse_amount_text[of n] by (auto simp: parse_decimal_def special_text_def Let_def starts_with_def py_upper_def)
  ultimately show ?thesis
    using assms(1) by (simp add: callback_amount_minor_def fget_def parse_amount_def parse_amount_text Let_def)
qed

theorem alipay_amount_roundtrip_witness:
  "callback_amount_minor [(''total_amount'', ''12.05'')] = Inr (Some 1205)"
proof -
  have "alipay_amount 1205 = ''12.05''" by code_simp
  then show ?thesis using alipay_amount_roundtrip[of 1205] by simp
qed

text \<open>The service's own confirmations carry the amount in cents as text; it is read back unchanged.\<close>

theorem amount_minor_roundtrip:
  assumes "0 < n"
  shows "callback_amount_minor [(''merchant_payment_no'', no), (''amount_minor'', str_int n),
    (''provider_trade_no'', trade)] = Inr (Some n)"
proof -
  have "py_strip (str_int n) = str_int n"
    using assms str_nat_digits[of "nat n"] by (simp add: str_int_def py_strip_digits)
  moreover have "str_int n \<noteq> []" using assms by (simp add: str_int_def)
  ultimately show ?thesis
    using assms by (simp add: callback_amount_minor_def fget_def parse_amount_def parse_decimal_str_int Let_def)
qed

theorem amount_minor_roundtrip_witness:
  "callback_amount_minor [(''merchant_payment_no'', ''M1''), (''amount_minor'', str_int 500),
    (''provider_trade_no'', ''T'')] = Inr (Some 500)"
  by (rule amount_minor_roundtrip) simp

text \<open>The text an Alipay signature covers does not depend on the order of the fields.\<close>

theorem signing_text_order:
  assumes "mset v = mset v'" and "distinct (map fst v)"
  shows "signing_text v = signing_text v'"
proof -
  have "inj_on fst (set v)" using assms(2) unfolding distinct_map ..
  with assms(1) have "sort_key fst v = sort_key fst v'" by (rule sort_key_eq_sort_key)
  then show ?thesis by (simp add: signing_text_def)
qed

theorem signing_text_order_witness:
  "signing_text [(''b'', ''2''), (''a'', ''1''), (''sign'', ''s'')]
    = signing_text [(''a'', ''1''), (''sign'', ''s''), (''b'', ''2'')]"
  by (rule signing_text_order) simp_all

end
