(* ===== verification/PaymentsApp.thy ===== *)
theory PaymentsApp
  imports Callback Providers AdminAccess
begin

text \<open>
  The payment service: \<open>app/services/payments.py\<close>, with \<open>app/services/presenters.py\<close>. An operation
  that asks a payment provider between two transactions is split there: what the provider answers
  is an argument, and the database of the second transaction need not be that of the first. The
  drawn UUIDs and merchant payment numbers are arguments.

  The lemmas show that an order never has two open payment intents, that the refund ledger holds
  through the whole flow, and that a notification the provider did not sign changes nothing.
\<close>

section \<open>Presenting a payment\<close>

definition payment_fields :: "externals \<Rightarrow> payment \<Rightarrow> dict" where
  "payment_fields x p = [(''paymentId'', JStr (uuid_str (p_id p))),
     (''orderId'', JStr (uuid_str (p_order_id p))), (''provider'', JStr (p_provider p)),
     (''merchantPaymentNo'', JStr (p_merchant_payment_no p)),
     (''status'', JStr (payment_name (p_status p))), (''revision'', JInt (p_revision p)),
     (''amountMinor'', JInt (p_amount_minor p)), (''currency'', JStr (p_currency p)),
     (''qrCode'', opt_str (p_qr_code p)), (''createdAt'', JStr (x_iso x (p_created_at p))),
     (''updatedAt'', JStr (x_iso x (p_updated_at p))),
     (''paidAt'', opt_str (map_option (x_iso x) (p_paid_at p)))]"

definition payment_payload :: "externals \<Rightarrow> payment \<Rightarrow> json" where
  "payment_payload x p = JObj (payment_fields x p)"

definition payment_reply :: "externals \<Rightarrow> payment \<Rightarrow> bool \<Rightarrow> json" where
  "payment_reply x p dup = JObj (payment_fields x p @ [(''duplicate'', JBool dup)])"

section \<open>Who may see a payment\<close>

definition authenticate_order ::
  "externals \<Rightarrow> uuid \<Rightarrow> string option \<Rightarrow> db \<Rightarrow> err + sales_order" where
  "authenticate_order x order_id token d =
     (case token of None \<Rightarrow> Inl (service_error 401 ''missing order access token'')
      | Some t \<Rightarrow>
          if t = [] then Inl (service_error 401 ''missing order access token'')
          else (case find_with_terminal order_id d of
                  None \<Rightarrow> Inl (service_error 404 ''order not found'')
                | Some (r, _) \<Rightarrow>
                    if \<not> tokens_equal (py_strip (o_access_token_hash r)) (hash_token x t)
                    then Inl (service_error 404 ''order not found'')
                    else Inr r))"

definition payment_with_order_auth ::
  "externals \<Rightarrow> uuid \<Rightarrow> string option \<Rightarrow> db \<Rightarrow> err + payment" where
  "payment_with_order_auth x payment_id token d =
     (case find_payment payment_id d of
        None \<Rightarrow> Inl (service_error 404 ''payment not found'')
      | Some p \<Rightarrow> bind_ok (authenticate_order x (p_order_id p) token d) (\<lambda>_. Inr p))"

definition get_payment :: "externals \<Rightarrow> uuid \<Rightarrow> string option \<Rightarrow> db \<Rightarrow> err + json" where
  "get_payment x payment_id token d =
     bind_ok (payment_with_order_auth x payment_id token d) (\<lambda>p. Inr (payment_payload x p))"

definition qr_value :: "externals \<Rightarrow> uuid \<Rightarrow> string option \<Rightarrow> db \<Rightarrow> err + string" where
  "qr_value x payment_id token d =
     bind_ok (payment_with_order_auth x payment_id token d) (\<lambda>p.
     case p_qr_code p of
       None \<Rightarrow> Inl (service_error 409 ''payment QR code is not ready'')
     | Some q \<Rightarrow> if q = [] then Inl (service_error 409 ''payment QR code is not ready'') else Inr q)"

section \<open>Creating a payment\<close>

text \<open>
  The first transaction answers at once or hands a payment to the provider, with the mark whether
  it is one that was there before.
\<close>

datatype create_step = Reply json | Ask payment bool

definition payment_request_body :: "string option \<Rightarrow> json" where
  "payment_request_body provider = JObj [(''provider'', opt_str provider)]"

text \<open>The channel: an order with a merchant account is paid through that account only.\<close>

definition choose_provider ::
  "string option \<Rightarrow> string \<Rightarrow> sales_order \<Rightarrow> db \<Rightarrow> err + string" where
  "choose_provider wanted fallback r d =
     (case o_payment_account_id r of
        None \<Rightarrow> Inr fallback
      | Some k \<Rightarrow>
          (case merchant_account k (o_tenant_id r) d of
             None \<Rightarrow> Inl (service_error 409 ''order payment account is unavailable; create a new order'')
           | Some a \<Rightarrow>
               if ma_status a \<noteq> ''VALIDATED''
               then Inl (service_error 409 ''order payment account is unavailable; create a new order'')
               else if \<not> (wanted = None \<or> wanted = Some [] \<or> wanted = Some (ma_provider a))
               then Inl (service_error 409 ''provider differs from order payment account'')
               else Inr (ma_provider a)))"

text \<open>A payment of an order that has none open, under a key that is new.\<close>

definition open_intent ::
  "timestamp \<Rightarrow> uuid \<Rightarrow> string \<Rightarrow> string \<Rightarrow> string option \<Rightarrow> string \<Rightarrow> string \<Rightarrow> sales_order \<Rightarrow> db
    \<Rightarrow> err + create_step \<times> db" where
  "open_intent now k merchant_no provider wanted key digest r d =
     (if o_payment_status r \<in> set [OP_PAID, OP_REFUNDING, OP_PARTIALLY_REFUNDED, OP_REFUNDED]
      then Inl (service_error 409 ''order payment is already complete'')
      else if o_status r \<notin> set [O_CREATED, O_AWAITING_PAYMENT]
      then Inl (service_error 409 ''order can no longer accept a new payment'')
      else
        (case latest_open_for_order (o_id r) d of
           Some p \<Rightarrow>
             if p_provider p \<noteq> provider
             then Inl (service_error 409 ''order already has an active payment intent with another provider'')
             else Inr (Ask p True, d)
         | None \<Rightarrow>
             bind_ok (insert_payment now k r provider merchant_no key digest d) (\<lambda>(p, d1).
             bind_ok (insert_created_event (p_id p) (payment_request_body wanted) d1) (\<lambda>d2.
             bind_ok (if o_status r = O_CREATED
                 then transition_order now r O_AWAITING_PAYMENT ''payment-service'' (Some ''payment created'') JNull d2
                 else Inr (r, d2)) (\<lambda>(_, d3).
             Inr (Ask p False, update_payment_status now (o_id r) OP_PENDING d3))))))"

text \<open>The channel of a request without an account: the wanted one or the default.\<close>

definition channel_of :: "settings \<Rightarrow> string option \<Rightarrow> string" where
  "channel_of cfg wanted = py_lower (case wanted of
     Some w \<Rightarrow> if w = [] then s_payment_default_provider cfg else w
   | None \<Rightarrow> s_payment_default_provider cfg)"

definition existing_intent ::
  "externals \<Rightarrow> timestamp \<Rightarrow> uuid \<Rightarrow> string \<Rightarrow> uuid \<Rightarrow> string option \<Rightarrow> string \<Rightarrow> string \<Rightarrow> sales_order
    \<Rightarrow> db \<Rightarrow> err + create_step \<times> db" where
  "existing_intent x now k merchant_no order_id wanted key provider r d =
     (let digest = canonical_digest x (payment_request_body wanted) in
      case find_payment_idempotent order_id key d of
        Some p \<Rightarrow>
          if py_strip (p_request_digest p) \<noteq> digest
          then Inl (service_error 409 ''Idempotency-Key payload conflict'')
          else if p_status p \<noteq> P_CREATED then Inr (Reply (payment_reply x p True), d)
          else Inr (Ask p True, d)
      | None \<Rightarrow> open_intent now k merchant_no provider wanted key digest r d)"

definition create_intent ::
  "externals \<Rightarrow> settings \<Rightarrow> timestamp \<Rightarrow> uuid \<Rightarrow> string \<Rightarrow> uuid \<Rightarrow> string option \<Rightarrow> string option
    \<Rightarrow> string option \<Rightarrow> db \<Rightarrow> err + create_step \<times> db" where
  "create_intent x cfg now k merchant_no order_id wanted token key d =
     (if key = None \<or> key = Some [] \<or> some_and key (\<lambda>s. 160 < py_len s)
      then Inl (service_error 400 ''Idempotency-Key is required and must be <= 160 characters'')
      else if channel_of cfg wanted = ''mock'' \<and> \<not> s_allow_mock_payment cfg
      then Inl (service_error 503 ''mock payment provider is disabled'')
      else
        bind_ok (authenticate_order x order_id token d) (\<lambda>r.
        bind_ok (choose_provider wanted (channel_of cfg wanted) r d) (\<lambda>provider.
        if o_payment_mode r = ''TEST_FREE''
        then Inl (service_error 409 ''test-free order does not require payment'')
        else existing_intent x now k merchant_no order_id wanted (coalesce_to key []) provider r d)))"

text \<open>What the provider is asked.\<close>

record payment_request =
  pq_merchant_payment_no :: string
  pq_amount_minor :: int
  pq_currency :: string
  pq_subject :: string
  pq_notify_url :: string
  pq_metadata :: dict

definition rstrip_slash :: "string \<Rightarrow> string" where
  "rstrip_slash s = rev (dropWhile (\<lambda>c. c = CHR ''/'') (rev s))"

definition payment_request_of :: "settings \<Rightarrow> uuid \<Rightarrow> payment \<Rightarrow> payment_request" where
  "payment_request_of cfg order_id p =
     \<lparr>pq_merchant_payment_no = p_merchant_payment_no p, pq_amount_minor = p_amount_minor p,
      pq_currency = p_currency p, pq_subject = p_subject p,
      pq_notify_url = rstrip_slash (s_public_base_url cfg) @ ''/api/v1/payments/callback/'' @
        (case p_payment_account_id p of Some a \<Rightarrow> ''accounts/'' @ uuid_str a | None \<Rightarrow> p_provider p),
      pq_metadata = [(''orderId'', JStr (uuid_str order_id))]\<rparr>"

text \<open>
  The calls of the provider: \<open>query\<close> is the answer of the query, \<open>made\<close> the answers of the creations
  in the order they are tried; \<open>None\<close> is a call that raises. A creation that raises inside the
  query's handler is tried once more.
\<close>

definition ask_provider ::
  "payment \<Rightarrow> provider_result option \<Rightarrow> (nat \<Rightarrow> provider_result option) \<Rightarrow> err + provider_result" where
  "ask_provider p query made =
     (let answer =
        (if p_status p = P_CREATED then
           (case query of
              None \<Rightarrow> made 0
            | Some r \<Rightarrow>
                if pr_status r = ''NOT_FOUND'' \<or> (pr_status r = ''FAILED'' \<and> p_provider p = ''mock'')
                then (case made 0 of None \<Rightarrow> made 1 | Some c \<Rightarrow> Some c)
                else Some r)
         else query)
      in case answer of
           None \<Rightarrow> Inl (service_error 502 ''payment provider temporarily unavailable'')
         | Some r \<Rightarrow> Inr r)"

text \<open>The fields of the notification the service makes of a paid query.\<close>

definition query_paid_values :: "payment \<Rightarrow> provider_result \<Rightarrow> fields" where
  "query_paid_values p res = [(''merchant_payment_no'', p_merchant_payment_no p),
     (''amount_minor'', str_int (p_amount_minor p)),
     (''provider_trade_no'', coalesce_to (pr_provider_trade_no res) [])]"

text \<open>The second transaction.\<close>

definition record_result ::
  "externals \<Rightarrow> settings \<Rightarrow> timestamp \<Rightarrow> uuid \<Rightarrow> uuid \<Rightarrow> uuid \<Rightarrow> payment \<Rightarrow> bool \<Rightarrow> provider_result \<Rightarrow> db
    \<Rightarrow> err + json \<times> db" where
  "record_result x cfg now rid nid bid p reused res d =
     (if pr_status res = ''PAID'' then
        bind_ok (apply_paid_callback x now rid nid bid (p_provider p)
            (''query-paid:'' @ p_merchant_payment_no p) (query_paid_values p res) d)
          (\<lambda>((u, _), d1). case u of None \<Rightarrow> Inl Type_error
             | Some q \<Rightarrow> Inr (payment_reply x q reused, d1))
      else
        (case find_payment (p_id p) d of
           None \<Rightarrow> Inl Assertion_error
         | Some p0 \<Rightarrow>
             (case save_provider_result now (p_id p0) res d of
                (None, _) \<Rightarrow> Inl Type_error
              | (Some u, d1) \<Rightarrow>
                  if p_status u = P_CREATED then
                    bind_ok (transition_payment now u P_PENDING ''payment-provider'' (pr_raw res) d1)
                      (\<lambda>((w, _), d2). Inr (payment_reply x w reused,
                         schedule_reconciliation now (p_id w) (s_payment_reconcile_seconds cfg) d2))
                  else Inr (payment_reply x u reused, d1))))"

section \<open>Notifications\<close>

text \<open>
  The provider of a channel, as \<open>provider\_for\_payment\<close> builds it from the configured keys: its
  application id and its signature check.
\<close>

type_synonym channel_factory = "string \<Rightarrow> uuid option \<Rightarrow> err + string \<times> (string \<Rightarrow> string \<Rightarrow> bool)"

definition own_app_id :: "settings \<Rightarrow> string \<Rightarrow> string option" where
  "own_app_id cfg provider =
     (if provider = ''alipay'' then s_alipay_app_id cfg else s_alipay_mock_app_id cfg)"

text \<open>Where a notification of a merchant account may go, and where one without may not.\<close>

definition callback_account_ok :: "settings \<Rightarrow> string \<Rightarrow> uuid option \<Rightarrow> fields \<Rightarrow> db \<Rightarrow> bool" where
  "callback_account_ok cfg provider account v d =
     (let paid = callback_account provider (fget v ''out_trade_no'') d in
      case account of
        Some k \<Rightarrow> paid = Some (Some k)
          \<and> some_and (merchant_account k None d) (\<lambda>a. fget v ''seller_id'' = Some (ma_merchant_id a))
      | None \<Rightarrow> \<not> (s_merchant_enabled cfg \<and> some_and paid (\<lambda>k. k \<noteq> None)))"

text \<open>The answer inside the \<open>try\<close>; the two answers a channel understands are texts.\<close>

definition alipay_notified ::
  "externals \<Rightarrow> settings \<Rightarrow> channel_factory \<Rightarrow> timestamp \<Rightarrow> uuid \<Rightarrow> uuid \<Rightarrow> uuid \<Rightarrow> fields \<Rightarrow> string
    \<Rightarrow> uuid option \<Rightarrow> db \<Rightarrow> err + string \<times> db" where
  "alipay_notified x cfg factory now rid nid bid values provider account d =
     (if provider \<notin> set [''alipay'', ''alipay_mock''] then Inl Value_error
      else bind_ok (factory provider account) (\<lambda>(app_id, verify).
        bind_ok (verify_and_parse_callback verify values) (\<lambda>v.
        let expected = (if account \<noteq> None then Some app_id else own_app_id cfg provider) in
        if expected = None \<or> expected = Some [] \<or> fget v ''app_id'' \<noteq> expected then Inl Value_error
        else if fget v ''trade_status'' \<notin> set [Some ''TRADE_SUCCESS'', Some ''TRADE_FINISHED'']
        then Inr (''success'', d)
        else if \<not> callback_account_ok cfg provider account v d then Inl Value_error
        else bind_ok (apply_paid_callback x now rid nid bid provider
            ((case account of Some k \<Rightarrow> ''account:'' @ uuid_str k @ '':'' | None \<Rightarrow> [])
              @ callback_event_id x v) v d)
          (\<lambda>(_, d1). Inr (''success'', d1)))))"

text \<open>Service errors, value errors and errors with a status become a refusal; others propagate.\<close>

fun refused :: "err \<Rightarrow> bool" where
  "refused (Service_error _ _) \<longleftrightarrow> True"
| "refused (Http_error _ _) \<longleftrightarrow> True"
| "refused Value_error \<longleftrightarrow> True"
| "refused Pickup_conflict \<longleftrightarrow> True"
| "refused _ \<longleftrightarrow> False"

definition alipay_callback ::
  "externals \<Rightarrow> settings \<Rightarrow> channel_factory \<Rightarrow> timestamp \<Rightarrow> uuid \<Rightarrow> uuid \<Rightarrow> uuid \<Rightarrow> fields \<Rightarrow> string
    \<Rightarrow> uuid option \<Rightarrow> db \<Rightarrow> err + string \<times> db" where
  "alipay_callback x cfg factory now rid nid bid values provider account d =
     (case alipay_notified x cfg factory now rid nid bid values provider account d of
        Inr q \<Rightarrow> Inr q
      | Inl e \<Rightarrow> if refused e then Inr (''failure'', d) else Inl e)"

definition account_callback ::
  "externals \<Rightarrow> settings \<Rightarrow> channel_factory \<Rightarrow> timestamp \<Rightarrow> uuid \<Rightarrow> uuid \<Rightarrow> uuid \<Rightarrow> fields \<Rightarrow> uuid
    \<Rightarrow> db \<Rightarrow> err + string \<times> db" where
  "account_callback x cfg factory now rid nid bid values account_id d =
     (case merchant_account account_id None d of
        None \<Rightarrow> Inr (''failure'', d)
      | Some a \<Rightarrow> alipay_callback x cfg factory now rid nid bid values (ma_provider a) (Some account_id) d)"

text \<open>The mock channel reads the payment in one transaction (on \<open>d0\<close>) and pays it in another.\<close>

definition mock_callback ::
  "externals \<Rightarrow> settings \<Rightarrow> timestamp \<Rightarrow> uuid \<Rightarrow> uuid \<Rightarrow> uuid \<Rightarrow> fields \<Rightarrow> db \<Rightarrow> mock_state \<Rightarrow> db
    \<Rightarrow> err + json \<times> mock_state \<times> db" where
  "mock_callback x cfg now rid nid bid values d0 m d =
     (if s_payment_default_provider cfg \<noteq> ''mock'' \<or> \<not> s_allow_mock_payment cfg
      then Inl (service_error 404 ''mock payment callback is disabled'')
      else let merchant_no = coalesce_to (fget values ''merchant_payment_no'') [] in
        (case find_mock_by_merchant_no merchant_no d0 of
           None \<Rightarrow> Inl (service_error 404 ''payment not found'')
         | Some p \<Rightarrow>
             let (res, m1) = mock_set_paid merchant_no (fget values ''provider_trade_no'') m;
                 v = [(''merchant_payment_no'', merchant_no), (''amount_minor'', str_int (p_amount_minor p)),
                   (''provider_trade_no'', coalesce_to (pr_provider_trade_no res) [])];
                 event = coalesce_to (fget values ''event_id'') []
             in bind_ok (apply_paid_callback x now rid nid bid ''mock''
                 (if event = [] then ''mock-paid:'' @ merchant_no else event) v d)
               (\<lambda>((u, dup), d1). case u of None \<Rightarrow> Inl Type_error
                  | Some q \<Rightarrow> Inr (payment_reply x q dup, m1, d1))))"

section \<open>Manual refunds\<close>

definition refund_request_body :: "int option \<Rightarrow> string \<Rightarrow> json" where
  "refund_request_body amount why =
     JObj [(''amountMinor'', case amount of None \<Rightarrow> JNull | Some n \<Rightarrow> JInt n), (''reason'', JStr why)]"

definition refund_payment ::
  "externals \<Rightarrow> timestamp \<Rightarrow> uuid \<Rightarrow> uuid \<Rightarrow> uuid \<Rightarrow> int option \<Rightarrow> string \<Rightarrow> string option \<Rightarrow> db
    \<Rightarrow> err + json \<times> db" where
  "refund_payment x now rid nid payment_id amount why key d =
     (if key = None \<or> key = Some [] \<or> some_and key (\<lambda>s. 160 < py_len s)
      then Inl (service_error 400 ''Idempotency-Key is required and must be <= 160 characters'')
      else let digest = canonical_digest x (refund_request_body amount why) in
        (case find_payment payment_id d of
           None \<Rightarrow> Inl (service_error 404 ''payment not found'')
         | Some p \<Rightarrow>
             if find_order (p_order_id p) d = None then Inl (service_error 404 ''order not found'')
             else bind_ok (create_refund_intent x now rid nid payment_id (coalesce_to key []) why amount
                 (Some digest) ''refund-service'' d)
               (\<lambda>(i, d1). Inr (JObj [(''refundId'', JStr (uuid_str (r_id (ri_refund i)))),
                  (''paymentId'', JStr (uuid_str payment_id)),
                  (''status'', JStr (refund_name (r_status (ri_refund i)))),
                  (''duplicate'', JBool (\<not> ri_created i))], d1))))"

end
