(* ===== verification/MoneyFrame.thy ===== *)
theory MoneyFrame
  imports Callback Coordination
begin

text \<open>
  What every money operation leaves in place, as one relation between the databases before and
  after (\<open>money_follows\<close>): payments stay where they are and are never opened again, and refunds and
  audit events belong to payments. From it follow the invariants that make new payments safe: the
  references of the money tables (\<open>money_refs\<close>) and at most one open intent per order
  (\<open>one_open\<close>). The last section shows what money does to the production line: nothing but making
  a waiting order paid.
\<close>

section \<open>Payments stay in place\<close>

definition same_payment :: "payment \<Rightarrow> payment \<Rightarrow> bool" where
  "same_payment p q \<longleftrightarrow> p_id q = p_id p \<and> p_order_id q = p_order_id p \<and> (payment_open q \<longrightarrow> payment_open p)"

definition payment_ids :: "db \<Rightarrow> uuid set" where
  "payment_ids d = set (map p_id (payments d))"

definition money_follows :: "db \<Rightarrow> db \<Rightarrow> bool" where
  "money_follows d d' \<longleftrightarrow> list_all2 same_payment (payments d) (payments d')
     \<and> set (map r_payment_id (refunds d')) \<subseteq> set (map r_payment_id (refunds d)) \<union> payment_ids d
     \<and> set (map pe_payment_id (payment_log d')) \<subseteq> set (map pe_payment_id (payment_log d)) \<union> payment_ids d"

lemma same_payment_refl [simp]: "same_payment p p"
  by (simp add: same_payment_def)

lemma same_payments_ids: "list_all2 same_payment ps qs \<Longrightarrow> map p_id qs = map p_id ps"
  by (induction rule: list_all2_induct) (simp_all add: same_payment_def)

lemma money_follows_refl [simp]: "money_follows d d"
  by (simp add: money_follows_def list.rel_refl)

lemma money_follows_trans:
  assumes "money_follows d d1" and "money_follows d1 d2"
  shows "money_follows d d2"
proof -
  have same: "list_all2 same_payment (payments d) (payments d1)"
      "list_all2 same_payment (payments d1) (payments d2)"
    using assms by (simp_all add: money_follows_def)
  have two: "list_all2 same_payment (payments d) (payments d2)"
    by (rule list_all2_trans[OF _ same]) (simp add: same_payment_def)
  have ids: "payment_ids d1 = payment_ids d"
    unfolding payment_ids_def by (simp only: same_payments_ids[OF same(1)])
  show ?thesis using assms two unfolding money_follows_def ids by blast
qed

lemma money_follows_same:
  assumes "payments d' = payments d" "refunds d' = refunds d" "payment_log d' = payment_log d"
  shows "money_follows d d'"
  using assms by (simp add: money_follows_def list.rel_refl)

lemma money_follows_update_payment:
  assumes "\<And>p. p_id (f p) = p_id p" and "\<And>p. p_order_id (f p) = p_order_id p"
    and "\<And>p. p \<in> set (payments d) \<Longrightarrow> p_id p = k \<Longrightarrow> payment_open (f p) \<Longrightarrow> payment_open p"
  shows "money_follows d (update_payment k f d)"
proof -
  have "list_all2 same_payment ps (update_rows (\<lambda>p. p_id p = k) f ps)" if "set ps \<subseteq> set (payments d)" for ps
    using that assms by (induction ps) (auto simp: same_payment_def)
  then show ?thesis by (simp add: money_follows_def update_payment_def)
qed

lemma money_follows_update_refund:
  "(\<And>r. r_payment_id (f r) = r_payment_id r) \<Longrightarrow> money_follows d (update_refund k f d)"
  by (simp add: money_follows_def update_refund_def map_update_rows list.rel_refl)

lemma append_log_follows:
  assumes "append_payment_log e d = Inr d'" and "pe_payment_id e \<in> payment_ids d"
  shows "money_follows d d'"
  using append_payment_log_Inr[OF assms(1)] assms(2) by (simp add: money_follows_def list.rel_refl)

lemma insert_refund_follows:
  assumes "r_payment_id r \<in> payment_ids d"
  shows "money_follows d (d\<lparr>refunds := refunds d @ [r]\<rparr>)"
  using assms by (auto simp: money_follows_def list.rel_refl)

lemma payment_ids_update_payment [simp]:
  "(\<And>p. p_id (f p) = p_id p) \<Longrightarrow> payment_ids (update_payment k f d) = payment_ids d"
  by (simp add: payment_ids_def update_payment_def map_update_rows)

lemma find_payment_ids: "find_payment k d = Some p \<Longrightarrow> k \<in> payment_ids d"
  by (auto simp: payment_ids_def dest: find_payment_SomeD)

lemma payment_moved_sel' [simp]:
  "p_order_id (payment_moved now tgt n p) = p_order_id p"
  "payment_open (payment_moved now tgt n p) \<longleftrightarrow> tgt = P_CREATED \<or> tgt = P_PENDING"
  by (auto simp: payment_moved_def payment_open_def)

lemma transition_payment_follows:
  assumes "transition_payment now p tgt actor payload d = Inr (v, d')"
    and "\<And>q. q \<in> set (payments d) \<Longrightarrow> p_id q = p_id p \<Longrightarrow> tgt = P_CREATED \<or> tgt = P_PENDING \<Longrightarrow> payment_open q"
  shows "money_follows d d'"
proof (cases "d' = d")
  case False
  let ?n = "p_revision p + 1"
  let ?d1 = "update_payment (p_id p) (payment_moved now tgt ?n) d"
  obtain e u where e: "append_payment_log e ?d1 = Inr d'" "pe_payment_id e = p_id p"
      and u: "find_payment (p_id p) d' = Some u"
    using assms(1) False
    by (auto simp: transition_payment_def repo_transition_payment_def Let_def bind_ok_Inr
        split: if_splits option.splits)
  have "payments d' = payments ?d1" using append_payment_log_Inr[OF e(1)] by simp
  then have "p_id p \<in> payment_ids ?d1" using find_payment_ids[OF u] by (simp add: payment_ids_def)
  then have "money_follows ?d1 d'" using append_log_follows[OF e(1)] e(2) by simp
  moreover have "money_follows d ?d1" by (rule money_follows_update_payment) (use assms(2) in auto)
  ultimately show ?thesis by (rule money_follows_trans[rotated])
qed simp

section \<open>Refunds and callbacks\<close>

lemma create_refund_intent_madeE:
  assumes "create_refund_intent x now rid nid pid key why amount dg actor d = Inr (i, d')" and "d' \<noteq> d"
  obtains p no am dg' r d1 u dup d2 where "find_payment pid d = Some p"
      and "insert_refund now rid p no key dg' am why d = Inr (r, d1)"
      and "transition_payment now p P_REFUNDING actor (JObj [(''refundId'', JStr (uuid_str (r_id r)))]) d1
        = Inr ((u, dup), d2)"
      and "d' = project_refunding now u d2"
proof -
  obtain p where p: "find_payment pid d = Some p"
    using assms(1) by (auto simp: create_refund_intent_def split: option.splits)
  have none: "find_refund_idempotent pid key d = None"
    using assms p by (auto simp: create_refund_intent_def split: option.splits if_splits)
  have "\<exists>no am dg' r d1 u dup d2. insert_refund now rid p no key dg' am why d = Inr (r, d1)
      \<and> transition_payment now p P_REFUNDING actor (JObj [(''refundId'', JStr (uuid_str (r_id r)))]) d1
          = Inr ((u, dup), d2)
      \<and> d' = project_refunding now u d2"
    using assms(1) p none unfolding create_refund_intent_def Let_def
    by (auto simp only: option.case bind_ok_Inr prod.inject sum.inject prod.case sum.distinct
        split: if_splits) blast
  with p that show thesis by blast
qed

lemma create_refund_intent_follows:
  assumes run: "create_refund_intent x now rid nid pid key why amount dg actor d = Inr (i, d')"
  shows "money_follows d d'"
proof (cases "d' = d")
  case False
  obtain p no am dg' r d1 u dup d2 where p: "find_payment pid d = Some p"
      and ins: "insert_refund now rid p no key dg' am why d = Inr (r, d1)"
      and tr: "transition_payment now p P_REFUNDING actor (JObj [(''refundId'', JStr (uuid_str (r_id r)))]) d1
        = Inr ((u, dup), d2)"
      and d': "d' = project_refunding now u d2"
    using create_refund_intent_madeE[OF run False] by metis
  have r: "r_payment_id r = p_id p" and d1: "d1 = d\<lparr>refunds := refunds d @ [r]\<rparr>"
    using ins by (auto simp: insert_refund_def Let_def bind_ok_Inr insert_row_Inr split: if_splits)
  have "money_follows d d1"
    using find_payment_ids[OF p] find_payment_SomeD[OF p] unfolding d1
    by (intro insert_refund_follows) (simp add: r)
  moreover have "money_follows d1 d2" by (rule transition_payment_follows[OF tr]) auto
  moreover have "money_follows d2 d'" by (rule money_follows_same) (simp_all add: d')
  ultimately show ?thesis by (blast intro: money_follows_trans)
qed simp

lemma ensure_follows:
  assumes "ensure_automatic_refund_intent x now rid nid pid key why actor d = Inr (i, d')"
  shows "money_follows d d'"
  using assms by (cases rule: ensure_InrE) (auto intro: create_refund_intent_follows)

lemma ensure_extra_refund_follows:
  "ensure_extra_refund x now rid nid p key why d = Inr (u, d') \<Longrightarrow> money_follows d d'"
  by (auto simp: ensure_extra_refund_def bind_ok_Inr dest: ensure_follows split: if_splits)

lemma transition_order_money:
  assumes "transition_order now r tgt actor why payload d = Inr (r', d')"
  shows "payments d' = payments d \<and> refunds d' = refunds d \<and> payment_log d' = payment_log d"
  using transition_order_frame(3,4,10)[OF assms] by simp

lemma apply_refund_outcome_follows:
  assumes "apply_refund_outcome now k tgt payload actor d = Inr (res, d')"
  shows "money_follows d d'"
proof (cases "d' = d")
  case False
  have "\<exists>r w d1 p ord. transition_refund now r tgt payload d = Inr (w, d1)
      \<and> (d' = d1 \<or> settle_payment_after_refund now p ord payload actor d1 = Inr d')"
    using assms False unfolding apply_refund_outcome_def Let_def
    by (auto simp: bind_ok_Inr split: option.splits if_splits) blast+
  then obtain r w d1 p ord where tr: "transition_refund now r tgt payload d = Inr (w, d1)"
    and fin: "d' = d1 \<or> settle_payment_after_refund now p ord payload actor d1 = Inr d'" by blast
  have one: "money_follows d d1"
    using tr by (auto simp: transition_refund_def repo_transition_refund_def Let_def refund_moved_def
        intro!: money_follows_update_refund split: if_splits option.splits)
  have two: "money_follows d1 d'" if s: "settle_payment_after_refund now p ord payload actor d1 = Inr d'"
  proof -
    obtain q d2 where t: "transition_payment now p (payment_target p d1) actor (py_or payload (JObj [])) d1
        = Inr (q, d2)" and rest: "payments d' = payments d2" "refunds d' = refunds d2" "payment_log d' = payment_log d2"
    proof -
      obtain q d2 where t: "transition_payment now p (payment_target p d1) actor (py_or payload (JObj [])) d1
          = Inr (q, d2)"
        using s unfolding settle_payment_after_refund_def Let_def by (auto simp: bind_ok_Inr)
      then have "payments d' = payments d2 \<and> refunds d' = refunds d2 \<and> payment_log d' = payment_log d2"
        using s unfolding settle_payment_after_refund_def Let_def
        by (cases ord) (auto simp: bind_ok_Inr split: if_splits dest!: transition_order_money)
      with t that show thesis by blast
    qed
    have "money_follows d1 d2"
      by (rule transition_payment_follows[OF t])
        (use payment_target_received[of p d1] in \<open>auto simp: received_statuses_def\<close>)
    with money_follows_same[OF rest] show ?thesis by (blast intro: money_follows_trans)
  qed
  from fin one two show ?thesis by (blast intro: money_follows_trans)
qed simp

lemma record_late_paid_follows:
  assumes "record_late_paid now p provider v d = Inr (u, d')"
  shows "money_follows d d'"
proof -
  let ?d1 = "update_payment (p_id p) (late_paid now (p_revision p + 1) v) d"
  obtain e where e: "append_payment_log e ?d1 = Inr d'" "pe_payment_id e = p_id p"
      and u: "find_payment (p_id p) ?d1 = Some u"
    using assms by (auto simp: record_late_paid_def Let_def bind_ok_Inr split: option.splits)
  have "money_follows ?d1 d'" using append_log_follows[OF e(1)] e(2) find_payment_ids[OF u] by simp
  moreover have "money_follows d ?d1"
    by (rule money_follows_update_payment) (simp_all add: payment_open_def)
  ultimately show ?thesis by (rule money_follows_trans[rotated])
qed

lemma enqueue_outbox_money:
  "payments (snd (enqueue_outbox now bid t a i v key d)) = payments d"
  "refunds (snd (enqueue_outbox now bid t a i v key d)) = refunds d"
  "payment_log (snd (enqueue_outbox now bid t a i v key d)) = payment_log d"
  by (simp_all add: enqueue_outbox_def Let_def split: option.splits)

lemma route_live_order_follows:
  assumes "route_live_order x now rid nid bid r p d = Inr (u, d')"
  shows "money_follows d d'"
proof -
  define d1 where "d1 = (if o_paid_payment_id r = None then set_paid_payment_id now (o_id r) (p_id p) d else d)"
  have one: "money_follows d d1" unfolding d1_def by (rule money_follows_same) simp_all
  note run = assms[unfolded route_live_order_def Let_def, folded d1_def]
  have "money_follows d1 d'"
  proof (cases "str_uuid_opt (coalesce (o_paid_payment_id r) (Some (p_id p))) \<noteq> uuid_str (p_id p)")
    case True
    with run show ?thesis by (simp add: ensure_extra_refund_follows)
  next
    case False
    show ?thesis
    proof (cases "o_payment_status r = OP_PAID")
      case True
      with run False show ?thesis by simp
    next
      case unpaid: False
      with run False obtain f e v where d': "d' = snd (enqueue_outbox now bid ''payment.paid'' ''payment'' e v
            (''payment:'' @ e @ '':paid'') (update_order (o_id r) f d1))"
        by (auto simp: prod.case_eq_if)
      have "payments d' = payments d1" "refunds d' = refunds d1" "payment_log d' = payment_log d1"
        by (simp_all only: d' enqueue_outbox_money) (simp_all add: update_order_def)
      then show ?thesis by (rule money_follows_same)
    qed
  qed
  with one show ?thesis by (rule money_follows_trans)
qed

lemma route_dead_order_follows:
  assumes "route_dead_order x now rid nid r p d = Inr (u, d')"
  shows "money_follows d d'"
proof -
  obtain d2 where d2: "ensure_extra_refund x now rid nid p
      (''payment:'' @ uuid_str (p_id p) @ '':cancelled-order-refund'')
      ''payment completed after order cancellation'' d2 = Inr (u, d')"
    "payments d2 = payments d" "refunds d2 = refunds d" "payment_log d2 = payment_log d"
    using assms unfolding route_dead_order_def Let_def by (rule that) simp_all
  from money_follows_same[OF d2(2-4)] ensure_extra_refund_follows[OF d2(1)] show ?thesis
    by (rule money_follows_trans)
qed

lemma route_money_follows:
  "route_money x now rid nid bid r p dup d = Inr (v, d') \<Longrightarrow> money_follows d d'"
  by (auto simp: route_money_def bind_ok_Inr dest: route_dead_order_follows route_live_order_follows
      split: if_splits)

lemma callback_follows:
  assumes "apply_paid_callback x now rid nid bid provider event_id v d = Inr ((res, dup), d')"
  shows "money_follows d d'"
  using assms
proof (cases rule: apply_paid_callback_InrE)
  case (processed p p0 r p1 d1 p2 d2 d3)
  have one: "money_follows d d1"
    using processed(6)
    by (auto simp: confirm_trade_no_def Let_def payment_open_def intro!: money_follows_update_payment
        split: option.splits if_splits)
  have two: "money_follows d1 d2"
    using processed(7) unfolding record_paid_fact_def
    by (auto simp: bind_ok_Inr intro: record_late_paid_follows dest: transition_payment_follows
        split: if_splits)
  have three: "money_follows d2 d3" using insert_inbox_Inr[OF processed(8)] by (auto intro: money_follows_same)
  have four: "money_follows d3 d'" using route_money_follows[OF processed(9)] .
  show ?thesis using one two three four by (blast intro: money_follows_trans)
qed simp

section \<open>References and open intents\<close>

text \<open>Refunds and audit events belong to payments; an order has at most one open intent.\<close>

definition money_refs :: "db \<Rightarrow> bool" where
  "money_refs d \<longleftrightarrow> set (map r_payment_id (refunds d)) \<subseteq> payment_ids d
     \<and> set (map pe_payment_id (payment_log d)) \<subseteq> payment_ids d"

definition open_intents :: "uuid \<Rightarrow> payment list \<Rightarrow> payment list" where
  "open_intents k ps = filter (\<lambda>p. p_order_id p = k \<and> payment_open p) ps"

definition one_open :: "db \<Rightarrow> bool" where
  "one_open d \<longleftrightarrow> (\<forall>k. length (open_intents k (payments d)) \<le> 1)"

lemma money_follows_ids: "money_follows d d' \<Longrightarrow> payment_ids d' = payment_ids d"
  unfolding money_follows_def payment_ids_def by (metis same_payments_ids)

lemma money_follows_refs:
  assumes "money_follows d d'" and "money_refs d"
  shows "money_refs d'"
  using assms unfolding money_refs_def money_follows_ids[OF assms(1)] money_follows_def by blast

lemma open_intents_follow:
  "list_all2 same_payment ps qs \<Longrightarrow> length (open_intents k qs) \<le> length (open_intents k ps)"
  by (induction rule: list_all2_induct) (auto simp: open_intents_def same_payment_def)

lemma money_follows_open: "money_follows d d' \<Longrightarrow> one_open d \<Longrightarrow> one_open d'"
  unfolding money_follows_def one_open_def by (meson le_trans open_intents_follow)

section \<open>Money and the production line\<close>

definition same_tables :: "db \<Rightarrow> db \<Rightarrow> bool" where
  "same_tables d d' \<longleftrightarrow> jobs d' = jobs d \<and> commands d' = commands d \<and> line_ids d' = line_ids d"

lemma same_tables_refl [simp]: "same_tables d d"
  by (simp add: same_tables_def)

lemma same_tables_trans: "same_tables d d1 \<Longrightarrow> same_tables d1 d2 \<Longrightarrow> same_tables d d2"
  by (simp add: same_tables_def)

lemma same_tables_production:
  assumes "production_part d' = production_part d"
  shows "same_tables d d'"
  using production_part_sel(2,3)[OF assms] line_ids_production[OF assms] by (simp add: same_tables_def)

lemma same_tables_update_order:
  assumes "\<And>r. o_id (f r) = o_id r" and "\<And>r. o_terminal_id (f r) = o_terminal_id r"
  shows "same_tables d (update_order k f d)"
  using line_ids_update_order[of f k d, OF assms] by (simp add: same_tables_def) (simp add: update_order_def)

text \<open>No job has an order that is not paid yet or not yet queued, so such an order may move alone.\<close>

definition waiting_statuses :: "order_status list" where
  "waiting_statuses = [O_CREATED, O_AWAITING_PAYMENT, O_PAID]"

lemma waiting_incoherent: "s \<in> set waiting_statuses \<Longrightarrow> \<not> coherent s j c"
  by (cases j) (auto simp: waiting_statuses_def)

lemma line_inv_waiting:
  assumes inv: "line_inv d" and same: "same_tables d d'"
    and orders: "\<And>k s. ln_orders (line_of d) k = Some s \<Longrightarrow>
      \<exists>s'. ln_orders (line_of d') k = Some s' \<and> (s' = s \<or> s \<in> set waiting_statuses)"
  shows "line_inv d'"
proof -
  have jobs: "ln_jobs (line_of d') = ln_jobs (line_of d)" "ln_commands (line_of d') = ln_commands (line_of d)"
    using same by (simp_all add: same_tables_def line_of_def lock_job_def find_command_def)
  have drink: "drink_ok (line_of d') v" if ok: "drink_ok (line_of d) v" for v
  proof -
    obtain s where s: "ln_orders (line_of d) (jv_order v) = Some s" using drink_ok_order[OF ok] by blast
    have "s \<notin> set waiting_statuses"
      using ok s waiting_incoherent by (auto simp: drink_ok_def split: option.splits)
    with orders[OF s] have "ln_orders (line_of d') (jv_order v) = Some s" by blast
    with ok s show ?thesis unfolding drink_ok_def jobs by simp
  qed
  have "line_ok (line_of d')"
    using inv drink unfolding line_inv_def line_ok_def jobs by blast
  with inv same show ?thesis by (simp add: line_inv_def same_tables_def)
qed

lemma enqueue_outbox_production:
  "production_part (snd (enqueue_outbox now bid t a i v key d)) = production_part d"
  by (simp add: enqueue_outbox_def Let_def production_part_def split: option.splits)

lemma route_live_order_tables:
  assumes "route_live_order x now rid nid bid r p d = Inr (u, d')"
  shows "same_tables d d'"
proof -
  define d1 where "d1 = (if o_paid_payment_id r = None then set_paid_payment_id now (o_id r) (p_id p) d else d)"
  have one: "same_tables d d1" unfolding d1_def by (rule same_tables_production) simp
  note run = assms[unfolded route_live_order_def Let_def, folded d1_def]
  have "same_tables d1 d'"
  proof (cases "str_uuid_opt (coalesce (o_paid_payment_id r) (Some (p_id p))) \<noteq> uuid_str (p_id p)")
    case True
    with run have "ensure_extra_refund x now rid nid p (''payment:'' @ uuid_str (p_id p) @ '':extra-paid-refund'')
             ''duplicate payment received for order'' d1 = Inr (u, d')" by simp
    then show ?thesis by (intro same_tables_production ensure_extra_refund_Inr(5))
  next
    case False
    show ?thesis
    proof (cases "o_payment_status r = OP_PAID")
      case True
      with run False show ?thesis by simp
    next
      case unpaid: False
      let ?f = "\<lambda>q. q\<lparr>o_payment_status := OP_PAID, o_status := (if o_status q \<in> set [O_CREATED, O_AWAITING_PAYMENT]
         then O_PAID else o_status q), o_updated_at := now\<rparr>"
      from unpaid run False obtain e v where d': "d' = snd (enqueue_outbox now bid ''payment.paid'' ''payment'' e v
            (''payment:'' @ e @ '':paid'') (update_order (o_id r) ?f d1))"
        by (auto simp: prod.case_eq_if)
      have "same_tables d1 (update_order (o_id r) ?f d1)" by (rule same_tables_update_order) simp_all
      moreover have "same_tables (update_order (o_id r) ?f d1) d'"
        unfolding d' by (rule same_tables_production[OF enqueue_outbox_production])
      ultimately show ?thesis by (rule same_tables_trans)
    qed
  qed
  with one show ?thesis by (rule same_tables_trans)
qed

lemma route_money_tables:
  "route_money x now rid nid bid r p dup d = Inr (v, d') \<Longrightarrow> same_tables d d'"
  by (auto simp: route_money_def bind_ok_Inr
      dest: route_live_order_tables same_tables_production[OF route_dead_order_Inr(5)] split: if_splits)

lemma callback_tables:
  assumes led: "refund_ledger d"
    and step: "apply_paid_callback x now rid nid bid provider event_id v d = Inr ((res, dup), d')"
  shows "same_tables d d'"
  using step
proof (cases rule: apply_paid_callback_InrE)
  case (processed p p0 r p1 d1 p2 d2 d3)
  note f = processed_facts[OF led processed(2,5,4,6,7,8)]
  have fp: "find_payment (p_id p0) d = Some p0"
    using processed(5) by (rule find_payment_same)
  note c = confirm_trade_no_Inr[OF processed(6) fp]
  obtain k where "k \<noteq> p_id p1"
    by (metis uuid.exhaust uuid.sel list.distinct(1))
  then have "production_part d2 = production_part d1" using record_paid_fact_others(2)[OF processed(7)] by blast
  then have pp: "production_part d3 = production_part d"
    using c(11) insert_inbox_Inr(8)[OF processed(8)] by simp
  show ?thesis using same_tables_production[OF pp] route_money_tables[OF processed(9)]
    by (rule same_tables_trans)
qed simp

lemma callback_line:
  assumes led: "refund_ledger d" and inv: "line_inv d"
    and step: "apply_paid_callback x now rid nid bid provider event_id v d = Inr ((res, dup), d')"
  shows "line_inv d'"
proof (rule line_inv_waiting[OF inv callback_tables[OF led step]])
  fix k s
  assume "ln_orders (line_of d) k = Some s"
  then obtain r where r: "find_order k d = Some r" "o_status r = s" by (auto simp: line_of_def)
  from apply_paid_callback_statuses[OF led r(1) step] obtain r' where
    r': "find_order k d' = Some r'" "o_status r' = s \<or> s \<in> set [O_CREATED, O_AWAITING_PAYMENT]"
    using r(2) by blast
  then show "\<exists>s'. ln_orders (line_of d') k = Some s' \<and> (s' = s \<or> s \<in> set waiting_statuses)"
    by (intro exI[of _ "o_status r'"]) (auto simp: ln_ordersI waiting_statuses_def)
qed

end
