(* ===== verification/PaymentsSafety.thy ===== *)
theory PaymentsSafety
  imports PaymentsApp MoneyFrame
begin

text \<open>
  What the payment service promises: an order never has two open payment intents, a repeated
  request gets the intent that is there, money invariants hold through every operation, and a
  notification counts only when its signature, its application and its account are right.
\<close>

section \<open>The invariant of the money tables\<close>

definition money_inv :: "db \<Rightarrow> bool" where
  "money_inv d \<longleftrightarrow> refund_ledger d \<and> money_refs d \<and> one_open d"

lemma money_invI: "money_inv d \<Longrightarrow> money_follows d d' \<Longrightarrow> refund_ledger d' \<Longrightarrow> money_inv d'"
  by (auto simp: money_inv_def intro: money_follows_refs money_follows_open)

lemma money_inv_same:
  assumes "payments d' = payments d" "refunds d' = refunds d" "payment_log d' = payment_log d"
  shows "money_inv d' = money_inv d"
  using assms refund_ledger_cong[OF assms]
  by (simp add: money_inv_def money_refs_def one_open_def payment_ids_def)

lemma insert_payment_money:
  assumes run: "insert_payment now k r provider no key dg d = Inr (p, d1)"
    and inv: "money_inv d" and none: "latest_open_for_order (o_id r) d = None"
  shows "money_inv d1" and "p_order_id p = o_id r" and "p_status p = P_CREATED"
    and "p_amount_minor p = o_total_amount_minor r" and "p_provider p = provider"
    and "d1 = d\<lparr>payments := payments d @ [p]\<rparr>" and "p_idempotency_key p = key"
    and "p_request_digest p = dg" and "\<forall>q \<in> set (payments d). \<not> payment_clash p q"
proof -
  have d1: "d1 = d\<lparr>payments := payments d @ [p]\<rparr>" and p: "p_order_id p = o_id r" "p_status p = P_CREATED"
      "p_amount_minor p = o_total_amount_minor r" "p_provider p = provider" "0 < p_amount_minor p"
      "p_revision p = 0" "p_idempotency_key p = key" "p_request_digest p = dg"
    and new: "\<forall>q \<in> set (payments d). \<not> payment_clash p q"
    using run by (auto simp: insert_payment_def Let_def bind_ok_Inr insert_row_Inr split: if_splits)
  have fresh: "p_id p \<notin> set (map p_id (payments d))" using new by (auto simp: payment_clash_def)
  have no_refund: "\<forall>x \<in> set (refunds d). r_payment_id x \<noteq> p_id p"
    and no_event: "\<forall>e \<in> set (payment_log d). pe_payment_id e \<noteq> p_id p"
  proof -
    have refs: "r_payment_id ` set (refunds d) \<subseteq> p_id ` set (payments d)"
      "pe_payment_id ` set (payment_log d) \<subseteq> p_id ` set (payments d)"
      using inv by (simp_all add: money_inv_def money_refs_def payment_ids_def)
    show "\<forall>x \<in> set (refunds d). r_payment_id x \<noteq> p_id p"
      using subsetD[OF refs(1) imageI] fresh by (metis list.set_map)
    show "\<forall>e \<in> set (payment_log d). pe_payment_id e \<noteq> p_id p"
      using subsetD[OF refs(2) imageI] fresh by (metis list.set_map)
  qed
  have led: "refund_ledger d" using inv by (simp add: money_inv_def)
  then have base: "ledger_base d" by (simp add: refund_ledger_def)
  have zero: "refunded_total (p_id p) S d = 0" for S
    using no_refund by (simp add: refunded_total_def refunds_of_def)
  have tot: "refunded_total i S d1 = refunded_total i S d" for i S by (rule refunded_total_cong) (simp add: d1)
  have logs: "payment_log_fresh d1 q = payment_log_fresh d q" for q by (simp add: payment_log_fresh_def d1)
  have base1: "ledger_base d1"
    using ledger_baseD[OF base] fresh p zero no_event
    unfolding ledger_base_def tot logs by (auto simp: d1 payment_log_fresh_def)
  have "settled d1 q" if "q \<in> set (payments d1)" for q
  proof (cases "q = p")
    case True
    with p no_refund show ?thesis by (simp add: settled_def d1 received_statuses_def)
  next
    case False
    with that led have "settled d q" by (simp add: d1 refund_ledger_def)
    then show ?thesis using settled_cong[of d1 d q] by (simp add: d1)
  qed
  with base1 have "refund_ledger d1" by (simp add: refund_ledger_def)
  moreover have "money_refs d1" using inv by (auto simp: d1 money_inv_def money_refs_def payment_ids_def)
  moreover have "one_open d1"
  proof -
    have here: "open_intents (o_id r) (payments d) = []"
    proof (rule ccontr)
      assume "open_intents (o_id r) (payments d) \<noteq> []"
      then obtain q qs where "sort_key (\<lambda>p. - p_created_at p) (open_intents (o_id r) (payments d)) = q # qs"
        by (metis list.exhaust length_0_conv length_sort)
      with none show False by (simp add: latest_open_for_order_def newest_payment_def open_intents_def)
    qed
    have "length (open_intents i (payments d1)) \<le> 1" for i
      using inv here p(1) by (cases "i = o_id r")
        (auto simp: d1 open_intents_def money_inv_def one_open_def)
    then show ?thesis by (simp add: one_open_def)
  qed
  ultimately show "money_inv d1" by (simp add: money_inv_def)
  show "p_order_id p = o_id r" "p_status p = P_CREATED" "p_amount_minor p = o_total_amount_minor r"
    "p_provider p = provider" "d1 = d\<lparr>payments := payments d @ [p]\<rparr>" "p_idempotency_key p = key"
    "p_request_digest p = dg" "\<forall>q \<in> set (payments d). \<not> payment_clash p q"
    using p d1 new by simp_all
qed

section \<open>Creating an intent\<close>

lemma open_intent_cases:
  assumes run: "open_intent now k no provider wanted key dg r d = Inr (s, d')"
  obtains (reused) p where "d' = d" and "s = Ask p True" and "latest_open_for_order (o_id r) d = Some p"
      and "p_provider p = provider"
  | (opened) p d1 e d2 v d3 where "latest_open_for_order (o_id r) d = None" and "s = Ask p False"
      and "insert_payment now k r provider no key dg d = Inr (p, d1)"
      and "append_payment_log e d1 = Inr d2" and "pe_payment_id e = p_id p" and "pe_event_id e = ''created''"
      and "(if o_status r = O_CREATED
            then transition_order now r O_AWAITING_PAYMENT ''payment-service'' (Some ''payment created'') JNull d2
            else Inr (r, d2)) = Inr (v, d3)"
      and "d' = update_payment_status now (o_id r) OP_PENDING d3"
      and "o_payment_status r \<notin> set [OP_PAID, OP_REFUNDING, OP_PARTIALLY_REFUNDED, OP_REFUNDED]"
      and "o_status r \<in> set [O_CREATED, O_AWAITING_PAYMENT]"
proof -
  have ok: "o_payment_status r \<notin> set [OP_PAID, OP_REFUNDING, OP_PARTIALLY_REFUNDED, OP_REFUNDED]"
    "o_status r \<in> set [O_CREATED, O_AWAITING_PAYMENT]"
    using run by (auto simp: open_intent_def split: if_splits)
  show thesis
  proof (cases "latest_open_for_order (o_id r) d")
    case (Some p)
    with run ok show thesis by (intro reused) (auto simp: open_intent_def split: if_splits)
  next
    case None
    let ?tr = "\<lambda>d2. if o_status r = O_CREATED
      then transition_order now r O_AWAITING_PAYMENT ''payment-service'' (Some ''payment created'') JNull d2
      else Inr (r, d2)"
    have "bind_ok (insert_payment now k r provider no key dg d) (\<lambda>(p, d1).
        bind_ok (insert_created_event (p_id p) (payment_request_body wanted) d1) (\<lambda>d2.
        bind_ok (?tr d2) (\<lambda>(_, d3). Inr (Ask p False, update_payment_status now (o_id r) OP_PENDING d3))))
      = Inr (s, d')"
      using run ok None unfolding open_intent_def by (simp del: set_simps)
    then obtain p d1 d2 v d3 where st: "insert_payment now k r provider no key dg d = Inr (p, d1)"
      "insert_created_event (p_id p) (payment_request_body wanted) d1 = Inr d2" "?tr d2 = Inr (v, d3)"
      "s = Ask p False" "d' = update_payment_status now (o_id r) OP_PENDING d3"
      by (simp only: bind_ok_Inr split_paired_all split_paired_Ex prod.case sum.inject prod.inject) blast
    from st(2) obtain e where "append_payment_log e d1 = Inr d2" "pe_payment_id e = p_id p"
        "pe_event_id e = ''created''"
      unfolding insert_created_event_def by (metis payment_event.select_convs(1,2))
    from opened[OF None st(4,1) this st(3,5) ok] show thesis .
  qed
qed

lemma awaiting_payment_frame:
  assumes "(if o_status r = O_CREATED
      then transition_order now r O_AWAITING_PAYMENT ''payment-service'' (Some ''payment created'') JNull d2
      else Inr (r, d2)) = Inr (v, d3)"
  shows "payments d3 = payments d2" "refunds d3 = refunds d2" "payment_log d3 = payment_log d2"
  using assms transition_order_money[of now r O_AWAITING_PAYMENT "''payment-service''"
      "Some ''payment created''" JNull d2 "fst (v, d3)" "snd (v, d3)"]
  by (auto split: if_splits)

lemma ledger_append_event:
  assumes "refund_ledger d" and "append_payment_log e d = Inr d'"
    and "\<not> starts_with ''transition:'' (pe_event_id e)"
  shows "refund_ledger d'"
proof -
  have d': "d' = d\<lparr>payment_log := payment_log d @ [e]\<rparr>" using append_payment_log_Inr[OF assms(2)] .
  have tot: "refunded_total k S d' = refunded_total k S d" for k S by (rule refunded_total_cong) (simp add: d')
  have "payment_log_fresh d' p = payment_log_fresh d p" for p
    using assms(3) by (auto simp: payment_log_fresh_def d')
  then have "ledger_base d'" using assms(1) unfolding refund_ledger_def ledger_base_def tot by (simp add: d')
  moreover have "settled d' p = settled d p" for p by (rule settled_cong) (simp add: d')
  ultimately show ?thesis using assms(1) by (simp add: refund_ledger_def d')
qed

lemma open_intent_money:
  assumes run: "open_intent now k no provider wanted key dg r d = Inr (s, d')" and inv: "money_inv d"
  shows "money_inv d'"
  using run
proof (cases rule: open_intent_cases)
  case (opened p d1 e d2 v d3)
  note ins = insert_payment_money[OF opened(3) inv opened(1)]
  have "p_id p \<in> payment_ids d1" by (simp add: ins(6) payment_ids_def)
  with append_log_follows[OF opened(4)] opened(5) have "money_follows d1 d2" by simp
  moreover have "refund_ledger d2"
    by (rule ledger_append_event[OF _ opened(4)]) (use ins(1) opened(6) in \<open>simp_all add: money_inv_def starts_with_def\<close>)
  ultimately have "money_inv d2" using ins(1) money_invI by blast
  moreover have "money_inv d' = money_inv d2"
    by (rule money_inv_same) (simp_all add: opened(8) awaiting_payment_frame[OF opened(7)])
  ultimately show ?thesis by simp
qed (use inv in simp)

text \<open>A create that succeeded: an answer or an intent that was there, or a new one.\<close>

definition request_ok :: "settings \<Rightarrow> string option \<Rightarrow> string option \<Rightarrow> bool" where
  "request_ok cfg wanted key \<longleftrightarrow>
     \<not> (key = None \<or> key = Some [] \<or> some_and key (\<lambda>s. 160 < py_len s))
     \<and> \<not> (channel_of cfg wanted = ''mock'' \<and> \<not> s_allow_mock_payment cfg)"

lemma create_intent_cases:
  assumes run: "create_intent x cfg now k no order_id wanted token key d = Inr (s, d')"
  obtains (kept) r provider where "d' = d" and "authenticate_order x order_id token d = Inr r"
      and "choose_provider wanted (channel_of cfg wanted) r d = Inr provider" and "request_ok cfg wanted key"
      and "\<not> (\<exists>p. s = Ask p False)" and "o_payment_mode r \<noteq> ''TEST_FREE''"
  | (opened) r provider p where "authenticate_order x order_id token d = Inr r"
      and "choose_provider wanted (channel_of cfg wanted) r d = Inr provider" and "request_ok cfg wanted key"
      and "o_payment_mode r \<noteq> ''TEST_FREE''"
      and "find_payment_idempotent order_id (coalesce_to key []) d = None"
      and "open_intent now k no provider wanted (coalesce_to key [])
        (canonical_digest x (payment_request_body wanted)) r d = Inr (Ask p False, d')"
      and "s = Ask p False"
proof -
  have ok: "request_ok cfg wanted key"
    using run unfolding create_intent_def request_ok_def by (auto split: if_splits)
  obtain r provider where r: "authenticate_order x order_id token d = Inr r"
      and pr: "choose_provider wanted (channel_of cfg wanted) r d = Inr provider"
      and mode: "o_payment_mode r \<noteq> ''TEST_FREE''"
      and rest: "existing_intent x now k no order_id wanted (coalesce_to key []) provider r d = Inr (s, d')"
    using run ok unfolding create_intent_def request_ok_def by (auto simp: bind_ok_Inr split: if_splits)
  show thesis
  proof (cases "find_payment_idempotent order_id (coalesce_to key []) d")
    case (Some p)
    with rest kept[OF _ r pr ok _ mode] show thesis
      by (auto simp: existing_intent_def Let_def split: if_splits)
  next
    case None
    with rest have op: "open_intent now k no provider wanted (coalesce_to key [])
        (canonical_digest x (payment_request_body wanted)) r d = Inr (s, d')"
      by (simp add: existing_intent_def Let_def)
    then show thesis
    proof (cases rule: open_intent_cases)
      case (reused p)
      with kept[OF _ r pr ok _ mode] show thesis by simp
    next
      case (opened p d1 e d2 v d3)
      with opened(2) op that(2)[OF r pr ok mode None] show thesis by simp
    qed
  qed
qed

section \<open>Recording the provider's answer\<close>

lemma save_provider_result_facts:
  assumes "save_provider_result now k res d = (Some u, d1)"
  shows "refund_ledger d \<Longrightarrow> refund_ledger d1" and "money_follows d d1" and "find_payment k d1 = Some u"
    and "p_id u = k" and "same_tables d d1" and "orders d1 = orders d" and "received d1 i = received d i"
proof -
  let ?f = "\<lambda>p. p\<lparr>p_qr_code := coalesce (pr_qr_code res) (p_qr_code p),
      p_provider_trade_no := coalesce (pr_provider_trade_no res) (p_provider_trade_no p),
      p_provider_response := Some (pr_raw res), p_updated_at := now\<rparr>"
  have d1: "d1 = update_payment k ?f d" and u: "find_payment k d1 = Some u"
    using assms by (auto simp: save_provider_result_def Let_def)
  show "find_payment k d1 = Some u" "p_id u = k" using u find_payment_SomeD[OF u] by simp_all
  show "refund_ledger d \<Longrightarrow> refund_ledger d1" unfolding d1 by (rule ledger_soft_update) simp_all
  show "money_follows d d1" unfolding d1
    by (rule money_follows_update_payment) (simp_all add: payment_open_def)
  have "production_part d1 = production_part d" unfolding d1 by (simp add: update_payment_def production_part_def)
  then show "same_tables d d1" by (rule same_tables_production)
  show "orders d1 = orders d" by (simp add: d1 update_payment_def)
  show "received d1 i = received d i" unfolding d1 by (rule received_update_payment) simp_all
qed

lemma schedule_reconciliation_facts:
  "refund_ledger d \<Longrightarrow> refund_ledger (schedule_reconciliation now k secs d)"
  "money_follows d (schedule_reconciliation now k secs d)"
  "production_part (schedule_reconciliation now k secs d) = production_part d"
  unfolding schedule_reconciliation_def
  by (auto intro!: ledger_soft_update money_follows_update_payment simp: payment_open_def)

text \<open>A created payment that becomes pending keeps the ledger: it has no refunds.\<close>

lemma pending_ledger:
  assumes led: "refund_ledger d" and p: "find_payment (p_id p) d = Some p" and st: "p_status p = P_CREATED"
    and run: "transition_payment now p P_PENDING actor payload d = Inr (v, d')"
  shows "refund_ledger d'" and "money_follows d d'" and "production_part d' = production_part d"
proof -
  have base: "ledger_base d" using led by (simp add: refund_ledger_def)
  have "payment_decision.moves (p_status p) P_PENDING" by (simp add: st payment_moves_iff)
  from transition_payment_ok[OF base p this, of now actor payload] run obtain e where
    d': "d' = (update_payment (p_id p) (payment_moved now P_PENDING (p_revision p + 1)) d)
        \<lparr>payment_log := payment_log d @ [e]\<rparr>"
    and e: "pe_payment_id e = p_id p" "pe_event_id e = ''transition:'' @ str_int (p_revision p + 1)"
    by auto
  have pin: "p \<in> set (payments d)" using find_payment_SomeD[OF p] by simp
  have "settled d (payment_moved now P_PENDING (p_revision p + 1) p)"
    using led pin st by (auto simp: refund_ledger_def settled_def received_statuses_def payment_moved_def)
  moreover have "0 \<le> p_revision p" using ledger_baseD(6)[OF base pin] by (simp add: payment_log_fresh_def)
  ultimately show "refund_ledger d'"
    using led e unfolding d'
    by (intro ledger_payment_update[where es = "[e]" and f = "payment_moved now P_PENDING (p_revision p + 1)", OF _ _ p])
      (auto simp: refund_ledger_def update_payment_def payment_moved_def transition_event_id str_int_nonneg)
  show "money_follows d d'"
  proof (rule transition_payment_follows[OF run])
    fix q assume "q \<in> set (payments d)" "p_id q = p_id p"
    then have "q = p" using distinct_key_eq[of p_id "payments d" q p] ledger_baseD(1)[OF base] pin by simp
    then show "payment_open q" using st by (simp add: payment_open_def)
  qed
  show "production_part d' = production_part d"
    by (simp add: d' update_payment_def production_part_def)
qed

lemma record_result_cases:
  assumes run: "record_result x cfg now rid nid bid p reused res d = Inr (v, d')"
  obtains (paid) u dup where "pr_status res = ''PAID''" and "apply_paid_callback x now rid nid bid (p_provider p)
      (''query-paid:'' @ p_merchant_payment_no p) (query_paid_values p res) d = Inr ((u, dup), d')"
  | (saved) p0 u where "find_payment (p_id p) d = Some p0"
      and "save_provider_result now (p_id p0) res d = (Some u, d')" and "p_status u \<noteq> P_CREATED"
  | (pending) p0 u d1 w d2 where "find_payment (p_id p) d = Some p0"
      and "save_provider_result now (p_id p0) res d = (Some u, d1)" and "p_status u = P_CREATED"
      and "transition_payment now u P_PENDING ''payment-provider'' (pr_raw res) d1 = Inr (w, d2)"
      and "d' = schedule_reconciliation now (p_id (fst w)) (s_payment_reconcile_seconds cfg) d2"
proof (cases "pr_status res = ''PAID''")
  case True
  with run paid show thesis by (auto simp: record_result_def bind_ok_Inr split: option.splits)
next
  case False
  with run obtain p0 u d1 where st: "find_payment (p_id p) d = Some p0"
      "save_provider_result now (p_id p0) res d = (Some u, d1)"
    by (auto simp: record_result_def split: option.splits prod.splits)
  show thesis
  proof (cases "p_status u = P_CREATED")
    case True
    with run False st pending[OF st True] show thesis
      by (auto simp: record_result_def bind_ok_Inr split: prod.splits)
  next
    case kept: False
    with run False st saved show thesis by (simp add: record_result_def)
  qed
qed

lemma record_result_keeps:
  assumes run: "record_result x cfg now rid nid bid p reused res d = Inr (v, d')"
    and inv: "money_inv d" and line: "line_inv d"
  shows "money_inv d'" and "line_inv d'"
proof -
  have led: "refund_ledger d" using inv by (simp add: money_inv_def)
  have "money_inv d' \<and> line_inv d'"
    using run
  proof (cases rule: record_result_cases)
    case (paid u dup)
    from callback_line[OF led line paid(2)] money_invI[OF inv callback_follows[OF paid(2)]]
      apply_paid_callback_keeps[OF led paid(2)]
    show ?thesis by blast
  next
    case (saved p0 u)
    note S = save_provider_result_facts[OF saved(2)]
    have "line_inv d'" by (rule line_inv_waiting[OF line S(5)]) (auto simp: line_of_def find_order_def S(6))
    with money_invI[OF inv S(2) S(1)[OF led]] show ?thesis by blast
  next
    case (pending p0 u d1 w d2)
    note S = save_provider_result_facts[OF pending(2)]
    have "find_payment (p_id u) d1 = Some u" using S(3,4) by simp
    note P = pending_ledger[OF S(1)[OF led] this pending(3,4)]
    note R = schedule_reconciliation_facts
    have money: "money_inv d'"
      unfolding pending(5)
      by (rule money_invI[OF inv money_follows_trans[OF money_follows_trans[OF S(2) P(2)] R(2)] R(1)[OF P(1)]])
    have "production_part d' = production_part d1" unfolding pending(5) using R(3) P(3) by simp
    then have "line_of d' = line_of d1" "line_ids d' = line_ids d1"
      by (rule line_of_production, rule line_ids_production)
    moreover have "line_inv d1" by (rule line_inv_waiting[OF line S(5)]) (auto simp: line_of_def find_order_def S(6))
    ultimately have "line_inv d'" by (rule line_inv_same)
    with money show ?thesis by blast
  qed
  then show "money_inv d'" "line_inv d'" by simp_all
qed

section \<open>Properties\<close>

lemma open_intent_line:
  assumes run: "open_intent now k no provider wanted key dg r d = Inr (s, d')"
    and line: "line_inv d" and r: "find_order (o_id r) d = Some r"
  shows "line_inv d'"
  using run
proof (cases rule: open_intent_cases)
  case (opened p d1 e d2 v d3)
  have pp: "production_part d2 = production_part d"
    using opened(3) append_payment_log_Inr[OF opened(4)]
    by (auto simp: insert_payment_def Let_def bind_ok_Inr production_part_def split: if_splits)
  have l2: "line_inv d2" by (rule line_inv_same[OF line_of_production[OF pp] line_ids_production[OF pp] line])
  have o2: "ln_orders (line_of d2) (o_id r) = Some (o_status r)"
    using ln_ordersI[OF r] line_of_production[OF pp] by simp
  have l3: "line_inv d3"
  proof (cases "o_status r = O_CREATED")
    case True
    with opened(7) have tr: "transition_order now r O_AWAITING_PAYMENT ''payment-service''
        (Some ''payment created'') JNull d2 = Inr (v, d3)" by simp
    have ok: "order_transition_allowed (o_status r) O_AWAITING_PAYMENT"
      by (simp add: True order_transition_allowed_def)
    have free: "jv_order w \<noteq> o_id r" if w: "ln_jobs (line_of d2) i = Some w" for i w
    proof
      assume "jv_order w = o_id r"
      moreover have "drink_ok (line_of d2) w" using l2 w by (auto simp: line_inv_def intro: line_ok_drink)
      ultimately show False using o2 True waiting_incoherent[of O_CREATED]
        by (auto simp: drink_ok_def waiting_statuses_def split: option.splits)
    qed
    have "line_ok (line_of d3)"
      unfolding line_of_transition_order(1)[OF tr o2 ok]
      by (rule line_ok_move_order) (use l2 free in \<open>auto simp: line_inv_def\<close>)
    then show ?thesis using line_ids_transition_order[OF tr] l2 by (simp add: line_inv_def)
  next
    case False
    with opened(7) l2 show ?thesis by simp
  qed
  have "line_ids d' = line_ids d3" unfolding opened(8) update_payment_status_def
    by (rule line_ids_update_order) simp_all
  then show ?thesis using line_inv_same[of d' d3] l3 by (simp add: opened(8))
qed (use line in simp)

lemma authenticate_order_found:
  assumes "authenticate_order x order_id token d = Inr r"
  shows "find_order order_id d = Some r" and "o_id r = order_id"
    and "\<exists>t. token = Some t \<and> py_strip (o_access_token_hash r) = hash_token x t"
proof -
  obtain t ter where "find_with_terminal order_id d = Some (r, ter)" "token = Some t"
      "py_strip (o_access_token_hash r) = hash_token x t"
    using assms by (auto simp: authenticate_order_def tokens_equal_def split: option.splits if_splits)
  then show "find_order order_id d = Some r" "o_id r = order_id"
    "\<exists>t. token = Some t \<and> py_strip (o_access_token_hash r) = hash_token x t"
    by (auto simp: find_with_terminal_def join_terminal_def dest: find_order_SomeD split: bind_splits)
qed

text \<open>C24 Asking for a payment keeps the money invariants and the production line: the refund ledger,
  and at most one open intent per order. It needs the order's access token; an intent it opens is
  for the order's total, and only for an order that is not paid and still waits for payment.\<close>

theorem create_intent_safe:
  assumes inv: "money_inv d" and line: "line_inv d"
    and run: "create_intent x cfg now k no order_id wanted token key d = Inr (s, d')"
  shows "money_inv d' \<and> line_inv d'
    \<and> (\<exists>r t. find_order order_id d = Some r \<and> token = Some t
        \<and> py_strip (o_access_token_hash r) = hash_token x t
        \<and> (d' \<noteq> d \<longrightarrow> (\<exists>p. s = Ask p False \<and> p_order_id p = order_id
              \<and> p_amount_minor p = o_total_amount_minor r
              \<and> o_status r \<in> set [O_CREATED, O_AWAITING_PAYMENT]
              \<and> o_payment_status r \<in> set [OP_NOT_REQUIRED, OP_NOT_STARTED, OP_PENDING, OP_FAILED, OP_CLOSED])))"
  using run
proof (cases rule: create_intent_cases)
  case (kept r provider)
  with inv line authenticate_order_found[OF kept(2)] show ?thesis by auto
next
  case (opened r provider p)
  note A = authenticate_order_found[OF opened(1)]
  have "find_order (o_id r) d = Some r" using A(1,2) by simp
  note L = open_intent_line[OF opened(6) line this]
  note M = open_intent_money[OF opened(6) inv]
  from opened(6) have more: "p_order_id p = order_id \<and> p_amount_minor p = o_total_amount_minor r
      \<and> o_status r \<in> set [O_CREATED, O_AWAITING_PAYMENT]
      \<and> o_payment_status r \<notin> set [OP_PAID, OP_REFUNDING, OP_PARTIALLY_REFUNDED, OP_REFUNDED]"
  proof (cases rule: open_intent_cases)
    case (opened q d1 e d2 v d3)
    with insert_payment_money[OF opened(3) inv opened(1)] A(2) show ?thesis by simp
  qed simp
  then have "o_payment_status r \<in> set [OP_NOT_REQUIRED, OP_NOT_STARTED, OP_PENDING, OP_FAILED, OP_CLOSED]"
    by (cases "o_payment_status r") simp_all
  with A L M more opened(7) show ?thesis by blast
qed





text \<open>C26 A notification of an Alipay channel changes something only when its signature verifies over
  its own fields, it names the application the channel is configured with and a successful trade,
  and, for a merchant account, the payment and the seller are that account's. Whatever it does,
  the money invariants and the production line hold.\<close>

theorem unverified_notification_ignored:
  assumes inv: "money_inv d" and line: "line_inv d"
    and run: "alipay_callback x cfg factory now rid nid bid v provider account d = Inr (answer, d')"
  shows "money_inv d' \<and> line_inv d'
    \<and> (d' \<noteq> d \<longrightarrow> (\<exists>app_id verify signature. factory provider account = Inr (app_id, verify)
        \<and> fget v ''sign'' = Some signature
        \<and> verify signature (signing_text (filter (\<lambda>(k, _). k \<notin> set [''sign'', ''sign_type'']) v))
        \<and> fget v ''app_id'' = (if account \<noteq> None then Some app_id else own_app_id cfg provider)
        \<and> fget v ''trade_status'' \<in> set [Some ''TRADE_SUCCESS'', Some ''TRADE_FINISHED'']
        \<and> callback_account_ok cfg provider account v d))"
proof (cases "d' = d")
  case True
  with inv line show ?thesis by simp
next
  case False
  have "alipay_notified x cfg factory now rid nid bid v provider account d = Inr (answer, d')"
    using run False by (auto simp: alipay_callback_def split: sum.splits if_splits)
  then obtain app_id verify event res where f: "factory provider account = Inr (app_id, verify)"
      and p: "verify_and_parse_callback verify v = Inr v"
      and c: "fget v ''app_id'' = (if account \<noteq> None then Some app_id else own_app_id cfg provider)"
        "fget v ''trade_status'' \<in> set [Some ''TRADE_SUCCESS'', Some ''TRADE_FINISHED'']"
        "callback_account_ok cfg provider account v d"
      and run': "apply_paid_callback x now rid nid bid provider event v d = Inr (res, d')"
    using False unfolding alipay_notified_def Let_def
    by (auto simp: bind_ok_Inr verify_and_parse_callback_def split: if_splits option.splits)
  obtain u dup where res: "res = (u, dup)" by (cases res)
  have led: "refund_ledger d" using inv by (simp add: money_inv_def)
  note R = run'[unfolded res]
  from p obtain signature where "fget v ''sign'' = Some signature"
      "verify signature (signing_text (filter (\<lambda>(k, _). k \<notin> set [''sign'', ''sign_type'']) v))"
    by (auto simp: verify_and_parse_callback_def split: option.splits if_splits)
  with f c money_invI[OF inv callback_follows[OF R] apply_paid_callback_keeps[OF led R]]
    callback_line[OF led line R]
  show ?thesis by blast
qed

lemma pending_received:
  assumes led: "refund_ledger d" and p: "find_payment (p_id p) d = Some p" and st: "p_status p = P_CREATED"
    and run: "transition_payment now p P_PENDING actor payload d = Inr (v, d')"
  shows "received d' i = received d i"
proof -
  have base: "ledger_base d" using led by (simp add: refund_ledger_def)
  have "payment_decision.moves (p_status p) P_PENDING" by (simp add: st payment_moves_iff)
  from transition_payment_ok[OF base p this, of now actor payload] run obtain l where
    d': "d' = (update_payment (p_id p) (payment_moved now P_PENDING (p_revision p + 1)) d)\<lparr>payment_log := l\<rparr>"
    by auto
  show ?thesis unfolding d' received_payment_log_update
    by (rule received_update_payment) (use p st in \<open>simp_all add: received_statuses_def payment_moved_def\<close>)
qed

text \<open>C27 The provider's answer is recorded safely: the money invariants and the production line hold,
  and unless the answer says that the payment is paid, no payment becomes received money.\<close>

theorem provider_answer_safe:
  assumes inv: "money_inv d" and line: "line_inv d"
    and run: "record_result x cfg now rid nid bid p reused res d = Inr (v, d')"
  shows "money_inv d' \<and> line_inv d' \<and> (pr_status res = ''PAID'' \<or> received d' i = received d i)"
proof -
  have "received d' i = received d i" if np: "pr_status res \<noteq> ''PAID''"
  proof -
    have led: "refund_ledger d" using inv by (simp add: money_inv_def)
    note save = save_provider_result_facts(7)
    show ?thesis using run
    proof (cases rule: record_result_cases)
      case (paid u dup)
      with np show ?thesis by simp
    next
      case (saved p0 u)
      then show ?thesis using save by blast
    next
      case (pending p0 u d1 w d2)
      note S = save_provider_result_facts[OF pending(2)]
      have u: "find_payment (p_id u) d1 = Some u" using S(3,4) by simp
      have "received d2 i = received d1 i" using pending_received[OF S(1)[OF led] u pending(3,4)] .
      moreover have "received d' i = received d2 i"
        unfolding pending(5) schedule_reconciliation_def by (rule received_update_payment) simp_all
      ultimately show ?thesis using save[OF pending(2)] by simp
    qed
  qed
  with record_result_keeps[OF run inv line] show ?thesis by blast
qed

section \<open>The properties at one order\<close>

lemma run_pair: "\<not> isl m \<Longrightarrow> m = Inr (fst (projr m), snd (projr m))"
  by (cases m) simp_all

text \<open>An order without a payment; the mock channel is allowed.\<close>

definition sample_unpaid_db :: db where
  "sample_unpaid_db = sample_paid_db\<lparr>orders := [sample_order\<lparr>o_status := O_CREATED,
     o_payment_status := OP_NOT_STARTED, o_paid_payment_id := None\<rparr>], payments := []\<rparr>"

definition sample_cfg :: settings where
  "sample_cfg = (default_settings ''root'')\<lparr>s_allow_mock_payment := True, s_alipay_app_id := Some ''app''\<rparr>"

definition sample_create :: "err + create_step \<times> db" where
  "sample_create = create_intent sample_x sample_cfg 200 (Uuid ''pay-9'') ''M9'' (Uuid ''order-1'') None
     (Some ''hash-1'') (Some ''k1'') sample_unpaid_db"

definition sample_intent :: payment where
  "sample_intent = (case projr sample_create of (Ask p _, _) \<Rightarrow> p | _ \<Rightarrow> sample_payment)"

lemma sample_unpaid_inv: "money_inv sample_unpaid_db" "line_inv sample_unpaid_db"
proof -
  have "refund_ledger sample_unpaid_db" "money_refs sample_unpaid_db" by code_simp+
  moreover have "one_open sample_unpaid_db"
    by (simp add: one_open_def open_intents_def sample_unpaid_db_def)
  ultimately show "money_inv sample_unpaid_db" by (simp add: money_inv_def)
  show "line_inv sample_unpaid_db"
    by (simp add: line_inv_def line_ok_def line_of_def lock_job_def ids_ok_def line_ids_def order_keys_def
        sample_unpaid_db_def sample_defs)
qed

lemma sample_create_ok: "sample_create = Inr (Ask sample_intent False, snd (projr sample_create))"
proof -
  have "\<not> isl sample_create" by code_simp
  then obtain st y where q: "sample_create = Inr (st, y)" by (metis run_ok surj_pair)
  have "case fst (projr sample_create) of Ask _ b \<Rightarrow> \<not> b | _ \<Rightarrow> False" by code_simp
  then obtain p where "st = Ask p False" by (cases st) (simp_all add: q)
  then show ?thesis by (simp add: q sample_intent_def)
qed

theorem create_intent_safe_witness:
  "money_inv (snd (projr sample_create)) \<and> line_inv (snd (projr sample_create))
    \<and> map p_amount_minor (payments (snd (projr sample_create))) = [500]"
proof (intro conjI)
  note run = trans[OF sample_create_def[symmetric] sample_create_ok]
  show "money_inv (snd (projr sample_create))" "line_inv (snd (projr sample_create))"
    using create_intent_safe[OF sample_unpaid_inv run] by blast+
  show "map p_amount_minor (payments (snd (projr sample_create))) = [500]" by code_simp
qed

lemma sample_pending_inv: "money_inv (snd (projr sample_create))" "line_inv (snd (projr sample_create))"
proof -
  obtain r provider where "open_intent 200 (Uuid ''pay-9'') ''M9'' provider None ''k1''
      (canonical_digest sample_x (payment_request_body None)) r sample_unpaid_db
      = Inr (Ask sample_intent False, snd (projr sample_create))"
      and A: "authenticate_order sample_x (Uuid ''order-1'') (Some ''hash-1'') sample_unpaid_db = Inr r"
    using trans[OF sample_create_def[symmetric] sample_create_ok] by (cases rule: create_intent_cases) auto
  with open_intent_money[OF _ sample_unpaid_inv(1)] open_intent_line[OF _ sample_unpaid_inv(2)]
    authenticate_order_found[OF A]
  show "money_inv (snd (projr sample_create))" "line_inv (snd (projr sample_create))" by auto
qed


definition sample_answer :: "err + json \<times> db" where
  "sample_answer = record_result sample_x sample_cfg 210 (Uuid ''a1'') (Uuid ''b2'') (Uuid ''c3'') sample_intent
     False (mock_pending ''M9'') (snd (projr sample_create))"

theorem provider_answer_safe_witness:
  "money_inv (snd (projr sample_answer)) \<and> map p_status (payments (snd (projr sample_answer))) = [P_PENDING]
    \<and> \<not> received (snd (projr sample_answer)) (Uuid ''pay-9'')"
proof (intro conjI)
  have "\<not> isl sample_answer" by code_simp
  then have run: "sample_answer = Inr (fst (projr sample_answer), snd (projr sample_answer))"
    by (rule run_pair)
  note safe = provider_answer_safe[OF sample_pending_inv trans[OF sample_answer_def[symmetric] run]]
  show "money_inv (snd (projr sample_answer))" using safe[of "Uuid ''pay-9''"] by blast
  show "map p_status (payments (snd (projr sample_answer))) = [P_PENDING]" by code_simp
  have "pr_status (mock_pending ''M9'') \<noteq> ''PAID''" by code_simp
  moreover have "\<not> received (snd (projr sample_create)) (Uuid ''pay-9'')" by code_simp
  ultimately show "\<not> received (snd (projr sample_answer)) (Uuid ''pay-9'')"
    using safe[of "Uuid ''pay-9''"] by blast
qed

text \<open>A signed notification of the pending order, for a channel whose signatures are the word \<open>good\<close>.\<close>

definition sample_factory :: channel_factory where
  "sample_factory provider account = Inr (''app'', \<lambda>signature _. signature = ''good'')"

definition sample_signed :: "string \<Rightarrow> fields" where
  "sample_signed s = [(''sign'', s), (''app_id'', ''app''), (''trade_status'', ''TRADE_SUCCESS''),
     (''out_trade_no'', ''M1''), (''amount_minor'', ''500''), (''notify_id'', ''N1'')]"

definition sample_alipay_db :: db where
  "sample_alipay_db = sample_pending_db\<lparr>payments := map (\<lambda>p. p\<lparr>p_provider := ''alipay''\<rparr>) (payments sample_pending_db)\<rparr>"

definition sample_notified :: "err + string \<times> db" where
  "sample_notified = alipay_callback sample_x sample_cfg sample_factory 200 (Uuid ''a1'') (Uuid ''b2'')
     (Uuid ''c3'') (sample_signed ''good'') ''alipay'' None sample_alipay_db"

lemma sample_alipay_inv: "money_inv sample_alipay_db" "line_inv sample_alipay_db"
proof -
  have "refund_ledger sample_alipay_db" "money_refs sample_alipay_db" by code_simp+
  moreover have "one_open sample_alipay_db"
    by (simp add: one_open_def open_intents_def sample_alipay_db_def sample_pending_db_def sample_defs)
  ultimately show "money_inv sample_alipay_db" by (simp add: money_inv_def)
  show "line_inv sample_alipay_db"
    by (simp add: line_inv_def line_ok_def line_of_def lock_job_def ids_ok_def line_ids_def order_keys_def
        sample_alipay_db_def sample_pending_db_def sample_defs)
qed

theorem unverified_notification_ignored_witness:
  "fst (projr sample_notified) = ''success'' \<and> money_inv (snd (projr sample_notified))
    \<and> map p_status (payments (snd (projr sample_notified))) = [P_PAID]
    \<and> sample_factory ''alipay'' None = Inr (''app'', \<lambda>signature _. signature = ''good'')"
proof (intro conjI)
  have "\<not> isl sample_notified" by code_simp
  then have run: "sample_notified = Inr (fst (projr sample_notified), snd (projr sample_notified))"
    by (rule run_pair)
  show "money_inv (snd (projr sample_notified))"
    using unverified_notification_ignored[OF sample_alipay_inv trans[OF sample_notified_def[symmetric] run]] by blast
  show "fst (projr sample_notified) = ''success''" by code_simp
  show "map p_status (payments (snd (projr sample_notified))) = [P_PAID]" by code_simp
qed (simp add: sample_factory_def)

end
