(* ===== verification/Terminals.thy ===== *)
theory Terminals
  imports DispatchRepo AdminAccess
begin

text \<open>
  \<open>app/repositories/terminals.py\<close>: finding, registering and describing terminals. The columns the
  onboarding fills in once (\<open>device_name\<close>, \<open>store_name\<close> and the others of the profile) are a table
  of their own here, keyed by the terminal; \<open>blank_profile\<close> is a terminal whose profile columns are
  all null. The identifier a request names a terminal by is its device id or its serial number.
\<close>

section \<open>Finding a terminal\<close>

definition find_terminal :: "string \<Rightarrow> db \<Rightarrow> terminal option" where
  "find_terminal identifier d =
     (case find_row (\<lambda>t. t_device_id t = identifier) (terminals d) of
        Some t \<Rightarrow> Some t
      | None \<Rightarrow> find_row (\<lambda>t. t_serial_number t = identifier) (terminals d))"

definition snapshot_row_of :: "int \<Rightarrow> string \<Rightarrow> db \<Rightarrow> snapshot_row option" where
  "snapshot_row_of terminal_id snapshot_type d =
     find_row (\<lambda>s. sn_terminal_id s = terminal_id \<and> sn_snapshot_type s = snapshot_type) (snapshots d)"

definition terminal_snapshot :: "int \<Rightarrow> string \<Rightarrow> db \<Rightarrow> dict option" where
  "terminal_snapshot terminal_id snapshot_type d =
     map_option sn_payload_json (snapshot_row_of terminal_id snapshot_type d)"

definition snapshot_summaries :: "int \<Rightarrow> db \<Rightarrow> (string \<times> string option \<times> timestamp) list" where
  "snapshot_summaries terminal_id d =
     map (\<lambda>s. (sn_snapshot_type s, sn_version s, sn_received_at s))
       (filter (\<lambda>s. sn_terminal_id s = terminal_id) (snapshots d))"

definition terminal_counts :: "terminal \<Rightarrow> db \<Rightarrow> nat \<times> nat \<times> nat" where
  "terminal_counts t d =
     (length (filter (\<lambda>e. ev_terminal_id e = t_id t) (events d)),
      length (filter (\<lambda>c. c_terminal_id c = t_id t) (commands d)),
      length (filter (\<lambda>r. o_terminal_id r = t_id t
        \<and> o_status r \<in> set [O_QUEUED, O_DISPATCHED, O_ACCEPTED, O_MAKING]) (orders d)))"

definition find_with_counts :: "string \<Rightarrow> db \<Rightarrow> (terminal \<times> nat \<times> nat \<times> nat) option" where
  "find_with_counts identifier d =
     map_option (\<lambda>t. (t, terminal_counts t d)) (find_terminal identifier d)"

section \<open>Registering terminals\<close>

text \<open>The defaults of the columns an insert does not name.\<close>

definition new_terminal ::
  "timestamp \<Rightarrow> int \<Rightarrow> string \<Rightarrow> string \<Rightarrow> string option \<Rightarrow> string option \<Rightarrow> string \<Rightarrow> string option
    \<Rightarrow> terminal" where
  "new_terminal now k device_id serial_number instance_id store_id lifecycle kind =
     \<lparr>t_id = k, t_device_id = device_id, t_serial_number = serial_number, t_store_id = store_id,
      t_lifecycle_status = lifecycle, t_connection_status = ''offline'', t_last_seen_at = None,
      t_last_heartbeat_at = None, t_last_connected_at = None, t_active_boot_id = None,
      t_last_sequence = None, t_instance_id = instance_id, t_software_version = None,
      t_capability_version = JNull, t_inventory_version = JNull, t_heartbeat_count = 0,
      t_reported_status = JObj [], t_device_identity_kind = kind, t_ui_locale = ''zh-CN'',
      t_updated_at = now\<rparr>"

definition terminal_clash :: "terminal \<Rightarrow> terminal \<Rightarrow> bool" where
  "terminal_clash new t \<longleftrightarrow> t_id t = t_id new \<or> t_device_id t = t_device_id new
     \<or> t_serial_number t = t_serial_number new"

definition insert_terminal :: "terminal \<Rightarrow> db \<Rightarrow> err + db" where
  "insert_terminal new d =
     bind_ok (insert_row Unique_violation (terminal_clash new) new (terminals d))
       (\<lambda>ts. Inr (d\<lparr>terminals := ts\<rparr>))"

definition insert_pending ::
  "timestamp \<Rightarrow> int \<Rightarrow> string \<Rightarrow> string \<Rightarrow> string option \<Rightarrow> string option \<Rightarrow> db \<Rightarrow> err + terminal \<times> db" where
  "insert_pending now k device_id serial_number instance_id store_id d =
     (let new = new_terminal now k device_id serial_number instance_id store_id ''PENDING_ACTIVATION'' None
      in bind_ok (insert_terminal new d) (\<lambda>d1. Inr (new, d1)))"

text \<open>The device of the configuration is registered, or its columns renewed.\<close>

definition upsert_bootstrap ::
  "timestamp \<Rightarrow> int \<Rightarrow> string \<Rightarrow> string \<Rightarrow> string option \<Rightarrow> string option \<Rightarrow> db \<Rightarrow> err + terminal \<times> db" where
  "upsert_bootstrap now k device_id serial_number instance_id store_id d =
     (case find_row (\<lambda>t. t_device_id t = device_id) (terminals d) of
        None \<Rightarrow>
          let new = new_terminal now k device_id serial_number instance_id store_id ''ACTIVE'' None
          in bind_ok (insert_terminal new d) (\<lambda>d1. Inr (new, d1))
      | Some t \<Rightarrow>
          if list_ex (\<lambda>s. t_id s \<noteq> t_id t \<and> t_serial_number s = serial_number) (terminals d)
          then Inl Unique_violation
          else
            let f = (\<lambda>s. s\<lparr>t_serial_number := serial_number, t_instance_id := instance_id,
                   t_store_id := store_id, t_updated_at := now\<rparr>)
            in Inr (f t, update_terminal (t_id t) f d))"

definition update_lifecycle :: "timestamp \<Rightarrow> int \<Rightarrow> string \<Rightarrow> db \<Rightarrow> terminal option \<times> db" where
  "update_lifecycle now k status d =
     (let d1 = update_terminal k (\<lambda>t. t\<lparr>t_lifecycle_status := status, t_updated_at := now\<rparr>) d
      in (terminal_by_id k d1, d1))"

section \<open>Profiles\<close>

record profile =
  pf_terminal_id :: int
  pf_device_name :: "string option"
  pf_store_name :: "string option"
  pf_store_description :: "string option"
  pf_city_code :: "string option"
  pf_timezone :: "string option"
  pf_source :: "string option"
  pf_completed_at :: "timestamp option"

definition blank_profile :: "int \<Rightarrow> profile" where
  "blank_profile k = \<lparr>pf_terminal_id = k, pf_device_name = None, pf_store_name = None,
     pf_store_description = None, pf_city_code = None, pf_timezone = None, pf_source = None,
     pf_completed_at = None\<rparr>"

definition profile_of :: "int \<Rightarrow> profile list \<Rightarrow> profile" where
  "profile_of k ps = (case find_row (\<lambda>p. pf_terminal_id p = k) ps of Some p \<Rightarrow> p | None \<Rightarrow> blank_profile k)"

definition put_profile :: "profile \<Rightarrow> profile list \<Rightarrow> profile list" where
  "put_profile p ps = p # filter (\<lambda>q. pf_terminal_id q \<noteq> pf_terminal_id p) ps"

text \<open>What a device sends at its onboarding (\<open>DeviceOnboardingProfile\<close>).\<close>

record onboarding =
  on_device_name :: string
  on_store_id :: string
  on_store_name :: string
  on_store_description :: string
  on_city_code :: string
  on_timezone :: string

text \<open>Each column is filled once: a value that is there stays.\<close>

definition fill_profile :: "timestamp \<Rightarrow> onboarding \<Rightarrow> profile \<Rightarrow> profile" where
  "fill_profile now q p =
     p\<lparr>pf_device_name := coalesce (pf_device_name p) (Some (on_device_name q)),
       pf_store_name := coalesce (pf_store_name p) (Some (on_store_name q)),
       pf_store_description := coalesce (pf_store_description p) (Some (on_store_description q)),
       pf_city_code := coalesce (pf_city_code p) (Some (on_city_code q)),
       pf_timezone := coalesce (pf_timezone p) (Some (on_timezone q)),
       pf_source := coalesce (pf_source p) (Some ''DEVICE_ONBOARDING''),
       pf_completed_at := coalesce (pf_completed_at p) (Some now)\<rparr>"

definition complete_onboarding_profile ::
  "timestamp \<Rightarrow> int \<Rightarrow> onboarding \<Rightarrow> profile list \<Rightarrow> db \<Rightarrow> profile list \<times> db" where
  "complete_onboarding_profile now k q ps d =
     (put_profile (fill_profile now q (profile_of k ps)) ps,
      update_terminal k (\<lambda>t. t\<lparr>t_store_id := coalesce (t_store_id t) (Some (on_store_id q)),
        t_updated_at := now\<rparr>) d)"

lemma find_terminal_SomeD:
  "find_terminal i d = Some t \<Longrightarrow> t \<in> set (terminals d) \<and> (t_device_id t = i \<or> t_serial_number t = i)"
  by (auto simp: find_terminal_def dest!: find_row_SomeD split: option.splits)

lemma fill_profile_twice [simp]: "fill_profile t2 q2 (fill_profile t1 q1 p) = fill_profile t1 q1 p"
  by (simp add: fill_profile_def coalesce_def split: option.splits)

lemma profile_of_put [simp]: "profile_of (pf_terminal_id p) (put_profile p ps) = p"
  by (simp add: profile_of_def put_profile_def)

end
