(* ===== verification/Identity.thy ===== *)
theory Identity
  imports Terminals
begin

text \<open>
  Device identity: \<open>app/repositories/identity.py\<close> and \<open>app/services/device_identity.py\<close>. The tables
  of the credentials, the activation codes, the rotation requests and the broker credentials form
  the \<open>vault\<close>; an operation works on the vault and, where it writes the terminal, on the database.
  The drawn codes, passwords and UUIDs are arguments. The broker's provisioner is outside: whether
  it is configured and whether its call returned is an argument (\<open>None\<close>: not configured).

  A transaction that ends in an error leaves both states as they were.
\<close>

section \<open>Tables\<close>

datatype credential_status = CR_ACTIVE | CR_GRACE | CR_EXPIRED | CR_REVOKED

datatype activation_status = AC_PENDING | AC_LOCKED | AC_CANCELLED | AC_EXPIRED | AC_CONSUMED

datatype broker_status = MQ_PENDING_PROVISION | MQ_ACTIVE | MQ_REVOKED

record credential =
  cr_id :: int
  cr_terminal_id :: int
  cr_token_hash :: string
  cr_credential_id :: uuid
  cr_version :: int
  cr_status :: credential_status
  cr_not_before :: "timestamp option"
  cr_expires_at :: "timestamp option"
  cr_grace_expires_at :: "timestamp option"
  cr_revoked_at :: "timestamp option"
  cr_rotated_from_id :: "int option"
  cr_last_used_at :: "timestamp option"

record activation =
  ac_id :: int
  ac_activation_id :: uuid
  ac_terminal_id :: int
  ac_code_hash :: string
  ac_status :: activation_status
  ac_attempt_count :: int
  ac_max_attempts :: int
  ac_expires_at :: timestamp
  ac_consumed_at :: "timestamp option"
  ac_consumed_credential_id :: "int option"

record rotation =
  ro_terminal_id :: int
  ro_key :: string
  ro_request_digest :: string
  ro_old_credential_id :: int
  ro_new_credential_id :: int
  ro_response :: dict

record broker_credential =
  mq_id :: uuid
  mq_terminal_id :: int
  mq_username :: string
  mq_secret_hash :: string
  mq_version :: int
  mq_status :: broker_status
  mq_revoked_at :: "timestamp option"
  mq_synced_at :: "timestamp option"

record vault =
  credentials :: "credential list"
  credential_seq :: int
  activations :: "activation list"
  activation_seq :: int
  rotations :: "rotation list"
  broker_credentials :: "broker_credential list"
  profiles :: "profile list"

definition empty_vault :: vault where
  "empty_vault = \<lparr>credentials = [], credential_seq = 0, activations = [], activation_seq = 0,
     rotations = [], broker_credentials = [], profiles = []\<rparr>"

section \<open>Activation codes (repository)\<close>

definition update_activations ::
  "(activation \<Rightarrow> bool) \<Rightarrow> (activation \<Rightarrow> activation) \<Rightarrow> vault \<Rightarrow> vault" where
  "update_activations P f v = v\<lparr>activations := update_rows P f (activations v)\<rparr>"

definition cancel_pending_activations :: "int \<Rightarrow> vault \<Rightarrow> vault" where
  "cancel_pending_activations terminal_id =
     update_activations (\<lambda>a. ac_terminal_id a = terminal_id \<and> ac_status a = AC_PENDING)
       (\<lambda>a. a\<lparr>ac_status := AC_CANCELLED\<rparr>)"

definition create_activation ::
  "uuid \<Rightarrow> int \<Rightarrow> string \<Rightarrow> int \<Rightarrow> timestamp \<Rightarrow> vault \<Rightarrow> err + vault" where
  "create_activation k terminal_id code_hash max_attempts expires_at v =
     bind_ok (insert_row Unique_violation
         (\<lambda>a. ac_activation_id a = k \<or> ac_code_hash a = code_hash)
         \<lparr>ac_id = activation_seq v + 1, ac_activation_id = k, ac_terminal_id = terminal_id,
          ac_code_hash = code_hash, ac_status = AC_PENDING, ac_attempt_count = 0,
          ac_max_attempts = max_attempts, ac_expires_at = expires_at, ac_consumed_at = None,
          ac_consumed_credential_id = None\<rparr> (activations v))
       (\<lambda>rs. Inr (v\<lparr>activations := rs, activation_seq := activation_seq v + 1\<rparr>))"

text \<open>\<open>order by id desc limit 1\<close>\<close>

definition newest_activation :: "activation list \<Rightarrow> activation option" where
  "newest_activation rows = (case sort_key (\<lambda>a. - ac_id a) rows of [] \<Rightarrow> None | a # _ \<Rightarrow> Some a)"

definition activation_by_code :: "int \<Rightarrow> string \<Rightarrow> vault \<Rightarrow> activation option" where
  "activation_by_code terminal_id code_hash v =
     newest_activation (filter (\<lambda>a. ac_terminal_id a = terminal_id \<and> ac_code_hash a = code_hash)
       (activations v))"

definition pending_activation :: "int \<Rightarrow> vault \<Rightarrow> activation option" where
  "pending_activation terminal_id v =
     newest_activation (filter (\<lambda>a. ac_terminal_id a = terminal_id \<and> ac_status a = AC_PENDING)
       (activations v))"

definition record_failed_attempt :: "int \<Rightarrow> int \<Rightarrow> activation_status \<Rightarrow> vault \<Rightarrow> vault" where
  "record_failed_attempt k attempts st =
     update_activations (\<lambda>a. ac_id a = k) (\<lambda>a. a\<lparr>ac_attempt_count := attempts, ac_status := st\<rparr>)"

definition expire_activation :: "int \<Rightarrow> vault \<Rightarrow> vault" where
  "expire_activation k = update_activations (\<lambda>a. ac_id a = k) (\<lambda>a. a\<lparr>ac_status := AC_EXPIRED\<rparr>)"

definition consume_activation :: "int \<Rightarrow> int \<Rightarrow> timestamp \<Rightarrow> vault \<Rightarrow> vault" where
  "consume_activation k credential_db_id now =
     update_activations (\<lambda>a. ac_id a = k) (\<lambda>a. a\<lparr>ac_status := AC_CONSUMED,
       ac_consumed_at := Some now, ac_consumed_credential_id := Some credential_db_id\<rparr>)"

section \<open>Credentials (repository)\<close>

definition update_credentials ::
  "(credential \<Rightarrow> bool) \<Rightarrow> (credential \<Rightarrow> credential) \<Rightarrow> vault \<Rightarrow> vault" where
  "update_credentials P f v = v\<lparr>credentials := update_rows P f (credentials v)\<rparr>"

definition credential_by_id :: "int option \<Rightarrow> vault \<Rightarrow> credential option" where
  "credential_by_id k v = find_row (\<lambda>c. Some (cr_id c) = k) (credentials v)"

definition token_exists :: "string \<Rightarrow> vault \<Rightarrow> bool" where
  "token_exists token_hash v \<longleftrightarrow> list_ex (\<lambda>c. cr_token_hash c = token_hash) (credentials v)"

definition next_http_version :: "int \<Rightarrow> vault \<Rightarrow> int" where
  "next_http_version terminal_id v =
     (case filter (\<lambda>c. cr_terminal_id c = terminal_id) (credentials v) of
        [] \<Rightarrow> 1 | cs \<Rightarrow> Max (set (map cr_version cs)) + 1)"

definition grace_active_http_credentials :: "int \<Rightarrow> timestamp \<Rightarrow> vault \<Rightarrow> vault" where
  "grace_active_http_credentials terminal_id expires_at =
     update_credentials (\<lambda>c. cr_terminal_id c = terminal_id \<and> cr_status c = CR_ACTIVE)
       (\<lambda>c. c\<lparr>cr_status := CR_GRACE, cr_grace_expires_at := Some expires_at\<rparr>)"

definition grace_http_credential :: "int \<Rightarrow> timestamp \<Rightarrow> vault \<Rightarrow> vault" where
  "grace_http_credential k expires_at =
     update_credentials (\<lambda>c. cr_id c = k)
       (\<lambda>c. c\<lparr>cr_status := CR_GRACE, cr_grace_expires_at := Some expires_at\<rparr>)"

text \<open>The unique indexes of \<open>terminal_credential\<close>.\<close>

definition credential_clash :: "credential \<Rightarrow> credential \<Rightarrow> bool" where
  "credential_clash new c \<longleftrightarrow> cr_token_hash c = cr_token_hash new
     \<or> cr_credential_id c = cr_credential_id new
     \<or> (cr_terminal_id c = cr_terminal_id new \<and> cr_version c = cr_version new)"

definition create_http_credential ::
  "uuid \<Rightarrow> int \<Rightarrow> string \<Rightarrow> int \<Rightarrow> timestamp \<Rightarrow> int option \<Rightarrow> vault \<Rightarrow> err + credential \<times> vault" where
  "create_http_credential k terminal_id token_hash version now rotated_from v =
     (let new = \<lparr>cr_id = credential_seq v + 1, cr_terminal_id = terminal_id,
            cr_token_hash = token_hash, cr_credential_id = k, cr_version = version,
            cr_status = CR_ACTIVE, cr_not_before = Some now, cr_expires_at = None,
            cr_grace_expires_at = None, cr_revoked_at = None, cr_rotated_from_id = rotated_from,
            cr_last_used_at = None\<rparr>
      in bind_ok (insert_row Unique_violation (credential_clash new) new (credentials v))
           (\<lambda>rs. Inr (new, v\<lparr>credentials := rs, credential_seq := credential_seq v + 1\<rparr>)))"

definition activate_terminal :: "timestamp \<Rightarrow> int \<Rightarrow> db \<Rightarrow> db" where
  "activate_terminal now terminal_id =
     update_terminal terminal_id (\<lambda>t. t\<lparr>t_lifecycle_status := ''ACTIVE'', t_updated_at := now\<rparr>)"

definition rotation_request :: "int \<Rightarrow> string \<Rightarrow> vault \<Rightarrow> rotation option" where
  "rotation_request terminal_id key v =
     find_row (\<lambda>r. ro_terminal_id r = terminal_id \<and> ro_key r = key) (rotations v)"

definition save_rotation_request ::
  "int \<Rightarrow> string \<Rightarrow> string \<Rightarrow> int \<Rightarrow> int \<Rightarrow> dict \<Rightarrow> vault \<Rightarrow> err + vault" where
  "save_rotation_request terminal_id key digest old_id new_id response v =
     bind_ok (insert_row Unique_violation (\<lambda>r. ro_terminal_id r = terminal_id \<and> ro_key r = key)
         \<lparr>ro_terminal_id = terminal_id, ro_key = key, ro_request_digest = digest,
          ro_old_credential_id = old_id, ro_new_credential_id = new_id, ro_response = response\<rparr>
         (rotations v))
       (\<lambda>rs. Inr (v\<lparr>rotations := rs\<rparr>))"

definition list_http_credentials :: "int \<Rightarrow> vault \<Rightarrow> credential list" where
  "list_http_credentials terminal_id v =
     sort_key (\<lambda>c. - cr_version c) (filter (\<lambda>c. cr_terminal_id c = terminal_id) (credentials v))"

definition http_credential :: "int \<Rightarrow> uuid \<Rightarrow> vault \<Rightarrow> credential option" where
  "http_credential terminal_id k v =
     find_row (\<lambda>c. cr_terminal_id c = terminal_id \<and> cr_credential_id c = k) (credentials v)"

definition revoke_http_credential :: "timestamp \<Rightarrow> int \<Rightarrow> uuid \<Rightarrow> vault \<Rightarrow> credential option \<times> vault" where
  "revoke_http_credential now terminal_id k v =
     (let P = (\<lambda>c. cr_terminal_id c = terminal_id \<and> cr_credential_id c = k \<and> cr_status c \<noteq> CR_REVOKED);
          f = (\<lambda>c. c\<lparr>cr_status := CR_REVOKED, cr_revoked_at := Some now, cr_grace_expires_at := None\<rparr>)
      in (map_option f (find_row P (credentials v)), update_credentials P f v))"

text \<open>
  What lets a device in: its own credential with the token's hash, active or in its grace, not
  before its time and not after it. The row is joined with the terminal.
\<close>

definition credential_live :: "timestamp \<Rightarrow> credential \<Rightarrow> bool" where
  "credential_live now c \<longleftrightarrow>
     (cr_status c = CR_ACTIVE \<or> (cr_status c = CR_GRACE \<and> some_and (cr_grace_expires_at c) (\<lambda>e. now < e)))
     \<and> (cr_not_before c = None \<or> some_and (cr_not_before c) (\<lambda>b. b \<le> now))
     \<and> (cr_expires_at c = None \<or> some_and (cr_expires_at c) (\<lambda>e. now < e))"

definition device_row :: "string \<Rightarrow> db \<Rightarrow> terminal option" where
  "device_row device_id d = find_row (\<lambda>t. t_device_id t = device_id) (terminals d)"

definition identity_authenticate ::
  "timestamp \<Rightarrow> string \<Rightarrow> string \<Rightarrow> db \<Rightarrow> vault \<Rightarrow> (terminal \<times> credential) option \<times> vault" where
  "identity_authenticate now device_id token_hash d v =
     (case device_row device_id d of
        None \<Rightarrow> (None, v)
      | Some t \<Rightarrow>
          (case find_row (\<lambda>c. cr_terminal_id c = t_id t \<and> cr_token_hash c = token_hash
               \<and> credential_live now c) (credentials v) of
             None \<Rightarrow> (None, v)
           | Some c \<Rightarrow> (Some (t, c),
               update_credentials (\<lambda>r. cr_id r = cr_id c) (\<lambda>r. r\<lparr>cr_last_used_at := Some now\<rparr>) v)))"

section \<open>Broker credentials (repository)\<close>

definition next_mqtt_version :: "int \<Rightarrow> vault \<Rightarrow> int" where
  "next_mqtt_version terminal_id v =
     (case filter (\<lambda>m. mq_terminal_id m = terminal_id) (broker_credentials v) of
        [] \<Rightarrow> 1 | ms \<Rightarrow> Max (set (map mq_version ms)) + 1)"

definition create_pending_mqtt ::
  "uuid \<Rightarrow> terminal \<Rightarrow> string \<Rightarrow> int \<Rightarrow> vault \<Rightarrow> err + vault" where
  "create_pending_mqtt k t secret_hash version v =
     bind_ok (insert_row Unique_violation
         (\<lambda>m. mq_id m = k \<or> (mq_terminal_id m = t_id t \<and> mq_version m = version))
         \<lparr>mq_id = k, mq_terminal_id = t_id t, mq_username = t_device_id t,
          mq_secret_hash = secret_hash, mq_version = version, mq_status = MQ_PENDING_PROVISION,
          mq_revoked_at = None, mq_synced_at = None\<rparr> (broker_credentials v))
       (\<lambda>ms. Inr (v\<lparr>broker_credentials := ms\<rparr>))"

text \<open>One active broker credential per user name (\<open>uq_mqtt_credential_active_username\<close>).\<close>

definition activate_mqtt :: "timestamp \<Rightarrow> int \<Rightarrow> uuid \<Rightarrow> vault \<Rightarrow> err + vault" where
  "activate_mqtt now terminal_id k v =
     (let ms = update_rows (\<lambda>m. mq_terminal_id m = terminal_id \<and> mq_status m = MQ_ACTIVE \<and> mq_id m \<noteq> k)
            (\<lambda>m. m\<lparr>mq_status := MQ_REVOKED, mq_revoked_at := Some now\<rparr>) (broker_credentials v)
      in if list_ex (\<lambda>m. mq_id m = k \<and> list_ex (\<lambda>n. mq_id n \<noteq> k \<and> mq_username n = mq_username m
              \<and> mq_status n = MQ_ACTIVE) ms) ms
         then Inl Unique_violation
         else Inr (v\<lparr>broker_credentials := update_rows (\<lambda>m. mq_id m = k)
                (\<lambda>m. m\<lparr>mq_status := MQ_ACTIVE, mq_synced_at := Some now\<rparr>) ms\<rparr>))"

definition repo_revoke_mqtt :: "timestamp \<Rightarrow> int \<Rightarrow> vault \<Rightarrow> nat \<times> vault" where
  "repo_revoke_mqtt now terminal_id v =
     (let P = (\<lambda>m. mq_terminal_id m = terminal_id \<and> mq_status m \<noteq> MQ_REVOKED)
      in (length (filter P (broker_credentials v)),
          v\<lparr>broker_credentials := update_rows P (\<lambda>m. m\<lparr>mq_status := MQ_REVOKED,
              mq_revoked_at := coalesce (mq_revoked_at m) (Some now)\<rparr>) (broker_credentials v)\<rparr>))"

section \<open>Replies (service)\<close>

fun credential_status_name :: "credential_status \<Rightarrow> string" where
  "credential_status_name CR_ACTIVE = ''ACTIVE''"
| "credential_status_name CR_GRACE = ''GRACE''"
| "credential_status_name CR_EXPIRED = ''EXPIRED''"
| "credential_status_name CR_REVOKED = ''REVOKED''"

definition credential_payload :: "externals \<Rightarrow> credential \<Rightarrow> bool \<Rightarrow> dict" where
  "credential_payload x c dup = [(''credentialId'', JStr (uuid_str (cr_credential_id c))),
     (''version'', JInt (cr_version c)), (''status'', JStr (credential_status_name (cr_status c))),
     (''notBefore'', iso_opt x (cr_not_before c)), (''expiresAt'', iso_opt x (cr_expires_at c)),
     (''graceExpiresAt'', iso_opt x (cr_grace_expires_at c)), (''duplicate'', JBool dup)]"

definition profile_payload :: "terminal \<Rightarrow> profile \<Rightarrow> json" where
  "profile_payload t p = JObj [(''deviceName'', opt_str (pf_device_name p)),
     (''storeId'', opt_str (t_store_id t)), (''storeName'', opt_str (pf_store_name p)),
     (''storeDescription'', opt_str (pf_store_description p)), (''cityCode'', opt_str (pf_city_code p)),
     (''timezone'', opt_str (pf_timezone p)),
     (''uiLocale'', JStr (if t_ui_locale t \<noteq> [] then t_ui_locale t else ''zh-CN'')),
     (''source'', opt_str (pf_source p))]"

definition service_terminal :: "string \<Rightarrow> db \<Rightarrow> err + terminal" where
  "service_terminal identifier d =
     (case find_terminal identifier d of
        None \<Rightarrow> Inl (service_error 404 ''device not found'')
      | Some t \<Rightarrow> Inr t)"

section \<open>Authentication and activation (service)\<close>

definition device_authenticate ::
  "externals \<Rightarrow> timestamp \<Rightarrow> string \<Rightarrow> string option \<Rightarrow> string option \<Rightarrow> db \<Rightarrow> vault
    \<Rightarrow> err + (terminal \<times> credential) \<times> vault" where
  "device_authenticate x now device_id header_device token d v =
     (if header_device \<noteq> Some device_id then Inl (service_error 401 ''device identity mismatch'')
      else case token of
        None \<Rightarrow> Inl (service_error 401 ''missing device credential'')
      | Some secret \<Rightarrow>
          (case identity_authenticate now device_id (hash_token x secret) d v of
             (None, _) \<Rightarrow> Inl (service_error 401 ''invalid device credential'')
           | (Some r, v1) \<Rightarrow> Inr (r, v1)))"

definition bootstrap_device ::
  "externals \<Rightarrow> settings \<Rightarrow> timestamp \<Rightarrow> int \<Rightarrow> uuid \<Rightarrow> db \<Rightarrow> vault \<Rightarrow> err + db \<times> vault" where
  "bootstrap_device x cfg now terminal_id k d v =
     (if \<not> s_bootstrap_device_enabled cfg then Inr (d, v)
      else case s_device_token cfg of
        None \<Rightarrow> Inl Runtime_error
      | Some secret \<Rightarrow>
          if secret = [] then Inl Runtime_error
          else bind_ok (upsert_bootstrap now terminal_id (s_device_id cfg) (s_device_serial_number cfg)
              (Some (s_device_instance_id cfg)) (Some (s_device_store_id cfg)) d) (\<lambda>(t, d1).
            if token_exists (hash_token x secret) v then Inr (d1, v)
            else bind_ok (create_http_credential k (t_id t) (hash_token x secret)
                (next_http_version (t_id t) v) now None v)
              (\<lambda>(_, v1). Inr (d1, v1))))"

definition create_activation_code ::
  "externals \<Rightarrow> settings \<Rightarrow> timestamp \<Rightarrow> string \<Rightarrow> uuid \<Rightarrow> string \<Rightarrow> rat option \<Rightarrow> db \<Rightarrow> vault
    \<Rightarrow> err + json \<times> vault" where
  "create_activation_code x cfg now code k identifier ttl_seconds d v =
     (let ttl = (case ttl_seconds of Some n \<Rightarrow> if n \<noteq> 0 then n else s_activation_ttl_seconds cfg
            | None \<Rightarrow> s_activation_ttl_seconds cfg)
      in bind_ok (service_terminal identifier d) (\<lambda>t.
         bind_ok (create_activation k (t_id t) (hash_token x code) (s_activation_max_attempts cfg)
             (now + ttl) (cancel_pending_activations (t_id t) v)) (\<lambda>v1.
         Inr (JObj [(''activationId'', JStr (uuid_str k)), (''deviceId'', JStr (t_device_id t)),
            (''activationCode'', JStr code), (''expiresAt'', JStr (x_iso x (now + ttl))),
            (''warning'', JStr ''activationCode is returned once and must not be logged'')], v1))))"
text \<open>
  The body of a transaction gives its outcome and the states it has written so far; the
  transaction keeps them only when the body does not raise.
\<close>

definition transaction :: "('s \<Rightarrow> (err + 'a) \<times> 's) \<Rightarrow> 's \<Rightarrow> (err + 'a) \<times> 's" where
  "transaction body s = (case body s of (Inl e, _) \<Rightarrow> (Inl e, s) | (Inr a, s1) \<Rightarrow> (Inr a, s1))"

datatype activated = Replayed dict | Activated terminal credential profile

text \<open>A code nobody issued counts against the code that is pending.\<close>

definition count_failure :: "int \<Rightarrow> vault \<Rightarrow> vault" where
  "count_failure terminal_id v =
     (case pending_activation terminal_id v of
        None \<Rightarrow> v
      | Some a \<Rightarrow>
          let attempts = ac_attempt_count a + 1
          in record_failed_attempt (ac_id a) attempts
               (if ac_max_attempts a \<le> attempts then AC_LOCKED else AC_PENDING) v)"

definition replay_activation ::
  "externals \<Rightarrow> string \<Rightarrow> terminal \<Rightarrow> activation \<Rightarrow> vault \<Rightarrow> err + activated" where
  "replay_activation x token_hash t a v =
     (case credential_by_id (ac_consumed_credential_id a) v of
        None \<Rightarrow> Inl (service_error 409 ''activation code already consumed'')
      | Some c \<Rightarrow>
          if tokens_equal (py_strip (cr_token_hash c)) token_hash
          then Inr (Replayed ((''deviceId'', JStr (t_device_id t)) # credential_payload x c True
             @ [(''profile'', profile_payload t (profile_of (t_id t) (profiles v)))]))
          else Inl (service_error 409 ''activation code already consumed''))"

definition consume_code ::
  "settings \<Rightarrow> timestamp \<Rightarrow> uuid \<Rightarrow> string \<Rightarrow> onboarding option \<Rightarrow> terminal \<Rightarrow> activation \<Rightarrow> db \<times> vault
    \<Rightarrow> (err + activated) \<times> (db \<times> vault)" where
  "consume_code cfg now k token_hash onboard t a s =
     (let v = snd s;
          v1 = grace_active_http_credentials (t_id t) (now + s_credential_grace_seconds cfg) v
      in case create_http_credential k (t_id t) token_hash (next_http_version (t_id t) v) now None v1 of
           Inl e \<Rightarrow> (Inl e, (fst s, v1))
         | Inr (c, v2) \<Rightarrow>
             let v3 = consume_activation (ac_id a) (cr_id c) now v2;
                 d1 = activate_terminal now (t_id t) (fst s)
             in (case onboard of
                   None \<Rightarrow> (Inr (Activated t c (profile_of (t_id t) (profiles v3))), (d1, v3))
                 | Some q \<Rightarrow>
                     let (ps, d2) = complete_onboarding_profile now (t_id t) q (profiles v3) d1;
                         t1 = (case terminal_by_id (t_id t) d2 of None \<Rightarrow> t | Some u \<Rightarrow> u)
                     in (Inr (Activated t1 c (profile_of (t_id t) ps)), (d2, v3\<lparr>profiles := ps\<rparr>))))"

definition activate_body ::
  "externals \<Rightarrow> settings \<Rightarrow> timestamp \<Rightarrow> uuid \<Rightarrow> string \<Rightarrow> string \<Rightarrow> string \<Rightarrow> onboarding option
    \<Rightarrow> string option \<Rightarrow> db \<times> vault \<Rightarrow> (err + activated) \<times> (db \<times> vault)" where
  "activate_body x cfg now k device_id code device_token onboard serial s =
     (case service_terminal device_id (fst s) of
        Inl e \<Rightarrow> (Inl e, s)
      | Inr t \<Rightarrow>
          if serial \<noteq> None \<and> serial \<noteq> Some (t_serial_number t)
          then (Inl (service_error 409 ''device serial number does not match pre-registration''), s)
          else (case activation_by_code (t_id t) (hash_token x code) (snd s) of
             None \<Rightarrow> (Inl (service_error 401 ''invalid or expired activation code''),
                 (fst s, count_failure (t_id t) (snd s)))
           | Some a \<Rightarrow>
               if ac_status a = AC_CONSUMED
               then (replay_activation x (hash_token x device_token) t a (snd s), s)
               else if ac_status a \<noteq> AC_PENDING \<or> ac_expires_at a \<le> now
               then (Inl (service_error 401 ''invalid or expired activation code''),
                 (fst s, if ac_status a = AC_PENDING then expire_activation (ac_id a) (snd s) else snd s))
               else if token_exists (hash_token x device_token) (snd s)
               then (Inl (service_error 409 ''credential token already registered''), s)
               else consume_code cfg now k (hash_token x device_token) onboard t a s))"

fun broker_status_name :: "broker_status \<Rightarrow> string" where
  "broker_status_name MQ_PENDING_PROVISION = ''PENDING_PROVISION''"
| "broker_status_name MQ_ACTIVE = ''ACTIVE''"
| "broker_status_name MQ_REVOKED = ''REVOKED''"

definition mqtt_reply :: "uuid \<Rightarrow> int \<Rightarrow> broker_status \<Rightarrow> terminal \<Rightarrow> string \<Rightarrow> json" where
  "mqtt_reply k version st t password = JObj [(''credentialId'', JStr (uuid_str k)),
     (''version'', JInt version), (''status'', JStr (broker_status_name st)),
     (''username'', JStr (t_device_id t)), (''password'', JStr password),
     (''host'', JStr ''mqtt-api.woodbridge.top''), (''port'', JInt 8883), (''tls'', JBool True),
     (''warning'', JStr ''MQTT password is returned once and must not be logged'')]"

text \<open>Two transactions with the broker between them; a broker that fails leaves the credential pending.\<close>

definition issue_mqtt_credential ::
  "externals \<Rightarrow> timestamp \<Rightarrow> string \<Rightarrow> uuid \<Rightarrow> bool option \<Rightarrow> terminal \<Rightarrow> vault \<Rightarrow> (err + json) \<times> vault" where
  "issue_mqtt_credential x now password k provision t v =
     (let version = next_mqtt_version (t_id t) v
      in case create_pending_mqtt k t (hash_token x password) version v of
           Inl e \<Rightarrow> (Inl e, v)
         | Inr v1 \<Rightarrow>
             if provision = Some True
             then (case activate_mqtt now (t_id t) k v1 of
                     Inl _ \<Rightarrow> (Inr (mqtt_reply k version MQ_PENDING_PROVISION t password), v1)
                   | Inr v2 \<Rightarrow> (Inr (mqtt_reply k version MQ_ACTIVE t password), v2))
             else (Inr (mqtt_reply k version MQ_PENDING_PROVISION t password), v1))"

definition activate_device ::
  "externals \<Rightarrow> settings \<Rightarrow> timestamp \<Rightarrow> uuid \<Rightarrow> uuid \<Rightarrow> string \<Rightarrow> bool option \<Rightarrow> string \<Rightarrow> string
    \<Rightarrow> string \<Rightarrow> onboarding option \<Rightarrow> string option \<Rightarrow> db \<times> vault \<Rightarrow> (err + json) \<times> (db \<times> vault)" where
  "activate_device x cfg now k mk password provision device_id code device_token onboard serial s =
     (case transaction (activate_body x cfg now k device_id code device_token onboard serial) s of
        (Inl e, s1) \<Rightarrow> (Inl e, s1)
      | (Inr (Replayed reply), s1) \<Rightarrow> (Inr (JObj reply), s1)
      | (Inr (Activated t c p), s1) \<Rightarrow>
          (case issue_mqtt_credential x now password mk provision t (snd s1) of
             (Inl e, v2) \<Rightarrow> (Inl e, (fst s1, v2))
           | (Inr m, v2) \<Rightarrow>
               (Inr (JObj ((''deviceId'', JStr (t_device_id t)) # credential_payload x c False
                  @ [(''profile'', profile_payload t p), (''mqttCredential'', m)])), (fst s1, v2))))"

section \<open>Rotation and revocation (service)\<close>

text \<open>
  \<open>broker\<close>: \<open>None\<close> when there is no provisioner, \<open>Some None\<close> when its call returned, else the name of
  what it raised.
\<close>

definition revoke_mqtt ::
  "timestamp \<Rightarrow> string option option \<Rightarrow> string \<Rightarrow> db \<Rightarrow> vault \<Rightarrow> err + json \<times> vault" where
  "revoke_mqtt now broker identifier d v =
     bind_ok (service_terminal identifier d) (\<lambda>t.
       let (changed, v1) = repo_revoke_mqtt now (t_id t) v;
           status = (case broker of None \<Rightarrow> ''NOT_CONFIGURED'' | Some None \<Rightarrow> ''REVOKED''
             | Some (Some name) \<Rightarrow> ''RETRY_REQUIRED:'' @ name)
       in Inr (JObj [(''deviceId'', JStr (t_device_id t)), (''revokedCredentials'', JInt (int changed)),
            (''brokerStatus'', JStr status)], v1))"

definition bad_key :: "string option \<Rightarrow> bool" where
  "bad_key key \<longleftrightarrow> key = None \<or> key = Some [] \<or> some_and key (\<lambda>s. 160 < py_len s)"

definition rotate_http ::
  "externals \<Rightarrow> settings \<Rightarrow> timestamp \<Rightarrow> uuid \<Rightarrow> terminal \<Rightarrow> int \<Rightarrow> string \<Rightarrow> string \<Rightarrow> string option \<Rightarrow> json
    \<Rightarrow> vault \<Rightarrow> err + dict \<times> vault" where
  "rotate_http x cfg now k t credential_db_id device_id new_token key request_body v =
     (if bad_key key
      then Inl (service_error 400 ''Idempotency-Key is required and must be <= 160 characters'')
      else
        let token_hash = hash_token x new_token; digest = canonical_digest x request_body;
            grace_expires_at = now + s_credential_grace_seconds cfg; idem = (case key of Some i \<Rightarrow> i | None \<Rightarrow> [])
        in (case rotation_request (t_id t) idem v of
              Some r \<Rightarrow>
                if py_strip (ro_request_digest r) \<noteq> digest
                then Inl (service_error 409 ''Idempotency-Key payload conflict'')
                else Inr (dset ''duplicate'' (JBool True) (ro_response r), v)
            | None \<Rightarrow>
                (case credential_by_id (Some credential_db_id) v of
                   None \<Rightarrow> Inl (service_error 401 ''credential no longer exists'')
                 | Some old \<Rightarrow>
                     if tokens_equal (py_strip (cr_token_hash old)) token_hash
                     then Inl (service_error 400 ''new credential must differ from current credential'')
                     else if token_exists token_hash v
                     then Inl (service_error 409 ''credential token already registered'')
                     else
                       let v1 = grace_http_credential (cr_id old) grace_expires_at v
                       in bind_ok (create_http_credential k (t_id t) token_hash
                            (next_http_version (t_id t) v1) now (Some (cr_id old)) v1) (\<lambda>(c, v2).
                          let response = (''deviceId'', JStr device_id) # credential_payload x c False
                                @ [(''previousCredentialGraceExpiresAt'', JStr (x_iso x grace_expires_at))]
                          in bind_ok (save_rotation_request (t_id t) idem digest (cr_id old) (cr_id c)
                               response v2) (\<lambda>v3. Inr (response, v3))))))"

definition list_http :: "externals \<Rightarrow> string \<Rightarrow> db \<Rightarrow> vault \<Rightarrow> err + json" where
  "list_http x identifier d v =
     bind_ok (service_terminal identifier d) (\<lambda>t.
       Inr (JObj [(''deviceId'', JStr (t_device_id t)),
         (''credentials'', JArr (map (\<lambda>c. JObj (credential_payload x c False))
            (list_http_credentials (t_id t) v)))]))"

definition revoke_http ::
  "externals \<Rightarrow> timestamp \<Rightarrow> string \<Rightarrow> uuid \<Rightarrow> db \<Rightarrow> vault \<Rightarrow> err + dict \<times> vault" where
  "revoke_http x now identifier k d v =
     bind_ok (service_terminal identifier d) (\<lambda>t.
       case http_credential (t_id t) k v of
         None \<Rightarrow> Inl (service_error 404 ''credential not found'')
       | Some before \<Rightarrow>
           let (changed, v1) = revoke_http_credential now (t_id t) k v;
               c = (case changed of None \<Rightarrow> before | Some r \<Rightarrow> r)
           in Inr ((''deviceId'', JStr (t_device_id t))
                # credential_payload x c (cr_status before = CR_REVOKED), v1))"

end
