(* ===== verification/PyJson.thy ===== *)
theory PyJson
  imports Json
begin

text \<open>
  Python's operations on values of unknown type, as the code applies them to documents that come
  from devices and from requests: equality, subscripting, \<open>get\<close>, iteration, membership in a set of
  texts, \<open>str\<close>. A method called on a value that has no such method raises an AttributeError in Python; it
  is \<open>Type_error\<close> here, as for an operation the type does not support. A jsonb column never holds NaN or an
  infinity, so the comparison of two \<open>JNonfinite\<close> only matters for request bodies; it is taken to be False.
\<close>

section \<open>Equality\<close>

text \<open>Numbers are equal across their types (\<open>True == 1 == 1.0\<close>), dictionaries whatever the order of keys.\<close>

primrec plain :: "json \<Rightarrow> json" where
  "plain JNull = JNull"
| "plain (JBool b) = JInt (if b then 1 else 0)"
| "plain (JInt i) = JInt i"
| "plain (JFloat r) = (if of_int \<lfloor>r\<rfloor> = r then JInt \<lfloor>r\<rfloor> else JFloat r)"
| "plain JNonfinite = JNonfinite"
| "plain (JStr s) = JStr s"
| "plain (JArr xs) = JArr (map plain xs)"
| "plain (JObj d) = JObj (sort_key fst (map (map_prod id plain) d))"

definition py_eq :: "json \<Rightarrow> json \<Rightarrow> bool" where
  "py_eq a b \<longleftrightarrow> a \<noteq> JNonfinite \<and> plain a = plain b"

lemma py_eq_refl: "a \<noteq> JNonfinite \<Longrightarrow> py_eq a a"
  by (simp add: py_eq_def)

lemma py_eq_sym: "py_eq a b \<Longrightarrow> py_eq b a"
  by (cases a; cases b) (auto simp: py_eq_def split: if_splits)

lemma py_eq_str [simp]: "py_eq (JStr s) v \<longleftrightarrow> v = JStr s" "py_eq v (JStr s) \<longleftrightarrow> v = JStr s"
  by (cases v; auto simp: py_eq_def)+

section \<open>Values a jsonb column takes\<close>

primrec finite_json :: "json \<Rightarrow> bool" where
  "finite_json JNull = True"
| "finite_json (JBool b) = True"
| "finite_json (JInt i) = True"
| "finite_json (JFloat r) = True"
| "finite_json JNonfinite = False"
| "finite_json (JStr s) = True"
| "finite_json (JArr xs) = list_all id (map finite_json xs)"
| "finite_json (JObj d) = list_all (\<lambda>p. snd p) (map (map_prod id finite_json) d)"

definition jsonb_ok :: "json \<Rightarrow> err + json" where
  "jsonb_ok v = (if finite_json v then Inr v else Inl Data_error)"

section \<open>Reading\<close>

text \<open>\<open>v[k]\<close> with a text \<open>k\<close>.\<close>

definition subscript :: "json \<Rightarrow> string \<Rightarrow> err + json" where
  "subscript v k = (case v of
     JObj d \<Rightarrow> (case map_of d k of None \<Rightarrow> Inl Key_error | Some w \<Rightarrow> Inr w) | _ \<Rightarrow> Inl Type_error)"

text \<open>\<open>v.get(k, w)\<close>\<close>

definition get_or :: "json \<Rightarrow> string \<Rightarrow> json \<Rightarrow> err + json" where
  "get_or v k w = (case v of JObj d \<Rightarrow> Inr (dget_default d k w) | _ \<Rightarrow> Inl Type_error)"

text \<open>The characters of a text: the bytes of its UTF-8 form, one list for each character.\<close>

fun py_chars :: "string \<Rightarrow> string list" where
  "py_chars [] = []"
| "py_chars (c # s) = (case py_chars s of [] \<Rightarrow> [[c]]
     | t # ts \<Rightarrow> if \<not> char_start (hd t) then (c # t) # ts else [c] # t # ts)"

text \<open>\<open>s.split(c)\<close>\<close>

fun split_on :: "char \<Rightarrow> string \<Rightarrow> string list" where
  "split_on c [] = [[]]"
| "split_on c (a # s) = (if a = c then [] # split_on c s
     else case split_on c s of [] \<Rightarrow> [[a]] | t # ts \<Rightarrow> (a # t) # ts)"

text \<open>What \<open>for x in v\<close> goes through.\<close>

fun iter :: "json \<Rightarrow> err + json list" where
  "iter (JArr xs) = Inr xs"
| "iter (JObj d) = Inr (map (\<lambda>p. JStr (fst p)) d)"
| "iter (JStr s) = Inr (map JStr (py_chars s))"
| "iter _ = Inl Type_error"

text \<open>\<open>v.items()\<close>\<close>

fun items :: "json \<Rightarrow> err + dict" where
  "items (JObj d) = Inr d"
| "items _ = Inl Type_error"

text \<open>\<open>v in {...}\<close> for a set of texts: a list or a dictionary has no hash.\<close>

fun member_of :: "string list \<Rightarrow> json \<Rightarrow> err + bool" where
  "member_of ts (JArr _) = Inl Type_error"
| "member_of ts (JObj _) = Inl Type_error"
| "member_of ts (JStr s) = Inr (s \<in> set ts)"
| "member_of ts _ = Inr False"

text \<open>The first element that passes a test which may raise: \<open>next((x for x in xs if test(x)), None)\<close>.\<close>

fun first_such :: "(json \<Rightarrow> err + bool) \<Rightarrow> json list \<Rightarrow> err + json option" where
  "first_such P [] = Inr None"
| "first_such P (v # vs) = bind_ok (P v) (\<lambda>b. if b then Inr (Some v) else first_such P vs)"

text \<open>A comprehension whose elements may raise.\<close>

fun map_ok :: "('a \<Rightarrow> err + 'b) \<Rightarrow> 'a list \<Rightarrow> err + 'b list" where
  "map_ok f [] = Inr []"
| "map_ok f (a # as) = bind_ok (f a) (\<lambda>b. bind_ok (map_ok f as) (\<lambda>bs. Inr (b # bs)))"

lemma map_ok_Inr: "map_ok f as = Inr bs \<longleftrightarrow> list_all2 (\<lambda>a b. f a = Inr b) as bs"
  by (induction as arbitrary: bs) (auto simp: bind_ok_Inr list_all2_Cons1)

lemma first_such_SomeD: "first_such P vs = Inr (Some v) \<Longrightarrow> v \<in> set vs \<and> P v = Inr True"
  by (induction vs) (auto simp: bind_ok_Inr split: if_splits)

text \<open>\<open>d.setdefault(k, v)\<close>\<close>

definition set_default :: "string \<Rightarrow> json \<Rightarrow> dict \<Rightarrow> dict" where
  "set_default k v d = (if map_of d k = None then dset k v d else d)"

text \<open>\<open>{**d, **e}\<close>\<close>

definition merged :: "dict \<Rightarrow> dict \<Rightarrow> dict" where
  "merged d e = foldl (\<lambda>acc p. dset (fst p) (snd p) acc) d e"

lemma dget_merged: "distinct (map fst e) \<Longrightarrow> dget (merged d e) k = (case map_of e k of None \<Rightarrow> dget d k | Some v \<Rightarrow> v)"
proof (induction e arbitrary: d)
  case (Cons p e)
  have "map_of e (fst p) = None" using Cons.prems by (simp add: map_of_eq_None_iff)
  with Cons show ?case by (cases "map_of e k") (auto simp: merged_def split: if_splits)
qed (simp add: merged_def)

end
