(* ===== verification/MqttInbox.thy ===== *)
theory MqttInbox
  imports Identity PyJson
begin

text \<open>
  \<open>app/repositories/mqtt_gateway.py\<close>: the durable inbox of device messages, the security events, and
  the presence and state a device reports over MQTT. The inbox and the security events form the
  \<open>mqtt_store\<close>; presence and state are columns of the terminal.
\<close>

section \<open>Tables\<close>

datatype mqtt_row_status = MI_RECEIVED | MI_RETRY | MI_PROCESSED

record mqtt_message =
  mi_id :: int
  mi_device_id :: string
  mi_topic :: string
  mi_message_id :: string
  mi_message_type :: string
  mi_boot_id :: "string option"
  mi_sequence :: "int option"
  mi_revision :: "int option"
  mi_payload_digest :: string
  mi_payload_json :: json
  mi_status :: mqtt_row_status
  mi_disposition :: "string option"
  mi_received_at :: timestamp
  mi_processed_at :: "timestamp option"
  mi_error_message :: "string option"
  mi_recovery_attempts :: int
  mi_next_recovery_at :: timestamp

record mqtt_store =
  mqtt_rows :: "mqtt_message list"
  mqtt_seq :: int
  security_events :: "(string \<times> json) list"

definition empty_mqtt :: mqtt_store where
  "empty_mqtt = \<lparr>mqtt_rows = [], mqtt_seq = 0, security_events = []\<rparr>"

section \<open>Values of a message as columns\<close>

text \<open>
  A JSON value where PostgreSQL expects a \<open>bigint\<close>: a number out of its range, a boolean or a
  nested value is refused, a text is read as an integer, a float is rounded half to even.
\<close>

definition in_bigint :: "int \<Rightarrow> bool" where
  "in_bigint i \<longleftrightarrow> - (2 ^ 63) \<le> i \<and> i < 2 ^ 63"

definition round_even :: "rat \<Rightarrow> int" where
  "round_even r = (let f = \<lfloor>r\<rfloor>; e = r - of_int f in
     if e < 1 / 2 then f else if e > 1 / 2 then f + 1 else if even f then f else f + 1)"

definition parse_bigint :: "string \<Rightarrow> int option" where
  "parse_bigint s = (let t = py_strip s;
       (sg, ds) = (case t of [] \<Rightarrow> (1, []) | c # r \<Rightarrow>
          if c = CHR ''-'' then (- 1, r) else if c = CHR ''+'' then (1, r) else (1, t))
     in if ds \<noteq> [] \<and> list_all is_digit ds then Some (sg * int (digits_value ds)) else None)"

fun bigint_param :: "json \<Rightarrow> err + int option" where
  "bigint_param JNull = Inr None"
| "bigint_param (JInt i) = (if in_bigint i then Inr (Some i) else Inl Data_error)"
| "bigint_param (JFloat r) = (if in_bigint (round_even r) then Inr (Some (round_even r)) else Inl Data_error)"
| "bigint_param (JStr s) = (case parse_bigint s of None \<Rightarrow> Inl Data_error
     | Some i \<Rightarrow> if in_bigint i then Inr (Some i) else Inl Data_error)"
| "bigint_param _ = Inl Data_error"

section \<open>The inbox\<close>

definition security_event :: "string \<Rightarrow> json \<Rightarrow> mqtt_store \<Rightarrow> mqtt_store" where
  "security_event device_id detail m = m\<lparr>security_events := security_events m @ [(device_id, detail)]\<rparr>"

definition find_message :: "string \<Rightarrow> string \<Rightarrow> mqtt_store \<Rightarrow> mqtt_message option" where
  "find_message device_id message_id m =
     find_row (\<lambda>r. mi_device_id r = device_id \<and> mi_message_id r = message_id) (mqtt_rows m)"

definition message_clash :: "mqtt_message \<Rightarrow> mqtt_message \<Rightarrow> bool" where
  "message_clash new r \<longleftrightarrow> mi_device_id r = mi_device_id new
     \<and> (mi_message_id r = mi_message_id new
        \<or> (mi_boot_id new \<noteq> None \<and> mi_sequence new \<noteq> None \<and> mi_boot_id r = mi_boot_id new
           \<and> mi_sequence r = mi_sequence new))"

text \<open>\<open>on conflict do nothing\<close>: the mark says whether the row was stored.\<close>

definition insert_message ::
  "timestamp \<Rightarrow> string \<Rightarrow> string \<Rightarrow> string \<Rightarrow> string \<Rightarrow> json \<Rightarrow> json \<Rightarrow> json \<Rightarrow> string \<Rightarrow> json
    \<Rightarrow> mqtt_store \<Rightarrow> err + bool \<times> mqtt_store" where
  "insert_message now device_id topic message_id message_type boot sq rv digest envelope m =
     bind_ok (text_param boot) (\<lambda>boot_id.
     bind_ok (bigint_param sq) (\<lambda>sequence.
     bind_ok (bigint_param rv) (\<lambda>revision.
     bind_ok (jsonb_ok envelope) (\<lambda>envelope.
       let new = \<lparr>mi_id = mqtt_seq m + 1, mi_device_id = device_id, mi_topic = topic,
             mi_message_id = message_id, mi_message_type = message_type, mi_boot_id = boot_id,
             mi_sequence = sequence, mi_revision = revision, mi_payload_digest = digest,
             mi_payload_json = envelope, mi_status = MI_RECEIVED, mi_disposition = None,
             mi_received_at = now, mi_processed_at = None, mi_error_message = None,
             mi_recovery_attempts = 0, mi_next_recovery_at = now + 30\<rparr>
       in if list_ex (message_clash new) (mqtt_rows m) then Inr (False, m\<lparr>mqtt_seq := mqtt_seq m + 1\<rparr>)
          else Inr (True, m\<lparr>mqtt_rows := mqtt_rows m @ [new], mqtt_seq := mqtt_seq m + 1\<rparr>)))))"

definition update_messages ::
  "(mqtt_message \<Rightarrow> bool) \<Rightarrow> (mqtt_message \<Rightarrow> mqtt_message) \<Rightarrow> mqtt_store \<Rightarrow> mqtt_store" where
  "update_messages P f m = m\<lparr>mqtt_rows := update_rows P f (mqtt_rows m)\<rparr>"

definition message_retry :: "string \<Rightarrow> string \<Rightarrow> string \<Rightarrow> mqtt_store \<Rightarrow> mqtt_store" where
  "message_retry device_id message_id error =
     update_messages (\<lambda>r. mi_device_id r = device_id \<and> mi_message_id r = message_id
         \<and> mi_status r \<noteq> MI_PROCESSED)
       (\<lambda>r. r\<lparr>mi_status := MI_RETRY, mi_error_message := Some (py_take 1000 error)\<rparr>)"

definition message_processed :: "timestamp \<Rightarrow> string \<Rightarrow> string \<Rightarrow> mqtt_store \<Rightarrow> mqtt_store" where
  "message_processed now device_id message_id =
     update_messages (\<lambda>r. mi_device_id r = device_id \<and> mi_message_id r = message_id)
       (\<lambda>r. r\<lparr>mi_status := MI_PROCESSED, mi_disposition := Some ''APPLIED'',
          mi_processed_at := Some now, mi_error_message := None\<rparr>)"

text \<open>The recovery takes the oldest messages that are due and puts the next attempt off.\<close>

definition recovery_due :: "timestamp \<Rightarrow> mqtt_message \<Rightarrow> bool" where
  "recovery_due now r \<longleftrightarrow> mi_status r \<in> set [MI_RECEIVED, MI_RETRY] \<and> mi_next_recovery_at r \<le> now
     \<and> mi_message_type r \<in> set [''event'', ''command_result'']"

definition recovery_delay :: "int \<Rightarrow> rat" where
  "recovery_delay n = min 300 (30 * 2 powi (min n 4))"

definition recovery_taken :: "timestamp \<Rightarrow> mqtt_message \<Rightarrow> mqtt_message" where
  "recovery_taken now r = r\<lparr>mi_recovery_attempts := mi_recovery_attempts r + 1,
     mi_next_recovery_at := now + recovery_delay (mi_recovery_attempts r)\<rparr>"

definition claim_recovery :: "timestamp \<Rightarrow> nat \<Rightarrow> mqtt_store \<Rightarrow> mqtt_message list \<times> mqtt_store" where
  "claim_recovery now limit m =
     (let chosen = take limit (sort_key mi_next_recovery_at (sort_key mi_id
            (filter (recovery_due now) (mqtt_rows m))));
          ids = map mi_id chosen
      in (map (recovery_taken now) chosen,
          update_messages (\<lambda>r. mi_id r \<in> set ids) (recovery_taken now) m))"

section \<open>Presence and state\<close>

definition mqtt_presence :: "timestamp \<Rightarrow> int \<Rightarrow> bool \<Rightarrow> db \<Rightarrow> db" where
  "mqtt_presence now terminal_id online =
     update_terminal terminal_id (\<lambda>t. t\<lparr>
       t_connection_status := (if online then ''online'' else ''offline''),
       t_last_seen_at := Some now,
       t_last_connected_at := (if online then coalesce (t_last_connected_at t) (Some now)
         else t_last_connected_at t),
       t_updated_at := now\<rparr>)"

definition mqtt_state :: "timestamp \<Rightarrow> int \<Rightarrow> json \<Rightarrow> db \<Rightarrow> db" where
  "mqtt_state now terminal_id payload =
     update_terminal terminal_id (\<lambda>t. t\<lparr>t_reported_status := payload, t_last_seen_at := Some now,
       t_updated_at := now\<rparr>)"

end
