(* ===== verification/Worker.thy ===== *)
theory Worker
  imports MqttInbox PaymentsApp Production
begin

text \<open>
  The background worker: \<open>app/repositories/workers.py\<close> and \<open>app/services/background_worker.py\<close>. Each
  job is a list of transactions; a job that asks a payment provider between two of them is split
  there and takes the answers as arguments (an \<open>Inl\<close> is an exception of the call). The drawn
  UUIDs, the clock of every transaction and the text of an exception (\<open>text\<close>) are arguments.
  Rows another worker has locked are skipped by the claims; one worker at a time is modelled.
  The flush of the telemetry cache is with the telemetry.
\<close>

section \<open>Scans (repository)\<close>

text \<open>\<open>expire_credentials\<close>: graces and credentials whose time is over.\<close>

definition credential_over :: "timestamp \<Rightarrow> credential \<Rightarrow> bool" where
  "credential_over now c \<longleftrightarrow>
     (cr_status c = CR_GRACE \<and> some_and (cr_grace_expires_at c) (\<lambda>e. e \<le> now))
     \<or> (cr_status c = CR_ACTIVE \<and> some_and (cr_expires_at c) (\<lambda>e. e \<le> now))"

definition expire_credentials :: "timestamp \<Rightarrow> vault \<Rightarrow> vault" where
  "expire_credentials now = update_credentials (credential_over now) (\<lambda>c. c\<lparr>cr_status := CR_EXPIRED\<rparr>)"

definition mark_offline :: "timestamp \<Rightarrow> timestamp \<Rightarrow> db \<Rightarrow> db" where
  "mark_offline now cutoff d =
     terminals_update (update_rows (\<lambda>t. t_connection_status t \<noteq> ''offline''
         \<and> (case t_last_heartbeat_at t of None \<Rightarrow> True | Some h \<Rightarrow> h < cutoff))
       (\<lambda>t. t\<lparr>t_connection_status := ''offline'', t_updated_at := now\<rparr>)) d"

definition expired_commands :: "timestamp \<Rightarrow> db \<Rightarrow> terminal_command list" where
  "expired_commands now d = take 200 (sort_key c_id
     (filter (\<lambda>c. c_status c = C_CREATED \<and> some_and (c_expires_at c) (\<lambda>e. e \<le> now)) (commands d)))"

section \<open>Business events (repository)\<close>

definition business_due :: "timestamp \<Rightarrow> business_event \<Rightarrow> bool" where
  "business_due now b \<longleftrightarrow> bo_status b \<in> set [BO_PENDING, BO_RETRY] \<and> bo_next_attempt_at b \<le> now"

definition business_taken :: "timestamp \<Rightarrow> string \<Rightarrow> business_event \<Rightarrow> business_event" where
  "business_taken now worker b = b\<lparr>bo_status := BO_PROCESSING, bo_locked_by := Some worker,
     bo_locked_until := Some (now + 30)\<rparr>"

definition update_business :: "(business_event \<Rightarrow> bool) \<Rightarrow> (business_event \<Rightarrow> business_event) \<Rightarrow> db \<Rightarrow> db" where
  "update_business P f d = d\<lparr>business := update_rows P f (business d)\<rparr>"

definition claim_business_events :: "timestamp \<Rightarrow> string \<Rightarrow> nat \<Rightarrow> db \<Rightarrow> business_event list \<times> db" where
  "claim_business_events now worker limit d =
     (let chosen = take limit (sort_key bo_created_at (filter (business_due now) (business d)));
          ids = map bo_id chosen
      in (map (business_taken now worker) chosen,
          update_business (\<lambda>b. bo_id b \<in> set ids) (business_taken now worker) d))"

definition claim_business_event :: "timestamp \<Rightarrow> string \<Rightarrow> db \<Rightarrow> business_event option \<times> db" where
  "claim_business_event now worker d =
     (case sort_key bo_created_at (filter (business_due now) (business d)) of
        [] \<Rightarrow> (None, d)
      | b # _ \<Rightarrow> (Some (business_taken now worker b),
          update_business (\<lambda>q. bo_id q = bo_id b) (business_taken now worker) d))"

definition mark_business_processed :: "timestamp \<Rightarrow> uuid \<Rightarrow> db \<Rightarrow> db" where
  "mark_business_processed now k =
     update_business (\<lambda>b. bo_id b = k) (\<lambda>b. b\<lparr>bo_status := BO_PROCESSED,
       bo_processed_at := Some now, bo_locked_by := None, bo_locked_until := None\<rparr>)"

definition mark_business_retry :: "timestamp \<Rightarrow> uuid \<Rightarrow> string \<Rightarrow> db \<Rightarrow> db" where
  "mark_business_retry now k error =
     update_business (\<lambda>b. bo_id b = k) (\<lambda>b. b\<lparr>bo_status := BO_RETRY,
       bo_attempt_count := bo_attempt_count b + 1,
       bo_next_attempt_at := now + backoff 300 8 (bo_attempt_count b + 1),
       bo_last_error := Some (py_take 1000 error), bo_locked_by := None, bo_locked_until := None\<rparr>)"

section \<open>Payments and refunds to look at (repository)\<close>

definition claim_payment :: "timestamp \<Rightarrow> rat \<Rightarrow> db \<Rightarrow> payment option \<times> db" where
  "claim_payment now reconcile_seconds d =
     (case sort_key p_created_at (filter (\<lambda>p. payment_open p
          \<and> (p_next_reconcile_at p = None \<or> some_and (p_next_reconcile_at p) (\<lambda>t. t \<le> now))) (payments d)) of
        [] \<Rightarrow> (None, d)
      | p # _ \<Rightarrow> (Some p, update_payment (p_id p)
          (\<lambda>q. q\<lparr>p_next_reconcile_at := Some (now + reconcile_seconds)\<rparr>) d))"

definition claim_refund :: "timestamp \<Rightarrow> db \<Rightarrow> refund option" where
  "claim_refund now d =
     (case sort_key r_created_at (filter (\<lambda>r. r_status r \<in> set [R_REQUESTED, R_UNKNOWN, R_PROCESSING]
          \<and> (r_next_attempt_at r = None \<or> some_and (r_next_attempt_at r) (\<lambda>t. t \<le> now))) (refunds d)) of
        [] \<Rightarrow> None | r # _ \<Rightarrow> Some r)"

definition mark_refund_attempt :: "timestamp \<Rightarrow> uuid \<Rightarrow> bool \<Rightarrow> db \<Rightarrow> db" where
  "mark_refund_attempt now k set_processing_delay d =
     (let d1 = (if set_processing_delay
            then update_refund k (\<lambda>r. r\<lparr>r_next_attempt_at := Some (now + 30)\<rparr>) d else d)
      in update_refund k (\<lambda>r. r\<lparr>r_attempt_count := r_attempt_count r + 1,
           r_next_attempt_at := Some (now + 30)\<rparr>) d1)"

section \<open>Overdue drinks and history (repository)\<close>

definition watchdog_due ::
  "timestamp \<Rightarrow> rat \<Rightarrow> rat \<Rightarrow> rat \<Rightarrow> rat \<Rightarrow> terminal_command \<Rightarrow> production_job \<Rightarrow> bool" where
  "watchdog_due now ack_timeout start_timeout grace wait_timeout c j \<longleftrightarrow>
     (c_status c \<in> set [C_DELIVERING, C_PUBLISHED]
        \<and> some_and (coalesce (c_published_at c) (c_delivered_at c)) (\<lambda>t. t < now - ack_timeout))
     \<or> (c_status c = C_ACKED \<and> some_and (c_acked_at c) (\<lambda>t. t < now - start_timeout))
     \<or> (c_status c = C_EXECUTING \<and> j_status j = J_EXECUTING
        \<and> j_updated_at j + (coalesce_to (coalesce (j_remaining_seconds j) (j_planned_duration_seconds j)) 300
             + grace) < now)
     \<or> (j_status j \<in> set [J_PAUSED, J_RETRY_WAIT] \<and> j_updated_at j < now - wait_timeout)"

text \<open>The orders and jobs of the selected rows, in the order the service visits them.\<close>

definition watchdog_rows ::
  "timestamp \<Rightarrow> rat \<Rightarrow> rat \<Rightarrow> rat \<Rightarrow> rat \<Rightarrow> db \<Rightarrow> (uuid \<times> uuid) list" where
  "watchdog_rows now ack_timeout start_timeout grace wait_timeout d =
     map (\<lambda>j. (j_order_id j, j_id j)) (take 200 (sort_key j_order_id
       (filter (\<lambda>j. case j_command_id j of None \<Rightarrow> False
          | Some k \<Rightarrow> (case find_command k d of None \<Rightarrow> False
             | Some c \<Rightarrow> watchdog_due now ack_timeout start_timeout grace wait_timeout c j)) (jobs d))))"

definition mark_job_hold :: "timestamp \<Rightarrow> uuid \<Rightarrow> db \<Rightarrow> db" where
  "mark_job_hold now k =
     update_job k (\<lambda>j. j\<lparr>j_status := J_HOLD, j_hold_reason := Some ''DEVICE_OUTCOME_UNKNOWN'',
       j_manual_review_required := True, j_revision := j_revision j + 1, j_updated_at := now\<rparr>)"

text \<open>
  Each statement deletes at most \<open>limit\<close> of the rows that are old enough; which of them the
  database finds first is not fixed, here it is the order of the table.
\<close>

fun delete_some :: "nat \<Rightarrow> ('r \<Rightarrow> bool) \<Rightarrow> 'r list \<Rightarrow> 'r list" where
  "delete_some n P [] = []"
| "delete_some n P (r # rs) =
     (case n of 0 \<Rightarrow> r # rs | Suc m \<Rightarrow> if P r then delete_some m P rs else r # delete_some n P rs)"

definition days_ago :: "timestamp \<Rightarrow> rat \<Rightarrow> timestamp" where
  "days_ago now days = now - days * 86400"

definition cleanup_tables ::
  "timestamp \<Rightarrow> rat \<Rightarrow> rat \<Rightarrow> rat \<Rightarrow> rat \<Rightarrow> rat \<Rightarrow> nat \<Rightarrow> db \<times> mqtt_store \<Rightarrow> db \<times> mqtt_store" where
  "cleanup_tables now heartbeat_days mqtt_days event_days outbox_days audit_days limit s =
     (let d = fst s; m = snd s
      in (d\<lparr>heartbeats := delete_some limit (\<lambda>h. hb_received_at h < days_ago now heartbeat_days) (heartbeats d),
            events := delete_some limit (\<lambda>e. ev_received_at e < days_ago now event_days) (events d),
            business := delete_some limit (\<lambda>b. bo_status b = BO_PROCESSED
              \<and> some_and (bo_processed_at b) (\<lambda>t. t < days_ago now outbox_days)) (business d),
            outbox := delete_some limit (\<lambda>b. ob_status b = OB_PUBLISHED
              \<and> some_and (ob_published_at b) (\<lambda>t. t < days_ago now outbox_days)) (outbox d),
            audits := delete_some limit (\<lambda>a. au_created_at a < days_ago now audit_days) (audits d)\<rparr>,
          m\<lparr>mqtt_rows := delete_some limit (\<lambda>r. mi_status r = MI_PROCESSED
              \<and> mi_received_at r < days_ago now mqtt_days) (mqtt_rows m)\<rparr>))"

text \<open>The counts of deleted rows, in the order of the statements.\<close>

definition cleanup_history ::
  "timestamp \<Rightarrow> rat \<Rightarrow> rat \<Rightarrow> rat \<Rightarrow> rat \<Rightarrow> rat \<Rightarrow> nat \<Rightarrow> db \<times> mqtt_store
    \<Rightarrow> (string \<times> nat) list \<times> (db \<times> mqtt_store)" where
  "cleanup_history now heartbeat_days mqtt_days event_days outbox_days audit_days limit s =
     (let s1 = cleanup_tables now heartbeat_days mqtt_days event_days outbox_days audit_days limit s;
          d = fst s; d1 = fst s1
      in ([(''heartbeat'', length (heartbeats d) - length (heartbeats d1)),
           (''mqtt'', length (mqtt_rows (snd s)) - length (mqtt_rows (snd s1))),
           (''events'', length (events d) - length (events d1)),
           (''businessOutbox'', length (business d) - length (business d1)),
           (''commandOutbox'', length (outbox d) - length (outbox d1)),
           (''audit'', length (audits d) - length (audits d1))], s1))"

section \<open>The offline scan (service)\<close>

fun expire_unpaid :: "timestamp \<Rightarrow> sales_order list \<Rightarrow> db \<Rightarrow> err + db" where
  "expire_unpaid now [] d = Inr d"
| "expire_unpaid now (r # rs) d =
     bind_ok (transition_order now r O_EXPIRED ''order-expiration''
         (Some ''unpaid order expired before payment creation'') JNull d)
       (\<lambda>(_, d1). expire_unpaid now rs d1)"

text \<open>
  One transaction per candidate; an exception ends the scan and what was committed stays. \<open>ids\<close>
  gives the UUIDs a refund of the n-th candidate draws.
\<close>

fun expire_each ::
  "externals \<Rightarrow> timestamp \<Rightarrow> (nat \<Rightarrow> uuid \<times> uuid) \<Rightarrow> terminal_command list \<Rightarrow> db \<Rightarrow> err option \<times> db" where
  "expire_each x now ids [] d = (None, d)"
| "expire_each x now ids (c # cs) d =
     (case expire_order_for_command x now (fst (ids (length cs))) (snd (ids (length cs))) (c_id c) d of
        Inl e \<Rightarrow> (Some e, d)
      | Inr (_, d1) \<Rightarrow> expire_each x now ids cs d1)"

definition offline_scan_once ::
  "externals \<Rightarrow> settings \<Rightarrow> timestamp \<Rightarrow> (nat \<Rightarrow> uuid \<times> uuid) \<Rightarrow> db \<times> vault \<Rightarrow> err option \<times> (db \<times> vault)" where
  "offline_scan_once x cfg now ids s =
     (let v1 = expire_credentials now (snd s);
          d1 = mark_offline now (now - s_offline_threshold_seconds cfg) (fst s)
      in case expire_unpaid now (expired_unpaid now (s_payment_pending_ttl_seconds cfg) d1) d1 of
           Inl e \<Rightarrow> (Some e, (d1, v1))
         | Inr d2 \<Rightarrow> (let (e, d3) = expire_each x now ids (expired_commands now d2) d2 in (e, (d3, v1))))"

section \<open>Paid orders become drinks (service)\<close>

text \<open>\<open>uuid.UUID(str(payload["orderId"]))\<close>\<close>

definition event_order_id :: "dict \<Rightarrow> err + uuid" where
  "event_order_id payload =
     (case map_of payload ''orderId'' of
        None \<Rightarrow> Inl Key_error
      | Some v \<Rightarrow>
          (case (case v of JStr s \<Rightarrow> py_uuid s | JInt i \<Rightarrow> py_uuid (str_int i) | _ \<Rightarrow> None) of
             None \<Rightarrow> Inl Value_error | Some k \<Rightarrow> Inr k))"

text \<open>A JSON value where the database expects a \<open>double precision\<close>; a float is an exact rational.\<close>

fun double_param :: "json \<Rightarrow> err + rat option" where
  "double_param JNull = Inr None"
| "double_param (JInt i) = Inr (Some (of_int i))"
| "double_param (JFloat r) = Inr (Some r)"
| "double_param (JStr s) = (case parse_decimal s of
       Some (Dec c e) \<Rightarrow> Inr (Some (of_int c * 10 powi e)) | _ \<Rightarrow> Inl Data_error)"
| "double_param _ = Inl Data_error"

definition queue_paid_order ::
  "timestamp \<Rightarrow> uuid \<Rightarrow> string \<Rightarrow> sales_order \<Rightarrow> db \<Rightarrow> err + db" where
  "queue_paid_order now job_id task_id r d =
     bind_ok (case job_of_order (o_id r) d of
         Some _ \<Rightarrow> Inr d
       | None \<Rightarrow> bind_ok (double_param (dget (o_product_snapshot r) ''estimatedDurationSeconds''))
           (\<lambda>planned. insert_production_job now job_id task_id (o_id r) (o_terminal_id r) planned d))
       (\<lambda>d1. bind_ok (if o_status r = O_PAID
           then transition_order now r O_QUEUED ''outbox-worker'' (Some ''paid order queued'') JNull d1
           else Inr (r, d1))
         (\<lambda>(r1, d2). Inr (request_dispatch now (o_terminal_id r1) ''payment-paid'' d2)))"

text \<open>Only a paid order that has not ended, for its primary payment, gets a drink.\<close>

definition process_paid_event ::
  "timestamp \<Rightarrow> uuid \<Rightarrow> string \<Rightarrow> business_event \<Rightarrow> db \<Rightarrow> err + db" where
  "process_paid_event now job_id task_id b d =
     bind_ok (event_order_id (bo_payload_json b)) (\<lambda>order_id.
       case find_with_terminal order_id d of
         None \<Rightarrow> Inr d
       | Some (r, _) \<Rightarrow>
           if o_payment_status r \<noteq> OP_PAID then Inr d
           else if o_status r \<in> set TERMINAL_ORDER_STATUSES then Inr d
           else if o_paid_payment_id r \<noteq> None
             \<and> JStr (str_uuid_opt (o_paid_payment_id r)) \<noteq> dget (bo_payload_json b) ''paymentId''
           then Inr d
           else queue_paid_order now job_id task_id r d)"

text \<open>\<open>ids\<close> gives the job and the task of the n-th event; a failed event is put off on its own.\<close>

fun process_events ::
  "timestamp \<Rightarrow> (err \<Rightarrow> string) \<Rightarrow> (nat \<Rightarrow> uuid \<times> uuid) \<Rightarrow> business_event list \<Rightarrow> nat \<Rightarrow> db \<Rightarrow> nat \<times> db" where
  "process_events now text ids [] n d = (n, d)"
| "process_events now text ids (b # bs) n d =
     (case (if bo_event_type b = ''payment.paid''
            then process_paid_event now (fst (ids (length bs)))
              (''task-'' @ uuid_str (snd (ids (length bs)))) b d
            else Inr d) of
        Inl e \<Rightarrow> process_events now text ids bs n (mark_business_retry now (bo_id b) (text e) d)
      | Inr d1 \<Rightarrow> process_events now text ids bs (Suc n) (mark_business_processed now (bo_id b) d1))"

definition clamp :: "int \<Rightarrow> int \<Rightarrow> nat" where
  "clamp limit most = nat (max 1 (min limit most))"

definition process_business_outbox_batch ::
  "timestamp \<Rightarrow> (err \<Rightarrow> string) \<Rightarrow> string \<Rightarrow> (nat \<Rightarrow> uuid \<times> uuid) \<Rightarrow> int \<Rightarrow> db \<Rightarrow> nat \<times> db" where
  "process_business_outbox_batch now text worker ids limit d =
     (let (bs, d1) = claim_business_events now worker (clamp limit 100) d
      in process_events now text ids bs 0 d1)"

section \<open>Dispatch requests (service)\<close>

definition repair_missing_dispatch_requests :: "timestamp \<Rightarrow> int \<Rightarrow> db \<Rightarrow> nat \<times> db" where
  "repair_missing_dispatch_requests now limit d = repair_missing now (clamp limit 500) d"

record dispatch_round =
  dn_claimed_at :: timestamp
  dn_run_at :: timestamp
  dn_message_id :: string
  dn_outbox_id :: uuid

definition serve_request ::
  "externals \<Rightarrow> settings \<Rightarrow> dispatch_round \<Rightarrow> dispatch_request \<Rightarrow> db \<Rightarrow> err + db" where
  "serve_request x cfg n q d =
     bind_ok (dispatch_next_order_result x cfg (dn_run_at n) (dn_message_id n) (dn_outbox_id n)
         (dr_terminal_id q) d)
       (\<lambda>(v, d1).
         if retryable v \<and> next_queued_job (dr_terminal_id q) d1 \<noteq> None
         then Inr (retry_dispatch (dn_run_at n) (dr_terminal_id q) (dr_revision q) (dsp_reason v) d1)
         else Inr (complete_dispatch (dn_run_at n) (dr_terminal_id q) (dr_revision q) d1))"

text \<open>At most as many rounds as the limit allows; the first without a request is the last.\<close>

fun dispatch_rounds ::
  "externals \<Rightarrow> settings \<Rightarrow> (err \<Rightarrow> string) \<Rightarrow> string \<Rightarrow> (nat \<Rightarrow> dispatch_round) \<Rightarrow> nat \<Rightarrow> nat \<Rightarrow> db
    \<Rightarrow> nat \<times> db" where
  "dispatch_rounds x cfg text worker rounds 0 served d = (served, d)"
| "dispatch_rounds x cfg text worker rounds (Suc n) served d =
     (case claim_dispatch (dn_claimed_at (rounds n)) worker d of
        (None, d1) \<Rightarrow> (served, d1)
      | (Some q, d1) \<Rightarrow>
          (case serve_request x cfg (rounds n) q d1 of
             Inl e \<Rightarrow> dispatch_rounds x cfg text worker rounds n served
               (retry_dispatch (dn_run_at (rounds n)) (dr_terminal_id q) (dr_revision q) (text e) d1)
           | Inr d2 \<Rightarrow> dispatch_rounds x cfg text worker rounds n (Suc served) d2))"

definition process_dispatch_batch ::
  "externals \<Rightarrow> settings \<Rightarrow> (err \<Rightarrow> string) \<Rightarrow> string \<Rightarrow> (nat \<Rightarrow> dispatch_round) \<Rightarrow> int \<Rightarrow> db \<Rightarrow> nat \<times> db" where
  "process_dispatch_batch x cfg text worker rounds limit d =
     dispatch_rounds x cfg text worker rounds (clamp limit 200) 0 d"

section \<open>Payments the provider knows more about (service)\<close>

text \<open>
  What the provider's answers amount to: nothing to record after an exception, the answer to the
  query, or for a payment over its time the answer to the close.
\<close>

definition reconcile_answer ::
  "settings \<Rightarrow> timestamp \<Rightarrow> payment \<Rightarrow> err + provider_result \<Rightarrow> err + provider_result
    \<Rightarrow> provider_result option" where
  "reconcile_answer cfg now p query close =
     (case query of
        Inl _ \<Rightarrow> None
      | Inr v \<Rightarrow>
          if p_created_at p \<le> now - s_payment_pending_ttl_seconds cfg
             \<and> pr_status v \<notin> set [''PAID'', ''CLOSED'', ''FAILED'']
          then (case close of Inl _ \<Rightarrow> None | Inr c \<Rightarrow> Some c)
          else Some v)"

definition reconcile_paid_values :: "payment \<Rightarrow> provider_result \<Rightarrow> fields" where
  "reconcile_paid_values p v =
     [(''merchant_payment_no'', p_merchant_payment_no p), (''amount_minor'', str_int (p_amount_minor p)),
      (''provider_trade_no'', (case pr_provider_trade_no v of Some s \<Rightarrow> s | None \<Rightarrow> []))]"

definition reconcile_record ::
  "externals \<Rightarrow> timestamp \<Rightarrow> uuid \<Rightarrow> uuid \<Rightarrow> uuid \<Rightarrow> payment \<Rightarrow> provider_result \<Rightarrow> db \<Rightarrow> err + db" where
  "reconcile_record x now rid nid bid p v d =
     (if pr_status v = ''PAID''
      then bind_ok (apply_paid_callback x now rid nid bid (p_provider p)
          (''reconcile-paid:'' @ p_merchant_payment_no p) (reconcile_paid_values p v) d) (\<lambda>(_, d1). Inr d1)
      else if pr_status v \<notin> set [''CLOSED'', ''FAILED''] then Inr d
      else case find_order (p_order_id p) d of
        None \<Rightarrow> Inr d
      | Some _ \<Rightarrow>
          (case find_payment (p_id p) d of
             None \<Rightarrow> Inr d
           | Some current \<Rightarrow>
               if \<not> payment_open current then Inr d
               else
                 let tgt = (if pr_status v = ''CLOSED'' then P_CLOSED else P_FAILED)
                 in bind_ok (transition_payment now current tgt ''payment-reconciliation'' (pr_raw v) d)
                      (\<lambda>(_, d1). Inr (update_payment_outcome now (p_order_id current)
                         (order_payment_of tgt) d1))))"

definition reconcile_payment_once ::
  "externals \<Rightarrow> settings \<Rightarrow> timestamp \<Rightarrow> timestamp \<Rightarrow> uuid \<Rightarrow> uuid \<Rightarrow> uuid \<Rightarrow> err + provider_result
    \<Rightarrow> err + provider_result \<Rightarrow> db \<Rightarrow> (err + nat) \<times> db" where
  "reconcile_payment_once x cfg now later rid nid bid query close d =
     (case claim_payment now (s_payment_reconcile_seconds cfg) d of
        (None, d1) \<Rightarrow> (Inr 0, d1)
      | (Some p, d1) \<Rightarrow>
          (case reconcile_answer cfg later p query close of
             None \<Rightarrow> (Inr 0, d1)
           | Some v \<Rightarrow>
               (case reconcile_record x later rid nid bid p v d1 of
                  Inl e \<Rightarrow> (Inl e, d1) | Inr d2 \<Rightarrow> (Inr 1, d2))))"

section \<open>Refunds at the provider (service)\<close>

text \<open>The refund to ask about, marked as tried, with its payment; \<open>None\<close> when there is nothing to do.\<close>

definition begin_refund ::
  "timestamp \<Rightarrow> db \<Rightarrow> err + (refund \<times> payment) option \<times> db" where
  "begin_refund now d =
     (case claim_refund now d of
        None \<Rightarrow> Inr (None, d)
      | Some r \<Rightarrow>
          (case find_payment (r_payment_id r) d of
             None \<Rightarrow> Inr (None, d)
           | Some p \<Rightarrow>
               if r_status r \<noteq> R_PROCESSING
               then bind_ok (transition_refund now r R_PROCESSING JNull d) (\<lambda>((u, _), d1).
                 Inr (Some (u, p), mark_refund_attempt now (r_id u) True d1))
               else Inr (Some (r, p), mark_refund_attempt now (r_id r) False d)))"

text \<open>
  A first attempt asks for the refund, a later one asks about it first; a provider that does not know
  it is asked again (\<open>again\<close>). \<open>error\<close> is the payload recorded for an exception, whose outcome is unknown.
\<close>

definition refund_answer ::
  "refund \<Rightarrow> err + provider_result \<Rightarrow> err + provider_result \<Rightarrow> err + provider_result \<Rightarrow> (err \<Rightarrow> json)
    \<Rightarrow> refund_status \<times> json" where
  "refund_answer r query ask again error =
     (let first = (if 0 < r_attempt_count r then query else ask);
          result = (case first of Inl e \<Rightarrow> Inl e
            | Inr v \<Rightarrow> if pr_status v = ''NOT_FOUND'' then again else Inr v)
      in case result of
           Inl e \<Rightarrow> (R_UNKNOWN, error e)
         | Inr v \<Rightarrow> (if pr_status v = ''REFUNDED'' then R_SUCCEEDED
              else if pr_status v = ''FAILED'' then R_FAILED else R_PROCESSING, pr_raw v))"

definition end_refund :: "timestamp \<Rightarrow> uuid \<Rightarrow> refund_status \<Rightarrow> json \<Rightarrow> db \<Rightarrow> err + db" where
  "end_refund now k tgt payload d =
     bind_ok (apply_refund_outcome now k tgt payload ''refund-reconciliation'' d) (\<lambda>(current, d1).
       Inr (case current of
              None \<Rightarrow> d1
            | Some r \<Rightarrow>
                if r_status r = R_UNKNOWN then schedule_refund now (r_id r) True d1
                else if r_status r = R_PROCESSING then schedule_processing_refund now (r_id r) d1
                else d1))"

definition process_refund_batch ::
  "timestamp \<Rightarrow> timestamp \<Rightarrow> err + provider_result \<Rightarrow> err + provider_result \<Rightarrow> err + provider_result
    \<Rightarrow> (err \<Rightarrow> json) \<Rightarrow> db \<Rightarrow> (err + nat) \<times> db" where
  "process_refund_batch now later query ask again error d =
     (case begin_refund now d of
        Inl e \<Rightarrow> (Inl e, d)
      | Inr (None, d1) \<Rightarrow> (Inr 0, d1)
      | Inr (Some (r, p), d1) \<Rightarrow>
          (let (tgt, payload) = refund_answer r query ask again error
           in case end_refund later (r_id r) tgt payload d1 of
                Inl e \<Rightarrow> (Inl e, d1) | Inr d2 \<Rightarrow> (Inr 1, d2)))"

section \<open>Watchdog, cleanup and recovery (service)\<close>

fun hold_each :: "settings \<Rightarrow> timestamp \<Rightarrow> (uuid \<times> uuid) list \<Rightarrow> db \<Rightarrow> err option \<times> db" where
  "hold_each cfg now [] d = (None, d)"
| "hold_each cfg now ((order_id, job_id) # rest) d =
     (case hold_overdue_job cfg now order_id job_id d of
        Inl e \<Rightarrow> (Some e, d) | Inr d1 \<Rightarrow> hold_each cfg now rest d1)"

definition watchdog_scan_once :: "settings \<Rightarrow> timestamp \<Rightarrow> db \<Rightarrow> err option \<times> db" where
  "watchdog_scan_once cfg now d =
     hold_each cfg now (watchdog_rows now (s_command_ack_timeout_seconds cfg)
       (s_command_start_timeout_seconds cfg) (s_production_timeout_grace_seconds cfg)
       (s_production_wait_timeout_seconds cfg) d) d"

definition cleanup_history_once ::
  "settings \<Rightarrow> timestamp \<Rightarrow> db \<times> mqtt_store \<Rightarrow> (string \<times> nat) list \<times> (db \<times> mqtt_store)" where
  "cleanup_history_once cfg now = cleanup_history now (s_heartbeat_retention_days cfg)
     (s_mqtt_inbox_retention_days cfg) (s_device_event_retention_days cfg)
     (s_processed_outbox_retention_days cfg) (s_audit_retention_days cfg)
     (s_history_cleanup_batch_size cfg)"

definition worker_stored_command_events ::
  "externals \<Rightarrow> timestamp \<Rightarrow> (nat \<Rightarrow> uuid \<times> uuid) \<Rightarrow> db \<Rightarrow> err + db" where
  "worker_stored_command_events x now ids d = reconcile_stored_command_events x now ids d"

definition worker_stored_order_events ::
  "externals \<Rightarrow> timestamp \<Rightarrow> (nat \<Rightarrow> uuid \<times> uuid) \<Rightarrow> db \<Rightarrow> err + db" where
  "worker_stored_order_events x now ids d = reconcile_stored_order_events x now ids d"

end
