(* ===== verification/LineFrame.thy ===== *)
theory LineFrame
  imports Production
begin

text \<open>
  What holds of everything the production service does: a relation between the database before and
  after that holds of each statement the service issues holds of each of its operations. The locale
  \<open>line_frame\<close> states the statements as its assumptions and follows the operations from them;
  \<open>refund_frame\<close> adds the automatic refund. The relation is a parameter: the theories about money and
  about the messages of devices interpret it.
\<close>

locale line_frame =
  fixes keeps :: "db \<Rightarrow> db \<Rightarrow> bool"
  assumes same: "keeps d d"
    and trans: "keeps d d1 \<Longrightarrow> keeps d1 d2 \<Longrightarrow> keeps d d2"
    and order_write: "keeps d (update_order i f d)"
    and job_write: "keeps d (update_job i g d)"
    and wake: "keeps d (enqueue_dispatch now t why d)"
    and outbox_write: "keeps d (update_outbox i h d)"
    and order_step: "transition_order now r tgt actor rsn payload d = Inr (r', d') \<Longrightarrow> keeps d d'"
    and command_step: "transition_command now c cst actor crsn pl strict d = Inr (w, d') \<Longrightarrow> keeps d d'"
    and new_command: "insert_command now n m ty cp dg ex key d = Inr (c', d') \<Longrightarrow> keeps d d'"
    and log_command: "append_command_log l d = Inr d' \<Longrightarrow> keeps d d'"
    and new_outbox: "insert_outbox now b k t topic env d = Inr d' \<Longrightarrow> keeps d d'"
begin

lemma writes [simp]:
  "keeps d (update_failure now k c m d)" "keeps d (update_job_hold now k why fl d)"
  "keeps d (update_job_expired now k fj d)" "keeps d (clear_job_hold k d)"
  "keeps d (link_command now k n d)" "keeps d (request_dispatch now t why d)"
  "keeps d (update_job_terminal now k st p sp pl steps fd el rm rv ac sa co att d)"
  "keeps d (update_job_progress now k p' sp' si sn e' r' rev' att' d)"
  "keeps d (terminalize_outbox now i ost d)" "keeps d d"
  by (simp_all add: update_failure_def update_job_hold_def update_job_expired_def clear_job_hold_def
      link_command_def request_dispatch_def update_job_terminal_def update_job_progress_def
      terminalize_outbox_def same order_write job_write wake outbox_write)

lemma then_write:
  "keeps d d1 \<Longrightarrow> keeps d (update_failure now k c m d1)" "keeps d d1 \<Longrightarrow> keeps d (update_job_hold now k why fl d1)"
  "keeps d d1 \<Longrightarrow> keeps d (clear_job_hold k d1)" "keeps d d1 \<Longrightarrow> keeps d (request_dispatch now t rs d1)"
  by (rule trans, assumption, simp)+

lemma record_failure: "record_failure now body failure st r d = Inr d' \<Longrightarrow> keeps d d'"
  by (auto simp: record_failure_def bind_ok_Inr split: if_splits)

lemma standalone:
  "reconcile_standalone now terminal_id task_id body payload event_type d = Inr (v, d') \<Longrightarrow> keeps d d'"
  by (auto simp: reconcile_standalone_def bind_ok_Inr split: option.splits prod.splits if_splits
      dest!: command_step)

lemma step: "reconcile_step now body payload revision r job c d = Inr (v, d') \<Longrightarrow> keeps d d'"
  by (auto simp: reconcile_step_def bind_ok_Inr split: if_splits)

lemma withdraw [simp]: "keeps d (withdraw_outbox now c d)"
  by (simp add: withdraw_outbox_def split: option.splits)

lemma dispatch:
  assumes "dispatch_next_order_result x cfg now message_id outbox_id terminal_id d = Inr (v, d')"
  shows "keeps d d'"
proof (cases "d' = d")
  case False
  obtain t job r where "dispatch_job x now message_id outbox_id t job r d = Inr (v, d')"
    using assms False
    by (auto simp: dispatch_next_order_result_def not_dispatched_def split: option.splits if_splits)
  then obtain c d1 d2 d3 command where ins: "insert_command now (t_id t) message_id ''MAKE_DRINK'' command
        (canonical_digest x (JObj command)) (Some (now + 600))
        (Some (''order:'' @ uuid_str (j_order_id job) @ '':make'')) d = Inr (c, d1)"
      and lg: "insert_initial_command_transition now (c_id c) ''order-service'' ''dispatch queued order''
        (JObj command) d1 = Inr d2"
      and box: "\<exists>topic env. insert_outbox now outbox_id (c_id c) (t_id t) topic env d2 = Inr d3"
      and last: "d' = link_command now (j_id job) (c_id c) d3
        \<or> (\<exists>r2 pl w. transition_order now r2 O_DISPATCHED ''order-service'' (Some ''device command created'')
             pl (link_command now (j_id job) (c_id c) d3) = Inr (w, d'))"
    unfolding dispatch_job_def Let_def
    by (auto simp: bind_ok_Inr split: option.splits prod.splits) blast+
  have "keeps d1 d2" using lg unfolding insert_initial_command_transition_def by (rule log_command)
  moreover have "keeps d2 d3" using box new_outbox by blast
  moreover have "keeps d3 (link_command now (j_id job) (c_id c) d3)" by simp
  ultimately have "keeps d (link_command now (j_id job) (c_id c) d3)" using new_command[OF ins] by (blast intro: trans)
  then show ?thesis using last order_step by (blast intro: trans)
qed (simp add: same)

lemma hold:
  assumes "hold_overdue_job cfg now order_id job_id d = Inr d'"
  shows "keeps d d'"
proof (cases "d' = d")
  case False
  with assms obtain r c w d1 r' where "transition_command now c C_UNKNOWN ''watchdog''
        (Some ''device outcome requires reconciliation'') None True d = Inr (w, d1)"
    and "transition_order now r O_HOLD ''watchdog'' (Some ''device outcome unknown'') JNull
        (update_job_hold now job_id ''DEVICE_OUTCOME_UNKNOWN'' None d1) = Inr (r', d')"
    by (auto simp: hold_overdue_job_def bind_ok_Inr split: option.splits if_splits)
  then show ?thesis by (meson command_step order_step then_write(2) trans)
qed (simp add: same)

end

locale refund_frame = line_frame +
  assumes refund: "ensure_automatic_refund_intent x now rid nid pid key why who d = Inr (i, d') \<Longrightarrow> keeps d d'"
begin

lemma automatic_refund:
  assumes "create_automatic_refund_record x now rid nid r job why d = Inr (v, d')"
  shows "keeps d d'"
  using assms unfolding create_automatic_refund_record_def Let_def
  by (auto split: option.splits if_splits simp: bind_ok_Inr dest: refund)

lemma task_event:
  assumes run: "apply_task_event x now rid nid terminal_id body payload event_type revision r job c
      (ost, jst, cst) d = Inr (v, d')"
  shows "keeps d d'"
proof -
  from run obtain failure pr u dup d1 d4 r' d5 rf d6
    where cmd: "transition_command now c cst ''device-event'' (Some event_type) (Some (JObj body)) True d
        = Inr ((u, dup), d1)"
      and rec: "record_failure now body failure jst r
        (if jst = J_HOLD then update_job_hold now (j_id job) ''DEVICE_RESTARTED_OUTCOME_UNKNOWN'' None pr
         else if jst \<in> set FINAL_JOBS then clear_job_hold (j_id job) pr else pr) = Inr d4"
      and prd: "keeps d1 pr"
      and ord: "transition_order now r ost ''device-event'' (Some event_type) (JObj body) d4 = Inr (r', d5)"
      and rf: "(if event_type \<in> {''task.failed'', ''task.rejected'', ''task.cancelled''}
          then create_automatic_refund_record x now rid nid r' job event_type d5 else Inr (None, d5))
        = Inr (rf, d6)"
      and d': "d' = (if ost \<in> set TERMINAL_ORDER_STATUSES
            then request_dispatch now terminal_id (''order-'' @ py_lower (order_name ost)) d6 else d6)"
    unfolding apply_task_event_def Let_def prod.case
    by (auto simp: bind_ok_Inr)
  have "keeps pr d4" by (rule trans[OF _ record_failure[OF rec]]) simp
  then have "keeps d d5" using command_step[OF cmd] prd order_step[OF ord] by (blast intro: trans)
  moreover have "keeps d5 d6" using rf by (auto simp: same split: if_splits dest: automatic_refund)
  moreover have "keeps d6 d'" unfolding d' by simp
  ultimately show ?thesis by (blast intro: trans)
qed

lemma located:
  assumes run: "reconcile_located x now rid nid terminal_id task_id body payload event_type revision located d
    = Inr (v, d')"
  shows "keeps d d'"
proof (cases "d' = d")
  case False
  note run1 = run[unfolded reconcile_located_def Let_def]
  obtain r t job where r: "find_with_terminal (j_order_id (fst located)) d = Some (r, t)"
      and job: "lock_job (j_id (fst located)) d = Some job"
    using run1 False by (auto split: option.splits)
  note run2 = run1[unfolded r job prod.case option.case]
  obtain cid where cid: "j_command_id job = Some cid" and c0: "cid \<noteq> 0"
    using run2 False by (auto split: option.splits if_splits)
  note run3 = run2[unfolded cid option.case if_not_P[OF c0]]
  obtain c where c: "command_by_db_id cid d = Some c"
    using run3 by (auto split: option.splits)
  note run4 = run3[unfolded c option.case]
  show ?thesis
  proof (cases "event_target event_type")
    case None
    with run4 False have "reconcile_step now body payload revision r job c d = Inr (v, d')"
      by (simp split: if_splits)
    then show ?thesis by (rule step)
  next
    case (Some tgt)
    obtain ost jst cst where tgt: "tgt = (ost, jst, cst)" by (cases tgt) auto
    note run5 = run4[unfolded Some tgt option.case prod.case]
    have "apply_task_event x now rid nid terminal_id body payload event_type revision
        r job c (ost, jst, cst) d = Inr (v, d')"
      using run5 False by (auto simp: bind_ok_Inr split: if_splits)
    then show ?thesis by (rule task_event)
  qed
qed (simp add: same)

lemma task:
  "reconcile_task x now rid nid terminal_id task_id body payload event_type revision d = Inr (v, d') \<Longrightarrow> keeps d d'"
  by (auto simp: reconcile_task_def split: option.splits dest: standalone located)

lemma device_event:
  assumes run: "reconcile_device_event x now rid nid terminal_id body event_type d = Inr (v, d')"
  shows "keeps d d'"
proof (cases "d' = d")
  case False
  then have ev: "event_type \<noteq> ''task.progress''"
      "\<not> (event_target event_type = None \<and> event_type \<notin> {''step.started'', ''step.completed''})"
    using run by (auto simp: reconcile_device_event_def split: if_split_asm)
  let ?p = "event_payload body"
  note run' = run[unfolded reconcile_device_event_def Let_def if_not_P[OF ev(1)] if_not_P[OF ev(2)]]
  obtain revision where "bind_ok (validate_metrics ?p) (\<lambda>_.
        case event_task_id body of
          None \<Rightarrow> Inl (service_error 422 ''taskId is required for production events'')
        | Some task_id \<Rightarrow>
            if dget body ''taskId'' \<noteq> JNull \<and> dget ?p ''taskId'' \<noteq> JNull
               \<and> dget body ''taskId'' \<noteq> dget ?p ''taskId''
            then Inl (service_error 409 ''conflicting taskId fields'')
            else if event_type = ''task.recovered'' \<and> dget ?p ''state'' \<noteq> JStr ''PAUSED''
            then Inr (JObj [(''status'', JStr ''IGNORED_RECOVERY'')], d)
            else reconcile_task x now rid nid terminal_id task_id body ?p event_type revision d) = Inr (v, d')"
    using run' by (rule bind_ok_InrE)
  with False obtain task_id revision where
    "reconcile_task x now rid nid terminal_id task_id body ?p event_type revision d = Inr (v, d')"
    by (cases "event_task_id body") (auto simp only: bind_ok_Inr option.case Inr_inject prod.inject split: if_split_asm)
  then show ?thesis by (rule task)
qed (simp add: same)

lemma stored:
  "reconcile_stored x now ids es d = Inr d' \<Longrightarrow> keeps d d'"
proof (induction es arbitrary: d)
  case (Cons e es)
  then obtain v d1 where "reconcile_device_event x now (fst (ids (length es))) (snd (ids (length es)))
      (ev_terminal_id e) (ev_payload_json e) (ev_event_type e) d = Inr (v, d1)"
    and "reconcile_stored x now ids es d1 = Inr d'"
    by (auto simp: bind_ok_Inr)
  with Cons.IH show ?case by (blast intro: trans dest: device_event)
qed (simp add: same)

lemma ack:
  "reconcile_order_ack x now rid nid terminal_id task_id body d = Inr (v, d') \<Longrightarrow> keeps d d'"
  by (auto simp: reconcile_order_ack_def split: json.splits option.splits if_splits
      dest: device_event)

lemma expired_refund:
  assumes "expired_refund x now rid nid r d = Inr d'"
  shows "keeps d d'"
  using assms unfolding expired_refund_def
  by (auto split: option.splits if_splits simp: bind_ok_Inr same dest: refund)

lemma expire_part:
  assumes "expire_order_part x now rid nid current r job delivered d = Inr d'"
  shows "keeps d d'"
proof (cases delivered)
  case True
  with assms obtain r' where "transition_order now r O_HOLD ''timeout-monitor''
      (Some ''command expired after delivery; outcome unknown'') JNull
      (update_failure now (o_id r) (Some ''COMMAND_EXPIRED'') (Some delivered_timeout_text)
        (update_job_hold now (j_id job) ''COMMAND_EXPIRED_AFTER_DELIVERY''
          (Some (JObj [(''code'', JStr ''COMMAND_EXPIRED''), (''messageId'', JStr (c_message_id current))])) d))
      = Inr (r', d')"
    by (auto simp: expire_order_part_def Let_def bind_ok_Inr)
  from trans[OF then_write(1) order_step[OF this]] show ?thesis by simp
next
  case False
  with assms obtain r' d3 where o: "transition_order now r O_EXPIRED ''timeout-monitor''
      (Some ''device command expired'') JNull (update_failure now (o_id r) (Some ''COMMAND_EXPIRED'')
        (Some undelivered_text) (update_job_expired now (j_id job)
          (JObj [(''code'', JStr ''COMMAND_EXPIRED''), (''messageId'', JStr (c_message_id current))]) d))
      = Inr (r', d3)" and f: "expired_refund x now rid nid r d3 = Inr d'"
    by (auto simp: expire_order_part_def Let_def bind_ok_Inr)
  from trans[OF then_write(1) order_step[OF o]] have "keeps d d3" by simp
  then show ?thesis using expired_refund[OF f] by (rule trans)
qed

lemma expire:
  assumes "expire_order_for_command x now rid nid k d = Inr (v, d')"
  shows "keeps d d'"
proof (cases "d' = d")
  case False
  obtain current d2 w where a: "d2 = withdraw_outbox now current d
        \<or> (\<exists>r job. expire_order_part x now rid nid current r job (may_have_been_sent current d)
             (withdraw_outbox now current d) = Inr d2)"
    and b: "transition_command now current (if may_have_been_sent current d then C_UNKNOWN else C_EXPIRED)
        ''timeout-monitor'' (Some ''command delivery deadline exceeded'') None True d2 = Inr (w, d')"
  proof -
    obtain current where c: "command_by_db_id k d = Some current"
      using assms False by (auto simp: expire_order_for_command_def Let_def split: option.splits)
    obtain d2 w where "(case (case job_for_command k d of None \<Rightarrow> None
          | Some located \<Rightarrow> (case find_with_terminal (j_order_id located) d of
                 None \<Rightarrow> None | Some (r, _) \<Rightarrow> map_option (Pair r) (job_for_command k d))) of
          None \<Rightarrow> Inr (withdraw_outbox now current d)
        | Some (r, job) \<Rightarrow> if j_status job \<notin> set [J_DISPATCHED, J_QUEUED] then Inr (withdraw_outbox now current d)
            else expire_order_part x now rid nid current r job (may_have_been_sent current d)
              (withdraw_outbox now current d)) = Inr d2"
      and "transition_command now current (if may_have_been_sent current d then C_UNKNOWN else C_EXPIRED)
        ''timeout-monitor'' (Some ''command delivery deadline exceeded'') None True d2 = Inr (w, d')"
      using assms False unfolding expire_order_for_command_def Let_def c option.case
      by (simp only: bind_ok_Inr split: if_splits) auto
    then show thesis by (intro that[of d2 current w]) (auto split: option.splits prod.splits if_splits)
  qed
  have w: "keeps d (withdraw_outbox now current d)" by simp
  have "keeps d d2" using a w trans[OF w expire_part] by blast
  moreover have "keeps d2 d'" using b by (rule command_step)
  ultimately show ?thesis by (blast intro: trans)
qed (simp add: same)

end

end
