(* ===== verification/MoneySteps.thy ===== *)
theory MoneySteps
  imports PaymentsSafety Adjudication LineFrame
begin

text \<open>
  One relation for everything that happens to money (\<open>money_keeps\<close>): payments stay in place, and the
  refund ledger holds after the operation when it held before. Production only ever touches money
  through automatic refunds, so every operation of the production line keeps it.
\<close>

section \<open>Keeping the money\<close>

definition money_same :: "db \<Rightarrow> db \<Rightarrow> bool" where
  "money_same d d' \<longleftrightarrow> payments d' = payments d \<and> refunds d' = refunds d \<and> payment_log d' = payment_log d"

definition money_keeps :: "db \<Rightarrow> db \<Rightarrow> bool" where
  "money_keeps d d' \<longleftrightarrow> money_follows d d' \<and> (refund_ledger d \<longrightarrow> refund_ledger d')"

lemma money_same_refl [simp]: "money_same d d"
  by (simp add: money_same_def)

lemma money_same_trans: "money_same d e \<Longrightarrow> money_same e f \<Longrightarrow> money_same d f"
  by (simp add: money_same_def)

lemma money_keeps_refl [simp]: "money_keeps d d"
  by (simp add: money_keeps_def)

lemma money_keeps_trans: "money_keeps d d1 \<Longrightarrow> money_keeps d1 d2 \<Longrightarrow> money_keeps d d2"
  by (auto simp: money_keeps_def intro: money_follows_trans)

lemma money_same_keeps:
  assumes "money_same d d'"
  shows "money_keeps d d'"
proof -
  have f: "payments d' = payments d" "refunds d' = refunds d" "payment_log d' = payment_log d"
    using assms by (simp_all add: money_same_def)
  show ?thesis using money_follows_same[OF f] refund_ledger_cong[OF f] by (simp add: money_keeps_def)
qed

lemma money_keeps_inv:
  assumes "money_keeps d d'" and "money_inv d"
  shows "money_inv d'"
proof (rule money_invI[OF assms(2)])
  show "money_follows d d'" "refund_ledger d'" using assms by (simp_all add: money_keeps_def money_inv_def)
qed

lemma money_same_writes [simp]:
  "money_same d (update_order k f d)" "money_same d (update_job k g d)"
  "money_same d (update_terminal n h d)" "money_same d (enqueue_dispatch now t why d)"
  "money_same d (terminalize_outbox now k2 st d)"
  by (simp_all add: money_same_def update_order_def update_job_def update_terminal_def enqueue_dispatch_def
      update_dispatch_def terminalize_outbox_def update_outbox_def split: option.splits)

lemma money_same_order_writes [simp]:
  "money_same d (update_failure now k c m d)" "money_same d (update_payment_status now k st d)"
  "money_same d (update_payment_outcome now k st d)"
  "money_same d (update_job_hold now k why fl d)" "money_same d (update_job_expired now k fj d)"
  "money_same d (clear_job_hold k d)" "money_same d (link_command now k n d)"
  "money_same d (request_dispatch now t why d)"
  by (simp_all add: update_failure_def update_payment_status_def update_payment_outcome_def
      update_job_hold_def update_job_expired_def clear_job_hold_def link_command_def request_dispatch_def)

lemma money_same_job_terminal [simp]:
  "money_same d (update_job_terminal now k st p sp pl steps fd el rm rv ac sa co att d)"
  "money_same d (update_job_progress now k p' sp' si sn e' r' rev' att' d)"
  by (simp_all add: update_job_terminal_def update_job_progress_def)

lemma transition_order_same:
  "transition_order now r tgt actor why payload d = Inr (r', d') \<Longrightarrow> money_same d d'"
  using transition_order_money by (simp add: money_same_def)

lemma transition_command_same:
  "transition_command now c tgt actor why payload strict d = Inr (v, d') \<Longrightarrow> money_same d d'"
  using transition_command_frame[of now c tgt actor why payload strict d "fst v" "snd v" d']
  by (simp add: money_same_def)

lemma ensure_keeps:
  "ensure_automatic_refund_intent x now rid nid pid key why actor d = Inr (i, d') \<Longrightarrow> money_keeps d d'"
  by (auto simp: money_keeps_def intro: ensure_follows ensure_ledger)

section \<open>The production service\<close>

text \<open>The statements of the service leave the money alone, but for the automatic refund.\<close>

lemma insert_command_same: "insert_command now n m ty cp dg ex key d = Inr (c', d') \<Longrightarrow> money_same d d'"
  by (auto simp: insert_command_def Let_def bind_ok_Inr money_same_def)

lemma append_command_log_same: "append_command_log l d = Inr d' \<Longrightarrow> money_same d d'"
  by (auto simp: append_command_log_def bind_ok_Inr money_same_def)

lemma insert_outbox_same: "insert_outbox now b k t topic env d = Inr d' \<Longrightarrow> money_same d d'"
  by (auto simp: insert_outbox_def bind_ok_Inr money_same_def split: if_splits option.splits)

lemma update_outbox_same [simp]: "money_same d (update_outbox i h d)"
  by (simp add: update_outbox_def money_same_def)

interpretation msame: line_frame money_same
  by unfold_locales (auto intro: money_same_trans transition_order_same transition_command_same
      insert_command_same append_command_log_same insert_outbox_same)

interpretation mkeep: refund_frame money_keeps
  by unfold_locales (auto intro: money_keeps_trans money_same_keeps transition_order_same transition_command_same
      insert_command_same append_command_log_same insert_outbox_same ensure_keeps)

lemmas automatic_refund_keeps = mkeep.automatic_refund
lemmas reconcile_device_event_keeps = mkeep.device_event
lemmas reconcile_stored_keeps = mkeep.stored
lemmas reconcile_order_ack_keeps = mkeep.ack
lemmas expire_keeps = mkeep.expire
lemmas dispatch_same = msame.dispatch
lemmas hold_overdue_same = msame.hold

section \<open>Adjudication\<close>

lemma settle_drink_keeps:
  assumes run: "settle_drink x now rid nid p q r job c d = Inr d'"
  shows "money_keeps d d'"
proof -
  obtain u dup d1 r' d2 where cmd: "transition_command now c (outcome_command (ar_outcome q))
        (''admin:'' @ pr_actor_id p) (Some (ar_reason q)) (Some (JObj (adjudication_body q))) True d
        = Inr ((u, dup), d1)"
      and ord: "transition_order now r (outcome_order (ar_outcome q)) (''admin:'' @ pr_actor_id p)
        (Some (ar_reason q)) (JObj (adjudication_body q)) (settled_job now q r job d1) = Inr (r', d2)"
      and d': "if ar_outcome q = Succeeded then d' = d2
        else \<exists>v. create_automatic_refund_record x now rid nid r' job ''manual-adjudication'' d2 = Inr (v, d')"
    using settle_drinkE[OF run] by metis
  have "money_same d1 (settled_job now q r job d1)" by (simp add: money_same_def settled_job_money)
  then have "money_same d d2"
    using transition_command_same[OF cmd] transition_order_same[OF ord] by (blast intro: money_same_trans)
  with d' show ?thesis
    by (auto split: if_splits intro: money_same_keeps money_keeps_trans[OF money_same_keeps automatic_refund_keeps])
qed

lemma adjudicate_keeps:
  assumes "adjudicate x now rid nid order_id q key p request_id d = Inr (v, d')"
  shows "money_keeps d d'"
  using assms
proof (cases rule: adjudicate_cases)
  case (settled r t job c d1)
  have "money_same d1 d'" using record_adjudication_frame(1-3)[OF settled(6)] by (simp add: money_same_def)
  with settle_drink_keeps[OF settled(4)] show ?thesis by (blast intro: money_keeps_trans money_same_keeps)
qed simp

section \<open>Payments and refunds\<close>

lemma callback_keeps:
  assumes "apply_paid_callback x now rid nid bid provider event_id v d = Inr ((res, dup), d')"
  shows "money_keeps d d'"
  unfolding money_keeps_def using callback_follows[OF assms] apply_paid_callback_keeps[OF _ assms] by blast

lemma refund_outcome_keeps_money:
  assumes "apply_refund_outcome now k tgt payload actor d = Inr (res, d')"
  shows "money_keeps d d'"
  using apply_refund_outcome_follows[OF assms]
    refund_outcome_keeps[where d = d and now = now and k = k and tgt = tgt and payload = payload and actor = actor]
  unfolding money_keeps_def assms by simp

lemma create_refund_keeps:
  assumes "create_refund_intent x now rid nid pid key why amount dg actor d = Inr (i, d')"
  shows "money_keeps d d'"
  using create_refund_intent_follows[OF assms]
    create_refund_intent_keeps[where d = d and x = x and now = now and rid = rid and nid = nid and pid = pid
      and key = key and why = why and amount_minor = amount and dg = dg and actor = actor]
  unfolding money_keeps_def assms by simp

text \<open>A failed drink may become a refunded one.\<close>

lemma line_ok_refund:
  assumes ok: "line_ok L" and k: "ln_orders L k = Some O_FAILED"
  shows "line_ok (move_order k O_REFUNDED L)"
proof -
  have failed: "coherent O_FAILED s c \<Longrightarrow> coherent O_REFUNDED s c" for s c by (cases s) auto
  have "drink_ok (move_order k O_REFUNDED L) v" if "drink_ok L v" for v
    using that k failed by (auto simp: drink_ok_def split: option.splits)
  then show ?thesis using ok unfolding line_ok_def move_sel by blast
qed

lemma refund_outcome_line:
  assumes run: "apply_refund_outcome now k tgt payload actor d = Inr (res, d')" and inv: "line_inv d"
  shows "line_inv d'"
proof (cases "d' = d")
  case False
  have "\<exists>r w d1 p k. transition_refund now r tgt payload d = Inr (w, d1)
      \<and> (d' = d1 \<or> settle_payment_after_refund now p (find_order k d) payload actor d1 = Inr d')"
    using run False unfolding apply_refund_outcome_def Let_def
    by (auto simp: bind_ok_Inr split: option.splits if_splits) blast+
  then obtain r w d1 p i where tr: "transition_refund now r tgt payload d = Inr (w, d1)"
    and fin: "d' = d1 \<or> settle_payment_after_refund now p (find_order i d) payload actor d1 = Inr d'" by blast
  have o1: "orders d1 = orders d" and pp: "production_part d1 = production_part d"
    using tr by (cases w; auto elim!: transition_refund_cases simp: update_refund_def production_part_def)+
  have l1: "line_inv d1" by (rule line_inv_same[OF line_of_production[OF pp] line_ids_production[OF pp] inv])
  have two: "line_inv d'" if ord: "ord = find_order i d1"
      and s: "settle_payment_after_refund now p ord payload actor d1 = Inr d'" for ord
  proof -
    obtain q d2 where t: "transition_payment now p (payment_target p d1) actor (py_or payload (JObj [])) d1 = Inr (q, d2)"
      and rest: "d' = d2 \<or> (\<exists>r. ord = Some r \<and> (d' = update_payment_status now (o_id r) (order_payment_of (payment_target p d1)) d2
          \<or> (o_status r = O_FAILED \<and> (\<exists>r'. transition_order now r O_REFUNDED actor (Some ''full refund completed'') JNull
               (update_payment_status now (o_id r) (order_payment_of (payment_target p d1)) d2) = Inr (r', d')))))"
      using s unfolding settle_payment_after_refund_def Let_def
      by (cases ord) (auto simp: bind_ok_Inr split: if_splits)
    have p2: "production_part d2 = production_part d1" using transition_payment_production t by (cases q) blast
    have o2: "orders d2 = orders d1" using transition_payment_frame t by (cases q) blast
    have l2: "line_inv d2" by (rule line_inv_same[OF line_of_production[OF p2] line_ids_production[OF p2] l1])
    have l3: "line_inv (update_payment_status now k st d2)" for k st
      by (rule line_inv_same[OF line_of_update_payment_status _ l2]) (simp add: update_payment_status_def line_ids_update_order)
    show ?thesis using rest
    proof (elim disjE exE conjE)
      fix r r' assume r: "ord = Some r" "o_status r = O_FAILED"
        and step: "transition_order now r O_REFUNDED actor (Some ''full refund completed'') JNull
               (update_payment_status now (o_id r) (order_payment_of (payment_target p d1)) d2) = Inr (r', d')"
      let ?d3 = "update_payment_status now (o_id r) (order_payment_of (payment_target p d1)) d2"
      have "find_order (o_id r) d2 = Some r"
        using r(1) ord find_order_SomeD[of i d1 r] by (simp add: find_order_def o2)
      then have here: "ln_orders (line_of ?d3) (o_id r) = Some (o_status r)" by (simp add: ln_ordersI)
      have ok: "order_transition_allowed (o_status r) O_REFUNDED" by (simp add: r(2) order_transition_allowed_def)
      note L = line_of_transition_order(1)[OF step here ok]
      have "line_ok (move_order (o_id r) O_REFUNDED (line_of ?d3))"
        by (rule line_ok_refund) (use l3 here r(2) in \<open>auto simp: line_inv_def\<close>)
      with L line_ids_transition_order[OF step] l3 show ?thesis by (simp add: line_inv_def)
    qed (use l2 l3 in simp_all)
  qed
  from fin two l1 show ?thesis by (auto simp: find_order_def o1)
qed (use inv in simp)

end
