(* ===== verification/WorkerSafety.thy ===== *)
theory WorkerSafety
  imports Worker MoneySteps LineSafety Outbox
begin

text \<open>
  The background worker keeps what the rest relies on, whatever the providers answer and however
  the single jobs fail: the production line (\<open>line_inv\<close>) and the money (\<open>money_inv\<close>). A paid order
  becomes exactly one queued drink, a failed event is put off and never lost, and a batch of
  dispatches is bounded.
\<close>

section \<open>A paid order becomes a drink\<close>

text \<open>An order that is paid and has not ended is waiting for its job or has one.\<close>

definition paid_ready :: "db \<Rightarrow> bool" where
  "paid_ready d \<longleftrightarrow> (\<forall>r \<in> set (orders d). o_payment_status r = OP_PAID
     \<longrightarrow> o_status r \<notin> set TERMINAL_ORDER_STATUSES \<longrightarrow> o_status r = O_PAID \<or> job_of_order (o_id r) d \<noteq> None)"

definition queue_drink :: "uuid \<Rightarrow> job_view \<Rightarrow> line \<Rightarrow> line" where
  "queue_drink i v L = move_order (jv_order v) O_QUEUED (L\<lparr>ln_jobs := (ln_jobs L)(i \<mapsto> v)\<rparr>)"

lemma line_ok_queue:
  assumes ok: "line_ok L" and os: "ln_orders L (jv_order v) \<noteq> None"
    and free: "\<And>j w. ln_jobs L j = Some w \<Longrightarrow> jv_order w \<noteq> jv_order v"
    and new: "ln_jobs L i = None" "jv_command v = None" "jv_status v = J_QUEUED"
  shows "line_ok (queue_drink i v L)"
proof -
  have sel: "ln_jobs (queue_drink i v L) = (ln_jobs L)(i \<mapsto> v)" "ln_commands (queue_drink i v L) = ln_commands L"
    "ln_orders (queue_drink i v L) = (ln_orders L)(jv_order v := map_option (\<lambda>_. O_QUEUED) (ln_orders L (jv_order v)))"
    by (simp_all add: queue_drink_def)
  have each: "drink_ok (queue_drink i v L) w" if w: "ln_jobs (queue_drink i v L) j = Some w" for j w
  proof (cases "j = i")
    case True
    with w have w': "w = v" by (simp add: sel)
    obtain os where "ln_orders L (jv_order v) = Some os" using os by blast
    then show ?thesis unfolding w' drink_ok_def sel by (simp add: new)
  next
    case False
    with w have "ln_jobs L j = Some w" by (simp add: sel)
    from line_ok_drink[OF ok this] free[OF this] show ?thesis
      by (auto simp: sel drink_ok_def split: option.splits)
  qed
  have idle: "J_QUEUED \<notin> set ACTIVE_JOBS" by (simp add: ACTIVE_JOBS_def)
  have own: "j = j'" if "ln_jobs (queue_drink i v L) j = Some w" "ln_jobs (queue_drink i v L) j' = Some w'"
      and b: "jv_order w = jv_order w' \<or> (jv_command w = jv_command w' \<and> jv_command w \<noteq> None)
        \<or> (jv_terminal w = jv_terminal w' \<and> jv_status w \<in> set ACTIVE_JOBS \<and> jv_status w' \<in> set ACTIVE_JOBS)" for j j' w w'
  proof (cases "j = i \<or> j' = i")
    case True
    then show ?thesis using that new free idle by (auto simp: sel split: if_splits)
  next
    case False
    with that have "ln_jobs L j = Some w" "ln_jobs L j' = Some w'" by (simp_all add: sel)
    then show ?thesis by (rule line_ok_own[OF ok _ _ b])
  qed
  show ?thesis unfolding line_ok_def by (intro conjI allI impI) (use each own in \<open>blast+\<close>)
qed

text \<open>The order with an identifier is the one the tables are searched for.\<close>

lemma order_found: "line_inv d \<Longrightarrow> r \<in> set (orders d) \<Longrightarrow> find_order (o_id r) d = Some r"
  unfolding find_order_def by (rule find_row_key)
    (auto simp: line_inv_def ids_ok_def line_ids_def order_keys_def comp_def)

lemma job_of_order_frame: "jobs d' = jobs d \<Longrightarrow> job_of_order k d' = job_of_order k d"
  by (simp add: job_of_order_def)

lemma insert_job_line:
  assumes inv: "line_inv d" and none: "job_of_order k d = None"
    and run: "insert_production_job now i task k t planned d = Inr d1"
  shows "line_of d1 = (line_of d)\<lparr>ln_jobs := (ln_jobs (line_of d))(i \<mapsto> job_view (new_job now i task k t planned))\<rparr>"
    and "ln_jobs (line_of d) i = None" and "ids_ok (line_ids d1)" and "money_same d d1"
    and "orders d1 = orders d" and "jobs d1 = jobs d @ [new_job now i task k t planned]"
    and "business d1 = business d" and "dispatches d1 = dispatches d"
    and "\<And>j w. ln_jobs (line_of d) j = Some w \<Longrightarrow> jv_order w \<noteq> k"
proof -
  let ?n = "new_job now i task k t planned"
  from run have d1: "d1 = d\<lparr>jobs := jobs d @ [?n]\<rparr>" and clash: "\<And>j. j \<in> set (jobs d) \<Longrightarrow> \<not> job_clash ?n j"
    by (auto simp: insert_production_job_def insert_test_free_job_def Let_def bind_ok_Inr insert_row_Inr)
  have ids: "j_id ?n = i" "j_order_id ?n = k" by (simp_all add: new_job_def)
  have fresh: "lock_job i d = None"
    using clash by (auto simp: lock_job_def find_row_None job_clash_def ids)
  then show "ln_jobs (line_of d) i = None" by (simp add: line_of_def)
  show "line_of d1 = (line_of d)\<lparr>ln_jobs := (ln_jobs (line_of d))(i \<mapsto> job_view ?n)\<rparr>"
    using fresh unfolding d1
    by (auto intro!: line_eqI simp: line_of_def find_order_def lock_job_def find_command_def
        find_row_append fun_eq_iff ids split: option.splits)
  have "i \<notin> set (map j_id (jobs d))" using clash by (auto simp: job_clash_def ids)
  then show "ids_ok (line_ids d1)" using inv unfolding d1 by (simp add: line_inv_def ids_ok_def line_ids_def ids)
  show "money_same d d1" "orders d1 = orders d" "jobs d1 = jobs d @ [?n]" "business d1 = business d"
    "dispatches d1 = dispatches d"
    by (simp_all add: d1 money_same_def)
  show "jv_order w \<noteq> k" if "ln_jobs (line_of d) j = Some w" for j w
    using that none by (auto simp: line_of_def job_of_order_def find_row_None dest!: lock_job_SomeD)
qed

lemma enqueue_dispatch_found: "find_dispatch t (enqueue_dispatch now t why d) \<noteq> None"
proof (cases "find_dispatch t d")
  case None
  then show ?thesis by (simp add: enqueue_dispatch_def) (simp add: find_dispatch_def find_row_append new_dispatch_def)
next
  case (Some q)
  then show ?thesis using find_dispatch_enqueue by blast
qed

lemma paid_no_job:
  assumes inv: "line_inv d" and r: "find_order k d = Some r" and paid: "o_status r = O_PAID"
  shows "job_of_order k d = None"
proof (rule ccontr)
  assume "job_of_order k d \<noteq> None"
  then obtain j where "job_of_order k d = Some j" by blast
  from job_of_order_line[OF inv this] have j: "lock_job (j_id j) d = Some j" "j_order_id j = k" by simp_all
  have "drink_ok (line_of d) (job_view j)"
    using inv ln_jobsI[OF j(1)] by (auto simp: line_inv_def intro: line_ok_drink)
  with ln_ordersI[OF r] j(2) paid show False
    using waiting_incoherent[of O_PAID] by (auto simp: drink_ok_def waiting_statuses_def split: option.splits)
qed

lemma queue_paid_new:
  assumes inv: "line_inv d" and r: "find_order k d = Some r" and paid: "o_status r = O_PAID"
    and run: "queue_paid_order now i task r d = Inr d'"
  shows "line_inv d' \<and> money_same d d' \<and> business d' = business d
    \<and> (\<exists>planned. jobs d' = jobs d @ [new_job now i task k (o_terminal_id r) planned])
    \<and> line_of d' = queue_drink i (job_view (new_job now i task k (o_terminal_id r) None)) (line_of d)
    \<and> orders d' = update_rows (\<lambda>q. o_id q = k) (order_moved now r O_QUEUED) (orders d)
    \<and> find_dispatch (o_terminal_id r) d' \<noteq> None"
proof -
  have k: "o_id r = k" using find_order_SomeD[OF r] by simp
  have none: "job_of_order k d = None" by (rule paid_no_job[OF inv r paid])
  from run[unfolded queue_paid_order_def k none option.case] paid
  obtain planned d1 r1 d2 where ins: "insert_production_job now i task k (o_terminal_id r) planned d = Inr d1"
      and tr: "transition_order now r O_QUEUED ''outbox-worker'' (Some ''paid order queued'') JNull d1 = Inr (r1, d2)"
      and d': "d' = request_dispatch now (o_terminal_id r1) ''payment-paid'' d2"
    by (auto simp: bind_ok_Inr)
  note I = insert_job_line[OF inv none ins]
  let ?v = "job_view (new_job now i task k (o_terminal_id r) planned)"
  have v: "jv_order ?v = k" "jv_command ?v = None" "jv_status ?v = J_QUEUED" by (simp_all add: new_job_def job_view_def)
  have same: "?v = job_view (new_job now i task k (o_terminal_id r) None)" by (simp add: new_job_def job_view_def)
  have r1: "find_order k d1 = Some r" using r I(5) by (simp add: find_order_def)
  then have here: "ln_orders (line_of d1) (o_id r) = Some (o_status r)" by (simp add: ln_ordersI k)
  have ok: "order_transition_allowed (o_status r) O_QUEUED" by (simp add: paid order_transition_allowed_def)
  have l2: "line_of d2 = queue_drink i ?v (line_of d)"
    unfolding line_of_transition_order(1)[OF tr here ok] I(1) queue_drink_def k v(1) ..
  have "line_ok (line_of d2)"
    unfolding l2 by (rule line_ok_queue) (use inv I(2,9) v ln_ordersI[OF r] in \<open>auto simp: line_inv_def\<close>)
  then have "line_inv d2" using I(3) line_ids_transition_order[OF tr] by (simp add: line_inv_def)
  then have inv': "line_inv d'" unfolding d' by (rule line_inv_same[rotated 2]) (simp_all add: request_dispatch_def)
  have t: "o_terminal_id r1 = o_terminal_id r"
    using tr r1 k by (cases rule: transition_order_cases) auto
  have f: "jobs d2 = jobs d1" "business d2 = business d1"
    "orders d2 = update_rows (\<lambda>q. o_id q = k) (order_moved now r O_QUEUED) (orders d1)"
    using tr k ok paid by (cases rule: transition_order_cases; auto simp: update_order_def)+
  have g: "jobs d' = jobs d2" "orders d' = orders d2" "business d' = business d2" "find_dispatch (o_terminal_id r) d' \<noteq> None"
    unfolding d' t request_dispatch_def
    by (simp_all add: enqueue_dispatch_found) (simp_all add: enqueue_dispatch_def update_dispatch_def split: option.splits)
  have "money_same d d'"
    unfolding d' using I(4) transition_order_same[OF tr] by (blast intro: money_same_trans money_same_order_writes)
  moreover have "line_of d' = queue_drink i ?v (line_of d)" unfolding d' by (simp add: l2 request_dispatch_def)
  ultimately show ?thesis using inv' f g I(5,6,7) same by auto
qed


text \<open>What a paid event does: nothing, a dispatch request, or one queued drink.\<close>

definition event_order :: "business_event \<Rightarrow> db \<Rightarrow> sales_order option" where
  "event_order b d =
     (case event_order_id (bo_payload_json b) of Inl _ \<Rightarrow> None
      | Inr k \<Rightarrow> (case find_with_terminal k d of None \<Rightarrow> None
         | Some (r, _) \<Rightarrow>
             if o_payment_status r = OP_PAID \<and> o_status r \<notin> set TERMINAL_ORDER_STATUSES
               \<and> (o_paid_payment_id r = None
                  \<or> JStr (str_uuid_opt (o_paid_payment_id r)) = dget (bo_payload_json b) ''paymentId'')
             then Some r else None))"

lemma process_paid_event_alt:
  "process_paid_event now i task b d =
     bind_ok (event_order_id (bo_payload_json b)) (\<lambda>_. case event_order b d of
       None \<Rightarrow> Inr d | Some r \<Rightarrow> queue_paid_order now i task r d)"
proof (cases "event_order_id (bo_payload_json b)")
  case (Inr k)
  show ?thesis
  proof (cases "find_with_terminal k d")
    case (Some p)
    then show ?thesis by (cases p) (simp add: process_paid_event_def event_order_def Inr)
  qed (simp add: process_paid_event_def event_order_def Inr)
qed (simp add: process_paid_event_def)

lemma event_orderD:
  assumes "event_order b d = Some r"
  shows "find_order (o_id r) d = Some r \<and> o_payment_status r = OP_PAID \<and> o_status r \<notin> set TERMINAL_ORDER_STATUSES"
  using assms by (auto simp: event_order_def split: sum.splits option.splits prod.splits if_splits dest: find_with_terminalD)

lemma process_paid_cases:
  assumes "process_paid_event now i task b d = Inr d'"
  obtains "event_order b d = None" and "d' = d"
  | r where "event_order b d = Some r" and "find_order (o_id r) d = Some r" and "o_payment_status r = OP_PAID"
      and "o_status r \<notin> set TERMINAL_ORDER_STATUSES" and "queue_paid_order now i task r d = Inr d'"
  using assms unfolding process_paid_event_alt
  by (cases "event_order b d") (auto simp: bind_ok_Inr dest: event_orderD)

lemma queue_paid_old:
  assumes "job_of_order (o_id r) d \<noteq> None" and "o_status r \<noteq> O_PAID" and "queue_paid_order now i task r d = Inr d'"
  shows "d' = request_dispatch now (o_terminal_id r) ''payment-paid'' d"
  using assms by (auto simp: queue_paid_order_def bind_ok_Inr)

lemma request_dispatch_frame [simp]:
  "jobs (request_dispatch now t why d) = jobs d" "orders (request_dispatch now t why d) = orders d"
  "business (request_dispatch now t why d) = business d" "line_of (request_dispatch now t why d) = line_of d"
  "line_ids (request_dispatch now t why d) = line_ids d" "find_dispatch t (request_dispatch now t why d) \<noteq> None"
  by (simp_all add: request_dispatch_def enqueue_dispatch_found)
    (simp_all add: enqueue_dispatch_def update_dispatch_def split: option.splits)

lemma one_of_key:
  assumes "distinct (map key xs)" and "\<And>x y. x \<in> set xs \<Longrightarrow> y \<in> set xs \<Longrightarrow> P x \<Longrightarrow> P y \<Longrightarrow> key x = key y"
    and "x \<in> set xs" and "P x"
  shows "length (filter P xs) = 1"
proof -
  have d: "distinct (filter P xs)" using assms(1) by (simp add: distinct_map)
  have all: "y = x" if "y \<in> set (filter P xs)" for y
  proof (rule distinct_key_eq[OF assms(1)])
    show "y \<in> set xs" using that by simp
    show "x \<in> set xs" by (rule assms(3))
    have "P y" using that by simp
    then show "key y = key x" using assms(2)[OF \<open>y \<in> set xs\<close> assms(3) _ assms(4)] by blast
  qed
  moreover have "x \<in> set (filter P xs)" using assms(3,4) by simp
  ultimately have "set (filter P xs) = {x}" by blast
  then show ?thesis using distinct_card[OF d] by simp
qed

lemma one_job:
  assumes inv: "line_inv d" and some: "job_of_order k d \<noteq> None"
  shows "length (filter (\<lambda>j. j_order_id j = k) (jobs d)) = 1"
proof -
  obtain j where "job_of_order k d = Some j" using some by blast
  then have j: "j \<in> set (jobs d)" "j_order_id j = k" by (auto simp: job_of_order_def dest: find_row_SomeD)
  have ids: "ids_ok (line_ids d)" and ok: "line_ok (line_of d)" using inv by (simp_all add: line_inv_def)
  show ?thesis
  proof (rule one_of_key[where key = j_id and x = j])
    show "distinct (map j_id (jobs d))" using ids by (simp add: ids_ok_def line_ids_def)
    fix a b assume "a \<in> set (jobs d)" "b \<in> set (jobs d)" "j_order_id a = k" "j_order_id b = k"
    then show "j_id a = j_id b"
      by (intro line_ok_own[OF ok ln_jobsI[OF lock_job_mem[OF ids]] ln_jobsI[OF lock_job_mem[OF ids]]]) simp_all
  qed (use j in simp_all)
qed

lemma queue_paid_keeps:
  assumes inv: "line_inv d" and ready: "paid_ready d" and r: "find_order (o_id r) d = Some r"
    and paid: "o_payment_status r = OP_PAID" and live: "o_status r \<notin> set TERMINAL_ORDER_STATUSES"
    and run: "queue_paid_order now i task r d = Inr d'"
  shows "line_inv d' \<and> paid_ready d' \<and> money_same d d' \<and> business d' = business d
    \<and> length (filter (\<lambda>j. j_order_id j = o_id r) (jobs d')) = 1
    \<and> map_option o_status (find_order (o_id r) d') \<noteq> Some O_PAID
    \<and> find_dispatch (o_terminal_id r) d' \<noteq> None
    \<and> (\<forall>k. k \<noteq> o_id r \<longrightarrow> job_of_order k d' = job_of_order k d)"
proof (cases "o_status r = O_PAID")
  case True
  note N = queue_paid_new[OF inv r True run]
  obtain n where js: "jobs d' = jobs d @ [n]" "j_order_id n = o_id r" using N by (auto simp: new_job_def)
  have jo: "job_of_order k d' = (case job_of_order k d of None \<Rightarrow> if o_id r = k then Some n else None | Some j \<Rightarrow> Some j)" for k
    by (simp add: job_of_order_def js find_row_append split: option.split)
  have here: "job_of_order (o_id r) d' \<noteq> None" by (simp add: jo split: option.split)
  have "paid_ready d'" unfolding paid_ready_def
  proof (intro ballI impI)
    fix q assume q: "q \<in> set (orders d')" "o_payment_status q = OP_PAID" "o_status q \<notin> set TERMINAL_ORDER_STATUSES"
    show "o_status q = O_PAID \<or> job_of_order (o_id q) d' \<noteq> None"
    proof (cases "o_id q = o_id r")
      case True
      then show ?thesis using here by simp
    next
      case False
      with q(1) N have "q \<in> set (orders d)" by (auto simp: set_update_rows split: if_splits)
      with ready q(2,3) have "o_status q = O_PAID \<or> job_of_order (o_id q) d \<noteq> None" by (simp add: paid_ready_def)
      then show ?thesis by (auto simp: jo)
    qed
  qed
  moreover have "map_option o_status (find_order (o_id r) d') = Some O_QUEUED"
    using N r by (simp add: find_order_def find_row_update_key)
  ultimately show ?thesis using N one_job[OF _ here] jo by (auto split: option.splits)
next
  case False
  have some: "job_of_order (o_id r) d \<noteq> None"
    using ready False r paid live find_order_SomeD[OF r] by (auto simp: paid_ready_def)
  have d': "d' = request_dispatch now (o_terminal_id r) ''payment-paid'' d" by (rule queue_paid_old[OF some False run])
  have "line_inv d'" using inv by (simp add: d' line_inv_def)
  moreover have "paid_ready d'" using ready by (simp add: d' paid_ready_def job_of_order_def)
  ultimately show ?thesis using one_job[OF inv some] r False
    by (auto simp: d' find_order_def job_of_order_def)
qed

text \<open>C16 A payment event makes exactly one drink. Processing it keeps the line and leaves the money alone;
  when it is for the primary payment of a paid order that has not ended, the order then has one job,
  is no longer waiting in PAID and its terminal has a dispatch request, however often the event is
  processed; otherwise nothing changes at all.\<close>

theorem paid_event_queues_once:
  assumes "line_inv d" and "paid_ready d" and "process_paid_event now i task b d = Inr d'"
  shows "line_inv d' \<and> paid_ready d' \<and> money_same d d' \<and> (case event_order b d of
      None \<Rightarrow> d' = d
    | Some r \<Rightarrow> length (filter (\<lambda>j. j_order_id j = o_id r) (jobs d')) = 1
        \<and> map_option o_status (find_order (o_id r) d') \<noteq> Some O_PAID
        \<and> find_dispatch (o_terminal_id r) d' \<noteq> None
        \<and> (\<forall>k. k \<noteq> o_id r \<longrightarrow> job_of_order k d' = job_of_order k d))"
  using assms(3)
proof (cases rule: process_paid_cases)
  case 1
  with assms show ?thesis by simp
next
  case (2 r)
  from queue_paid_keeps[OF assms(1,2) 2(2,3,4,5)] show ?thesis unfolding 2(1) option.case by blast
qed


definition sample_due_event :: business_event where
  "sample_due_event = \<lparr>bo_id = Uuid ''event-1'', bo_event_type = ''payment.paid'', bo_aggregate_type = ''payment'',
     bo_aggregate_id = ''pay-1'',
     bo_payload_json = [(''paymentId'', JStr ''00000000-0000-4000-8000-0000000000a1''),
       (''orderId'', JStr ''00000000-0000-4000-8000-0000000000b1'')],
     bo_idempotency_key = ''payment:1:paid'', bo_status = BO_PENDING, bo_attempt_count = 0,
     bo_next_attempt_at = 100, bo_locked_by = None, bo_locked_until = None, bo_last_error = None,
     bo_created_at = 100, bo_processed_at = None\<rparr>"

definition sample_event_db :: db where
  "sample_event_db = sample_paid_db\<lparr>orders := [sample_order\<lparr>
       o_id := Uuid ''00000000-0000-4000-8000-0000000000b1'', o_status := O_PAID, o_payment_status := OP_PAID,
       o_paid_payment_id := Some (Uuid ''00000000-0000-4000-8000-0000000000a1'')\<rparr>],
     business := [sample_due_event]\<rparr>"

definition sample_paid_run :: "err + db" where
  "sample_paid_run = process_paid_event 150 (Uuid ''job-9'') ''task-9'' sample_due_event sample_event_db"

lemma sample_event_inv: "line_inv sample_event_db" "paid_ready sample_event_db"
proof -
  show "line_inv sample_event_db"
    by (simp add: line_inv_def line_ok_def line_of_def lock_job_def ids_ok_def line_ids_def order_keys_def
        sample_event_db_def sample_defs)
  show "paid_ready sample_event_db" by (simp add: paid_ready_def sample_event_db_def)
qed

theorem paid_event_queues_once_witness:
  "sample_paid_run \<noteq> Inl Value_error \<and> line_inv (projr sample_paid_run)
    \<and> length (filter (\<lambda>j. j_order_id j = Uuid ''00000000-0000-4000-8000-0000000000b1'')
        (jobs (projr sample_paid_run))) = 1"
proof -
  have "\<not> isl sample_paid_run" by code_simp
  then have run: "sample_paid_run = Inr (projr sample_paid_run)" by (cases sample_paid_run) simp_all
  have "map_option o_id (event_order sample_due_event sample_event_db)
      = Some (Uuid ''00000000-0000-4000-8000-0000000000b1'')" by code_simp
  with paid_event_queues_once[OF sample_event_inv run[unfolded sample_paid_run_def]] run show ?thesis
    by (auto simp: sample_paid_run_def)
qed

section \<open>A batch of business events\<close>












section \<open>A batch of dispatches\<close>

lemma dispatches_frame [simp]:
  "line_of (dispatches_update g d) = line_of d" "line_ids (dispatches_update g d) = line_ids d"
  "money_same d (dispatches_update g d)"
  by (simp_all add: line_of_def line_ids_def find_order_def lock_job_def find_command_def money_same_def)









end
