(* ===== verification/WorkerMoney.thy ===== *)
theory WorkerMoney
  imports WorkerSafety
begin

text \<open>
  The jobs of the background worker that talk to the payment providers: whatever a provider answers,
  the money invariants and the production line are kept, money counts as received only when the
  provider said that it was paid, and a refund counts as done only when the provider said so.
\<close>

section \<open>Columns the ledger does not read\<close>





lemma soft_payment:
  assumes "\<And>p. p_id (f p) = p_id p" "\<And>p. p_status (f p) = p_status p" "\<And>p. p_order_id (f p) = p_order_id p"
      "\<And>p. p_amount_minor (f p) = p_amount_minor p" "\<And>p. p_revision (f p) = p_revision p"
  shows "money_keeps d (update_payment k f d)"
  unfolding money_keeps_def
  using assms by (auto intro!: ledger_soft_update money_follows_update_payment simp: payment_open_def)

lemma line_inv_money [simp]:
  "line_inv (update_refund k g d) = line_inv d" "line_inv (update_payment k f d) = line_inv d"
  by (simp_all add: line_inv_def line_of_def line_ids_def find_order_def lock_job_def find_command_def
      update_refund_def update_payment_def)

lemma received_update_refund [simp]: "received (update_refund k g d) i = received d i"
  by (rule received_cong) (simp add: update_refund_def)

section \<open>Payments the provider knows more about\<close>

text \<open>An open payment that ends without money.\<close>

lemma unpaid_transition:
  assumes led: "refund_ledger d" and p: "find_payment (p_id p) d = Some p" and st: "payment_open p"
    and tgt: "tgt = P_CLOSED \<or> tgt = P_FAILED"
    and run: "transition_payment now p tgt actor payload d = Inr (v, d')"
  shows "money_keeps d d'" and "received d' i = received d i" and "production_part d' = production_part d"
    and "orders d' = orders d"
proof -
  have base: "ledger_base d" using led by (simp add: refund_ledger_def)
  have pin: "p \<in> set (payments d)" using find_payment_SomeD[OF p] by simp
  have cr: "p_status p = P_CREATED \<or> p_status p = P_PENDING" using st by (auto simp: payment_open_def)
  have mv: "payment_decision.moves (p_status p) tgt" using cr tgt by (auto simp: payment_moves_iff)
  from transition_payment_ok[OF base p mv, of now actor payload] run obtain e where
    d': "d' = (update_payment (p_id p) (payment_moved now tgt (p_revision p + 1)) d)
        \<lparr>payment_log := payment_log d @ [e]\<rparr>"
    and e: "pe_payment_id e = p_id p" "pe_event_id e = ''transition:'' @ str_int (p_revision p + 1)"
    by auto
  have nr: "tgt \<notin> set received_statuses" "p_status p \<notin> set received_statuses"
    using tgt cr by (auto simp: received_statuses_def)
  have "settled d (payment_moved now tgt (p_revision p + 1) p)"
    using led pin nr by (auto simp: refund_ledger_def settled_def payment_moved_def)
  moreover have "0 \<le> p_revision p" using ledger_baseD(6)[OF base pin] by (simp add: payment_log_fresh_def)
  ultimately have l: "refund_ledger d'"
    using led e unfolding d'
    by (intro ledger_payment_update[where es = "[e]" and f = "payment_moved now tgt (p_revision p + 1)", OF _ _ p])
      (auto simp: refund_ledger_def update_payment_def payment_moved_def transition_event_id str_int_nonneg)
  have "money_follows d d'" by (rule transition_payment_follows[OF run]) (use tgt in auto)
  with l show "money_keeps d d'" by (simp add: money_keeps_def)
  show "received d' i = received d i" unfolding d' received_payment_log_update
    by (rule received_update_payment) (use p nr in \<open>simp_all add: payment_moved_def\<close>)
  show "production_part d' = production_part d" "orders d' = orders d"
    by (simp_all add: d' update_payment_def production_part_def)
qed

lemma update_payment_outcome_line:
  assumes "line_inv d"
  shows "line_inv (update_payment_outcome now k st d)"
proof (rule line_inv_waiting[OF assms])
  show "same_tables d (update_payment_outcome now k st d)"
    unfolding update_payment_outcome_def by (rule same_tables_update_order) simp_all
  fix i s assume "ln_orders (line_of d) i = Some s"
  then obtain r where r: "find_order i d = Some r" "o_status r = s" by (auto simp: line_of_def)
  let ?s = "if i = k \<and> s \<in> set [O_CREATED, O_AWAITING_PAYMENT] then O_CANCELLED else s"
  have "ln_orders (line_of (update_payment_outcome now k st d)) i = Some ?s"
    using r by (cases "i = k") (auto simp: line_of_def update_payment_outcome_def find_order_update_order)
  then show "\<exists>s'. ln_orders (line_of (update_payment_outcome now k st d)) i = Some s' \<and> (s' = s \<or> s \<in> set waiting_statuses)"
    by (intro exI[of _ ?s]) (auto simp: waiting_statuses_def)
qed

lemma reconcile_record_keeps:
  assumes inv: "money_inv d" and line: "line_inv d" and run: "reconcile_record x now rid nid bid p v d = Inr d'"
  shows "money_inv d' \<and> line_inv d' \<and> (pr_status v = ''PAID'' \<or> received d' i = received d i)"
proof -
  have led: "refund_ledger d" using inv by (simp add: money_inv_def)
  show ?thesis
  proof (cases "pr_status v = ''PAID''")
    case True
    with run obtain res dup where cb: "apply_paid_callback x now rid nid bid (p_provider p)
          (''reconcile-paid:'' @ p_merchant_payment_no p) (reconcile_paid_values p v) d = Inr ((res, dup), d')"
      by (auto simp: reconcile_record_def bind_ok_Inr)
    from callback_line[OF led line cb] money_keeps_inv[OF callback_keeps[OF cb] inv] True show ?thesis by blast
  next
    case False
    show ?thesis
    proof (cases "d' = d")
      case changed: False
      let ?tgt = "if pr_status v = ''CLOSED'' then P_CLOSED else P_FAILED"
      obtain current w d1 where cur: "find_payment (p_id p) d = Some current" and op: "payment_open current"
        and tr: "transition_payment now current ?tgt ''payment-reconciliation'' (pr_raw v) d = Inr (w, d1)"
        and d': "d' = update_payment_outcome now (p_order_id current) (order_payment_of ?tgt) d1"
      proof -
        note r1 = run[unfolded reconcile_record_def if_not_P[OF False]]
        have fin: "\<not> pr_status v \<notin> set [''CLOSED'', ''FAILED'']" using r1 changed by (auto split: if_split_asm)
        note r2 = r1[unfolded if_not_P[OF fin]]
        obtain o' where o': "find_order (p_order_id p) d = Some o'" using r2 changed by (auto split: option.splits)
        note r3 = r2[unfolded o' option.case]
        obtain current where c: "find_payment (p_id p) d = Some current" using r3 changed by (auto split: option.splits)
        note r4 = r3[unfolded c option.case]
        have op: "payment_open current" using r4 changed by (auto split: if_split_asm)
        have "\<not> \<not> payment_open current" using op by simp
        note r5 = r4[unfolded if_not_P[OF this] Let_def]
        show ?thesis
        proof (cases "transition_payment now current ?tgt ''payment-reconciliation'' (pr_raw v) d")
          case (Inl e)
          with r5 show ?thesis by simp
        next
          case (Inr y)
          from r5[unfolded Inr] have "d' = update_payment_outcome now (p_order_id current) (order_payment_of ?tgt) (snd y)"
            by (cases y) simp
          with that[OF c op, of "fst y" "snd y"] Inr show ?thesis by simp
        qed
      qed
      have "find_payment (p_id current) d = Some current" using cur find_payment_SomeD[OF cur] by simp
      note U = unpaid_transition[OF led this op _ tr]
      have "line_inv d1"
        by (rule line_inv_same[OF line_of_production line_ids_production line]; rule U(3); simp)
      moreover have "money_inv d1" by (rule money_keeps_inv[OF U(1) inv]) simp
      moreover have "received d1 i = received d i" by (rule U(2)) simp
      moreover have "received d' i = received d1 i"
        unfolding d' by (rule received_cong) (simp add: update_payment_outcome_def update_order_def)
      moreover have "money_same d1 d'" unfolding d' by simp
      ultimately show ?thesis
        using update_payment_outcome_line[of d1] money_keeps_inv[OF money_same_keeps] d' by metis
    qed (use assms in simp)
  qed
qed

lemma claim_payment_frame:
  assumes "claim_payment now secs d = (v, d')"
  shows "money_keeps d d' \<and> line_inv d' = line_inv d \<and> received d' i = received d i"
proof (cases "d' = d")
  case False
  then obtain k where "d' = update_payment k (\<lambda>q. q\<lparr>p_next_reconcile_at := Some (now + secs)\<rparr>) d"
    using assms by (auto simp: claim_payment_def split: list.splits)
  then show ?thesis by (simp add: soft_payment received_update_payment)
qed simp

text \<open>C19 The reconciliation of a payment keeps the money and the line whatever the provider answers and
  whether or not recording the answer fails; a payment becomes received money only when the answer
  to the query, or to the close of an overdue payment, says that it is paid.\<close>

theorem reconcile_payment_safe:
  assumes inv: "money_inv d" and line: "line_inv d"
    and run: "reconcile_payment_once x cfg now later rid nid bid query close d = (res, d')"
  shows "money_inv d' \<and> line_inv d' \<and> (received d' i = received d i
    \<or> (\<exists>v. (query = Inr v \<or> close = Inr v) \<and> pr_status v = ''PAID''))"
proof -
  obtain q d1 where c: "claim_payment now (s_payment_reconcile_seconds cfg) d = (q, d1)" by fastforce
  note C = claim_payment_frame[OF c]
  have inv1: "money_inv d1" "line_inv d1" using money_keeps_inv[OF _ inv] C line by auto
  show ?thesis
  proof (cases "d' = d1")
    case True
    with inv1 C show ?thesis by simp
  next
    case False
    with run c obtain p v where v: "reconcile_answer cfg later p query close = Some v"
      and rec: "reconcile_record x later rid nid bid p v d1 = Inr d'"
      by (auto simp: reconcile_payment_once_def split: option.splits sum.splits)
    have "query = Inr v \<or> close = Inr v"
      using v by (auto simp: reconcile_answer_def split: sum.splits if_splits)
    with reconcile_record_keeps[OF inv1 rec] C show ?thesis by metis
  qed
qed

definition sample_open_db :: db where
  "sample_open_db = snd (projr sample_create)"

definition sample_paid_answer :: provider_result where
  "sample_paid_answer = (mock_pending ''M9'')\<lparr>pr_status := ''PAID'', pr_provider_trade_no := Some ''T7''\<rparr>"

definition sample_reconciled :: "(err + nat) \<times> db" where
  "sample_reconciled = reconcile_payment_once sample_x sample_cfg 1000 1001 (Uuid ''r1'') (Uuid ''r2'') (Uuid ''b1'')
     (Inr sample_paid_answer) (Inl Type_error) sample_open_db"

theorem reconcile_payment_safe_witness:
  "money_inv (snd sample_reconciled) \<and> line_inv (snd sample_reconciled) \<and> fst sample_reconciled = Inr 1
    \<and> map p_status (payments (snd sample_reconciled)) = [P_PAID] \<and> map o_status (orders (snd sample_reconciled)) = [O_PAID]"
proof -
  have "\<not> isl (fst sample_reconciled) \<and> projr (fst sample_reconciled) = 1
      \<and> map p_status (payments (snd sample_reconciled)) = [P_PAID] \<and> map o_status (orders (snd sample_reconciled)) = [O_PAID]"
    by code_simp
  moreover from this have "fst sample_reconciled = Inr 1" by (cases "fst sample_reconciled") simp_all
  moreover have "money_inv (snd sample_reconciled) \<and> line_inv (snd sample_reconciled)"
    using reconcile_payment_safe[of sample_open_db sample_x sample_cfg 1000 1001 "Uuid ''r1''" "Uuid ''r2''" "Uuid ''b1''"
        "Inr sample_paid_answer" "Inl Type_error" "fst sample_reconciled" "snd sample_reconciled"] sample_pending_inv
    by (simp add: sample_open_db_def sample_reconciled_def)
  ultimately show ?thesis by blast
qed

section \<open>Refunds at the provider\<close>











end
