(* ===== verification/CommandsApp.thy ===== *)
theory CommandsApp
  imports Terminals Production PyJson
begin

text \<open>
  \<open>app/services/commands.py\<close>: handing commands to the gateway that publishes them, its confirmations
  and retries, the debug commands of a device and the commands of an administrator. A request
  arrives as its typed fields and its dump; message identifiers and other drawn texts are arguments,
  and \<open>read_ts\<close> is how PostgreSQL reads a text as an instant.
\<close>

section \<open>What is sent and shown\<close>

definition enqueue_command :: "externals \<Rightarrow> timestamp \<Rightarrow> uuid \<Rightarrow> terminal_command \<Rightarrow> int \<Rightarrow> string \<Rightarrow> db \<Rightarrow> err + db" where
  "enqueue_command x now k c terminal_id device_id =
     insert_outbox now k (c_id c) terminal_id (''v1/devices/'' @ device_id @ ''/down'')
       (JObj [(''schema'', JStr ''coffee.mqtt-envelope.v1''), (''messageId'', JStr (c_message_id c)),
          (''deviceId'', JStr device_id), (''type'', JStr ''command''), (''sentAt'', JStr (x_iso x now)),
          (''payload'', JObj (c_payload_json c))])"

definition iso_opt :: "externals \<Rightarrow> timestamp option \<Rightarrow> json" where
  "iso_opt x t = opt_str (map_option (x_iso x) t)"

definition transition_payload :: "externals \<Rightarrow> command_transition \<Rightarrow> json" where
  "transition_payload x r = JObj [(''revision'', JInt (ct_revision r)),
     (''from'', opt_str (map_option command_name (ct_from_status r))), (''to'', JStr (command_name (ct_to_status r))),
     (''actor'', JStr (ct_actor r)), (''reason'', opt_str (ct_reason r)),
     (''createdAt'', JStr (x_iso x (ct_created_at r))),
     (''payload'', case ct_payload_json r of None \<Rightarrow> JNull | Some v \<Rightarrow> v)]"

text \<open>The rows are read from \<open>terminal_command\<close> alone, so there is no device id to show.\<close>

definition command_payload :: "externals \<Rightarrow> terminal_command \<Rightarrow> command_transition list option \<Rightarrow> dict" where
  "command_payload x c history =
     [(''messageId'', JStr (c_message_id c)), (''deviceId'', JNull), (''type'', JStr (c_command_type c)),
      (''status'', JStr (command_name (c_status c))), (''revision'', JInt (c_revision c)),
      (''command'', JObj (c_payload_json c)),
      (''result'', case c_result_json c of None \<Rightarrow> JNull | Some v \<Rightarrow> v),
      (''createdAt'', JStr (x_iso x (c_created_at c))), (''deliveredAt'', iso_opt x (c_delivered_at c)),
      (''ackedAt'', iso_opt x (c_acked_at c)), (''executingAt'', iso_opt x (c_executing_at c)),
      (''completedAt'', iso_opt x (c_completed_at c)), (''expiresAt'', iso_opt x (c_expires_at c))]
     @ (case history of None \<Rightarrow> [] | Some rs \<Rightarrow> [(''transitions'', JArr (map (transition_payload x) rs))])"

section \<open>The gateway's side of the outbox\<close>

definition claim :: "settings \<Rightarrow> timestamp \<Rightarrow> string \<Rightarrow> nat \<Rightarrow> db \<Rightarrow> json \<times> db" where
  "claim cfg now gateway_id limit d =
     (let (rows, d1) = claim_outbox now gateway_id limit (s_command_publish_lease_seconds cfg) d
      in (JObj [(''commands'', JArr (map (\<lambda>b. JObj [(''outboxId'', JStr (uuid_str (ob_id b))),
            (''topic'', JStr (ob_topic b)), (''envelope'', ob_envelope_json b),
            (''attempt'', JInt (ob_attempt_count b))]) rows))], d1))"

definition confirmed :: "timestamp \<Rightarrow> terminal_command \<Rightarrow> db \<Rightarrow> err + db" where
  "confirmed now c d =
     bind_ok (if c_status c \<in> set [C_CREATED, C_DELIVERING]
        then transition_command now c C_PUBLISHED ''mqtt-gateway'' (Some ''broker PUBACK'') None True d
        else Inr ((c, False), d))
       (\<lambda>((u, _), d1). Inr (set_published_at now (c_id u) d1))"

definition published :: "timestamp \<Rightarrow> uuid \<Rightarrow> string \<Rightarrow> db \<Rightarrow> err + json \<times> db" where
  "published now outbox_id gateway_id d =
     (case find_outbox outbox_id d of
        None \<Rightarrow> Inl (service_error 404 ''command outbox item not found'')
      | Some b \<Rightarrow>
          let command = command_by_db_id (ob_command_id b) d in
          if ob_status b = OB_PUBLISHED
          then Inr (JObj [(''ok'', JBool True), (''duplicate'', JBool True)], d)
          else if ob_status b = OB_EXPIRED
          then Inr (JObj [(''ok'', JBool True), (''duplicate'', JBool True), (''late'', JBool True)],
             case command of None \<Rightarrow> d | Some c \<Rightarrow> set_published_at now (c_id c) d)
          else if ob_status b \<noteq> OB_PUBLISHING \<or> ob_locked_by b \<noteq> Some gateway_id
          then Inl (service_error 409 ''command publish lease mismatch'')
          else
            let d1 = mark_published now outbox_id d
            in bind_ok (case command_by_db_id (ob_command_id b) d1 of None \<Rightarrow> Inr d1 | Some c \<Rightarrow> confirmed now c d1)
                 (\<lambda>d2. Inr (JObj [(''ok'', JBool True), (''duplicate'', JBool False)], d2)))"

definition retry :: "timestamp \<Rightarrow> uuid \<Rightarrow> string \<Rightarrow> string \<Rightarrow> db \<Rightarrow> err + json \<times> db" where
  "retry now outbox_id gateway_id error d =
     (case find_outbox outbox_id d of
        None \<Rightarrow> Inl (service_error 404 ''command outbox item not found'')
      | Some b \<Rightarrow>
          if ob_status b = OB_PUBLISHED
          then Inr (JObj [(''ok'', JBool True), (''duplicate'', JBool True)], d)
          else if ob_locked_by b \<noteq> Some gateway_id
          then Inl (service_error 409 ''command publish lease mismatch'')
          else Inr (JObj [(''ok'', JBool True), (''duplicate'', JBool False)],
             mark_retry now outbox_id (py_take 1000 error) d))"

section \<open>Debug commands\<close>

text \<open>A debug drink without a compiled recipe takes the default variant of the device's own menu.\<close>

definition default_recipe :: "dict \<Rightarrow> dict \<Rightarrow> err + dict" where
  "default_recipe capabilities payload =
     bind_ok (iter (dget_default capabilities ''products'' (JArr []))) (\<lambda>products.
     bind_ok (first_such (\<lambda>p. bind_ok (subscript p ''recipeId'') (\<lambda>r. Inr (py_eq r (dget payload ''recipeId'')))) products)
       (\<lambda>product. case product of None \<Rightarrow> Inr payload | Some p \<Rightarrow>
          if \<not> truthy (dget (dict_of p) ''optionSchema'') then Inr payload
          else bind_ok (subscript (dget (dict_of p) ''optionSchema'') ''options'') (\<lambda>options.
            bind_ok (items options) (\<lambda>rules.
            bind_ok (map_ok (\<lambda>(k, rule). bind_ok (subscript rule ''default'') (\<lambda>v. Inr (k, v))) rules) (\<lambda>defaults.
            bind_ok (iter (dget_default (dict_of p) ''customizationVariants'' (JArr []))) (\<lambda>variants.
            bind_ok (first_such (\<lambda>v. bind_ok (subscript v ''customization'') (\<lambda>c. Inr (py_eq c (JObj defaults)))) variants)
              (\<lambda>variant. case variant of
                 None \<Rightarrow> Inl (service_error 409 ''default compiled recipe unavailable'')
               | Some v \<Rightarrow>
                   bind_ok (subscript p ''version'') (\<lambda>version.
                   bind_ok (map_ok (\<lambda>k. bind_ok (subscript v k) (\<lambda>w. Inr (k, w)))
                       [''customization'', ''compiledRecipeDigest'', ''optionSchemaVersion'']) (\<lambda>parts.
                     Inr (merged payload ((''recipeVersion'', version) # parts)))))))))))"

definition expiry_param :: "(string \<Rightarrow> timestamp option) \<Rightarrow> json \<Rightarrow> err + timestamp option" where
  "expiry_param read_ts v = (case v of JNull \<Rightarrow> Inr None
     | JStr s \<Rightarrow> (case read_ts s of None \<Rightarrow> Inl Data_error | Some t \<Rightarrow> Inr (Some t)) | _ \<Rightarrow> Inl Data_error)"

text \<open>A text column that may not be null.\<close>

definition required_text :: "json \<Rightarrow> err + string" where
  "required_text v = bind_ok (text_param v) (\<lambda>s. case s of None \<Rightarrow> Inl Check_violation | Some t \<Rightarrow> Inr t)"

definition completed_payload :: "externals \<Rightarrow> timestamp \<Rightarrow> int \<Rightarrow> dict \<Rightarrow> db \<Rightarrow> err + dict" where
  "completed_payload x now terminal_id body0 d =
     (let payload = set_default ''expiresAt'' (JStr (x_iso x (now + 300))) body0 in
      if dget payload ''type'' = JStr ''MAKE_DRINK'' \<and> \<not> truthy (dget payload ''compiledRecipeDigest'')
      then default_recipe (case terminal_snapshot terminal_id ''capabilities'' d of None \<Rightarrow> [] | Some c \<Rightarrow> c) payload
      else Inr payload)"

text \<open>\<open>who\<close> is the device that asked: its terminal and its device id.\<close>

definition create_raw ::
  "externals \<Rightarrow> (string \<Rightarrow> timestamp option) \<Rightarrow> timestamp \<Rightarrow> uuid \<Rightarrow> (int \<times> string) \<Rightarrow> dict \<Rightarrow> db
    \<Rightarrow> err + dict \<times> db" where
  "create_raw x read_ts now outbox_id who body0 d =
     bind_ok (completed_payload x now (fst who) body0 d) (\<lambda>payload.
     bind_ok (subscript (JObj payload) ''messageId'') (\<lambda>message. bind_ok (subscript (JObj payload) ''type'') (\<lambda>ty.
     bind_ok (required_text message) (\<lambda>message_id. bind_ok (required_text ty) (\<lambda>kind.
     bind_ok (expiry_param read_ts (dget payload ''expiresAt'')) (\<lambda>expires_at.
     bind_ok (insert_command now (fst who) message_id kind payload (canonical_digest x (JObj payload)) expires_at None d)
       (\<lambda>(c, d1).
     bind_ok (insert_initial_command_transition now (c_id c) ''debug-api'' ''legacy debug command'' (JObj payload) d1)
       (\<lambda>d2.
     bind_ok (enqueue_command x now outbox_id c (fst who) (snd who) d2) (\<lambda>d3. Inr (payload, d3))))))))))"

definition create_debug_order ::
  "externals \<Rightarrow> (string \<Rightarrow> timestamp option) \<Rightarrow> timestamp \<Rightarrow> uuid \<Rightarrow> int \<times> string \<Rightarrow> string \<times> string \<times> string \<times> string
    \<Rightarrow> json \<Rightarrow> db \<Rightarrow> err + json \<times> db" where
  "create_debug_order x read_ts now outbox_id who drawn recipe_id d =
     (let (message_id, task_id, order_id, order_no) = drawn;
          command = [(''messageId'', JStr message_id), (''type'', JStr ''MAKE_DRINK''), (''taskId'', JStr task_id),
            (''orderId'', JStr order_id), (''orderNo'', JStr order_no), (''recipeId'', recipe_id),
            (''expiresAt'', JStr (x_iso x (now + 300)))]
      in bind_ok (create_raw x read_ts now outbox_id who command d)
           (\<lambda>(payload, d1). Inr (JObj [(''ok'', JBool True), (''command'', JObj payload)], d1)))"

definition CONTROL_ACTIONS :: "string list" where
  "CONTROL_ACTIONS = [''pause'', ''resume'', ''skip'', ''retry'', ''cancel'', ''clear'', ''collect'']"

text \<open>A control command is bound to the task the device reports when it is made.\<close>

definition bound_task :: "string \<Rightarrow> db \<Rightarrow> err + json" where
  "bound_task device_id d =
     (let status = (case find_terminal device_id d of None \<Rightarrow> JObj []
            | Some t \<Rightarrow> py_or (t_reported_status t) (JObj []))
      in bind_ok (get_or status ''currentTaskId'' JNull) (\<lambda>task_id.
           if \<not> truthy task_id then Inl (service_error 409 ''no reported task to control'') else Inr task_id))"

definition create_debug_command ::
  "externals \<Rightarrow> (string \<Rightarrow> timestamp option) \<Rightarrow> timestamp \<Rightarrow> uuid \<Rightarrow> int \<times> string \<Rightarrow> string \<Rightarrow> json \<Rightarrow> db
    \<Rightarrow> err + json \<times> db" where
  "create_debug_command x read_ts now outbox_id who message_id action d =
     (let command = [(''messageId'', JStr message_id), (''type'', JStr ''DEBUG_COMMAND''), (''action'', action)] in
      bind_ok (member_of CONTROL_ACTIONS action) (\<lambda>control.
      bind_ok (if control then bind_ok (bound_task (snd who) d) (\<lambda>t. Inr (dset ''taskId'' t command)) else Inr command)
        (\<lambda>command.
      bind_ok (create_raw x read_ts now outbox_id who command d)
        (\<lambda>(payload, d1). Inr (JObj [(''ok'', JBool True), (''command'', JObj payload)], d1)))))"

definition debug_overrides :: "string \<Rightarrow> json \<Rightarrow> json" where
  "debug_overrides device_id body = JObj [(''ok'', JBool True), (''deviceId'', JStr device_id), (''overrides'', body)]"

section \<open>Commands of an administrator\<close>

record command_request =
  cq_type :: string
  cq_task_id :: "string option"
  cq_order_id :: "string option"
  cq_recipe_id :: "string option"
  cq_recipe_version :: "string option"
  cq_action :: "string option"
  cq_expires_at :: "timestamp option"
  cq_payload :: dict
  cq_body :: dict

definition request_expiry :: "timestamp \<Rightarrow> command_request \<Rightarrow> timestamp" where
  "request_expiry now q = coalesce_to (cq_expires_at q) (now + 300)"

definition admin_body :: "externals \<Rightarrow> timestamp \<Rightarrow> string \<Rightarrow> command_request \<Rightarrow> dict" where
  "admin_body x now message_id q =
     merged (merged (cq_payload q) [(''messageId'', JStr message_id), (''type'', JStr (cq_type q)),
         (''expiresAt'', JStr (x_iso x (request_expiry now q)))])
       (concat (map (\<lambda>(k, v). case v of None \<Rightarrow> [] | Some s \<Rightarrow> [(k, JStr s)])
          [(''taskId'', cq_task_id q), (''orderId'', cq_order_id q), (''recipeId'', cq_recipe_id q),
           (''recipeVersion'', cq_recipe_version q), (''action'', cq_action q)]))"

definition create_admin ::
  "externals \<Rightarrow> timestamp \<Rightarrow> string \<Rightarrow> uuid \<Rightarrow> string \<Rightarrow> command_request \<Rightarrow> string option \<Rightarrow> db
    \<Rightarrow> err + dict \<times> db" where
  "create_admin x now message_id outbox_id identifier q key_arg d =
     (case key_arg of None \<Rightarrow> Inl (service_error 400 ''Idempotency-Key is required and must be <= 160 characters'')
      | Some key \<Rightarrow>
     if key = [] \<or> 160 < py_len key
     then Inl (service_error 400 ''Idempotency-Key is required and must be <= 160 characters'')
     else if cq_type q = ''MAKE_DRINK''
        \<and> \<not> list_all (\<lambda>v. some_and v (\<lambda>s. s \<noteq> [])) [cq_task_id q, cq_order_id q, cq_recipe_id q]
     then Inl (service_error 422 ''MAKE_DRINK requires taskId, orderId and recipeId'')
     else if request_expiry now q \<le> now then Inl (service_error 422 ''expiresAt must be in the future'')
     else
       let digest = canonical_digest x (JObj (cq_body q)) in
       case find_terminal identifier d of
         None \<Rightarrow> Inl (service_error 404 ''device not found'')
       | Some t \<Rightarrow>
           (case command_by_idempotency (t_id t) key d of
              Some c \<Rightarrow>
                if py_strip (coalesce_to (c_payload_digest c) []) \<noteq> digest
                then Inl (service_error 409 ''Idempotency-Key payload conflict'')
                else Inr ((''duplicate'', JBool True) # command_payload x c None, d)
            | None \<Rightarrow>
                let command = admin_body x now message_id q in
                bind_ok (insert_command now (t_id t) message_id (cq_type q) command digest
                    (Some (request_expiry now q)) (Some key) d) (\<lambda>(c, d1).
                bind_ok (insert_initial_command_transition now (c_id c) ''admin-api'' ''command created'' (JObj command) d1)
                  (\<lambda>d2.
                bind_ok (enqueue_command x now outbox_id c (t_id t) (t_device_id t) d2)
                  (\<lambda>d3. Inr ((''duplicate'', JBool False) # command_payload x c None, d3))))))"

definition get_admin :: "externals \<Rightarrow> string \<Rightarrow> string \<Rightarrow> db \<Rightarrow> err + dict" where
  "get_admin x identifier message_id d =
     (case find_terminal identifier d of None \<Rightarrow> Inl (service_error 404 ''device not found'')
      | Some t \<Rightarrow> (case command_by_message (t_id t) message_id d of
          None \<Rightarrow> Inl (service_error 404 ''command not found'')
        | Some c \<Rightarrow> Inr (command_payload x c (Some (command_history (c_id c) d)))))"

end
