(* ===== verification/DeviceMessages.thy ===== *)
theory DeviceMessages
  imports Production Identity
begin

text \<open>
  \<open>app/services/device_messages.py\<close>: what a device sends (heartbeats, snapshots, events, task
  acknowledgements, command results) and the polling of its commands. A request arrives as the
  validated model, its typed fields next to its dump (\<open>hm_body\<close>, \<open>de_body\<close>); the device is the
  row that authenticated it, read before the transaction. Drawn UUIDs and the clock are arguments,
  \<open>url\<close> is the printed order address, and the progress cache answers as an argument.
\<close>

section \<open>Requests\<close>

record heartbeat_message =
  hm_device_id :: string
  hm_message_id :: "string option"
  hm_boot_id :: "string option"
  hm_sequence :: "int option"
  hm_device_status :: string
  hm_sent_at :: "timestamp option"
  hm_body :: dict

record device_event =
  de_event_id :: string
  de_device_id :: string
  de_boot_id :: "string option"
  de_sequence :: "int option"
  de_occurred_at :: "timestamp option"
  de_type :: string
  de_body :: dict

text \<open>
  The device as the service reads it: columns of the terminal, or only its identifiers when the
  telemetry cache named it.
\<close>

record device_identity =
  id_terminal :: int
  id_device :: string
  id_connection :: "string option"
  id_boot :: "string option"
  id_sequence :: "int option"
  id_connected_at :: "timestamp option"

definition identity_of :: "terminal \<Rightarrow> device_identity" where
  "identity_of t = \<lparr>id_terminal = t_id t, id_device = t_device_id t,
     id_connection = Some (t_connection_status t), id_boot = t_active_boot_id t,
     id_sequence = t_last_sequence t, id_connected_at = t_last_connected_at t\<rparr>"

section \<open>Heartbeats\<close>

definition heartbeat_out_of_order :: "heartbeat_message \<Rightarrow> device_identity \<Rightarrow> bool" where
  "heartbeat_out_of_order m i \<longleftrightarrow>
     (case (hm_boot_id m, hm_sequence m, id_sequence i) of
        (Some b, Some n, Some l) \<Rightarrow> b \<noteq> [] \<and> id_boot i = Some b \<and> n \<le> l
      | _ \<Rightarrow> False)"

definition heartbeat_reply :: "externals \<Rightarrow> timestamp \<Rightarrow> string \<Rightarrow> bool \<Rightarrow> string \<Rightarrow> json" where
  "heartbeat_reply x now url dup disposition =
     JObj [(''ok'', JBool True), (''duplicate'', JBool dup), (''disposition'', JStr disposition),
       (''receivedAt'', JStr (x_iso x now)), (''qrUrl'', JStr url)]"

definition reported_of :: "heartbeat_message \<Rightarrow> json" where
  "reported_of m = JObj [(''deviceStatus'', JStr (hm_device_status m)),
     (''currentTaskId'', dget (hm_body m) ''currentTaskId''),
     (''currentTaskState'', dget (hm_body m) ''currentTaskState''),
     (''currentTaskRevision'', dget (hm_body m) ''currentTaskRevision''),
     (''recovery'', dget (hm_body m) ''recovery''), (''deliveries'', dget (hm_body m) ''deliveries''),
     (''sentAt'', dget (hm_body m) ''sentAt'')]"

definition came_online :: "timestamp \<Rightarrow> device_identity \<Rightarrow> db \<Rightarrow> db" where
  "came_online now i d =
     (if id_connection i \<noteq> Some ''online'' then request_dispatch now (id_terminal i) ''heartbeat-online'' d else d)"

text \<open>What a heartbeat that was not seen before writes to its terminal.\<close>

definition apply_heartbeat :: "timestamp \<Rightarrow> heartbeat_message \<Rightarrow> device_identity \<Rightarrow> db \<Rightarrow> db" where
  "apply_heartbeat now m i d =
     (let connected = (if id_connection i \<noteq> Some ''online'' \<or> id_boot i \<noteq> hm_boot_id m then now
            else coalesce_to (id_connected_at i) now)
      in if heartbeat_out_of_order m i then touch_online (id_terminal i) now (Some connected) d
         else update_from_heartbeat (id_terminal i) now connected (hm_body m) (reported_of m)
                (hm_boot_id m) (hm_sequence m) d)"

definition heartbeat_message_id :: "heartbeat_message \<Rightarrow> string \<Rightarrow> string" where
  "heartbeat_message_id m digest =
     (case hm_message_id m of Some s \<Rightarrow> if s \<noteq> [] then s else ''legacy:'' @ digest
      | None \<Rightarrow> ''legacy:'' @ digest)"

definition heartbeat ::
  "externals \<Rightarrow> timestamp \<Rightarrow> string \<Rightarrow> string \<Rightarrow> heartbeat_message \<Rightarrow> device_identity \<Rightarrow> bool \<Rightarrow> db
    \<Rightarrow> err + json \<times> db" where
  "heartbeat x now url device_id m i persist_history d =
     (if hm_device_id m \<noteq> device_id then Inl (service_error 400 ''payload deviceId mismatch'')
      else
        let digest = canonical_digest x (JObj (hm_body m));
            message_id = heartbeat_message_id m digest
        in case (if persist_history then find_heartbeat (id_terminal i) message_id d else None) of
             Some h \<Rightarrow>
               if py_strip (hb_payload_digest h) \<noteq> digest
               then Inl (service_error 409 ''messageId payload conflict'')
               else Inr (heartbeat_reply x now url True (hb_disposition h),
                 came_online now i (touch_online (id_terminal i) now None d))
           | None \<Rightarrow>
               let disposition = (if heartbeat_out_of_order m i then ''OUT_OF_ORDER'' else ''ACCEPTED'')
               in bind_ok (if persist_history
                    then (case insert_heartbeat \<lparr>hb_terminal_id = id_terminal i, hb_message_id = message_id,
                              hb_payload_digest = digest, hb_boot_id = hm_boot_id m, hb_sequence = hm_sequence m,
                              hb_occurred_at = hm_sent_at m, hb_received_at = now, hb_disposition = disposition,
                              hb_payload_json = hm_body m\<rparr> d of
                            Inl _ \<Rightarrow> Inl (service_error 409 ''bootId/sequence conflict'')
                          | Inr d1 \<Rightarrow> Inr d1)
                    else Inr d)
                  (\<lambda>d1. Inr (heartbeat_reply x now url False disposition,
                     came_online now i (apply_heartbeat now m i d1))))"

section \<open>Polling for commands\<close>

text \<open>\<open>int(text)\<close> of an ASCII text: a sign, digits, and underscores between digits.\<close>

fun underscored :: "string \<Rightarrow> string option" where
  "underscored [] = None"
| "underscored [c] = (if is_digit c then Some [c] else None)"
| "underscored (c # d # s) =
     (if \<not> is_digit c then None
      else if d = CHR ''_'' then map_option ((#) c) (underscored s)
      else map_option ((#) c) (underscored (d # s)))"

definition py_int :: "string \<Rightarrow> int option" where
  "py_int s =
     (let t = py_strip s;
          (sg, ds) = (case t of [] \<Rightarrow> (1, []) | c # r \<Rightarrow>
            if c = CHR ''-'' then (- 1, r) else if c = CHR ''+'' then (1, r) else (1, t))
      in map_option (\<lambda>n. sg * int (digits_value n)) (underscored ds))"

definition poll_cursor :: "string \<Rightarrow> int" where
  "poll_cursor s = (if s = [] then 0 else case py_int s of None \<Rightarrow> 0 | Some n \<Rightarrow> n)"

definition over :: "timestamp option \<Rightarrow> timestamp \<Rightarrow> bool" where
  "over e now \<longleftrightarrow> some_and e (\<lambda>t. t \<le> now)"

text \<open>
  One transaction per candidate: an expired command is expired, one that waits is delivered, and the
  others that may be delivered are handed out again. \<open>ids\<close> gives the UUIDs a refund draws.
\<close>

definition poll_one ::
  "externals \<Rightarrow> timestamp \<Rightarrow> uuid \<times> uuid \<Rightarrow> terminal_command \<Rightarrow> db \<Rightarrow> err + dict option \<times> db" where
  "poll_one x now ids candidate d =
     (if over (c_expires_at candidate) now
      then bind_ok (expire_order_for_command x now (fst ids) (snd ids) (c_id candidate) d) (\<lambda>(_, d1). Inr (None, d1))
      else case command_by_db_id (c_id candidate) d of
        None \<Rightarrow> Inr (None, d)
      | Some r \<Rightarrow>
          if over (c_expires_at r) now then Inr (None, d)
          else bind_ok (if c_status r = C_CREATED
                then transition_command now r C_DELIVERING ''cloud'' (Some ''device polled command'') None True d
                else Inr ((r, False), d))
            (\<lambda>((u, _), d1). Inr (if c_status u \<in> set [C_DELIVERING, C_PUBLISHED] then Some (c_payload_json u)
               else None, d1)))"

text \<open>The commands handed out and the last cursor; an exception ends the poll and keeps what was committed.\<close>

fun poll_rows ::
  "externals \<Rightarrow> timestamp \<Rightarrow> (nat \<Rightarrow> uuid \<times> uuid) \<Rightarrow> terminal_command list \<Rightarrow> dict list \<Rightarrow> int \<Rightarrow> db
    \<Rightarrow> (err + dict list \<times> int) \<times> db" where
  "poll_rows x now ids [] out cursor d = (Inr (out, cursor), d)"
| "poll_rows x now ids (c # cs) out cursor d =
     (case poll_one x now (ids (length cs)) c d of
        Inl e \<Rightarrow> (Inl e, d)
      | Inr (v, d1) \<Rightarrow> poll_rows x now ids cs (case v of None \<Rightarrow> out | Some p \<Rightarrow> out @ [p]) (c_id c) d1)"

definition poll_commands ::
  "externals \<Rightarrow> timestamp \<Rightarrow> (nat \<Rightarrow> uuid \<times> uuid) \<Rightarrow> device_identity \<Rightarrow> string \<Rightarrow> nat \<Rightarrow> db
    \<Rightarrow> (err + json) \<times> db" where
  "poll_commands x now ids i after limit d =
     (let cursor = poll_cursor after;
          (v, d1) = poll_rows x now ids (commands_after (id_terminal i) cursor limit d) [] cursor d
      in (case v of Inl e \<Rightarrow> Inl e
          | Inr (out, n) \<Rightarrow> Inr (JObj [(''commands'', JArr (map JObj out)), (''nextCursor'', JStr (str_int n))]), d1))"

section \<open>Snapshots\<close>

definition snapshot ::
  "externals \<Rightarrow> timestamp \<Rightarrow> device_identity \<Rightarrow> string \<Rightarrow> dict \<Rightarrow> string option \<Rightarrow> db \<Rightarrow> err + json \<times> db" where
  "snapshot x now i kind payload version d =
     (if dget payload ''deviceId'' \<noteq> JStr (id_device i) then Inl (service_error 400 ''payload deviceId mismatch'')
      else Inr (JObj [(''ok'', JBool True), (''receivedAt'', JStr (x_iso x now))],
        upsert_snapshot now (id_terminal i) kind version payload d))"

section \<open>Events\<close>

definition duplicate_event :: json where
  "duplicate_event = JObj [(''ok'', JBool True), (''duplicate'', JBool True), (''commandTransition'', JNull),
     (''orderTransition'', JObj [(''duplicate'', JBool True)])]"

definition inner_payload :: "device_event \<Rightarrow> dict" where
  "inner_payload m = dict_of (dget (de_body m) ''payload'')"

text \<open>The inventory version an event reports, remembered for the admission of orders.\<close>

definition note_inventory :: "device_event \<Rightarrow> int \<Rightarrow> db \<Rightarrow> err + db" where
  "note_inventory m terminal_id d =
     (let version = dget (inner_payload m) ''inventoryVersion'' in
      if (starts_with ''task.'' (de_type m) \<or> starts_with ''inventory.'' (de_type m)) \<and> version \<noteq> JNull
      then (case version of
          JInt v \<Rightarrow> if 0 \<le> v \<and> v < 2 ^ 63 then Inr (require_inventory_version terminal_id v d)
            else Inl (service_error 422 ''invalid inventoryVersion'')
        | _ \<Rightarrow> Inl (service_error 422 ''invalid inventoryVersion''))
      else Inr d)"

definition pickup_conflict_text :: string where
  "pickup_conflict_text = ''conflicting pickup state at the same revision''"

text \<open>A dictionary or a list is not hashable: testing it against the set of states is a TypeError.\<close>

definition slot_state_ok :: "json \<Rightarrow> err + bool" where
  "slot_state_ok v = (case v of JArr _ \<Rightarrow> Inl Type_error | JObj _ \<Rightarrow> Inl Type_error
     | JStr s \<Rightarrow> Inr (s \<in> set [''EMPTY'', ''OCCUPIED'', ''NEEDS_CHECK'']) | _ \<Rightarrow> Inr False)"

definition apply_slot :: "timestamp \<Rightarrow> device_event \<Rightarrow> int \<Rightarrow> dict \<Rightarrow> int \<Rightarrow> db \<Rightarrow> err + db" where
  "apply_slot now m terminal_id slot n d =
     bind_ok (slot_state_ok (dget slot ''state'')) (\<lambda>known.
     case (dget slot ''state'', dget slot ''taskId'') of
       (JStr st, JStr task_id) \<Rightarrow>
         if \<not> known \<or> task_id = [] then Inl (service_error 422 ''invalid pickup slot'')
         else
           let collected = (de_type m = ''pickup.collected'') in
           if collected \<and> (st \<noteq> ''EMPTY'' \<or> JStr task_id \<noteq> dget (inner_payload m) ''taskId'')
           then Inl (service_error 422 ''pickup confirmation does not match task'')
           else (case apply_pickup now terminal_id n st task_id collected d of
               Inl e \<Rightarrow> Inl (if e = Pickup_conflict then service_error 409 pickup_conflict_text else e)
             | Inr d1 \<Rightarrow> Inr (if collected then request_dispatch now terminal_id ''pickup-collected'' d1 else d1))
     | _ \<Rightarrow> Inl (service_error 422 ''invalid pickup slot''))"

definition note_pickup :: "timestamp \<Rightarrow> device_event \<Rightarrow> int \<Rightarrow> db \<Rightarrow> err + db" where
  "note_pickup now m terminal_id d =
     (let slot = dget (inner_payload m) ''pickupSlot'' in
      if starts_with ''pickup.'' (de_type m)
         \<and> (\<not> is_dict slot \<or> \<not> truthy (dget (dict_of slot) ''revision''))
      then Inl (service_error 422 ''pickup events require a versioned slot'')
      else if truthy slot
         \<and> de_type m \<in> {''task.succeeded'', ''task.recovered'', ''pickup.collected'', ''pickup.overdue''}
      then (case (slot, dget (dict_of slot) ''revision'') of
          (JObj s, JInt n) \<Rightarrow>
            if n < 0 \<or> 2 ^ 63 \<le> n then Inl (service_error 422 ''invalid pickup slot revision'')
            else if n \<noteq> 0 then apply_slot now m terminal_id s n d else Inr d
        | _ \<Rightarrow> Inl (service_error 422 ''invalid pickup slot revision''))
      else Inr d)"

definition event_row :: "timestamp \<Rightarrow> string \<Rightarrow> device_event \<Rightarrow> int \<Rightarrow> terminal_event" where
  "event_row now digest m terminal_id =
     \<lparr>ev_terminal_id = terminal_id, ev_event_id = de_event_id m, ev_boot_id = de_boot_id m,
      ev_sequence = de_sequence m, ev_event_type = de_type m, ev_occurred_at = de_occurred_at m,
      ev_received_at = now, ev_payload_digest = digest, ev_payload_json = de_body m\<rparr>"

text \<open>A new event: the order first, then the inventory version, then the pickup slot.\<close>

definition apply_event ::
  "externals \<Rightarrow> timestamp \<Rightarrow> uuid \<Rightarrow> uuid \<Rightarrow> device_event \<Rightarrow> int \<Rightarrow> db \<Rightarrow> err + json \<times> db" where
  "apply_event x now rid nid m terminal_id d =
     bind_ok (reconcile_order_event x now rid nid terminal_id (de_body m) (de_type m) d) (\<lambda>(ot, d1).
     bind_ok (note_inventory m terminal_id d1) (\<lambda>d2.
     bind_ok (note_pickup now m terminal_id d2) (\<lambda>d3.
       Inr (JObj [(''ok'', JBool True), (''duplicate'', JBool False),
         (''commandTransition'', dget (dict_of ot) ''commandTransition''), (''orderTransition'', ot)], d3))))"

text \<open>
  What the progress cache did with an event: no cache or not stored, stored, or the text of the
  ValueError of an invalid progress.
\<close>

definition progress_reply :: "string + bool \<Rightarrow> err + json" where
  "progress_reply cached =
     (case cached of Inl msg \<Rightarrow> Inl (service_error 422 msg)
      | Inr b \<Rightarrow> Inr (JObj [(''ok'', JBool True),
          (''telemetryMode'', JStr (if b then ''redis-progress'' else ''progress-unavailable'')),
          (''dropped'', JBool (\<not> b))]))"

definition device_event_message ::
  "externals \<Rightarrow> timestamp \<Rightarrow> uuid \<Rightarrow> uuid \<Rightarrow> string + bool \<Rightarrow> string \<Rightarrow> device_event \<Rightarrow> device_identity \<Rightarrow> db
    \<Rightarrow> err + json \<times> db" where
  "device_event_message x now rid nid cached device_id m i d =
     (if de_device_id m \<noteq> device_id then Inl (service_error 400 ''payload deviceId mismatch'')
      else if de_type m = ''task.progress'' then bind_ok (progress_reply cached) (\<lambda>v. Inr (v, d))
      else
        let digest = canonical_digest x (JObj (de_body m)) in
        case find_event (id_terminal i) (de_event_id m) d of
          Some e \<Rightarrow>
            if py_strip (ev_payload_digest e) \<noteq> digest then Inl (service_error 409 ''eventId payload conflict'')
            else Inr (duplicate_event, d)
        | None \<Rightarrow>
            (case insert_event (event_row now digest m (id_terminal i)) d of
               (False, d1) \<Rightarrow>
                 (case find_event (id_terminal i) (de_event_id m) d1 of
                    None \<Rightarrow> Inl (service_error 409 ''eventId payload conflict'')
                  | Some e \<Rightarrow>
                      if py_strip (ev_payload_digest e) \<noteq> digest
                      then Inl (service_error 409 ''eventId payload conflict'')
                      else Inr (duplicate_event, d1))
             | (True, d1) \<Rightarrow> apply_event x now rid nid m (id_terminal i) d1))"

section \<open>Acknowledgements and results\<close>

definition task_ack ::
  "externals \<Rightarrow> timestamp \<Rightarrow> uuid \<Rightarrow> uuid \<Rightarrow> device_identity \<Rightarrow> string \<Rightarrow> dict \<Rightarrow> db \<Rightarrow> err + json \<times> db" where
  "task_ack x now rid nid i task_id body d =
     bind_ok (reconcile_order_ack x now rid nid (id_terminal i) task_id body d) (\<lambda>(v, d1).
       let r = dict_of v; c = dict_of (dget r ''commandTransition'')
       in Inr (JObj [(''ok'', JBool True), (''duplicate'', JBool (truthy (dget r ''duplicate''))),
            (''stale'', JBool (truthy (dget r ''stale''))), (''taskId'', JStr task_id),
            (''deviceId'', JStr (id_device i)), (''commandStatus'', dget c ''status''),
            (''revision'', dget c ''revision'')], d1))"

definition command_result ::
  "timestamp \<Rightarrow> device_identity \<Rightarrow> string \<Rightarrow> string \<Rightarrow> dict \<Rightarrow> db \<Rightarrow> err + json \<times> db" where
  "command_result now i message_id status body d =
     (case command_by_message (id_terminal i) message_id d of
        None \<Rightarrow> Inl (service_error 404 ''command not found'')
      | Some c \<Rightarrow>
          if c_command_type c = ''MAKE_DRINK''
          then Inl (service_error 409 ''MAKE_DRINK requires task acknowledgement or lifecycle events'')
          else bind_ok (transition_command now c (result_state (Some status)) ''device-result'' (Some status)
              (Some (JObj body)) True d)
            (\<lambda>((u, dup), d1). Inr (JObj [(''ok'', JBool True), (''duplicate'', JBool dup),
               (''status'', JStr (command_name (c_status u))), (''revision'', JInt (c_revision u))], d1)))"

end
