(* ===== verification/DeviceSafety.thy ===== *)
theory DeviceSafety
  imports DeviceMessages WorkerMoney
begin

text \<open>
  What the messages of a device may do to the drinks and the money: everything a device sends keeps
  both invariants (\<open>steady\<close>), an event counts once however often it is sent, a poll hands out only
  what may still be delivered, and a late heartbeat of the same boot does not turn the sequence back.
\<close>

section \<open>Steady operations\<close>

definition steady :: "db \<Rightarrow> db \<Rightarrow> bool" where
  "steady d d' \<longleftrightarrow> (line_inv d \<longrightarrow> line_inv d') \<and> money_keeps d d'"

lemma steady_refl [simp]: "steady d d"
  by (simp add: steady_def)

lemma steady_trans: "steady d d1 \<Longrightarrow> steady d1 d2 \<Longrightarrow> steady d d2"
  by (auto simp: steady_def intro: money_keeps_trans)

lemma steady_frame:
  "line_of d' = line_of d \<Longrightarrow> line_ids d' = line_ids d \<Longrightarrow> money_same d d' \<Longrightarrow> steady d d'"
  by (auto simp: steady_def intro: line_inv_same money_same_keeps)

lemma steady_line: "steady d d' \<Longrightarrow> line_inv d \<Longrightarrow> line_inv d'"
  by (simp add: steady_def)

lemma steady_money: "steady d d' \<Longrightarrow> money_inv d \<Longrightarrow> money_inv d'"
  by (auto simp: steady_def intro: money_keeps_inv)

lemma steady_terminal:
  assumes "\<And>t. t_id (f t) = t_id t"
  shows "steady d (update_terminal k f d)"
proof (rule steady_frame)
  show "line_of (update_terminal k f d) = line_of d"
    by (simp add: update_terminal_def line_of_def find_order_def lock_job_def find_command_def)
  show "line_ids (update_terminal k f d) = line_ids d"
    using assms by (simp add: update_terminal_def line_ids_def map_update_rows)
qed simp

lemma steady_enqueue [simp]: "steady d (enqueue_dispatch now t why d)"
  by (rule steady_frame)
    (simp_all add: enqueue_dispatch_def update_dispatch_def line_of_def find_order_def lock_job_def
      find_command_def line_ids_def money_same_def split: option.splits)

lemma steady_request [simp]: "steady d (request_dispatch now t why d)"
  by (simp add: request_dispatch_def)

lemma reconcile_event_steady:
  "reconcile_device_event x now rid nid terminal_id body event_type d = Inr (v, d') \<Longrightarrow> steady d d'"
  using reconcile_device_event_cases[of d] reconcile_device_event_keeps by (fastforce simp: steady_def)

lemma expire_steady:
  "expire_order_for_command x now rid nid k d = Inr (v, d') \<Longrightarrow> steady d d'"
  using expire_line expire_keeps by (auto simp: steady_def)

section \<open>Delivering a command\<close>

lemma line_ok_move_linked:
  assumes ok: "line_ok L"
    and fit: "\<And>i v os. ln_jobs L i = Some v \<Longrightarrow> jv_command v = Some k \<Longrightarrow>
      ln_orders L (jv_order v) = Some os \<Longrightarrow> coherent os (jv_status v) (Some cs)"
  shows "line_ok (move_command k cs L)"
proof -
  have "drink_ok (move_command k cs L) v" if "ln_jobs L i = Some v" for i v
    using line_ok_drink[OF ok that] fit[OF that] by (auto simp: drink_ok_def split: option.splits)
  then show ?thesis using ok unfolding line_ok_def move_sel by blast
qed

lemma coherent_deliver:
  "coherent os js (Some c) \<Longrightarrow> c \<in> set [C_CREATED, C_DELIVERING, C_PUBLISHED] \<Longrightarrow>
    cs \<in> set [C_DELIVERING, C_PUBLISHED] \<Longrightarrow> coherent os js (Some cs)"
  by (cases js) auto

lemma deliver_line:
  assumes inv: "line_inv d" and c: "find_command k d = Some c"
    and st: "c_status c \<in> set [C_CREATED, C_DELIVERING, C_PUBLISHED]" and cs: "cs \<in> set [C_DELIVERING, C_PUBLISHED]"
    and l: "line_of d' = move_command k cs (line_of d)" and i: "line_ids d' = line_ids d"
  shows "line_inv d'"
proof (rule line_invI[OF _ i inv])
  have ok: "line_ok (line_of d)" using inv by (simp add: line_inv_def)
  show "line_ok (line_of d')" unfolding l
  proof (rule line_ok_move_linked[OF ok])
    fix j v os
    assume j: "ln_jobs (line_of d) j = Some v" "jv_command v = Some k" "ln_orders (line_of d) (jv_order v) = Some os"
    have "coherent os (jv_status v) (Some (c_status c))"
      by (rule drink_okE[OF line_ok_drink[OF ok j(1)] j(2)]) (use j(3) ln_commandsI[OF c] in auto)
    then show "coherent os (jv_status v) (Some cs)" using st cs by (rule coherent_deliver)
  qed
qed

lemma deliver_steady:
  assumes run: "transition_command now c tgt actor why payload True d = Inr ((u, dup), d')"
    and c: "find_command k d = Some c" and st: "c_status c \<in> set [C_CREATED, C_DELIVERING, C_PUBLISHED]"
    and tgt: "tgt \<in> set [C_DELIVERING, C_PUBLISHED]"
  shows "steady d d'"
proof -
  have k: "c_id c = k" using find_command_SomeD[OF c] by simp
  have cc: "ln_commands (line_of d) (c_id c) = Some (command_view c)" using c by (simp add: k ln_commandsI)
  have "line_inv d'" if inv: "line_inv d"
    by (rule deliver_line[OF inv c st tgt])
      (use line_of_transition_command[OF run cc] line_ids_transition_command[OF run] k in auto)
  then show ?thesis using transition_command_same[OF run] by (auto simp: steady_def intro: money_same_keeps)
qed

text \<open>A command that is not a drink belongs to no job and moves alone.\<close>

lemma no_drink_free:
  assumes inv: "line_inv d" and c: "find_command k d = Some c" and ty: "c_command_type c \<noteq> ''MAKE_DRINK''"
    and v: "ln_jobs (line_of d) i = Some v"
  shows "jv_command v \<noteq> Some k"
proof
  assume k: "jv_command v = Some k"
  have ok: "line_ok (line_of d)" using inv by (simp add: line_inv_def)
  show False
    by (rule drink_okE[OF line_ok_drink[OF ok v] k]) (use ln_commandsI[OF c] ty in \<open>auto simp: command_view_def\<close>)
qed

lemma free_command_steady:
  assumes run: "transition_command now c tgt actor why payload strict d = Inr ((u, dup), d')"
    and mem: "c \<in> set (commands d)" and ty: "c_command_type c \<noteq> ''MAKE_DRINK''"
  shows "steady d d'"
proof -
  have "line_inv d'" if inv: "line_inv d"
  proof -
    have c: "find_command (c_id c) d = Some c" using inv mem by (auto simp: line_inv_def find_command_mem)
    have "line_ok (move_command (c_id c) (c_status u) (line_of d))"
      using inv no_drink_free[OF inv c ty] by (intro line_ok_move_command) (auto simp: line_inv_def)
    with line_of_transition_command(1)[OF run ln_commandsI[OF c]] line_ids_transition_command[OF run] inv
    show ?thesis by (auto simp: line_inv_def)
  qed
  then show ?thesis using transition_command_same[OF run] by (auto simp: steady_def intro: money_same_keeps)
qed

section \<open>Events\<close>

text \<open>What only devices write: no operation of the production service touches it.\<close>

definition device_same :: "db \<Rightarrow> db \<Rightarrow> bool" where
  "device_same d d' \<longleftrightarrow> events d' = events d \<and> heartbeats d' = heartbeats d \<and> snapshots d' = snapshots d
     \<and> watermarks d' = watermarks d \<and> slots d' = slots d \<and> terminals d' = terminals d
     \<and> adjudications d' = adjudications d"

lemma device_same_production:
  assumes "production_part d' = production_part d"
  shows "device_same d d'"
  using assms[unfolded production_part_def, THEN arg_cong, of events]
    assms[unfolded production_part_def, THEN arg_cong, of heartbeats]
    assms[unfolded production_part_def, THEN arg_cong, of snapshots]
    assms[unfolded production_part_def, THEN arg_cong, of watermarks]
    production_part_sel(8,9,11)[OF assms]
  by (simp add: device_same_def)

lemma transition_order_device:
  "transition_order now r tgt actor why payload d = Inr (r', d') \<Longrightarrow> device_same d d'"
  by (erule transition_order_cases) (simp_all add: device_same_def update_order_def)

lemma transition_command_device:
  "transition_command now c tgt actor why payload strict d = Inr (v, d') \<Longrightarrow> device_same d d'"
  by (cases v; cases "fst v"; simp; erule transition_command_cases) (simp_all add: device_same_def update_command_def)

interpretation dsame: refund_frame device_same
proof
  show "device_same d d'"
    if "transition_order now r tgt actor rsn payload d = Inr (r', d')" for now r tgt actor rsn payload d r' d'
    using that by (rule transition_order_device)
  show "device_same d d'"
    if "transition_command now c cst actor crsn pl strict d = Inr (w, d')" for now c cst actor crsn pl strict d w d'
    using that by (rule transition_command_device)
  show "device_same d d'" if "insert_command now n m ty cp dg ex key d = Inr (c', d')"
    for now n m ty cp dg ex key d c' d'
    using that by (auto simp: insert_command_def Let_def bind_ok_Inr device_same_def)
  show "device_same d d'" if "append_command_log l d = Inr d'" for l d d'
    using that by (auto simp: append_command_log_def bind_ok_Inr device_same_def)
  show "device_same d d'" if "insert_outbox now b k t topic env d = Inr d'" for now b k t topic env d d'
    using that by (auto simp: insert_outbox_def bind_ok_Inr device_same_def split: if_splits option.splits)
  show "device_same d d'" if "ensure_automatic_refund_intent x now rid nid pid key why who d = Inr (i, d')"
    for x now rid nid pid key why who d i d'
    using ensure_production[OF that] by (rule device_same_production)
qed (auto simp: device_same_def update_order_def update_job_def enqueue_dispatch_def update_dispatch_def
    update_outbox_def split: option.splits)

lemma steady_order:
  assumes "\<And>r. o_id (f r) = o_id r" and "\<And>r. o_status (f r) = o_status r"
    and "\<And>r. o_terminal_id (f r) = o_terminal_id r"
  shows "steady d (update_order k f d)"
proof (rule steady_frame)
  show "line_of (update_order k f d) = line_of d" by (rule line_of_update_order) (simp_all add: assms)
  show "line_ids (update_order k f d) = line_ids d" by (rule line_ids_update_order) (simp_all add: assms)
qed simp

lemma apply_pickup_steady:
  assumes "apply_pickup now terminal_id n st task_id collected d = Inr d'"
  shows "steady d d'" and "events d' = events d"
proof -
  define d1 where "d1 = (case job_for_task terminal_id task_id d of
            None \<Rightarrow> d
          | Some (_, r) \<Rightarrow> update_order (o_id r)
              (\<lambda>r. r\<lparr>o_pickup_required := True,
                 o_collected_at := (if collected then coalesce (o_collected_at r) (Some now)
                   else o_collected_at r)\<rparr>) d)"
  have 1: "steady d d1" by (auto simp: d1_def intro!: steady_order split: option.split)
  have e1: "events d1 = events d" by (auto simp: d1_def update_order_def split: option.split)
  obtain g where d': "d' = slots_update g d1 \<or> d' = d1"
    using assms unfolding apply_pickup_def Let_def d1_def[symmetric]
    by (cases "find_slot terminal_id d1") (auto split: if_splits)
  have "steady d1 (slots_update g d1)"
    by (rule steady_frame)
      (simp_all add: line_of_def find_order_def lock_job_def find_command_def line_ids_def money_same_def)
  with 1 d' show "steady d d'" by (auto intro: steady_trans)
  show "events d' = events d" using d' e1 by auto
qed

lemma note_inventory_steady:
  assumes "note_inventory m k d = Inr d'"
  shows "steady d d'" and "events d' = events d"
proof -
  have w: "steady d (require_inventory_version k v d)" for v
    by (rule steady_frame)
      (simp_all add: require_inventory_version_def line_of_def find_order_def lock_job_def find_command_def
        line_ids_def money_same_def)
  have e: "events (require_inventory_version k v d) = events d" for v
    by (simp add: require_inventory_version_def)
  show "steady d d'" "events d' = events d"
    using assms w e by (auto simp: note_inventory_def Let_def split: if_splits json.splits)
qed

lemma apply_slotE:
  assumes "apply_slot now m k slot n d = Inr d'"
  obtains st task_id collected d1 where "apply_pickup now k n st task_id collected d = Inr d1"
    and "d' = d1 \<or> d' = request_dispatch now k ''pickup-collected'' d1"
proof -
  obtain known where rest: "(case (dget slot ''state'', dget slot ''taskId'') of
     (JStr st, JStr task_id) \<Rightarrow>
       if \<not> known \<or> task_id = [] then Inl (service_error 422 ''invalid pickup slot'')
       else
         let collected = (de_type m = ''pickup.collected'') in
         if collected \<and> (st \<noteq> ''EMPTY'' \<or> JStr task_id \<noteq> dget (inner_payload m) ''taskId'')
         then Inl (service_error 422 ''pickup confirmation does not match task'')
         else (case apply_pickup now k n st task_id collected d of
             Inl e \<Rightarrow> Inl (if e = Pickup_conflict then service_error 409 pickup_conflict_text else e)
           | Inr d1 \<Rightarrow> Inr (if collected then request_dispatch now k ''pickup-collected'' d1 else d1))
   | _ \<Rightarrow> Inl (service_error 422 ''invalid pickup slot'')) = Inr d'"
    using assms unfolding apply_slot_def by (auto simp only: bind_ok_Inr)
  then obtain st task_id where "(case apply_pickup now k n st task_id (de_type m = ''pickup.collected'') d of
             Inl e \<Rightarrow> Inl (if e = Pickup_conflict then service_error 409 pickup_conflict_text else e)
           | Inr d1 \<Rightarrow> Inr (if de_type m = ''pickup.collected'' then request_dispatch now k ''pickup-collected'' d1
               else d1)) = Inr d'"
    by (cases "dget slot ''state''"; cases "dget slot ''taskId''") (auto simp only: json.case prod.case Let_def
      sum.distinct split: if_split_asm)
  then show thesis
    by (cases "apply_pickup now k n st task_id (de_type m = ''pickup.collected'') d") (auto intro: that split: if_split_asm)
qed

lemma apply_slot_steady:
  assumes "apply_slot now m k slot n d = Inr d'"
  shows "steady d d'" and "events d' = events d"
proof -
  obtain st task_id collected d1 where a: "apply_pickup now k n st task_id collected d = Inr d1"
    and d': "d' = d1 \<or> d' = request_dispatch now k ''pickup-collected'' d1"
    by (rule apply_slotE[OF assms])
  have e: "events (request_dispatch now k w d1) = events d1" for w
    by (simp add: request_dispatch_def enqueue_dispatch_def update_dispatch_def split: option.split)
  show "steady d d'" using apply_pickup_steady(1)[OF a] d' by (auto intro: steady_trans)
  show "events d' = events d" using apply_pickup_steady(2)[OF a] d' e by auto
qed

lemma note_pickup_steady:
  assumes "note_pickup now m k d = Inr d'"
  shows "steady d d'" and "events d' = events d"
proof -
  have "d' = d \<or> (\<exists>slot n. apply_slot now m k slot n d = Inr d')"
    using assms by (auto simp: note_pickup_def Let_def split: if_splits json.splits)
  then show "steady d d'" "events d' = events d" using apply_slot_steady by auto
qed

lemma apply_event_steady:
  assumes "apply_event x now rid nid m k d = Inr (v, d')"
  shows "steady d d'" and "events d' = events d"
proof -
  obtain ot d1 d2 where r: "reconcile_device_event x now rid nid k (de_body m) (de_type m) d = Inr (ot, d1)"
    and n: "note_inventory m k d1 = Inr d2" and p: "note_pickup now m k d2 = Inr d'"
    using assms by (auto simp: apply_event_def reconcile_order_event_def bind_ok_Inr)
  show "steady d d'"
    using reconcile_event_steady[OF r] note_inventory_steady(1)[OF n] note_pickup_steady(1)[OF p]
    by (blast intro: steady_trans)
  show "events d' = events d"
    using dsame.device_event[OF r] note_inventory_steady(2)[OF n] note_pickup_steady(2)[OF p]
    by (simp add: device_same_def)
qed

lemma new_event_steady: "steady d (d\<lparr>events := es\<rparr>)"
  by (rule steady_frame)
    (simp_all add: line_of_def find_order_def lock_job_def find_command_def line_ids_def money_same_def)

lemma device_event_message_cases:
  assumes "device_event_message x now rid nid cached device_id m i d = Inr (v, d')"
    and "de_type m \<noteq> ''task.progress''"
  obtains (known) e where "de_device_id m = device_id" "find_event (id_terminal i) (de_event_id m) d = Some e"
      "py_strip (ev_payload_digest e) = canonical_digest x (JObj (de_body m))" "d' = d" "v = duplicate_event"
  | (new) "de_device_id m = device_id" "find_event (id_terminal i) (de_event_id m) d = None"
      "apply_event x now rid nid m (id_terminal i)
         (d\<lparr>events := events d @ [event_row now (canonical_digest x (JObj (de_body m))) m (id_terminal i)]\<rparr>)
       = Inr (v, d')"
  using assms
  by (auto simp: device_event_message_def insert_event_def event_row_def Let_def split: if_splits option.splits)






lemma device_event_message_steady:
  assumes run: "device_event_message x now rid nid cached device_id m i d = Inr (v, d')"
  shows "steady d d'"
proof (cases "de_type m = ''task.progress''")
  case True
  with run show ?thesis by (auto simp: device_event_message_def bind_ok_Inr split: if_splits)
next
  case False
  from run this show ?thesis
    by (cases rule: device_event_message_cases)
      (auto intro: steady_trans[OF new_event_steady apply_event_steady(1)])
qed

lemma task_ack_steady:
  "task_ack x now rid nid i task_id body d = Inr (v, d') \<Longrightarrow> steady d d'"
  by (auto simp: task_ack_def reconcile_order_ack_def bind_ok_Inr Let_def
      split: json.splits option.splits if_splits dest: reconcile_event_steady)

lemma command_result_steady:
  assumes "command_result now i message_id status body d = Inr (v, d')"
  shows "steady d d'"
proof -
  obtain c u dup where c: "command_by_message (id_terminal i) message_id d = Some c"
    and ty: "c_command_type c \<noteq> ''MAKE_DRINK''"
    and run: "transition_command now c (result_state (Some status)) ''device-result'' (Some status)
              (Some (JObj body)) True d = Inr ((u, dup), d')"
    using assms by (auto simp: command_result_def bind_ok_Inr split: option.splits if_splits)
  have "c \<in> set (commands d)" using c by (auto simp: command_by_message_def dest: find_row_SomeD)
  then show ?thesis by (rule free_command_steady[OF run _ ty])
qed

section \<open>Polling\<close>

text \<open>What of a command never changes.\<close>

definition command_core :: "terminal_command \<Rightarrow> int \<times> string \<times> string \<times> dict \<times> timestamp option" where
  "command_core c = (c_terminal_id c, c_message_id c, c_command_type c, c_payload_json c, c_expires_at c)"

definition cores_kept :: "db \<Rightarrow> db \<Rightarrow> bool" where
  "cores_kept d d' \<longleftrightarrow> (\<forall>k c. find_command k d = Some c \<longrightarrow>
     (\<exists>c'. find_command k d' = Some c' \<and> command_core c' = command_core c))"

lemma cores_kept_same: "commands d' = commands d \<Longrightarrow> cores_kept d d'"
  by (simp add: cores_kept_def find_command_def)

lemma transition_command_core:
  assumes "transition_command now c tgt actor why payload strict d = Inr (v, d')"
  shows "cores_kept d d'" and "k \<noteq> c_id c \<Longrightarrow> find_command k d' = find_command k d"
proof -
  have "cores_kept d d' \<and> (k \<noteq> c_id c \<longrightarrow> find_command k d' = find_command k d)"
  proof (cases "d' = d")
    case True
    then show ?thesis by (simp add: cores_kept_same)
  next
    case False
    obtain u dup where v: "v = (u, dup)" by (cases v)
    obtain f l where d': "d' = command_log_update l (update_command (c_id c) f d)"
      and f: "f = transitioned now c tgt payload"
      using assms[unfolded v] False by (cases rule: transition_command_cases) auto
    have fc: "find_command k2 d' = find_command k2 (update_command (c_id c) f d)" for k2
      by (simp add: d' find_command_def)
    show ?thesis
      by (auto simp: cores_kept_def fc find_command_update_command f transitioned_def command_core_def)
  qed
  then show "cores_kept d d'" "k \<noteq> c_id c \<Longrightarrow> find_command k d' = find_command k d" by auto
qed

interpretation ckept: refund_frame cores_kept
proof
  show "cores_kept d d2" if "cores_kept d d1" "cores_kept d1 d2" for d d1 d2
    using that by (fastforce simp: cores_kept_def)
  show "cores_kept d d'" if "transition_order now r tgt actor rsn payload d = Inr (r', d')"
    for now r tgt actor rsn payload d r' d'
    using that by (rule transition_order_cases) (simp_all add: cores_kept_same update_order_def)
  show "cores_kept d d'" if "transition_command now c cst actor crsn pl strict d = Inr (w, d')"
    for now c cst actor crsn pl strict d w d'
    using that by (rule transition_command_core)
  show "cores_kept d d'" if "insert_command now n m ty cp dg ex key d = Inr (c', d')"
    for now n m ty cp dg ex key d c' d'
    using that by (auto simp: insert_command_def Let_def bind_ok_Inr insert_row_Inr cores_kept_def
        find_command_def find_row_append)
  show "cores_kept d d'" if "append_command_log l d = Inr d'" for l d d'
    using that by (auto simp: append_command_log_def bind_ok_Inr intro: cores_kept_same)
  show "cores_kept d d'" if "insert_outbox now b k t topic env d = Inr d'" for now b k t topic env d d'
    using that by (auto simp: insert_outbox_def bind_ok_Inr intro: cores_kept_same split: if_splits option.splits)
  show "cores_kept d d'" if "ensure_automatic_refund_intent x now rid nid pid key why who d = Inr (i, d')"
    for x now rid nid pid key why who d i d'
    using production_part_sel(3)[OF ensure_production[OF that]] by (rule cores_kept_same)
qed (auto simp: update_order_def update_job_def enqueue_dispatch_def update_dispatch_def
    update_outbox_def intro!: cores_kept_same split: option.splits)

lemma expire_others:
  assumes inv: "line_inv d" and run: "expire_order_for_command x now rid nid k d = Inr (v, d')" and k: "k' \<noteq> k"
  shows "map_option c_status (find_command k' d') = map_option c_status (find_command k' d)"
proof -
  have "ln_commands (line_of d') k' = ln_commands (line_of d) k'"
    by (cases rule: expire_cases[OF inv run]) (use k in simp_all)
  then have "map_option command_view (find_command k' d') = map_option command_view (find_command k' d)"
    by (simp add: line_of_def)
  then show ?thesis by (cases "find_command k' d'"; cases "find_command k' d") (auto simp: command_view_def)
qed

text \<open>A command as it was selected, and as it is now.\<close>

definition unmoved :: "terminal_command \<Rightarrow> db \<Rightarrow> bool" where
  "unmoved c d \<longleftrightarrow> (\<exists>r. find_command (c_id c) d = Some r \<and> command_core r = command_core c \<and> c_status r = c_status c)"

lemma unmoved_core: "unmoved c d \<Longrightarrow> cores_kept d d' \<Longrightarrow>
    map_option c_status (find_command (c_id c) d') = map_option c_status (find_command (c_id c) d) \<Longrightarrow> unmoved c d'"
  unfolding unmoved_def cores_kept_def by fastforce

definition handed :: "timestamp \<Rightarrow> terminal_command \<Rightarrow> bool" where
  "handed now c \<longleftrightarrow> \<not> over (c_expires_at c) now \<and> c_status c \<in> set [C_CREATED, C_DELIVERING, C_PUBLISHED]"

definition delivered :: "terminal_command \<Rightarrow> db \<Rightarrow> bool" where
  "delivered c d \<longleftrightarrow> (\<exists>r. find_command (c_id c) d = Some r \<and> c_status r \<in> set [C_DELIVERING, C_PUBLISHED])"

lemma poll_one_result:
  assumes inv: "line_inv d" and c: "unmoved c d" and run: "poll_one x now ids c d = Inr (v, d')"
  shows "steady d d' \<and> v = (if handed now c then Some (c_payload_json c) else None)
    \<and> (handed now c \<longrightarrow> delivered c d')
    \<and> (\<forall>k. k \<noteq> c_id c \<longrightarrow> map_option c_status (find_command k d') = map_option c_status (find_command k d))
    \<and> cores_kept d d'"
proof (cases "over (c_expires_at c) now")
  case True
  with run obtain w where w: "expire_order_for_command x now (fst ids) (snd ids) (c_id c) d = Inr (w, d')" and v: "v = None"
    by (auto simp: poll_one_def bind_ok_Inr)
  show ?thesis
    using expire_steady[OF w] expire_others[OF inv w] ckept.expire[OF w] v True by (auto simp: handed_def)
next
  case False
  obtain r where r: "find_command (c_id c) d = Some r" and core: "command_core r = command_core c"
    and st: "c_status r = c_status c" using c unfolding unmoved_def by blast
  have ex: "c_expires_at r = c_expires_at c" and pl: "c_payload_json r = c_payload_json c"
    using core by (simp_all add: command_core_def)
  have id: "c_id r = c_id c" using find_command_SomeD[OF r] by simp
  note run1 = run[unfolded poll_one_def if_not_P[OF False] command_by_db_id_def r option.case ex]
  show ?thesis
  proof (cases "c_status r = C_CREATED")
    case True
    with run1 obtain u dup where t: "transition_command now r C_DELIVERING ''cloud'' (Some ''device polled command'')
          None True d = Inr ((u, dup), d')"
      and v: "v = (if c_status u \<in> set [C_DELIVERING, C_PUBLISHED] then Some (c_payload_json u) else None)"
      by (auto simp: bind_ok_Inr)
    have rr: "find_command (c_id r) d = Some r" using r by (simp add: id)
    have us: "c_status u = C_DELIVERING"
      using line_of_transition_command(2)[OF t ln_commandsI[OF rr]] by simp
    have up: "c_payload_json u = c_payload_json r" and dl: "delivered c d'"
    proof -
      have "c_payload_json u = c_payload_json r \<and> find_command (c_id r) d' = Some u"
        using t
      proof (cases rule: transition_command_cases)
        case (3 l c0)
        have "find_command k (e\<lparr>command_log := l\<rparr>) = find_command k e" for k e by (simp add: find_command_def)
        with 3 rr show ?thesis by (simp add: find_command_update_command)
      qed (use us True rr in auto)
      then show "c_payload_json u = c_payload_json r" "delivered c d'" using us id by (auto simp: delivered_def)
    qed
    have sd: "steady d d'" by (rule deliver_steady[OF t rr]) (use True in simp_all)
    show ?thesis
      using sd v us up dl True st False pl transition_command_core[OF t] id by (auto simp: handed_def)
  next
    case created: False
    with run1 have v: "v = (if c_status r \<in> set [C_DELIVERING, C_PUBLISHED] then Some (c_payload_json r) else None)"
      and d': "d' = d"
      by auto
    show ?thesis
      using v d' created st False pl r by (auto simp: handed_def delivered_def cores_kept_same)
  qed
qed

lemma poll_rows_result:
  assumes "line_inv d" and "distinct (map c_id cs)" and "\<forall>c \<in> set cs. unmoved c d"
    and "poll_rows x now ids cs out n d = (Inr (res, n'), d')"
  shows "steady d d' \<and> res = out @ map c_payload_json (filter (handed now) cs) \<and> n' = last (n # map c_id cs)
    \<and> (\<forall>c \<in> set cs. handed now c \<longrightarrow> delivered c d')
    \<and> (\<forall>k. k \<notin> c_id ` set cs \<longrightarrow> map_option c_status (find_command k d') = map_option c_status (find_command k d))"
  using assms
proof (induction cs arbitrary: out n d)
  case Nil
  then show ?case by simp
next
  case (Cons c cs)
  obtain w where w: "poll_one x now (ids (length cs)) c d = Inr w"
    using Cons.prems(4) by (cases "poll_one x now (ids (length cs)) c d") simp_all
  obtain v d1 where vd: "w = (v, d1)" by (cases w)
  note one = w[unfolded vd]
  have rest: "poll_rows x now ids cs (case v of None \<Rightarrow> out | Some p \<Rightarrow> out @ [p]) (c_id c) d1 = (Inr (res, n'), d')"
    using Cons.prems(4) unfolding poll_rows.simps one by simp
  have "unmoved c d" using Cons.prems(3) by simp
  note P = poll_one_result[OF Cons.prems(1) this one]
  note P1 = P[THEN conjunct1] and P2 = P[THEN conjunct2, THEN conjunct1]
    and P3 = P[THEN conjunct2, THEN conjunct2, THEN conjunct1, rule_format]
    and P4 = P[THEN conjunct2, THEN conjunct2, THEN conjunct2, THEN conjunct1, rule_format]
    and P5 = P[THEN conjunct2, THEN conjunct2, THEN conjunct2, THEN conjunct2]
  have inv1: "line_inv d1" by (rule steady_line[OF P1 Cons.prems(1)])
  have far: "c_id c \<notin> c_id ` set cs" using Cons.prems(2) by simp
  have un: "\<forall>c' \<in> set cs. unmoved c' d1"
  proof
    fix c' assume c': "c' \<in> set cs"
    then have ne: "c_id c' \<noteq> c_id c" using far by (auto simp: rev_image_eqI)
    have "unmoved c' d" using Cons.prems(3) c' by simp
    from unmoved_core[OF this P5 P4[OF ne]] show "unmoved c' d1" .
  qed
  have "distinct (map c_id cs)" using Cons.prems(2) by simp
  note IH = Cons.IH[OF inv1 this un rest]
  note I1 = IH[THEN conjunct1] and I2 = IH[THEN conjunct2, THEN conjunct1]
    and I3 = IH[THEN conjunct2, THEN conjunct2, THEN conjunct1]
    and I4 = IH[THEN conjunct2, THEN conjunct2, THEN conjunct2, THEN conjunct1]
    and I5 = IH[THEN conjunct2, THEN conjunct2, THEN conjunct2, THEN conjunct2, rule_format]
  have a: "steady d d'" by (rule steady_trans[OF P1 I1])
  have b: "res = out @ map c_payload_json (filter (handed now) (c # cs))"
    unfolding I2 P2 by simp
  have e: "n' = last (n # map c_id (c # cs))" unfolding I3 by simp
  have f: "delivered c d'" if hd: "handed now c"
  proof -
    obtain r where r: "find_command (c_id c) d1 = Some r" "c_status r \<in> set [C_DELIVERING, C_PUBLISHED]"
      using P3[OF hd] unfolding delivered_def by blast
    have "map_option c_status (find_command (c_id c) d') = Some (c_status r)" unfolding I5[OF far] r(1) by simp
    then obtain q where "find_command (c_id c) d' = Some q" "c_status q = c_status r" by auto
    with r(2) show ?thesis unfolding delivered_def by metis
  qed
  have g: "map_option c_status (find_command k d') = map_option c_status (find_command k d)"
    if k: "k \<notin> c_id ` set (c # cs)" for k
  proof -
    have "k \<noteq> c_id c" "k \<notin> c_id ` set cs" using k by simp_all
    from I5[OF this(2)] P4[OF this(1)] show ?thesis by (rule trans)
  qed
  have h: "\<forall>c \<in> set (c # cs). handed now c \<longrightarrow> delivered c d'" using I4 f by simp
  show ?case by (intro conjI a b e h allI impI g)
qed

lemma commands_after_rows:
  assumes "line_inv d"
  shows "distinct (map c_id (commands_after t n limit d))" and "\<forall>c \<in> set (commands_after t n limit d). unmoved c d"
proof -
  have ids: "distinct (map c_id (commands d))" using assms by (simp add: line_inv_def ids_ok_def line_ids_def)
  let ?rows = "sort_key c_id (filter (\<lambda>c. c_terminal_id c = t \<and> n < c_id c) (commands d))"
  have "mset (map c_id ?rows) = mset (map c_id (filter (\<lambda>c. c_terminal_id c = t \<and> n < c_id c) (commands d)))" by simp
  then have "distinct (map c_id ?rows)" using ids mset_eq_imp_distinct_iff distinct_map_filter by blast
  then show "distinct (map c_id (commands_after t n limit d))"
    by (simp add: commands_after_def take_map[symmetric])
  show "\<forall>c \<in> set (commands_after t n limit d). unmoved c d"
    using assms by (auto simp: commands_after_def unmoved_def line_inv_def find_command_mem dest!: in_set_takeD)
qed

text \<open>C34 A poll hands out exactly the selected commands that are not over and may still be delivered, in
  the order they were made, and gives the number of the last selected one as the next cursor. A
  command that was handed out is marked as being delivered, so it is never treated as unsent again.\<close>

theorem poll_hands_out_live:
  assumes inv: "line_inv d" and run: "poll_commands x now ids i after limit d = (Inr v, d')"
  shows "v = JObj [(''commands'', JArr (map (\<lambda>c. JObj (c_payload_json c))
        (filter (handed now) (commands_after (id_terminal i) (poll_cursor after) limit d)))),
      (''nextCursor'', JStr (str_int (last (poll_cursor after
        # map c_id (commands_after (id_terminal i) (poll_cursor after) limit d)))))]
    \<and> (\<forall>c \<in> set (filter (handed now) (commands_after (id_terminal i) (poll_cursor after) limit d)). delivered c d')
    \<and> line_inv d'"
proof -
  obtain res n' where r: "poll_rows x now ids (commands_after (id_terminal i) (poll_cursor after) limit d) []
      (poll_cursor after) d = (Inr (res, n'), d')"
    and v: "v = JObj [(''commands'', JArr (map JObj res)), (''nextCursor'', JStr (str_int n'))]"
    using run by (auto simp: poll_commands_def Let_def split: prod.splits sum.splits)
  note P = poll_rows_result[OF inv commands_after_rows[OF inv] r]
  then have "line_inv d'" using inv steady_line by blast
  with P v show ?thesis by (simp add: comp_def del: filter.simps)
qed

definition sample_poll :: "(err + json) \<times> db" where
  "sample_poll = poll_commands sample_x 300 (\<lambda>_. (Uuid ''a'', Uuid ''b'')) (identity_of sample_terminal) '' 0''
     10 sample_dispatched_db"

theorem poll_hands_out_live_witness:
  "fst sample_poll = Inr (JObj [(''commands'', JArr [JObj [(''taskId'', JStr ''task-1'')]]), (''nextCursor'', JStr ''1'')])
    \<and> line_inv (snd sample_poll) \<and> delivered sample_command (snd sample_poll)"
proof -
  have "\<not> isl (fst sample_poll)" by code_simp
  then obtain v where v: "sample_poll = (Inr v, snd sample_poll)" by (metis prod.collapse run_ok)
  note P = poll_hands_out_live[OF sample_line_inv(2) v[unfolded sample_poll_def]]
  have rows: "filter (handed 300) (commands_after (id_terminal (identity_of sample_terminal)) (poll_cursor '' 0'') 10
      sample_dispatched_db) = [sample_command]"
    "commands_after (id_terminal (identity_of sample_terminal)) (poll_cursor '' 0'') 10
      sample_dispatched_db = [sample_command]" by code_simp+
  have n: "str_int (last (poll_cursor '' 0'' # map c_id [sample_command])) = ''1''" by code_simp
  have pl: "c_payload_json sample_command = [(''taskId'', JStr ''task-1'')]" by (simp add: sample_command_def)
  have "fst sample_poll = Inr v" using v by (metis fst_conv)
  have h: "handed 300 sample_command" by code_simp
  from P[folded sample_poll_def, unfolded rows n] \<open>fst sample_poll = Inr v\<close> show ?thesis by (simp add: pl h)
qed

section \<open>Heartbeats\<close>


lemma came_online_frame:
  "terminals (came_online now i d) = terminals d" "heartbeats (came_online now i d) = heartbeats d"
  "steady d (came_online now i d)"
  "id_connection i \<noteq> Some ''online'' \<Longrightarrow> find_dispatch (id_terminal i) (came_online now i d) \<noteq> None"
  by (simp_all add: came_online_def)
    (simp_all add: request_dispatch_def enqueue_dispatch_def update_dispatch_def enqueue_dispatch_found
      split: option.split)

lemma apply_heartbeat_steady: "steady d (apply_heartbeat now m i d)"
  unfolding apply_heartbeat_def Let_def touch_online_def update_from_heartbeat_def
  by (simp add: steady_terminal)

lemma heartbeats_steady: "steady d (d\<lparr>heartbeats := hs\<rparr>)"
  by (rule steady_frame)
    (simp_all add: line_of_def find_order_def lock_job_def find_command_def line_ids_def money_same_def)

text \<open>An accepted heartbeat: seen before, or new and applied.\<close>

lemma heartbeat_cases:
  assumes "heartbeat x now url device_id m i persist_history d = Inr (v, d')"
  obtains (known) h :: heartbeat_row where "v = heartbeat_reply x now url True (hb_disposition h)"
      "d' = came_online now i (touch_online (id_terminal i) now None d)"
  | (new) hs where "v = heartbeat_reply x now url False
        (if heartbeat_out_of_order m i then ''OUT_OF_ORDER'' else ''ACCEPTED'')"
      "d' = came_online now i (apply_heartbeat now m i (d\<lparr>heartbeats := hs\<rparr>))"
proof (cases "if persist_history then find_heartbeat (id_terminal i)
    (heartbeat_message_id m (canonical_digest x (JObj (hm_body m)))) d else None")
  case (Some h)
  with assms show thesis by (intro known[of h]) (auto simp: heartbeat_def Let_def split: if_split_asm)
next
  case None
  show thesis
  proof (cases persist_history)
    case True
    with assms None have "\<exists>e d1. insert_heartbeat e d = Inr d1 \<and> v = heartbeat_reply x now url False
        (if heartbeat_out_of_order m i then ''OUT_OF_ORDER'' else ''ACCEPTED'')
        \<and> d' = came_online now i (apply_heartbeat now m i d1)"
      by (auto simp: heartbeat_def Let_def split: if_split_asm sum.splits)
    then show thesis by (auto simp: insert_heartbeat_def bind_ok_Inr intro: new)
  next
    case False
    have "d\<lparr>heartbeats := heartbeats d\<rparr> = d" by simp
    with assms None False show thesis
      by (intro new[where hs = "heartbeats d"]) (auto simp: heartbeat_def Let_def split: if_split_asm)
  qed
qed

lemma heartbeat_steady:
  assumes "heartbeat x now url device_id m i persist_history d = Inr (v, d')"
  shows "steady d d'"
proof (rule heartbeat_cases[OF assms])
  fix h assume known: "d' = came_online now i (touch_online (id_terminal i) now None d)"
  have "steady d (touch_online (id_terminal i) now None d)"
    unfolding touch_online_def by (rule steady_terminal) simp
  then show ?thesis unfolding known by (rule steady_trans) (rule came_online_frame)
next
  fix hs assume new: "d' = came_online now i (apply_heartbeat now m i (d\<lparr>heartbeats := hs\<rparr>))"
  show ?thesis unfolding new
    by (rule steady_trans[OF heartbeats_steady[where hs = hs] steady_trans[OF apply_heartbeat_steady]])
      (rule came_online_frame)
qed





end
