(* ===== verification/GatewayApp.thy ===== *)
theory GatewayApp
  imports MqttInbox DeviceMessages
begin

text \<open>
  \<open>app/services/mqtt_gateway.py\<close>: what arrives from the broker. Telemetry goes to the cache or to the
  terminal row; events and command results go through a durable inbox, so a redelivery is recognised
  and a failed one is tried again. The state is the database next to the \<open>mqtt_store\<close>; every step of
  an ingest commits on its own, so a failure later on keeps what was stored before.

  What the service calls outside the repository is a parameter: \<open>gw_str\<close> is Python's \<open>str\<close> of a value
  that is not text, \<open>gw_error\<close> the text of an exception, \<open>gw_heartbeat\<close>, \<open>gw_event\<close> and \<open>gw_result\<close> the
  validation of a payload by its model (None when it is refused), \<open>gw_url\<close> the order address of a device. The
  telemetry cache is what it answers (\<open>cache_answers\<close>).
\<close>

section \<open>Parameters\<close>

record gateway =
  gw_x :: externals
  gw_str :: "json \<Rightarrow> string"
  gw_error :: "err \<Rightarrow> string"
  gw_heartbeat :: "dict \<Rightarrow> heartbeat_message option"
  gw_event :: "dict \<Rightarrow> device_event option"
  gw_result :: "dict \<Rightarrow> (string \<times> dict) option"
  gw_url :: "string \<Rightarrow> string"
  gw_history :: bool

record cache_answers =
  ca_present :: bool
  ca_terminal :: "int option"
  ca_progress :: "string + bool"
  ca_presence :: "bool \<times> bool"
  ca_state :: bool
  ca_heartbeat :: bool

type_synonym gateway_state = "db \<times> mqtt_store"

section \<open>Reading an uplink\<close>

text \<open>Everything of an envelope but the time it was sent, which a retry changes.\<close>

definition business_digest :: "externals \<Rightarrow> dict \<Rightarrow> string" where
  "business_digest x envelope = canonical_digest x (JObj (filter (\<lambda>p. fst p \<noteq> ''sentAt'') envelope))"

record uplink =
  ul_topic :: string
  ul_device :: string
  ul_kind :: string
  ul_envelope :: dict
  ul_payload :: dict
  ul_type :: string
  ul_id :: string
  ul_digest :: string
  ul_revision :: json

text \<open>A topic that is not text prints as something that does not begin with \<open>v1/devices/\<close>.\<close>

definition topic_parts :: "json \<Rightarrow> (string \<times> string \<times> string) option" where
  "topic_parts topic = (case topic of
     JStr t \<Rightarrow> (case split_on CHR ''/'' t of
        [v, ds, device_id, kind] \<Rightarrow>
          if v = ''v1'' \<and> ds = ''devices'' \<and> kind \<in> set [''up'', ''state'', ''presence'']
          then Some (t, device_id, kind) else None
      | _ \<Rightarrow> None)
   | _ \<Rightarrow> None)"

definition py_text :: "gateway \<Rightarrow> json \<Rightarrow> string" where
  "py_text gw v = (case v of JStr s \<Rightarrow> s | _ \<Rightarrow> gw_str gw v)"

definition first_truthy :: "json list \<Rightarrow> json option" where
  "first_truthy vs = List.find truthy vs"

definition read_uplink :: "gateway \<Rightarrow> dict \<Rightarrow> err + uplink" where
  "read_uplink gw body =
     (case topic_parts (dget body ''topic'') of
        None \<Rightarrow> Inl (service_error 422 ''invalid MQTT uplink topic'')
      | Some (topic, device_id, kind) \<Rightarrow>
          (case dget body ''envelope'' of
             JObj envelope \<Rightarrow>
               (case (if kind = ''up'' then dget envelope ''payload'' else JObj envelope) of
                  JObj payload \<Rightarrow>
                    Inr \<lparr>ul_topic = topic, ul_device = device_id, ul_kind = kind, ul_envelope = envelope,
                      ul_payload = payload,
                      ul_type = (if truthy (dget envelope ''type'') then py_text gw (dget envelope ''type'') else kind),
                      ul_id = (case first_truthy [dget envelope ''messageId'', dget payload ''eventId'',
                            dget payload ''messageId''] of
                          Some v \<Rightarrow> py_text gw v
                        | None \<Rightarrow> kind @ '':'' @ canonical_digest (gw_x gw) (JObj payload)),
                      ul_digest = canonical_digest (gw_x gw) (JObj envelope),
                      ul_revision = py_or (dget (dict_of (dget payload ''payload'')) ''taskRevision'')
                        (dget payload ''revision'')\<rparr>
                | _ \<Rightarrow> Inl (service_error 422 ''MQTT payload must be a JSON object''))
           | _ \<Rightarrow> Inl (service_error 422 ''MQTT payload must be a JSON object'')))"

text \<open>The device of the topic, of the envelope and of the payload must be the same.\<close>

definition identity_mismatch :: "uplink \<Rightarrow> err + bool" where
  "identity_mismatch u =
     (let e = dget (ul_envelope u) ''deviceId'' in
      bind_ok (if e = JNull then Inr True else member_of [ul_device u] e) (\<lambda>known.
        Inr (\<not> known \<or> dget (ul_payload u) ''deviceId'' \<noteq> JStr (ul_device u))))"

definition mismatch_detail :: "uplink \<Rightarrow> json" where
  "mismatch_detail u = JObj [(''topic'', JStr (ul_topic u)),
     (''envelopeDeviceId'', dget (ul_envelope u) ''deviceId''),
     (''payloadDeviceId'', dget (ul_payload u) ''deviceId'')]"

definition is_telemetry :: "uplink \<Rightarrow> bool" where
  "is_telemetry u \<longleftrightarrow> ul_kind u \<in> set [''presence'', ''state''] \<or> ul_type u = ''heartbeat''"

definition lossy_progress :: "uplink \<Rightarrow> bool" where
  "lossy_progress u \<longleftrightarrow> ul_type u = ''event'' \<and> dget (ul_payload u) ''type'' = JStr ''task.progress''"

section \<open>Telemetry\<close>

definition device_terminal :: "string \<Rightarrow> db \<Rightarrow> terminal option" where
  "device_terminal device_id d = find_row (\<lambda>t. t_device_id t = device_id) (terminals d)"

definition terminal_for_telemetry :: "cache_answers \<Rightarrow> string \<Rightarrow> db \<Rightarrow> device_identity option" where
  "terminal_for_telemetry ca device_id d =
     (case (if ca_present ca then ca_terminal ca else None) of
        Some k \<Rightarrow> Some \<lparr>id_terminal = k, id_device = device_id, id_connection = None, id_boot = None,
            id_sequence = None, id_connected_at = None\<rparr>
      | None \<Rightarrow> map_option identity_of (device_terminal device_id d))"

definition ok_reply :: "(string \<times> json) list \<Rightarrow> json" where
  "ok_reply parts = JObj ((''ok'', JBool True) # parts)"

definition telemetry_reply :: "string \<Rightarrow> json" where
  "telemetry_reply mode = ok_reply [(''duplicate'', JBool False), (''telemetryMode'', JStr mode)]"

definition progress_uplink :: "cache_answers \<Rightarrow> uplink \<Rightarrow> db \<Rightarrow> err + json" where
  "progress_uplink ca u d =
     (case terminal_for_telemetry ca (ul_device u) d of
        None \<Rightarrow> Inl (service_error 404 ''device not registered'')
      | Some _ \<Rightarrow>
          (case (if ca_present ca then ca_progress ca else Inr False) of
             Inl msg \<Rightarrow> Inl (service_error 422 msg)
           | Inr True \<Rightarrow> Inr (telemetry_reply ''redis-progress'')
           | Inr False \<Rightarrow> Inr (ok_reply [(''telemetryMode'', JStr ''progress-unavailable''), (''dropped'', JBool True)])))"

definition presence_online :: "uplink \<Rightarrow> bool" where
  "presence_online u = truthy (dget (ul_payload u) ''online'')"

text \<open>One transaction: the presence, and a dispatch for a device that came back.\<close>

definition presence_write :: "timestamp \<Rightarrow> device_identity \<Rightarrow> bool \<Rightarrow> db \<Rightarrow> db" where
  "presence_write now i online d =
     (let d1 = mqtt_presence now (id_terminal i) online d
      in if online \<and> id_connection i \<noteq> Some ''online''
         then request_dispatch now (id_terminal i) ''mqtt-presence-online'' d1 else d1)"

definition state_write :: "timestamp \<Rightarrow> device_identity \<Rightarrow> dict \<Rightarrow> db \<Rightarrow> err + db" where
  "state_write now i payload d = bind_ok (jsonb_ok (JObj payload)) (\<lambda>v. Inr (mqtt_state now (id_terminal i) v d))"

definition telemetry_uplink ::
  "gateway \<Rightarrow> cache_answers \<Rightarrow> timestamp \<Rightarrow> uplink \<Rightarrow> db \<Rightarrow> err + json \<times> db" where
  "telemetry_uplink gw ca now u d =
     (case terminal_for_telemetry ca (ul_device u) d of
        None \<Rightarrow> Inl (service_error 404 ''device not registered'')
      | Some i \<Rightarrow>
          if ul_kind u = ''presence'' then
            (if ca_present ca \<and> fst (ca_presence ca)
             then Inr (telemetry_reply ''redis-latest'',
               if presence_online u \<and> \<not> snd (ca_presence ca)
               then request_dispatch now (id_terminal i) ''mqtt-presence-online'' d else d)
             else Inr (telemetry_reply ''latest'', presence_write now i (presence_online u) d))
          else if ul_kind u = ''state'' then
            (if ca_present ca \<and> ca_state ca then Inr (telemetry_reply ''redis-latest'', d)
             else bind_ok (state_write now i (ul_payload u) d) (\<lambda>d1. Inr (telemetry_reply ''latest'', d1)))
          else if ca_present ca \<and> ca_heartbeat ca then Inr (telemetry_reply ''redis-latest'', d)
          else (case gw_heartbeat gw (ul_payload u) of
              None \<Rightarrow> Inl Value_error
            | Some m \<Rightarrow>
                bind_ok (heartbeat (gw_x gw) now (gw_url gw (id_device i)) (ul_device u) m i False d) (\<lambda>(v, d1).
                  Inr (ok_reply [(''duplicate'', JBool False), (''telemetryMode'', JStr ''latest''), (''result'', v)], d1))))"

section \<open>The durable inbox\<close>

text \<open>
  The first transaction of a durable message: recognised as done (a reply), a conflict (an error), or
  to be applied (None). A digest that differs is compared again without the sending time.
\<close>

definition same_message :: "externals \<Rightarrow> uplink \<Rightarrow> mqtt_message \<Rightarrow> bool" where
  "same_message x u r \<longleftrightarrow> py_strip (mi_payload_digest r) = ul_digest u
     \<or> (case mi_payload_json r of
          JObj stored \<Rightarrow> canonical_digest x (JObj stored) = py_strip (mi_payload_digest r)
            \<and> business_digest x stored = business_digest x (ul_envelope u)
        | _ \<Rightarrow> False)"

definition store_uplink :: "externals \<Rightarrow> timestamp \<Rightarrow> uplink \<Rightarrow> mqtt_store \<Rightarrow> err + json option \<times> mqtt_store" where
  "store_uplink x now u m =
     (case find_message (ul_device u) (ul_id u) m of
        Some r \<Rightarrow>
          if \<not> same_message x u r then Inl (service_error 409 ''MQTT messageId payload conflict'')
          else if mi_status r = MI_PROCESSED
          then Inr (Some (ok_reply [(''duplicate'', JBool True), (''disposition'', opt_str (mi_disposition r))]), m)
          else Inr (None, m)
      | None \<Rightarrow>
          bind_ok (insert_message now (ul_device u) (ul_topic u) (ul_id u) (ul_type u)
              (dget (ul_payload u) ''bootId'') (dget (ul_payload u) ''sequence'') (ul_revision u) (ul_digest u)
              (JObj (ul_envelope u)) m)
            (\<lambda>(inserted, m1). Inr (if inserted then None
               else Some (ok_reply [(''duplicate'', JBool True), (''disposition'', JStr ''DUPLICATE_SEQUENCE'')]), m1)))"

definition result_uplink ::
  "gateway \<Rightarrow> timestamp \<Rightarrow> uuid \<times> uuid \<Rightarrow> uplink \<Rightarrow> device_identity \<Rightarrow> db \<Rightarrow> err + json \<times> db" where
  "result_uplink gw now ids u i d =
     (let text = (\<lambda>k. let v = dget (ul_payload u) k in if truthy v then py_text gw v else []) in
      if dget (ul_payload u) ''commandType'' = JStr ''MAKE_DRINK''
      then task_ack (gw_x gw) now (fst ids) (snd ids) i (text ''taskId'') (ul_payload u) d
      else (case gw_result gw (ul_payload u) of
          None \<Rightarrow> Inl Value_error
        | Some (status, body) \<Rightarrow> command_result now i (text ''messageId'') status body d))"

text \<open>The second transaction: what the message is about.\<close>

definition apply_uplink ::
  "gateway \<Rightarrow> cache_answers \<Rightarrow> timestamp \<Rightarrow> uuid \<times> uuid \<Rightarrow> uplink \<Rightarrow> device_identity \<Rightarrow> db \<Rightarrow> err + json \<times> db" where
  "apply_uplink gw ca now ids u i d =
     (if ul_kind u = ''presence'' then Inr (ok_reply [], presence_write now i (presence_online u) d)
      else if ul_kind u = ''state'' then bind_ok (state_write now i (ul_payload u) d) (\<lambda>d1. Inr (ok_reply [], d1))
      else if ul_type u = ''heartbeat'' then
        (case gw_heartbeat gw (ul_payload u) of None \<Rightarrow> Inl Value_error
         | Some m \<Rightarrow> heartbeat (gw_x gw) now (gw_url gw (id_device i)) (ul_device u) m i (gw_history gw) d)
      else if ul_type u = ''event'' then
        (case gw_event gw (ul_payload u) of None \<Rightarrow> Inl Value_error
         | Some m \<Rightarrow> device_event_message (gw_x gw) now (fst ids) (snd ids)
             (if ca_present ca then ca_progress ca else Inr False) (ul_device u) m i d)
      else if ul_type u = ''command_result'' then result_uplink gw now ids u i d
      else Inl (service_error 422 ''unsupported MQTT envelope type''))"

definition durable_uplink ::
  "gateway \<Rightarrow> cache_answers \<Rightarrow> timestamp \<Rightarrow> uuid \<times> uuid \<Rightarrow> uplink \<Rightarrow> gateway_state \<Rightarrow> (err + json) \<times> gateway_state" where
  "durable_uplink gw ca now ids u s =
     (let (d, m) = s in
      case device_terminal (ul_device u) d of
        None \<Rightarrow> (Inl (service_error 404 ''device not registered''), s)
      | Some t \<Rightarrow>
          (case store_uplink (gw_x gw) now u m of
             Inl e \<Rightarrow> (Inl e, s)
           | Inr (Some reply, m1) \<Rightarrow> (Inr reply, (d, m1))
           | Inr (None, m1) \<Rightarrow>
               (case apply_uplink gw ca now ids u (identity_of t) d of
                  Inl e \<Rightarrow> (Inl e, (d, message_retry (ul_device u) (ul_id u) (gw_error gw e) m1))
                | Inr (v, d1) \<Rightarrow>
                    (Inr (ok_reply [(''duplicate'', JBool False), (''result'', v)]),
                     (d1, message_processed now (ul_device u) (ul_id u) m1)))))"

section \<open>Ingest and recovery\<close>

definition ingest ::
  "gateway \<Rightarrow> cache_answers \<Rightarrow> timestamp \<Rightarrow> uuid \<times> uuid \<Rightarrow> dict \<Rightarrow> gateway_state \<Rightarrow> (err + json) \<times> gateway_state" where
  "ingest gw ca now ids body s =
     (case bind_ok (read_uplink gw body) (\<lambda>u. bind_ok (identity_mismatch u) (\<lambda>b. Inr (u, b))) of
        Inl e \<Rightarrow> (Inl e, s)
      | Inr (u, True) \<Rightarrow>
          if finite_json (mismatch_detail u)
          then (Inl (service_error 403 ''MQTT device identity mismatch''),
                (fst s, security_event (ul_device u) (mismatch_detail u) (snd s)))
          else (Inl Data_error, s)
      | Inr (u, False) \<Rightarrow>
          if lossy_progress u then (progress_uplink ca u (fst s), s)
          else if is_telemetry u \<and> \<not> gw_history gw
          then (case telemetry_uplink gw ca now u (fst s) of
              Inl e \<Rightarrow> (Inl e, s) | Inr (v, d1) \<Rightarrow> (Inr v, (d1, snd s)))
          else durable_uplink gw ca now ids u s)"

fun recover_each ::
  "gateway \<Rightarrow> (nat \<Rightarrow> cache_answers \<times> uuid \<times> uuid) \<Rightarrow> timestamp \<Rightarrow> mqtt_message list \<Rightarrow> gateway_state \<Rightarrow> gateway_state" where
  "recover_each gw drawn now [] s = s"
| "recover_each gw drawn now (r # rs) s =
     recover_each gw drawn now rs (snd (ingest gw (fst (drawn (length rs))) now (snd (drawn (length rs)))
       [(''topic'', JStr (mi_topic r)), (''envelope'', mi_payload_json r)] s))"

definition recover_pending ::
  "gateway \<Rightarrow> (nat \<Rightarrow> cache_answers \<times> uuid \<times> uuid) \<Rightarrow> timestamp \<Rightarrow> int \<Rightarrow> gateway_state \<Rightarrow> nat \<times> gateway_state" where
  "recover_pending gw drawn now limit s =
     (let (rows, m1) = claim_recovery now (nat (max 1 (min limit 100))) (snd s)
      in (length rows, recover_each gw drawn now rows (fst s, m1)))"

end
