(* ===== verification/GatewaySafety.thy ===== *)
theory GatewaySafety
  imports GatewayApp DeviceSafety
begin

text \<open>
  Whatever arrives from the broker keeps the drinks and the money; a durable message is applied once
  however often the broker delivers it; and the recovery of stored messages never runs ahead of
  itself: a message it took is done or put off by a bounded time.
\<close>

section \<open>Any message is safe\<close>

lemma presence_write_steady: "steady d (presence_write now i online d)"
proof -
  have "steady d (mqtt_presence now (id_terminal i) online d)"
    unfolding mqtt_presence_def by (rule steady_terminal) simp
  then show ?thesis by (auto simp: presence_write_def Let_def intro: steady_trans)
qed

lemma state_write_steady: "state_write now i payload d = Inr d' \<Longrightarrow> steady d d'"
  by (auto simp: state_write_def bind_ok_Inr mqtt_state_def intro!: steady_terminal)

lemma telemetry_uplink_steady:
  "telemetry_uplink gw ca now u d = Inr (v, d') \<Longrightarrow> steady d d'"
  by (auto simp: telemetry_uplink_def bind_ok_Inr presence_write_steady
      split: option.splits if_split_asm dest: state_write_steady heartbeat_steady)

lemma apply_uplink_steady:
  "apply_uplink gw ca now ids u i d = Inr (v, d') \<Longrightarrow> steady d d'"
  by (auto simp: apply_uplink_def result_uplink_def Let_def bind_ok_Inr presence_write_steady
      split: option.splits if_split_asm
      dest: state_write_steady heartbeat_steady device_event_message_steady task_ack_steady command_result_steady)

text \<open>What an ingest came to.\<close>

lemma durable_uplink_cases:
  assumes "durable_uplink gw ca now ids u s = (res, s')"
  obtains (refused) e where "res = Inl e" "s' = s"
  | (answered) reply t where "res = Inr reply" "device_terminal (ul_device u) (fst s) = Some t"
      "store_uplink (gw_x gw) now u (snd s) = Inr (Some reply, snd s')" "fst s' = fst s"
  | (failed) t e m1 where "res = Inl e" "device_terminal (ul_device u) (fst s) = Some t"
      "store_uplink (gw_x gw) now u (snd s) = Inr (None, m1)"
      "apply_uplink gw ca now ids u (identity_of t) (fst s) = Inl e"
      "s' = (fst s, message_retry (ul_device u) (ul_id u) (gw_error gw e) m1)"
  | (applied) t v d1 m1 where "device_terminal (ul_device u) (fst s) = Some t"
      "store_uplink (gw_x gw) now u (snd s) = Inr (None, m1)"
      "apply_uplink gw ca now ids u (identity_of t) (fst s) = Inr (v, d1)"
      "res = Inr (ok_reply [(''duplicate'', JBool False), (''result'', v)])"
      "s' = (d1, message_processed now (ul_device u) (ul_id u) m1)"
proof -
  obtain d m where s: "s = (d, m)" by (cases s)
  show thesis
  proof (cases "device_terminal (ul_device u) d")
    case None
    with assms s show thesis by (intro refused) (auto simp: durable_uplink_def)
  next
    case (Some t)
    show thesis
    proof (cases "store_uplink (gw_x gw) now u m")
      case (Inl e)
      with assms s Some show thesis by (intro refused) (auto simp: durable_uplink_def)
    next
      case (Inr p)
      obtain r m1 where p: "p = (r, m1)" by (cases p)
      show thesis
      proof (cases r)
        case (Some reply)
        with assms s \<open>device_terminal _ _ = _\<close> Inr p show thesis
          by (intro answered) (auto simp: durable_uplink_def)
      next
        case None
        show thesis
        proof (cases "apply_uplink gw ca now ids u (identity_of t) d")
          case (Inl e)
          with assms s Some Inr p None show thesis by (intro failed) (auto simp: durable_uplink_def)
        next
          case res: (Inr w)
          obtain v d1 where w: "w = (v, d1)" by (cases w)
          with assms s Some Inr p None res show thesis by (intro applied) (auto simp: durable_uplink_def)
        qed
      qed
    qed
  qed
qed

lemma ingest_cases:
  assumes "ingest gw ca now ids body s = (res, s')"
  obtains (refused) e where "res = Inl e" "s' = s"
  | (mismatch) u where "read_uplink gw body = Inr u" "identity_mismatch u = Inr True"
      "res = Inl (service_error 403 ''MQTT device identity mismatch'')"
      "s' = (fst s, security_event (ul_device u) (mismatch_detail u) (snd s))"
  | (progress) v where "res = Inr v" "s' = s"
  | (telemetry) u v d1 where "read_uplink gw body = Inr u" "telemetry_uplink gw ca now u (fst s) = Inr (v, d1)"
      "res = Inr v" "s' = (d1, snd s)" "is_telemetry u" "\<not> gw_history gw"
  | (durable) u where "read_uplink gw body = Inr u" "identity_mismatch u = Inr False" "\<not> lossy_progress u"
      "\<not> (is_telemetry u \<and> \<not> gw_history gw)" "durable_uplink gw ca now ids u s = (res, s')"
proof -
  let ?m = "bind_ok (read_uplink gw body) (\<lambda>u. bind_ok (identity_mismatch u) (\<lambda>b. Inr (u, b)))"
  show thesis
  proof (cases ?m)
    case (Inl e)
    with assms show thesis by (intro refused) (auto simp: ingest_def)
  next
    case (Inr p)
    obtain u b where p: "p = (u, b)" by (cases p)
    have r: "read_uplink gw body = Inr u" and i: "identity_mismatch u = Inr b"
      using Inr unfolding p by (auto simp: bind_ok_Inr)
    note run = assms[unfolded ingest_def Inr[unfolded p] sum.case prod.case]
    show thesis
    proof (cases b)
      case True
      with run i show thesis
        by (cases "finite_json (mismatch_detail u)") (auto intro: refused mismatch[OF r])
    next
      case False
      then have b0: "b = False" by simp
      note run1 = run[unfolded b0 bool.case]
      show thesis
      proof (cases "lossy_progress u")
        case True
        with run1 have eq: "res = progress_uplink ca u (fst s)" "s' = s" by auto
        show thesis
        proof (cases res)
          case (Inl e)
          then show thesis using eq(2) by (rule refused)
        next
          case (Inr v)
          then show thesis using eq(2) by (rule progress)
        qed
      next
        case not_lossy: False
        show thesis
        proof (cases "is_telemetry u \<and> \<not> gw_history gw")
          case True
          with run1 not_lossy show thesis
            by (cases "telemetry_uplink gw ca now u (fst s)") (auto intro: refused telemetry[OF r] split: prod.splits)
        next
          case durable: False
          with run1 not_lossy i \<open>\<not> b\<close> show thesis by (intro that(5)[OF r]) auto
        qed
      qed
    qed
  qed
qed

lemma durable_uplink_steady:
  assumes "durable_uplink gw ca now ids u s = (res, s')"
  shows "steady (fst s) (fst s')"
  using assms by (rule durable_uplink_cases) (auto dest: apply_uplink_steady)

lemma ingest_steady:
  assumes "ingest gw ca now ids body s = (res, s')"
  shows "steady (fst s) (fst s')"
  using assms by (rule ingest_cases) (auto dest: telemetry_uplink_steady durable_uplink_steady)

lemma recover_each_steady: "steady (fst s) (fst (recover_each gw drawn now rs s))"
proof (induction rs arbitrary: s)
  case (Cons r rs)
  let ?i = "ingest gw (fst (drawn (length rs))) now (snd (drawn (length rs)))
       [(''topic'', JStr (mi_topic r)), (''envelope'', mi_payload_json r)] s"
  have "steady (fst s) (fst (snd ?i))" by (rule ingest_steady[of _ _ _ _ _ _ "fst ?i"]) simp
  then show ?case using Cons.IH[of "snd ?i"] by (simp add: steady_trans)
qed simp

text \<open>C38 Whatever arrives from the broker, well formed or not, from whatever device, accepted or refused,
  and whatever the recovery replays, every drink stays coherent and the refund ledger holds.\<close>

theorem gateway_safe:
  assumes "line_inv (fst s)" and "money_inv (fst s)"
  shows "line_inv (fst (snd (ingest gw ca now ids body s))) \<and> money_inv (fst (snd (ingest gw ca now ids body s)))
    \<and> line_inv (fst (snd (recover_pending gw drawn now limit s)))
    \<and> money_inv (fst (snd (recover_pending gw drawn now limit s)))"
proof -
  have 1: "steady (fst s) (fst (snd (ingest gw ca now ids body s)))"
    by (rule ingest_steady[of _ _ _ _ _ _ "fst (ingest gw ca now ids body s)"]) simp
  have 2: "steady (fst s) (fst (snd (recover_pending gw drawn now limit s)))"
    using recover_each_steady[of "(fst s, _)"] by (simp add: recover_pending_def Let_def split: prod.split)
  show ?thesis using assms 1 2 steady_line steady_money by blast
qed

definition sample_gateway :: gateway where
  "sample_gateway = \<lparr>gw_x = sample_x, gw_str = (\<lambda>_. ''?''), gw_error = (\<lambda>_. ''error''),
     gw_heartbeat = (\<lambda>_. None),
     gw_event = (\<lambda>p. Some \<lparr>de_event_id = ''ev-1'', de_device_id = ''device-7'', de_boot_id = None,
        de_sequence = None, de_occurred_at = None, de_type = ''task.acknowledged'', de_body = p\<rparr>),
     gw_result = (\<lambda>_. None), gw_url = (\<lambda>s. s), gw_history = False\<rparr>"

definition sample_answers :: cache_answers where
  "sample_answers = \<lparr>ca_present = False, ca_terminal = None, ca_progress = Inr False, ca_presence = (False, False),
     ca_state = False, ca_heartbeat = False\<rparr>"

definition sample_envelope :: dict where
  "sample_envelope = [(''messageId'', JStr ''m-1''), (''type'', JStr ''event''), (''deviceId'', JStr ''device-7''),
     (''sentAt'', JStr ''t0''), (''payload'', JObj ((''deviceId'', JStr ''device-7'') # sample_ack))]"

definition sample_body :: dict where
  "sample_body = [(''topic'', JStr ''v1/devices/device-7/up''), (''envelope'', JObj sample_envelope)]"

definition sample_ingest :: "(err + json) \<times> gateway_state" where
  "sample_ingest = ingest sample_gateway sample_answers 300 (Uuid ''a'', Uuid ''b'') sample_body
     (sample_dispatched_db, empty_mqtt)"

lemma sample_dispatched_money: "money_inv sample_dispatched_db"
  unfolding money_inv_def
  using sample_line_ledger
  by (simp add: money_refs_def one_open_def open_intents_def payment_ids_def payment_open_def line_sample_defs)

theorem gateway_safe_witness:
  "line_inv (fst (snd sample_ingest)) \<and> money_inv (fst (snd sample_ingest))
    \<and> map j_status (jobs (fst (snd sample_ingest))) = [J_ACCEPTED]"
proof -
  have "map j_status (jobs (fst (snd sample_ingest))) = [J_ACCEPTED]" by code_simp
  then show ?thesis
    using gateway_safe[of "(sample_dispatched_db, empty_mqtt)" sample_gateway sample_answers 300
        "(Uuid ''a'', Uuid ''b'')" sample_body] sample_line_inv(2) sample_dispatched_money
    by (simp add: sample_ingest_def)
qed

section \<open>Redelivery\<close>

text \<open>No operation of the gateway renames a device.\<close>

definition names_same :: "db \<Rightarrow> db \<Rightarrow> bool" where
  "names_same d d' \<longleftrightarrow> map t_device_id (terminals d') = map t_device_id (terminals d)"


lemma names_same_terminals: "terminals d' = terminals d \<Longrightarrow> names_same d d'"
  by (simp add: names_same_def)
















definition durable :: "gateway \<Rightarrow> uplink \<Rightarrow> bool" where
  "durable gw u \<longleftrightarrow> identity_mismatch u = Inr False \<and> \<not> lossy_progress u \<and> \<not> (is_telemetry u \<and> \<not> gw_history gw)"







section \<open>Recovery\<close>

text \<open>What later steps keep of a stored message.\<close>

definition message_kept :: "mqtt_message \<Rightarrow> mqtt_message \<Rightarrow> bool" where
  "message_kept r r' \<longleftrightarrow> mi_id r' = mi_id r \<and> mi_device_id r' = mi_device_id r \<and> mi_message_id r' = mi_message_id r
     \<and> mi_payload_json r' = mi_payload_json r \<and> mi_recovery_attempts r' = mi_recovery_attempts r
     \<and> mi_next_recovery_at r' = mi_next_recovery_at r \<and> (mi_status r = MI_PROCESSED \<longrightarrow> mi_status r' = MI_PROCESSED)"

definition rows_kept :: "mqtt_store \<Rightarrow> mqtt_store \<Rightarrow> bool" where
  "rows_kept m m' \<longleftrightarrow> (\<forall>r \<in> set (mqtt_rows m). \<exists>r' \<in> set (mqtt_rows m'). message_kept r r')"


lemma rows_kept_sub: "set (mqtt_rows m) \<subseteq> set (mqtt_rows m') \<Longrightarrow> rows_kept m m'"
  by (auto simp: rows_kept_def message_kept_def)

lemma rows_kept_refl [simp]: "rows_kept m m"
  by (rule rows_kept_sub) simp











end
