(* ===== verification/PyNum.thy ===== *)
theory PyNum
  imports PyJson OrderLogic
begin

text \<open>
  Python's numbers and comparisons on values of unknown type: \<open>int\<close>, \<open>float\<close> and \<open>str\<close> of a value, \<open>+\<close>,
  \<open><\<close>, \<open>sorted\<close> and \<open>set\<close>. Float arithmetic is exact here; a text that spells an infinity or a NaN
  (\<open>float("inf")\<close>) is outside the model and refused like any text that is no number. The documents the code
  reads come from jsonb columns, so \<open>JNonfinite\<close> does not occur in them.
\<close>

section \<open>Numbers\<close>

text \<open>Digits, with single underscores between digits.\<close>

fun grouped :: "string \<Rightarrow> bool" where
  "grouped [] = False"
| "grouped [c] = is_digit c"
| "grouped (c # d # s) = (is_digit c \<and> (if d = CHR ''_'' then grouped s else grouped (d # s)))"

definition int_text :: "string \<Rightarrow> int option" where
  "int_text s = (let (sg, ds) = split_sign (py_strip s)
     in if grouped ds then Some (sg * int (digits_value (filter (\<lambda>c. c \<noteq> CHR ''_'') ds))) else None)"

text \<open>\<open>int(v)\<close>: a float loses its fraction.\<close>

fun py_int :: "json \<Rightarrow> err + int" where
  "py_int (JInt i) = Inr i"
| "py_int (JBool b) = Inr (if b then 1 else 0)"
| "py_int (JFloat r) = Inr (if 0 \<le> r then \<lfloor>r\<rfloor> else \<lceil>r\<rceil>)"
| "py_int (JStr s) = (case int_text s of None \<Rightarrow> Inl Value_error | Some i \<Rightarrow> Inr i)"
| "py_int JNonfinite = Inl Value_error"
| "py_int _ = Inl Type_error"

fun underscored :: "string \<Rightarrow> bool" where
  "underscored (a # b # c # s) =
     ((b = CHR ''_'' \<longrightarrow> is_digit a \<and> is_digit c) \<and> underscored (b # c # s))"
| "underscored [a, b] = (b \<noteq> CHR ''_'')"
| "underscored _ = True"

definition float_text :: "string \<Rightarrow> rat option" where
  "float_text s = (let t = py_strip s in
     if take 1 t = ''_'' \<or> \<not> underscored t then None
     else case parse_decimal t of Some (Dec c e) \<Rightarrow> Some (dec_value (Dec c e)) | _ \<Rightarrow> None)"

text \<open>\<open>float(v)\<close>, of a text as well.\<close>

fun float_of :: "json \<Rightarrow> err + rat" where
  "float_of (JStr s) = (case float_text s of None \<Rightarrow> Inl Value_error | Some r \<Rightarrow> Inr r)"
| "float_of v = py_float v"

text \<open>The value of a number in arithmetic, where \<open>bool\<close> is an integer.\<close>

fun number :: "json \<Rightarrow> rat option" where
  "number (JBool b) = Some (if b then 1 else 0)"
| "number v = num_of v"

text \<open>\<open>v + w\<close>\<close>

fun is_int :: "json \<Rightarrow> int option" where
  "is_int (JInt i) = Some i"
| "is_int (JBool b) = Some (if b then 1 else 0)"
| "is_int _ = None"

definition py_add :: "json \<Rightarrow> json \<Rightarrow> err + json" where
  "py_add v w = (case (is_int v, is_int w) of
       (Some i, Some j) \<Rightarrow> Inr (JInt (i + j))
     | _ \<Rightarrow> (case (number v, number w) of
         (Some a, Some b) \<Rightarrow> Inr (JFloat (a + b))
       | _ \<Rightarrow> (case (v, w) of
           (JStr s, JStr t) \<Rightarrow> Inr (JStr (s @ t))
         | (JArr xs, JArr ys) \<Rightarrow> Inr (JArr (xs @ ys))
         | _ \<Rightarrow> Inl Type_error)))"

text \<open>\<open>int(a // v)\<close> for a float \<open>a\<close>; dividing by zero raises.\<close>

definition whole_servings :: "rat \<Rightarrow> json \<Rightarrow> err + int" where
  "whole_servings a v = (case number v of
     None \<Rightarrow> Inl Type_error | Some q \<Rightarrow> if q = 0 then Inl Runtime_error else Inr \<lfloor>a / q\<rfloor>)"

section \<open>Text\<close>

text \<open>
  \<open>str(v)\<close>. The printed form of a float, a list or a dictionary is Python's; it is the parameter
  \<open>shown\<close>.
\<close>

fun py_str :: "(json \<Rightarrow> string) \<Rightarrow> json \<Rightarrow> string" where
  "py_str shown JNull = ''None''"
| "py_str shown (JBool b) = (if b then ''True'' else ''False'')"
| "py_str shown (JInt i) = str_int i"
| "py_str shown (JStr s) = s"
| "py_str shown v = shown v"

section \<open>Comparison and sorting\<close>

text \<open>
  \<open>v < w\<close>; \<open>None\<close> is the TypeError of values that have no order. Texts are compared by their
  characters, which is the order of their UTF-8 bytes. Lists compare at their first difference.
\<close>

fun lists_less :: "(json \<Rightarrow> json \<Rightarrow> bool option) \<Rightarrow> json list \<Rightarrow> json list \<Rightarrow> bool option" where
  "lists_less lt [] ys = Some (ys \<noteq> [])"
| "lists_less lt (x # xs) [] = Some False"
| "lists_less lt (x # xs) (y # ys) = (if py_eq x y then lists_less lt xs ys else lt x y)"

definition scalar_less :: "json \<Rightarrow> json \<Rightarrow> bool option" where
  "scalar_less v w = (case (number v, number w) of
       (Some a, Some b) \<Rightarrow> Some (a < b)
     | _ \<Rightarrow> (case (v, w) of (JStr s, JStr t) \<Rightarrow> Some (s < t) | _ \<Rightarrow> None))"

fun json_depth :: "json \<Rightarrow> nat" where
  "json_depth (JArr xs) = Suc (foldr (\<lambda>v n. max (json_depth v) n) xs 0)"
| "json_depth _ = 0"

fun less_within :: "nat \<Rightarrow> json \<Rightarrow> json \<Rightarrow> bool option" where
  "less_within (Suc n) (JArr xs) (JArr ys) = lists_less (less_within n) xs ys"
| "less_within n v w = scalar_less v w"

definition py_less :: "json \<Rightarrow> json \<Rightarrow> bool option" where
  "py_less v w = less_within (json_depth v) v w"

text \<open>A stable insertion sort, for a comparison that always answers.\<close>

fun insert_by :: "('a \<Rightarrow> 'a \<Rightarrow> bool) \<Rightarrow> 'a \<Rightarrow> 'a list \<Rightarrow> 'a list" where
  "insert_by lt a [] = [a]"
| "insert_by lt a (b # bs) = (if lt b a then b # insert_by lt a bs else a # b # bs)"

definition sort_by :: "('a \<Rightarrow> 'a \<Rightarrow> bool) \<Rightarrow> 'a list \<Rightarrow> 'a list" where
  "sort_by lt as = foldr (insert_by lt) as []"

text \<open>
  \<open>sorted\<close> raises a TypeError exactly when two of the elements have no order: any comparison sort
  has to compare two such elements, as no other element can stand between them.
\<close>

fun all_ordered :: "('a \<Rightarrow> 'a \<Rightarrow> bool option) \<Rightarrow> 'a list \<Rightarrow> bool" where
  "all_ordered lt [] = True"
| "all_ordered lt (a # as) = (list_all (\<lambda>b. lt a b \<noteq> None) as \<and> all_ordered lt as)"

definition sorted_ok :: "('a \<Rightarrow> 'a \<Rightarrow> bool option) \<Rightarrow> 'a list \<Rightarrow> err + 'a list" where
  "sorted_ok lt as =
     (if all_ordered lt as then Inr (sort_by (\<lambda>a b. lt a b = Some True) as) else Inl Type_error)"

text \<open>\<open>set(vs)\<close>: a list or a dictionary has no hash; of equal values the first stays.\<close>

fun hashable :: "json \<Rightarrow> bool" where
  "hashable (JArr _) = False"
| "hashable (JObj _) = False"
| "hashable _ = True"

fun distinct_values :: "json list \<Rightarrow> json list" where
  "distinct_values [] = []"
| "distinct_values (v # vs) = v # filter (\<lambda>w. \<not> py_eq v w) (distinct_values vs)"

definition set_ok :: "json list \<Rightarrow> err + json list" where
  "set_ok vs = (if list_all hashable vs then Inr (distinct_values vs) else Inl Type_error)"

text \<open>\<open>sorted(set(vs))\<close>\<close>

definition sorted_set :: "json list \<Rightarrow> err + json list" where
  "sorted_set vs = bind_ok (set_ok vs) (sorted_ok py_less)"

section \<open>What sorting keeps\<close>

lemma set_insert_by [simp]: "set (insert_by lt a bs) = insert a (set bs)"
  by (induction bs) auto

lemma set_sort_by [simp]: "set (sort_by lt as) = set as"
  by (induction as) (simp_all add: sort_by_def)

lemma mset_insert_by: "mset (insert_by lt a bs) = add_mset a (mset bs)"
  by (induction bs) auto

lemma mset_sort_by: "mset (sort_by lt as) = mset as"
  by (induction as) (simp_all add: sort_by_def mset_insert_by)

lemma sorted_ok_set: "sorted_ok lt as = Inr bs \<Longrightarrow> mset bs = mset as"
  by (auto simp: sorted_ok_def mset_sort_by split: if_splits)

lemma distinct_values_sub: "set (distinct_values vs) \<subseteq> set vs"
  by (induction vs) auto

lemma distinct_values_str: "JStr s \<in> set (distinct_values vs) \<longleftrightarrow> JStr s \<in> set vs"
  by (induction vs) auto

lemma sorted_set_str:
  assumes "sorted_set vs = Inr ws"
  shows "JStr s \<in> set ws \<longleftrightarrow> JStr s \<in> set vs"
proof -
  have "sorted_ok py_less (distinct_values vs) = Inr ws"
    using assms by (simp add: sorted_set_def set_ok_def split: if_split_asm)
  then have "set ws = set (distinct_values vs)" using sorted_ok_set mset_eq_setD by blast
  then show ?thesis by (simp add: distinct_values_str)
qed

text \<open>Texts always have an order: sorting a list of them never raises.\<close>

lemma py_less_texts: "is_str v \<Longrightarrow> is_str w \<Longrightarrow> py_less v w \<noteq> None"
  by (cases v; cases w) (simp_all add: py_less_def scalar_less_def)

lemma all_ordered_texts: "list_all is_str vs \<Longrightarrow> all_ordered py_less vs"
  by (induction vs) (simp_all add: list_all_iff py_less_texts del: not_None_eq)

lemma sorted_set_texts:
  assumes "list_all is_str vs"
  shows "\<not> isl (sorted_set vs)"
proof -
  have h: "list_all hashable vs"
    using assms by (auto simp: list_all_iff elim!: is_str.elims dest: bspec)
  have "list_all is_str (distinct_values vs)"
    using assms distinct_values_sub[of vs] by (auto simp: list_all_iff)
  then show ?thesis by (simp add: sorted_set_def set_ok_def h sorted_ok_def all_ordered_texts)
qed

end
