(* ===== verification/Spec2Isabelle.thy ===== *)
theory Spec2Isabelle
  imports LineSafety AccessSafety Adjudication PaymentsSafety IdentitySafety WorkerMoney CommandsSafety GatewaySafety PyNum
begin

text \<open>A model of the coffee cloud backend.\<close>

end
